(* ===== verification/Cryptix_Prelude.thy ===== *)
theory Cryptix_Prelude
  imports
    Main
    "HOL-Library.Word"
    "HOL-Library.AList"
    "HOL-Library.List_Lexorder"
    "HOL-Library.Product_Lexorder"
begin

text \<open>
  Shared material of the development: the machine integers of the Rust sources
  and their checked, saturating and narrowing operations, the \<open>Result\<close> type with
  the early return of the question-mark operator, hash maps as association
  lists whose order stands for the unspecified iteration order, and
  little-endian byte strings.
\<close>

named_theorems checked_iff \<open>checked arithmetic read over the natural numbers\<close>
named_theorems result_simps \<open>success of a chain of fallible steps\<close>

section \<open>Machine integers\<close>

type_synonym u8 = "8 word"
type_synonym u16 = "16 word"
type_synonym u32 = "32 word"
type_synonym u64 = "64 word"
type_synonym u128 = "128 word"
type_synonym uint256 = "256 word"
type_synonym bytes = "u8 list"
type_synonym hash32 = bytes

definition checked_add :: "'a::len word \<Rightarrow> 'a word \<Rightarrow> 'a word option" where
  "checked_add a b = (if uint a + uint b < 2 ^ LENGTH('a) then Some (a + b) else None)"

definition checked_sub :: "'a::len word \<Rightarrow> 'a word \<Rightarrow> 'a word option" where
  "checked_sub a b = (if b \<le> a then Some (a - b) else None)"

definition checked_mul :: "'a::len word \<Rightarrow> 'a word \<Rightarrow> 'a word option" where
  "checked_mul a b = (if uint a * uint b < 2 ^ LENGTH('a) then Some (a * b) else None)"

definition checked_div :: "'a::len word \<Rightarrow> 'a word \<Rightarrow> 'a word option" where
  "checked_div a b = (if b = 0 then None else Some (a div b))"

definition saturating_add :: "'a::len word \<Rightarrow> 'a word \<Rightarrow> 'a word" where
  "saturating_add a b = (if uint a + uint b < 2 ^ LENGTH('a) then a + b else - 1)"

definition saturating_sub :: "'a::len word \<Rightarrow> 'a word \<Rightarrow> 'a word" where
  "saturating_sub a b = (if b \<le> a then a - b else 0)"

text \<open>\<open>T::try_from\<close> between unsigned widths: the value, when it fits.\<close>

definition uint_try_from :: "'a::len word \<Rightarrow> 'b::len word option" where
  "uint_try_from a = (if uint a < 2 ^ LENGTH('b) then Some (ucast a) else None)"

lemma unat_bound: "unat (a :: 'a::len word) < 2 ^ LENGTH('a)"
  by (fact unsigned_less)

text \<open>The width tests, which the definitions make on integers, over the naturals.\<close>

lemma fits_nat:
  "uint a + uint b < 2 ^ n \<longleftrightarrow> unat a + unat b < 2 ^ n"
  "uint a * uint b < 2 ^ n \<longleftrightarrow> unat a * unat b < 2 ^ n"
  "uint a < 2 ^ n \<longleftrightarrow> unat a < 2 ^ n"
  for a :: "'a::len word" and b :: "'b::len word"
  by (simp_all only: uint_nat flip: of_nat_add of_nat_mult)
    (simp_all only: of_nat_less_numeral_power_cancel_iff)

lemmas checked_nat_defs =
  checked_add_def [unfolded fits_nat] checked_mul_def [unfolded fits_nat]
  saturating_add_def [unfolded fits_nat] uint_try_from_def [unfolded fits_nat]

lemma unat_ucast_fits:
  "unat (a :: 'a::len word) < 2 ^ LENGTH('b::len) \<Longrightarrow> unat (ucast a :: 'b word) = unat a"
  by (simp add: unsigned_ucast_eq take_bit_nat_eq_self)

lemma unat_ucast_widen [simp]:
  "LENGTH('a::len) \<le> LENGTH('b::len) \<Longrightarrow> unat (ucast (a :: 'a word) :: 'b word) = unat a"
  by (rule unat_ucast_fits)
    (meson less_le_trans one_le_numeral power_increasing unat_bound)

lemma checked_add_Some_iff [checked_iff]:
  "checked_add a b = Some c \<longleftrightarrow> unat c = unat a + unat b"
proof
  assume "checked_add a b = Some c"
  then show "unat c = unat a + unat b"
    by (auto simp: checked_nat_defs unat_word_ariths split: if_splits)
next
  assume c: "unat c = unat a + unat b"
  then have fits: "unat a + unat b < 2 ^ LENGTH('a)"
    by (metis unat_bound)
  then have "c = a + b"
    using c by (simp add: word_unat_eq_iff unat_word_ariths)
  with fits show "checked_add a b = Some c"
    by (simp add: checked_nat_defs)
qed

lemma checked_sub_Some_iff [checked_iff]:
  "checked_sub a b = Some c \<longleftrightarrow> unat b + unat c = unat a"
proof
  assume "checked_sub a b = Some c"
  then show "unat b + unat c = unat a"
    by (auto simp: checked_sub_def unat_sub word_le_nat_alt split: if_splits)
next
  assume c: "unat b + unat c = unat a"
  then have "b \<le> a" by (simp add: word_le_nat_alt)
  moreover from this c have "c = a - b"
    by (simp add: word_unat_eq_iff unat_sub)
  ultimately show "checked_sub a b = Some c"
    by (simp add: checked_sub_def)
qed

lemma checked_mul_Some_iff [checked_iff]:
  "checked_mul a b = Some c \<longleftrightarrow> unat c = unat a * unat b"
proof
  assume "checked_mul a b = Some c"
  then show "unat c = unat a * unat b"
    by (auto simp: checked_nat_defs unat_word_ariths split: if_splits)
next
  assume c: "unat c = unat a * unat b"
  then have fits: "unat a * unat b < 2 ^ LENGTH('a)"
    by (metis unat_bound)
  then have "c = a * b"
    using c by (simp add: word_unat_eq_iff unat_word_ariths)
  with fits show "checked_mul a b = Some c"
    by (simp add: checked_nat_defs)
qed

lemma checked_div_Some_iff [checked_iff]:
  "checked_div a b = Some c \<longleftrightarrow> unat b \<noteq> 0 \<and> unat c = unat a div unat b"
  by (auto simp: checked_div_def word_unat_eq_iff unat_div)

lemma uint_try_from_Some_iff [checked_iff]:
  "uint_try_from (a :: 'a::len word) = Some (c :: 'b::len word) \<longleftrightarrow> unat c = unat a"
proof
  assume "uint_try_from a = Some c"
  then show "unat c = unat a"
    by (auto simp: checked_nat_defs unat_ucast_fits split: if_splits)
next
  assume c: "unat c = unat a"
  then have fits: "unat a < 2 ^ LENGTH('b)" by (metis unat_bound)
  then show "uint_try_from a = Some c"
    using c by (simp add: checked_nat_defs word_unat_eq_iff unat_ucast_fits)
qed

lemma checked_add_None_iff [checked_iff]:
  "checked_add (a :: 'a::len word) b = None \<longleftrightarrow> 2 ^ LENGTH('a) \<le> unat a + unat b"
  by (auto simp: checked_nat_defs)

lemma checked_sub_None_iff [checked_iff]:
  "checked_sub a b = None \<longleftrightarrow> unat a < unat b"
  by (auto simp: checked_sub_def word_le_nat_alt)

lemma unat_saturating_sub [simp]: "unat (saturating_sub a b) = unat a - unat b"
  by (auto simp: saturating_sub_def unat_sub word_le_nat_alt)

lemma unat_saturating_add:
  "unat (saturating_add (a :: 'a::len word) b) = min (unat a + unat b) (2 ^ LENGTH('a) - 1)"
  by (auto simp: checked_nat_defs unat_word_ariths unsigned_minus_1_eq_mask mask_eq_exp_minus_1)

lemma unat_pred: "0 < unat (g :: 'a::len word) \<Longrightarrow> unat (g - 1) = unat g - 1"
  by (rule unat_minus_one) auto

lemma pred_less: "0 < unat (g :: 'a::len word) \<Longrightarrow> g - 1 < g"
  by (simp add: word_less_nat_alt unat_pred)

text \<open>Reading word comparisons over the naturals.\<close>

lemmas word_as_nat = word_le_nat_alt word_less_nat_alt word_unat_eq_iff

section \<open>Results and early return\<close>

text \<open>
  \<open>Result<T, E>\<close> is \<open>'e + 'a\<close> with \<open>Inl\<close> for the error; \<open>try_bind\<close> is the
  question-mark operator, \<open>ok_or\<close> is \<open>Option::ok_or\<close>, \<open>map_err\<close> is
  \<open>Result::map_err\<close> and \<open>res_ok\<close> is \<open>Result::ok\<close>.
\<close>

definition try_bind :: "'e + 'a \<Rightarrow> ('a \<Rightarrow> 'e + 'b) \<Rightarrow> 'e + 'b" where
  "try_bind r f = (case r of Inl e \<Rightarrow> Inl e | Inr x \<Rightarrow> f x)"

definition ok_or :: "'a option \<Rightarrow> 'e \<Rightarrow> 'e + 'a" where
  "ok_or x e = (case x of None \<Rightarrow> Inl e | Some v \<Rightarrow> Inr v)"

definition map_err :: "('e \<Rightarrow> 'f) \<Rightarrow> 'e + 'a \<Rightarrow> 'f + 'a" where
  "map_err g r = (case r of Inl e \<Rightarrow> Inl (g e) | Inr x \<Rightarrow> Inr x)"

definition res_ok :: "'e + 'a \<Rightarrow> 'a option" where
  "res_ok r = (case r of Inl e \<Rightarrow> None | Inr x \<Rightarrow> Some x)"

lemma try_bind_simps [simp]:
  "try_bind (Inl e) f = Inl e" "try_bind (Inr x) f = f x"
  by (simp_all add: try_bind_def)

lemma try_bind_cong [fundef_cong]:
  "r = r' \<Longrightarrow> (\<And>x. r' = Inr x \<Longrightarrow> f x = g x) \<Longrightarrow> try_bind r f = try_bind r' g"
  by (cases r') simp_all

lemma ok_or_simps [simp]: "ok_or None e = Inl e" "ok_or (Some x) e = Inr x"
  by (simp_all add: ok_or_def)

lemma map_err_simps [simp]: "map_err g (Inl e) = Inl (g e)" "map_err g (Inr x) = Inr x"
  by (simp_all add: map_err_def)

lemma res_ok_simps [simp]: "res_ok (Inl e) = None" "res_ok (Inr x) = Some x"
  by (simp_all add: res_ok_def)

lemma try_bind_Inr_iff [result_simps]:
  "try_bind r f = Inr y \<longleftrightarrow> (\<exists>x. r = Inr x \<and> f x = Inr y)"
  by (cases r) simp_all

lemma ok_or_Inr_iff [result_simps]: "ok_or x e = Inr y \<longleftrightarrow> x = Some y"
  by (cases x) simp_all

lemma map_err_Inr_iff [result_simps]: "map_err g r = Inr y \<longleftrightarrow> r = Inr y"
  by (cases r) simp_all

lemma res_ok_Some_iff [result_simps]: "res_ok r = Some x \<longleftrightarrow> r = Inr x"
  by (cases r) simp_all

lemma res_ok_eq_iff:
  "res_ok r = res_ok r' \<longleftrightarrow> (\<forall>x. r = Inr x \<longleftrightarrow> r' = Inr x)"
  by (cases r; cases r') auto

lemma if_Inl_Inr_iff [result_simps]:
  "(if c then Inl e else r) = Inr y \<longleftrightarrow> \<not> c \<and> r = Inr y"
  by simp

text \<open>Pushing \<open>res_ok\<close> through a chain, to compare two chains that differ in their errors.\<close>

lemma res_ok_try_bind: "res_ok (try_bind r f) = Option.bind (res_ok r) (\<lambda>x. res_ok (f x))"
  by (cases r) simp_all

lemma res_ok_ok_or: "res_ok (ok_or x e) = x"
  by (cases x) simp_all

lemma res_ok_map_err: "res_ok (map_err g r) = res_ok r"
  by (cases r) simp_all

lemmas res_ok_push = res_ok_try_bind res_ok_ok_or res_ok_map_err if_distrib [of res_ok]

end
