(* ===== verification/Tx_Rule_Error.thy ===== *)
theory Tx_Rule_Error
  imports Cryptix_Prelude
begin

text \<open>
  The error values of the consensus code that validates Atomic token
  transactions. The sources raise one variant, \<open>TxRuleError::InvalidAtomicPayload\<close>,
  with a message; the message is represented here by the place that builds it, one
  constructor per message, grouped by the function it occurs in. The
  interpolated arguments of a message are dropped. The messages of the payload
  parser, grouped by field, end the list.
\<close>

datatype (plugins only: code) fee_error =
    FeeMultiplicationOverflow | FeeDoesNotFitU64 | UnclaimedFeeTotalOverflow
  | NoFeeRecipients | RecipientFeeOverflow | Recipient0FeeOverflow | Recipient1FeeOverflow
  | InvalidRecipientCount

datatype (plugins only: code) canonical_error =
    CanonicalNetOrFeeInvalid | CanonicalDenominatorUnderflow | CanonicalNetUnderflow
  | CanonicalGrossMulOverflow | CanonicalDenominatorZero | CanonicalGrossAddOverflow
  | CanonicalGrossNotU64 | CanonicalDecrementUnderflow | CanonicalPreviousFeeUnderflow
  | CanonicalFeeUnderflow | CanonicalIncrementOverflow | CanonicalTargetInvalid
  | CanonicalReserveFloor | CanonicalDrainsFinalToken | CanonicalYAfterUnderflow
  | CanonicalYAfterZero | CanonicalZeroNet | CanonicalNetNotU128 | CanonicalNetNotU64
  | CanonicalVerificationFailed

datatype (plugins only: code) cpmm_error =
    BuyRealTokenFloor | BuyXAfterOverflow | BuyXAfterZero | BuyYAfterConversion
  | BuyYAfterZero | BuyYAfterIncreases | BuyTokenOutUnderflow | BuyZeroTokenOut
  | BuyRealTokenUnderflow | BuyDrainsFinalToken | SellYAfterOverflow | SellYAfterZero
  | SellXAfterConversion | SellXAfterNotU64 | SellXAfterExceeds | SellGrossOutUnderflow
  | SellZeroGrossOut | SellRealCpayUnderflow | SellDrainsFinalSompi

datatype (plugins only: code) curve_error =
    UnsupportedCurveMode | IndividualCpayRange | IndividualCpayStep
  | IndividualMultiplierRange | IndividualMultiplierStep | NonIndividualWithParameters
  | CurveSupplyRange | VirtualTokenReserveOverflow | UnlockTargetTooLarge
  | ClaimCallerMismatch | CreationDecimals | CreationSupplyRange | CreationSeedReserve

datatype (plugins only: code) vault_error =
    UnknownVaultInput | VaultRequiresLiquidityPayload | VaultSpentByOtherOp
  | VaultOutputByOtherOp | CreateSpendsVault | VaultOutputIndexOverflow
  | CreateVaultOutputCount | TransitionVaultInputCount | VaultOutpointMismatch
  | TransitionVaultOutputCount | VaultValueOverflowOnCreate | CreateVaultValueMismatch
  | PayoutIndexOutOfRange | PayoutValueMismatch | PayoutScriptClass
  | PayoutOwnerUnknown | PayoutOwnerMismatch

datatype (plugins only: code) op_error =
    AuthInputMissing | AuthScriptUnsupported | NonceBaselineViolation
  | NonceProgressionOverflow | FinalAnchorLost | AssetAlreadyExists
  | UnknownAsset | InitialMintExceedsCap | BalanceOverflow | InsufficientBalance
  | LegacyOpForLiquidity | NotMintAuthority | SupplyOverflow | MintExceedsCap
  | SupplyUnderflow | RecipientEncoding | FeeRequiresRecipient | LaunchFeeUnderflow
  | MinTokenOutViolated | NotCanonicalInput | ZeroTokenOut | RealCpayReserveOverflow

datatype (plugins only: code) pool_error =
    NotLiquidityAsset | LiquidityStateMissing | StalePoolNonce | BuyVaultMustIncrease
  | BuyVaultDelta | BuyFeeUnderflow | PoolNonceOverflow | SellLocked | SellFeeUnderflow
  | ZeroCpayOut | MinCpayOutViolated | BelowMinPayout | SellVaultMustDecrease
  | SellVaultDelta | RealTokenReserveOverflow | ClaimLocked | ClaimBelowMinPayout
  | ClaimRecipientIndex | ClaimExceedsUnclaimed | ClaimVaultMustDecrease
  | ClaimVaultDelta | ClaimTotalUnderflow

datatype (plugins only: code) invariant_error =
    InvariantStateMissing | InvariantNotCapped | InvariantLockDisabled
  | InvariantLockReached | InvariantCpayFloor | InvariantTokenFloor
  | InvariantVirtualReserve | InvariantVaultOverflow | InvariantVaultValue
  | InvariantSupplyOverflow | InvariantSupply

datatype (plugins only: code) growth_kind =
    GrowthAssets | GrowthBalanceKeys | GrowthNonceKeys | GrowthPools | GrowthAnchorOwnerKeys

datatype (plugins only: code) store_error =
    VaultIndexMissingAsset | VaultIndexNoLiquidity | VaultIndexMismatch
  | SharedVaultOutpoint | StoreLiquidityMissing

datatype (plugins only: code) parse_error =
    TruncatedMagic | InvalidMagic | TruncatedVersion | UnsupportedVersion
  | TruncatedOp | UnsupportedOp | TruncatedFlags | InvalidFlags
  | TruncatedAuthInputIndex | TruncatedNonce | ZeroNonce | TruncatedField
  | UnsupportedTokenVersion | UnsupportedCurveVersion | UnsupportedParsedCurveMode
  | ParsedCurveParameters | DecimalsAboveMax | LiquidityDecimals
  | InvalidSupplyMode | StringFieldTooLong | NotUtf8 | CappedZeroMaxSupply
  | UncappedNonZeroMaxSupply | ZeroAmount | MintOwnerMustBeZero
  | MintOwnerMustBeNonZero | LiquidityMaxSupplyRange | SeedReserveMismatch
  | FeeBpsRange | RecipientCountAboveMax | RecipientCountMustBeZero
  | RecipientCountOneOrTwo | DuplicateRecipients | RecipientsNotSorted
  | UnsupportedAddressVersion | LaunchBuyMinMustBeZero | LaunchBuyMinMustBePositive
  | PlatformTagTooLong | PlatformTagNotUtf8 | ParsedUnlockTarget | ZeroPoolNonce
  | TrailingBytes

datatype (plugins only: code) atomic_reason =
    FeeReason fee_error
  | CanonicalReason canonical_error
  | CpmmReason cpmm_error
  | CurveReason curve_error
  | VaultReason vault_error
  | OpReason op_error
  | PoolReason pool_error
  | InvariantReason invariant_error
  | GrowthReason growth_kind
  | StoreReason store_error
  | ParseReason parse_error

datatype (plugins only: code) tx_rule_error = InvalidAtomicPayload atomic_reason

abbreviation fee_err :: "fee_error \<Rightarrow> tx_rule_error" where
  "fee_err e \<equiv> InvalidAtomicPayload (FeeReason e)"

abbreviation canonical_err :: "canonical_error \<Rightarrow> tx_rule_error" where
  "canonical_err e \<equiv> InvalidAtomicPayload (CanonicalReason e)"

abbreviation cpmm_err :: "cpmm_error \<Rightarrow> tx_rule_error" where
  "cpmm_err e \<equiv> InvalidAtomicPayload (CpmmReason e)"

abbreviation curve_err :: "curve_error \<Rightarrow> tx_rule_error" where
  "curve_err e \<equiv> InvalidAtomicPayload (CurveReason e)"

abbreviation vault_err :: "vault_error \<Rightarrow> tx_rule_error" where
  "vault_err e \<equiv> InvalidAtomicPayload (VaultReason e)"

abbreviation op_err :: "op_error \<Rightarrow> tx_rule_error" where
  "op_err e \<equiv> InvalidAtomicPayload (OpReason e)"

abbreviation pool_err :: "pool_error \<Rightarrow> tx_rule_error" where
  "pool_err e \<equiv> InvalidAtomicPayload (PoolReason e)"

abbreviation invariant_err :: "invariant_error \<Rightarrow> tx_rule_error" where
  "invariant_err e \<equiv> InvalidAtomicPayload (InvariantReason e)"

type_synonym 'a tx_result = "tx_rule_error + 'a"

end
