(* ===== verification/Liquidity_Math.thy ===== *)
theory Liquidity_Math
  imports Tx_Rule_Error
begin

text \<open>
  The liquidity curve of the consensus code
  (\<open>src/consensus/src/pipeline/virtual_processor/utxo_validation.rs\<close>): trade fees,
  the constant-product buy and sell, the canonical gross input of a buy, and the
  parameters of the three curve modes. \<open>Uint256\<close> products are 256-bit words;
  the factors are a 64-bit and a 128-bit word, so that no product wraps.
\<close>

section \<open>Constants\<close>

definition SOMPI_PER_CRYPTIX :: u64 where [simp]: "SOMPI_PER_CRYPTIX = 100000000"
definition MAX_SOMPI :: u64 where [simp]: "MAX_SOMPI = 520395506 * SOMPI_PER_CRYPTIX"
definition LIQUIDITY_MIN_PAYOUT_SOMPI :: u64 where [simp]: "LIQUIDITY_MIN_PAYOUT_SOMPI = 1"
definition LIQUIDITY_TOKEN_DECIMALS :: u8 where [simp]: "LIQUIDITY_TOKEN_DECIMALS = 0"
definition MIN_LIQUIDITY_SUPPLY_RAW :: u128 where [simp]: "MIN_LIQUIDITY_SUPPLY_RAW = 100000"
definition MAX_LIQUIDITY_SUPPLY_RAW :: u128 where [simp]: "MAX_LIQUIDITY_SUPPLY_RAW = 10000000"
definition INITIAL_REAL_CPAY_RESERVES_SOMPI :: u64 where
  [simp]: "INITIAL_REAL_CPAY_RESERVES_SOMPI = SOMPI_PER_CRYPTIX"
definition MIN_CPAY_RESERVE_SOMPI :: u64 where [simp]: "MIN_CPAY_RESERVE_SOMPI = 1"
definition MIN_REAL_TOKEN_RESERVE :: u128 where [simp]: "MIN_REAL_TOKEN_RESERVE = 1"
definition LIQUIDITY_CURVE_MODE_BASIC :: u8 where [simp]: "LIQUIDITY_CURVE_MODE_BASIC = 0"
definition LIQUIDITY_CURVE_MODE_AGGRESSIVE :: u8 where
  [simp]: "LIQUIDITY_CURVE_MODE_AGGRESSIVE = 1"
definition LIQUIDITY_CURVE_MODE_INDIVIDUAL :: u8 where
  [simp]: "LIQUIDITY_CURVE_MODE_INDIVIDUAL = 2"
definition INITIAL_VIRTUAL_CPAY_RESERVES_SOMPI :: u64 where
  [simp]: "INITIAL_VIRTUAL_CPAY_RESERVES_SOMPI = 250000000000000"
definition AGGRESSIVE_INITIAL_VIRTUAL_CPAY_RESERVES_SOMPI :: u64 where
  [simp]: "AGGRESSIVE_INITIAL_VIRTUAL_CPAY_RESERVES_SOMPI = 200000000000000"
definition INDIVIDUAL_MIN_VIRTUAL_CPAY_RESERVES_SOMPI :: u64 where
  [simp]: "INDIVIDUAL_MIN_VIRTUAL_CPAY_RESERVES_SOMPI = 100000000000000"
definition INDIVIDUAL_MAX_VIRTUAL_CPAY_RESERVES_SOMPI :: u64 where
  [simp]: "INDIVIDUAL_MAX_VIRTUAL_CPAY_RESERVES_SOMPI = 800000000000000"
definition INDIVIDUAL_VIRTUAL_CPAY_STEP_SOMPI :: u64 where
  [simp]: "INDIVIDUAL_VIRTUAL_CPAY_STEP_SOMPI = 10000000000000"
definition INDIVIDUAL_MIN_VIRTUAL_TOKEN_MULTIPLIER_BPS :: u16 where
  [simp]: "INDIVIDUAL_MIN_VIRTUAL_TOKEN_MULTIPLIER_BPS = 10100"
definition INDIVIDUAL_MAX_VIRTUAL_TOKEN_MULTIPLIER_BPS :: u16 where
  [simp]: "INDIVIDUAL_MAX_VIRTUAL_TOKEN_MULTIPLIER_BPS = 20000"
definition INDIVIDUAL_VIRTUAL_TOKEN_MULTIPLIER_STEP_BPS :: u16 where
  [simp]: "INDIVIDUAL_VIRTUAL_TOKEN_MULTIPLIER_STEP_BPS = 100"
definition VIRTUAL_TOKEN_MULTIPLIER_BPS_DENOMINATOR :: u16 where
  [simp]: "VIRTUAL_TOKEN_MULTIPLIER_BPS_DENOMINATOR = 10000"

section \<open>Fees and the constant-product curve\<close>

definition calculate_trade_fee :: "u64 \<Rightarrow> u16 \<Rightarrow> u64 tx_result" where
  "calculate_trade_fee amount fee_bps =
     try_bind (ok_or (checked_mul (ucast amount :: u128) (ucast fee_bps))
                 (fee_err FeeMultiplicationOverflow)) (\<lambda>product.
     ok_or (uint_try_from (product div 10000)) (fee_err FeeDoesNotFitU64))"

definition ceil_div_u256 :: "uint256 \<Rightarrow> uint256 \<Rightarrow> uint256" where
  "ceil_div_u256 numerator denominator =
     (let quotient = numerator div denominator; remainder = numerator mod denominator
      in if remainder = 0 then quotient else quotient + 1)"

definition cpmm_buy ::
    "u128 \<Rightarrow> u64 \<Rightarrow> u128 \<Rightarrow> u64 \<Rightarrow> (u128 \<times> u128 \<times> u64 \<times> u128) tx_result" where
  "cpmm_buy real_token_reserves virtual_cpay_reserves_sompi virtual_token_reserves cpay_net_in =
     (if real_token_reserves \<le> MIN_REAL_TOKEN_RESERVE then Inl (cpmm_err BuyRealTokenFloor)
      else try_bind (ok_or (checked_add virtual_cpay_reserves_sompi cpay_net_in)
                       (cpmm_err BuyXAfterOverflow)) (\<lambda>x_after.
        if x_after = 0 \<or> virtual_token_reserves = 0 then Inl (cpmm_err BuyXAfterZero)
        else (let k = (ucast virtual_cpay_reserves_sompi :: uint256) * ucast virtual_token_reserves;
                  y_after_u256 = ceil_div_u256 k (ucast x_after)
        in try_bind (ok_or (uint_try_from y_after_u256) (cpmm_err BuyYAfterConversion))
          (\<lambda>y_after :: u128.
        if y_after = 0 then Inl (cpmm_err BuyYAfterZero)
        else if y_after > virtual_token_reserves then Inl (cpmm_err BuyYAfterIncreases)
        else try_bind (ok_or (checked_sub virtual_token_reserves y_after)
                         (cpmm_err BuyTokenOutUnderflow)) (\<lambda>token_out.
        if token_out = 0 then Inl (cpmm_err BuyZeroTokenOut)
        else try_bind (ok_or (checked_sub real_token_reserves token_out)
                         (cpmm_err BuyRealTokenUnderflow)) (\<lambda>new_real_token_reserves.
        if new_real_token_reserves < MIN_REAL_TOKEN_RESERVE then Inl (cpmm_err BuyDrainsFinalToken)
        else Inr (token_out, new_real_token_reserves, x_after, y_after)))))))"

definition cpmm_sell ::
    "u64 \<Rightarrow> u64 \<Rightarrow> u128 \<Rightarrow> u128 \<Rightarrow> (u64 \<times> u64 \<times> u64 \<times> u128) tx_result" where
  "cpmm_sell real_cpay_reserves_sompi virtual_cpay_reserves_sompi virtual_token_reserves token_in =
     try_bind (ok_or (checked_add virtual_token_reserves token_in)
                 (cpmm_err SellYAfterOverflow)) (\<lambda>y_after.
     if y_after = 0 then Inl (cpmm_err SellYAfterZero)
     else (let x_before = virtual_cpay_reserves_sompi;
               k = (ucast x_before :: uint256) * ucast virtual_token_reserves;
               x_after_u256 = ceil_div_u256 k (ucast y_after)
     in try_bind (ok_or (uint_try_from x_after_u256) (cpmm_err SellXAfterConversion))
       (\<lambda>x_after_u128 :: u128.
     try_bind (ok_or (uint_try_from x_after_u128) (cpmm_err SellXAfterNotU64)) (\<lambda>x_after.
     if x_after > x_before then Inl (cpmm_err SellXAfterExceeds)
     else try_bind (ok_or (checked_sub x_before x_after) (cpmm_err SellGrossOutUnderflow))
       (\<lambda>gross_out.
     if gross_out = 0 then Inl (cpmm_err SellZeroGrossOut)
     else try_bind (ok_or (checked_sub real_cpay_reserves_sompi gross_out)
                      (cpmm_err SellRealCpayUnderflow)) (\<lambda>new_real_cpay_reserves_sompi.
     if new_real_cpay_reserves_sompi < MIN_CPAY_RESERVE_SOMPI
     then Inl (cpmm_err SellDrainsFinalSompi)
     else Inr (gross_out, new_real_cpay_reserves_sompi, x_after, y_after)))))))"

section \<open>Canonical gross input\<close>

text \<open>
  The two loops of \<open>min_gross_input_for_net_input\<close>: the first lowers the gross
  amount while the amount one below still nets enough, the second raises it while it
  does not.
\<close>

function shrink_gross :: "u16 \<Rightarrow> u64 \<Rightarrow> u64 \<Rightarrow> u64 tx_result" where
  "shrink_gross fee_bps net_in gross =
     (if gross > 1 then
        try_bind (ok_or (checked_sub gross 1) (canonical_err CanonicalDecrementUnderflow))
          (\<lambda>previous.
        try_bind (calculate_trade_fee previous fee_bps) (\<lambda>previous_fee.
        try_bind (ok_or (checked_sub previous previous_fee)
                    (canonical_err CanonicalPreviousFeeUnderflow)) (\<lambda>previous_net.
        if previous_net < net_in then Inr gross else shrink_gross fee_bps net_in previous)))
      else Inr gross)"
  by pat_completeness auto
termination
  by (relation "measure (\<lambda>(fee_bps, net_in, gross). unat gross)")
    (auto simp: result_simps checked_iff)

function raise_gross :: "u16 \<Rightarrow> u64 \<Rightarrow> u64 \<Rightarrow> u64 tx_result" where
  "raise_gross fee_bps net_in gross =
     try_bind (calculate_trade_fee gross fee_bps) (\<lambda>fee.
     try_bind (ok_or (checked_sub gross fee) (canonical_err CanonicalFeeUnderflow)) (\<lambda>net.
     if net < net_in then
       try_bind (ok_or (checked_add (ucast gross :: u128) 1)
                   (canonical_err CanonicalIncrementOverflow)) (\<lambda>raised.
       try_bind (ok_or (uint_try_from raised) (canonical_err CanonicalGrossNotU64)) (\<lambda>raised_u64.
       raise_gross fee_bps net_in raised_u64))
     else Inr gross))"
  by pat_completeness auto
termination
proof (relation "measure (\<lambda>(fee_bps, net_in, gross). 2 ^ 64 - unat gross)", goal_cases)
  case 1
  show ?case by simp
next
  case (2 fee_bps net_in gross fee net raised raised_u64)
  then have "unat raised_u64 = unat gross + 1"
    by (simp add: result_simps checked_iff)
  with unat_bound [of raised_u64] show ?case by simp
qed

declare shrink_gross.simps [simp del] raise_gross.simps [simp del]

definition min_gross_input_for_net_input :: "u64 \<Rightarrow> u16 \<Rightarrow> u64 tx_result" where
  "min_gross_input_for_net_input net_in fee_bps =
     (if net_in = 0 \<or> fee_bps \<ge> 10000 then Inl (canonical_err CanonicalNetOrFeeInvalid)
      else if fee_bps = 0 then Inr net_in
      else
        try_bind (ok_or (checked_sub (10000 :: u128) (ucast fee_bps))
                    (canonical_err CanonicalDenominatorUnderflow)) (\<lambda>fee_denominator.
        try_bind (ok_or (checked_sub (ucast net_in :: u128) 1)
                    (canonical_err CanonicalNetUnderflow)) (\<lambda>net_below.
        try_bind (ok_or (checked_mul net_below 10000)
                    (canonical_err CanonicalGrossMulOverflow)) (\<lambda>scaled.
        try_bind (ok_or (checked_div scaled fee_denominator)
                    (canonical_err CanonicalDenominatorZero)) (\<lambda>floor_gross.
        try_bind (ok_or (checked_add floor_gross 1)
                    (canonical_err CanonicalGrossAddOverflow)) (\<lambda>gross.
        try_bind (ok_or (uint_try_from gross) (canonical_err CanonicalGrossNotU64)) (\<lambda>gross_u64.
        try_bind (shrink_gross fee_bps net_in gross_u64) (\<lambda>gross_u64.
        raise_gross fee_bps net_in gross_u64))))))))"

definition min_gross_input_for_token_out ::
    "u128 \<Rightarrow> u64 \<Rightarrow> u128 \<Rightarrow> u128 \<Rightarrow> u16 \<Rightarrow> u64 tx_result" where
  "min_gross_input_for_token_out real_token_reserves virtual_cpay_reserves_sompi
       virtual_token_reserves token_out fee_bps =
     (if token_out = 0 \<or> virtual_cpay_reserves_sompi = 0 \<or> virtual_token_reserves = 0
      then Inl (canonical_err CanonicalTargetInvalid)
      else try_bind (ok_or (checked_sub real_token_reserves MIN_REAL_TOKEN_RESERVE)
                       (canonical_err CanonicalReserveFloor)) (\<lambda>spendable_tokens.
      if token_out > spendable_tokens then Inl (canonical_err CanonicalDrainsFinalToken)
      else try_bind (ok_or (checked_sub virtual_token_reserves token_out)
                       (canonical_err CanonicalYAfterUnderflow)) (\<lambda>y_after.
      if y_after = 0 then Inl (canonical_err CanonicalYAfterZero)
      else (let x_before = (ucast virtual_cpay_reserves_sompi :: uint256);
                k = x_before * ucast virtual_token_reserves;
                x_after = ceil_div_u256 k (ucast y_after)
      in if x_after \<le> x_before then Inl (canonical_err CanonicalZeroNet)
      else try_bind (ok_or (uint_try_from (x_after - x_before))
                       (canonical_err CanonicalNetNotU128)) (\<lambda>net_in_u128 :: u128.
      try_bind (ok_or (uint_try_from net_in_u128)
                  (canonical_err CanonicalNetNotU64)) (\<lambda>net_in.
      try_bind (min_gross_input_for_net_input net_in fee_bps) (\<lambda>gross_in.
      try_bind (calculate_trade_fee gross_in fee_bps) (\<lambda>fee.
      try_bind (ok_or (checked_sub gross_in fee)
                  (canonical_err CanonicalFeeUnderflow)) (\<lambda>net.
      try_bind (cpmm_buy real_token_reserves virtual_cpay_reserves_sompi
                  virtual_token_reserves net) (\<lambda>(actual_token_out, _, _, _).
      if actual_token_out < token_out
      then Inl (canonical_err CanonicalVerificationFailed)
      else Inr gross_in))))))))))"

section \<open>Curve parameters\<close>

definition validate_liquidity_curve_mode :: "u8 \<Rightarrow> unit tx_result" where
  "validate_liquidity_curve_mode mode =
     (if mode = LIQUIDITY_CURVE_MODE_BASIC \<or> mode = LIQUIDITY_CURVE_MODE_AGGRESSIVE
         \<or> mode = LIQUIDITY_CURVE_MODE_INDIVIDUAL
      then Inr () else Inl (curve_err UnsupportedCurveMode))"

definition validate_individual_liquidity_curve_params :: "u64 \<Rightarrow> u16 \<Rightarrow> unit tx_result" where
  "validate_individual_liquidity_curve_params virtual_cpay virtual_token_multiplier_bps =
     (if \<not> (INDIVIDUAL_MIN_VIRTUAL_CPAY_RESERVES_SOMPI \<le> virtual_cpay
             \<and> virtual_cpay \<le> INDIVIDUAL_MAX_VIRTUAL_CPAY_RESERVES_SOMPI)
      then Inl (curve_err IndividualCpayRange)
      else if virtual_cpay mod INDIVIDUAL_VIRTUAL_CPAY_STEP_SOMPI \<noteq> 0
      then Inl (curve_err IndividualCpayStep)
      else if \<not> (INDIVIDUAL_MIN_VIRTUAL_TOKEN_MULTIPLIER_BPS \<le> virtual_token_multiplier_bps
             \<and> virtual_token_multiplier_bps \<le> INDIVIDUAL_MAX_VIRTUAL_TOKEN_MULTIPLIER_BPS)
      then Inl (curve_err IndividualMultiplierRange)
      else if virtual_token_multiplier_bps mod INDIVIDUAL_VIRTUAL_TOKEN_MULTIPLIER_STEP_BPS \<noteq> 0
      then Inl (curve_err IndividualMultiplierStep)
      else Inr ())"

definition validate_liquidity_curve_parameters :: "u8 \<Rightarrow> u64 \<Rightarrow> u16 \<Rightarrow> unit tx_result" where
  "validate_liquidity_curve_parameters mode individual_cpay individual_multiplier_bps =
     (if mode = LIQUIDITY_CURVE_MODE_BASIC \<or> mode = LIQUIDITY_CURVE_MODE_AGGRESSIVE then
        (if individual_cpay = 0 \<and> individual_multiplier_bps = 0 then Inr ()
         else Inl (curve_err NonIndividualWithParameters))
      else if mode = LIQUIDITY_CURVE_MODE_INDIVIDUAL then
        validate_individual_liquidity_curve_params individual_cpay individual_multiplier_bps
      else Inl (curve_err UnsupportedCurveMode))"

definition initial_virtual_cpay_reserves_sompi_for_mode :: "u8 \<Rightarrow> u64 tx_result" where
  "initial_virtual_cpay_reserves_sompi_for_mode mode =
     (if mode = LIQUIDITY_CURVE_MODE_BASIC then Inr INITIAL_VIRTUAL_CPAY_RESERVES_SOMPI
      else if mode = LIQUIDITY_CURVE_MODE_AGGRESSIVE
      then Inr AGGRESSIVE_INITIAL_VIRTUAL_CPAY_RESERVES_SOMPI
      else Inl (curve_err UnsupportedCurveMode))"

definition initial_virtual_cpay_reserves_sompi_for_curve :: "u8 \<Rightarrow> u64 \<Rightarrow> u64 tx_result" where
  "initial_virtual_cpay_reserves_sompi_for_curve mode individual_cpay =
     (if mode = LIQUIDITY_CURVE_MODE_INDIVIDUAL then
        try_bind (validate_individual_liquidity_curve_params individual_cpay
                    INDIVIDUAL_MIN_VIRTUAL_TOKEN_MULTIPLIER_BPS) (\<lambda>_. Inr individual_cpay)
      else if mode = LIQUIDITY_CURVE_MODE_BASIC \<or> mode = LIQUIDITY_CURVE_MODE_AGGRESSIVE
      then initial_virtual_cpay_reserves_sompi_for_mode mode
      else Inl (curve_err UnsupportedCurveMode))"

definition initial_virtual_token_reserves_for_mode :: "u128 \<Rightarrow> u8 \<Rightarrow> u128 tx_result" where
  "initial_virtual_token_reserves_for_mode max_supply mode =
     (if \<not> (MIN_LIQUIDITY_SUPPLY_RAW \<le> max_supply \<and> max_supply \<le> MAX_LIQUIDITY_SUPPLY_RAW)
      then Inl (curve_err CurveSupplyRange)
      else try_bind
        (if mode = LIQUIDITY_CURVE_MODE_BASIC then Inr (6, 5)
         else if mode = LIQUIDITY_CURVE_MODE_AGGRESSIVE then Inr (21, 20)
         else Inl (curve_err UnsupportedCurveMode)) (\<lambda>(numerator, denominator).
      ok_or (Option.bind (checked_mul max_supply numerator) (\<lambda>value. checked_div value denominator))
        (curve_err VirtualTokenReserveOverflow)))"

definition initial_virtual_token_reserves_for_curve ::
    "u128 \<Rightarrow> u8 \<Rightarrow> u16 \<Rightarrow> u128 tx_result" where
  "initial_virtual_token_reserves_for_curve max_supply mode individual_multiplier_bps =
     (if \<not> (MIN_LIQUIDITY_SUPPLY_RAW \<le> max_supply \<and> max_supply \<le> MAX_LIQUIDITY_SUPPLY_RAW)
      then Inl (curve_err CurveSupplyRange)
      else if mode = LIQUIDITY_CURVE_MODE_INDIVIDUAL then
        try_bind (validate_individual_liquidity_curve_params
                    INDIVIDUAL_MIN_VIRTUAL_CPAY_RESERVES_SOMPI individual_multiplier_bps) (\<lambda>_.
        ok_or (Option.bind (checked_mul max_supply (ucast individual_multiplier_bps))
                 (\<lambda>value. checked_div value (ucast VIRTUAL_TOKEN_MULTIPLIER_BPS_DENOMINATOR)))
          (curve_err VirtualTokenReserveOverflow))
      else if mode = LIQUIDITY_CURVE_MODE_BASIC \<or> mode = LIQUIDITY_CURVE_MODE_AGGRESSIVE
      then initial_virtual_token_reserves_for_mode max_supply mode
      else Inl (curve_err UnsupportedCurveMode))"

definition validate_liquidity_unlock_target :: "u64 \<Rightarrow> unit tx_result" where
  "validate_liquidity_unlock_target unlock_target_sompi =
     (if unlock_target_sompi > MAX_SOMPI then Inl (curve_err UnlockTargetTooLarge) else Inr ())"

definition validate_liquidity_claim_authorization :: "hash32 \<Rightarrow> hash32 \<Rightarrow> unit tx_result" where
  "validate_liquidity_claim_authorization claimant_owner_id recipient_owner_id =
     (if claimant_owner_id = recipient_owner_id then Inr ()
      else Inl (curve_err ClaimCallerMismatch))"

definition validate_liquidity_creation_parameters :: "u8 \<Rightarrow> u128 \<Rightarrow> u64 \<Rightarrow> unit tx_result" where
  "validate_liquidity_creation_parameters decimals max_supply seed_reserve_sompi =
     (if decimals \<noteq> LIQUIDITY_TOKEN_DECIMALS then Inl (curve_err CreationDecimals)
      else if \<not> (MIN_LIQUIDITY_SUPPLY_RAW \<le> max_supply \<and> max_supply \<le> MAX_LIQUIDITY_SUPPLY_RAW)
      then Inl (curve_err CreationSupplyRange)
      else if seed_reserve_sompi \<noteq> INITIAL_REAL_CPAY_RESERVES_SOMPI
      then Inl (curve_err CreationSeedReserve)
      else Inr ())"

section \<open>Reference definitions\<close>

text \<open>
  The specification side: division rounding up, what a gross amount nets after
  the fee, the least gross amount that nets a target, and the fee, net and
  constant-product steps of a buy taken together.
\<close>

definition ceil_div :: "nat \<Rightarrow> nat \<Rightarrow> nat" where
  "ceil_div n d = (n + d - 1) div d"

definition net_of_gross :: "u16 \<Rightarrow> u64 \<Rightarrow> nat" where
  "net_of_gross f g = unat g - unat g * unat f div 10000"

definition least_gross :: "u16 \<Rightarrow> u64 \<Rightarrow> u64 \<Rightarrow> bool" where
  "least_gross f n g \<longleftrightarrow>
     unat n \<le> net_of_gross f g \<and> (\<forall>g' < g. net_of_gross f g' < unat n)"

definition buy_with_gross ::
    "u128 \<Rightarrow> u64 \<Rightarrow> u128 \<Rightarrow> u64 \<Rightarrow> u16 \<Rightarrow> (u64 \<times> u64 \<times> u128 \<times> u128 \<times> u64 \<times> u128) tx_result" where
  "buy_with_gross real_token_reserves virtual_cpay virtual_token gross_in fee_bps =
     try_bind (calculate_trade_fee gross_in fee_bps) (\<lambda>fee.
     try_bind (ok_or (checked_sub gross_in fee) (pool_err BuyFeeUnderflow)) (\<lambda>net.
     try_bind (cpmm_buy real_token_reserves virtual_cpay virtual_token net)
       (\<lambda>(token_out, real_token', virtual_cpay', virtual_token').
     Inr (fee, net, token_out, real_token', virtual_cpay', virtual_token'))))"

definition cpmm_buy_spec ::
    "u128 \<Rightarrow> u64 \<Rightarrow> u128 \<Rightarrow> u64 \<Rightarrow> u128 \<times> u128 \<times> u64 \<times> u128 \<Rightarrow> bool" where
  "cpmm_buy_spec rt x y n = (\<lambda>(out, rt', x', y').
     unat x' = unat x + unat n \<and> 0 < unat x'
     \<and> unat y' = ceil_div (unat x * unat y) (unat x') \<and> 0 < unat y'
     \<and> unat y' + unat out = unat y \<and> 0 < unat out
     \<and> unat rt' + unat out = unat rt \<and> 0 < unat rt')"

definition cpmm_sell_spec ::
    "u64 \<Rightarrow> u64 \<Rightarrow> u128 \<Rightarrow> u128 \<Rightarrow> u64 \<times> u64 \<times> u64 \<times> u128 \<Rightarrow> bool" where
  "cpmm_sell_spec rc x y t = (\<lambda>(out, rc', x', y').
     unat y' = unat y + unat t \<and> 0 < unat y'
     \<and> unat x' = ceil_div (unat x * unat y) (unat y')
     \<and> unat x' + unat out = unat x \<and> 0 < unat out
     \<and> unat rc' + unat out = unat rc \<and> 0 < unat rc')"

section \<open>Arithmetic of the curve over the naturals\<close>

lemma ceil_div_le_iff: "0 < d \<Longrightarrow> ceil_div n d \<le> q \<longleftrightarrow> n \<le> q * d"
proof -
  assume d: "0 < d"
  have "ceil_div n d \<le> q \<longleftrightarrow> (n + d - 1) div d < Suc q"
    by (auto simp: ceil_div_def)
  also have "\<dots> \<longleftrightarrow> n + d - 1 < Suc q * d"
    using d by (simp add: div_less_iff_less_mult)
  also have "\<dots> \<longleftrightarrow> n \<le> q * d"
    using d by auto
  finally show ?thesis .
qed

lemma ceil_div_alt:
  "0 < d \<Longrightarrow> ceil_div n d = (if n mod d = 0 then n div d else n div d + 1)"
proof -
  assume d: "0 < d"
  have n: "n = d * (n div d) + n mod d" by simp
  show ?thesis
  proof (cases "n mod d = 0")
    case True
    then have "n + d - 1 = d * (n div d) + (d - 1)" using n d by linarith
    then have "(n + d - 1) div d = n div d" using d by (intro div_nat_eqI) auto
    then show ?thesis using True by (simp add: ceil_div_def)
  next
    case False
    with n d have "n + d - 1 = (d * (n div d) + d) + (n mod d - 1)" by linarith
    then have "n + d - 1 = d * (n div d + 1) + (n mod d - 1)" by simp
    moreover have "n mod d - 1 < d" using mod_less_divisor [OF d, of n] by linarith
    ultimately have "(n + d - 1) div d = n div d + 1" by (intro div_nat_eqI) auto
    then show ?thesis using False by (simp add: ceil_div_def)
  qed
qed

lemma unat_word_ceil_div:
  fixes n d :: "'a::len word"
  assumes "d \<noteq> 0"
  shows "unat (if n mod d = 0 then n div d else n div d + 1) = ceil_div (unat n) (unat d)"
proof -
  from assms have d: "0 < unat d" by (simp add: unat_gt_0)
  show ?thesis
  proof (cases "unat n mod unat d = 0")
    case True
    then have "n mod d = 0" by (simp add: word_unat_eq_iff unat_mod)
    with True d show ?thesis by (simp add: ceil_div_alt unat_div)
  next
    case False
    then have r: "n mod d \<noteq> 0" by (simp add: word_unat_eq_iff unat_mod)
    from False have "unat d \<noteq> 1" by auto
    with d have "2 \<le> unat d" by linarith
    then have "unat n div unat d \<le> unat n div 2"
      by (simp add: div_le_mono2)
    moreover have "unat n \<noteq> 0" using False by (metis mod_0)
    ultimately have "Suc (unat n div unat d) \<le> unat n" by linarith
    with unat_bound [of n] have "Suc (unat n div unat d) < 2 ^ LENGTH('a)" by linarith
    then have "unat (n div d + 1) = unat n div unat d + 1"
      by (simp add: unat_word_ariths unat_div)
    with False r d show ?thesis by (simp add: ceil_div_alt)
  qed
qed

lemma unat_ceil_div_u256: "d \<noteq> 0 \<Longrightarrow> unat (ceil_div_u256 n d) = ceil_div (unat n) (unat d)"
  using unat_word_ceil_div [of d n] by (simp add: ceil_div_u256_def Let_def)

lemma unat_reserve_product:
  "unat ((ucast (x :: u64) :: uint256) * ucast (y :: u128)) = unat x * unat y"
proof -
  have "unat x * unat y < 2 ^ 64 * 2 ^ 128"
    using unat_bound [of x] unat_bound [of y] by (intro mult_strict_mono) simp_all
  then have "unat x * unat y < 2 ^ 256" by simp
  then show ?thesis by (simp add: unat_word_ariths)
qed

lemma ceil_div_mult_ge: "0 < d \<Longrightarrow> n \<le> ceil_div n d * d"
  using ceil_div_le_iff [of d n "ceil_div n d"] by simp

lemma ceil_div_mult_self: "0 < d \<Longrightarrow> ceil_div (d * n) d = n" "0 < d \<Longrightarrow> ceil_div (n * d) d = n"
proof -
  show *: "0 < d \<Longrightarrow> ceil_div (n * d) d = n"
    using ceil_div_mult_ge [of d "n * d"] ceil_div_le_iff [of d "n * d" n] by (simp add: antisym)
  then show "0 < d \<Longrightarrow> ceil_div (d * n) d = n" by (simp add: mult.commute)
qed

lemma cpmm_buy_spec_pos: "cpmm_buy_spec rt x y n b \<Longrightarrow> 0 < unat n"
  by (rule ccontr) (auto simp: cpmm_buy_spec_def ceil_div_mult_self)

lemma cpmm_sell_spec_pos: "cpmm_sell_spec rc x y t b \<Longrightarrow> 0 < unat t"
  by (rule ccontr) (auto simp: cpmm_sell_spec_def ceil_div_mult_self)

text \<open>
  The contract of a constant-product curve, whatever its error type: which
  trades succeed and with which reserves. Both implementations of the
  repository, the consensus one below and the index one in \<open>Liquidity_Index\<close>,
  are instances.
\<close>

locale cpmm_curve =
  fixes fee :: "u64 \<Rightarrow> u16 \<Rightarrow> 'e + u64"
    and buy :: "u128 \<Rightarrow> u64 \<Rightarrow> u128 \<Rightarrow> u64 \<Rightarrow> 'e + u128 \<times> u128 \<times> u64 \<times> u128"
    and sell :: "u64 \<Rightarrow> u64 \<Rightarrow> u128 \<Rightarrow> u128 \<Rightarrow> 'e + u64 \<times> u64 \<times> u64 \<times> u128"
  assumes fee_iff: "fee a f = Inr r \<longleftrightarrow> unat r = unat a * unat f div 10000"
    and buy_iff: "buy rt x y n = Inr b \<longleftrightarrow> cpmm_buy_spec rt x y n b"
    and sell_iff: "sell rc x y u = Inr s \<longleftrightarrow> cpmm_sell_spec rc x y u s"
begin

lemma buyD:
  assumes "buy rt x y n = Inr (out, rt', x', y')"
  shows "unat x' = unat x + unat n" "unat y' = ceil_div (unat x * unat y) (unat x')"
    "0 < unat x'" "0 < unat y'" "unat y' + unat out = unat y" "0 < unat out"
    "unat rt' + unat out = unat rt" "0 < unat rt'"
  using assms unfolding buy_iff cpmm_buy_spec_def by blast+

lemma sellD:
  assumes "sell rc x y t = Inr (out, rc', x', y')"
  shows "unat y' = unat y + unat t" "unat x' = ceil_div (unat x * unat y) (unat y')"
    "0 < unat y'" "unat x' + unat out = unat x" "0 < unat out"
    "unat rc' + unat out = unat rc" "0 < unat rc'"
  using assms unfolding sell_iff cpmm_sell_spec_def by blast+

lemma buy_product:
  assumes "buy rt x y n = Inr (out, rt', x', y')"
  shows "unat x * unat y \<le> unat x' * unat y'"
  using ceil_div_mult_ge [OF buyD(3) [OF assms], of "unat x * unat y"]
  by (simp only: buyD(2) [OF assms] mult.commute)

lemma sell_product:
  assumes "sell rc x y t = Inr (out, rc', x', y')"
  shows "unat x * unat y \<le> unat x' * unat y'"
  using ceil_div_mult_ge [OF sellD(3) [OF assms], of "unat x * unat y"]
  by (simp only: sellD(2) [OF assms])

text \<open>The output of a buy grows with the net input.\<close>

lemma buy_mono:
  assumes "buy rt x y n = Inr (out, rt1, x1, y1)"
    and "buy rt x y m = Inr (out', rt2, x2, y2)" and "n \<le> m"
  shows "out \<le> out'"
proof -
  note b1 = buyD [OF assms(1)] and b2 = buyD [OF assms(2)]
  have "unat x * unat y \<le> unat x1 * unat y1" by (rule buy_product [OF assms(1)])
  also have "\<dots> \<le> unat y1 * unat x2"
    using assms(3) by (simp add: b1(1) b2(1) word_le_nat_alt)
  finally have "unat y2 \<le> unat y1"
    unfolding b2(2) using b2(3) by (simp add: ceil_div_le_iff)
  with b1(5) b2(5) show ?thesis by (simp add: word_le_nat_alt)
qed

lemma buy_sell:
  assumes "buy rt x y n = Inr (out, rt', x', y')"
    and "sell rc x' y' out = Inr (gross, rc', x'', y'')"
  shows "gross \<le> n \<and> x \<le> x'' \<and> y'' = y"
proof -
  note buy = buyD [OF assms(1)] and sell = sellD [OF assms(2)]
  have y: "unat y'' = unat y" using buy(5) sell(1) by linarith
  have "unat x * unat y \<le> unat x'' * unat y"
    using le_trans [OF buy_product [OF assms(1)] sell_product [OF assms(2)]]
    by (simp only: y)
  moreover have "0 < unat y" using buy(4,5) by linarith
  ultimately have "unat x \<le> unat x''" by simp
  with buy(1) sell(4) y show ?thesis by (simp add: word_as_nat)
qed

lemma sell_buy:
  assumes "sell rc x y t = Inr (gross, rc', x', y')"
    and "buy rt x' y' gross = Inr (out, rt', x'', y'')"
  shows "out \<le> t \<and> y \<le> y'' \<and> x'' = x"
proof -
  note sell = sellD [OF assms(1)] and buy = buyD [OF assms(2)]
  have x: "unat x'' = unat x" using buy(1) sell(4) by linarith
  have "unat x * unat y \<le> unat x * unat y''"
    using le_trans [OF sell_product [OF assms(1)] buy_product [OF assms(2)]]
    by (simp only: x)
  moreover have "0 < unat x" using sell(4,5) by linarith
  ultimately have "unat y \<le> unat y''" by simp
  with sell(1) buy(5) x show ?thesis by (simp add: word_as_nat)
qed

end

lemma calculate_trade_fee_Inr_iff:
  "calculate_trade_fee a f = Inr r \<longleftrightarrow> unat r = unat a * unat f div 10000"
proof -
  have "unat a * unat f < 2 ^ 64 * 2 ^ 16"
    using unat_bound [of a] unat_bound [of f] by (intro mult_strict_mono) simp_all
  then have "unat a * unat f < 2 ^ 128" by simp
  then have "\<exists>p. checked_mul (ucast a :: u128) (ucast f) = Some p"
    by (simp add: checked_nat_defs)
  then obtain p where p: "checked_mul (ucast a :: u128) (ucast f) = Some p" ..
  then have "unat p = unat a * unat f" by (simp add: checked_iff)
  with p show ?thesis
    by (auto simp: calculate_trade_fee_def result_simps checked_iff unat_div intro: exI [of _ p])
qed

lemma cpmm_buy_Inr_iff: "cpmm_buy rt x y n = Inr b \<longleftrightarrow> cpmm_buy_spec rt x y n b"
proof (cases b)
  case (fields out rt' x' y')
  show ?thesis
    unfolding fields
    by (simp add: cpmm_buy_def Let_def result_simps checked_iff)
      (auto simp: cpmm_buy_spec_def word_as_nat unat_ceil_div_u256 unat_reserve_product)
qed

lemma sell_step_x:
  assumes "unat y' = unat (y :: u128) + unat t" "0 < unat y'"
    and "unat x' = ceil_div (unat (x :: u64) * unat y) (unat y')"
  shows "uint_try_from (ceil_div_u256 (ucast x * ucast y) (ucast (y' :: u128))) = Some (ucast (x' :: u64) :: u128)"
    "uint_try_from (ucast x' :: u128) = Some x'"
proof -
  have "ucast y' \<noteq> (0 :: uint256)" using assms(2) by (auto simp: word_as_nat)
  then show "uint_try_from (ceil_div_u256 (ucast x * ucast y) (ucast y')) = Some (ucast x' :: u128)"
    using assms(3) by (simp add: checked_iff unat_ceil_div_u256 unat_reserve_product)
qed (simp add: checked_iff)

lemma cpmm_sell_Inr_iff: "cpmm_sell rc x y t = Inr s \<longleftrightarrow> cpmm_sell_spec rc x y t s"
proof (cases s)
  case (fields out rc' x' y')
  have "cpmm_sell_spec rc x y t (out, rc', x', y')" if "cpmm_sell rc x y t = Inr (out, rc', x', y')"
    using that
    by (simp add: cpmm_sell_def Let_def result_simps checked_iff)
      (auto simp: cpmm_sell_spec_def word_as_nat unat_ceil_div_u256 unat_reserve_product)
  moreover have "cpmm_sell rc x y t = Inr (out, rc', x', y')"
    if spec: "cpmm_sell_spec rc x y t (out, rc', x', y')"
  proof -
    from spec have "checked_add y t = Some y'" "checked_sub x x' = Some out" "checked_sub rc out = Some rc'"
      by (auto simp: cpmm_sell_spec_def checked_iff)
    moreover have "uint_try_from (ceil_div_u256 (ucast x * ucast y) (ucast y')) = Some (ucast x' :: u128)"
      "uint_try_from (ucast x' :: u128) = Some x'"
      using spec by (auto simp: cpmm_sell_spec_def intro!: sell_step_x)
    ultimately show ?thesis
      using spec by (auto simp: cpmm_sell_def cpmm_sell_spec_def word_as_nat)
  qed
  ultimately show ?thesis unfolding fields by blast
qed

interpretation consensus_curve: cpmm_curve calculate_trade_fee cpmm_buy cpmm_sell
  by unfold_locales (rule calculate_trade_fee_Inr_iff cpmm_buy_Inr_iff cpmm_sell_Inr_iff)+

lemma net_iff:
  fixes g f n :: nat
  assumes "f < 10000" "0 < n"
  shows "n \<le> g - g * f div 10000 \<longleftrightarrow> (n - 1) * 10000 < g * (10000 - f)"
proof -
  have gf: "g * f div 10000 \<le> g"
    using assms(1) by (metis div_le_mono less_imp_le mult_le_mono2 nonzero_mult_div_cancel_right zero_neq_numeral)
  have "n \<le> g - g * f div 10000 \<longleftrightarrow> n \<le> g \<and> g * f div 10000 < g - n + 1"
    using gf assms by auto
  also have "\<dots> \<longleftrightarrow> n \<le> g \<and> g * f < (g - n + 1) * 10000"
    by (simp add: div_less_iff_less_mult)
  also have "\<dots> \<longleftrightarrow> (n - 1) * 10000 < g * (10000 - f)"
  proof (cases "n \<le> g")
    case True
    then obtain e where "g = n + e" using le_Suc_ex by blast
    moreover obtain m where "n = Suc m" using assms(2) by (cases n) auto
    moreover obtain h where "10000 = f + h" using assms(1) by (metis le_Suc_ex less_imp_le)
    ultimately show ?thesis
      by (simp add: algebra_simps less_diff_conv)
  next
    case False
    then have "g * (10000 - f) \<le> (n - 1) * 10000" by (intro mult_mono) auto
    with False show ?thesis by simp
  qed
  finally show ?thesis .
qed

lemma trade_fee_le: "f < (10000 :: nat) \<Longrightarrow> g * f div 10000 \<le> g"
  by (metis div_le_mono less_imp_le mult_le_mono2 nonzero_mult_div_cancel_right zero_neq_numeral)

lemma trade_fee_ok:
  assumes "f < 10000"
  obtains fee net where "calculate_trade_fee g f = Inr fee" "checked_sub g fee = Some net"
    "unat net = net_of_gross f g"
proof -
  from assms have f: "unat f < 10000" by (simp add: word_less_nat_alt)
  define fee where "fee = (of_nat (unat g * unat f div 10000) :: u64)"
  have le: "unat g * unat f div 10000 \<le> unat g" by (rule trade_fee_le [OF f])
  then have "unat g * unat f div 10000 < 2 ^ 64" using unat_bound [of g] by simp
  then have fee: "unat fee = unat g * unat f div 10000"
    by (simp add: fee_def unat_of_nat)
  moreover from this le have "checked_sub g fee = Some (g - fee)" "unat (g - fee) = net_of_gross f g"
    by (simp_all add: checked_sub_def word_le_nat_alt net_of_gross_def unat_sub)
  ultimately show ?thesis
    using that by (simp add: calculate_trade_fee_Inr_iff)
qed

lemma net_of_gross_ge_iff:
  assumes "f < 10000" "0 < n"
  shows "n \<le> net_of_gross f g \<longleftrightarrow> (n - 1) * 10000 < unat g * (10000 - unat f)"
  using net_iff [of "unat f" n "unat g"] assms
  by (simp add: net_of_gross_def word_less_nat_alt)

lemma net_of_gross_mono: "f < 10000 \<Longrightarrow> g \<le> g' \<Longrightarrow> net_of_gross f g \<le> net_of_gross f g'"
proof (cases "net_of_gross f g = 0")
  case False
  assume f: "f < 10000" and "g \<le> g'"
  then have "unat g * (10000 - unat f) \<le> unat g' * (10000 - unat f)"
    by (simp add: word_le_nat_alt)
  moreover from False f have "(net_of_gross f g - 1) * 10000 < unat g * (10000 - unat f)"
    using net_of_gross_ge_iff [OF f, of "net_of_gross f g" g] by simp
  ultimately have "(net_of_gross f g - 1) * 10000 < unat g' * (10000 - unat f)"
    by (rule less_le_trans [rotated])
  with False f show ?thesis
    using net_of_gross_ge_iff [OF f, of "net_of_gross f g" g'] by simp
qed simp

lemma shrink_gross_stop:
  assumes "f < 10000" "0 < n" "1 < g \<Longrightarrow> net_of_gross f (g - 1) < unat n"
  shows "shrink_gross f n g = Inr g"
proof (cases "1 < g")
  case True
  then have prev: "checked_sub g 1 = Some (g - 1)"
    by (simp add: checked_sub_def)
  obtain fee net where "calculate_trade_fee (g - 1) f = Inr fee" "checked_sub (g - 1) fee = Some net"
    "unat net = net_of_gross f (g - 1)"
    using trade_fee_ok [OF assms(1)] .
  with True prev assms(3) show ?thesis
    by (simp add: shrink_gross.simps [of f n g] word_less_nat_alt)
qed (simp add: shrink_gross.simps)

lemma raise_gross_stop:
  assumes "f < 10000" "unat n \<le> net_of_gross f g"
  shows "raise_gross f n g = Inr g"
proof -
  obtain fee net where "calculate_trade_fee g f = Inr fee" "checked_sub g fee = Some net"
    "unat net = net_of_gross f g"
    using trade_fee_ok [OF assms(1)] .
  with assms(2) show ?thesis
    by (simp add: raise_gross.simps [of f n g] word_less_nat_alt)
qed

lemma least_gross_unique: "least_gross f n g \<Longrightarrow> least_gross f n g' \<Longrightarrow> g = g'"
  by (metis least_gross_def linorder_neqE not_le)

lemma least_gross_closed:
  assumes "f < 10000" "0 < n"
  shows "least_gross f n g \<longleftrightarrow> unat g = (unat n - 1) * 10000 div (10000 - unat f) + 1"
proof -
  define d where "d = 10000 - unat f"
  define q where "q = (unat n - 1) * 10000 div d"
  have d: "0 < d" using assms(1) by (simp add: d_def word_less_nat_alt)
  have ge: "unat n \<le> net_of_gross f h \<longleftrightarrow> q < unat h" for h
  proof -
    have "unat n \<le> net_of_gross f h \<longleftrightarrow> (unat n - 1) * 10000 < unat h * d"
      using net_of_gross_ge_iff [OF assms(1)] assms(2) by (simp add: d_def word_less_nat_alt)
    then show ?thesis using d by (simp add: q_def div_less_iff_less_mult)
  qed
  have "least_gross f n g \<longleftrightarrow> q < unat g \<and> (\<forall>g' < g. unat g' \<le> q)"
    unfolding least_gross_def by (simp add: ge flip: not_le)
  also have "\<dots> \<longleftrightarrow> unat g = q + 1"
  proof
    assume *: "q < unat g \<and> (\<forall>g' < g. unat g' \<le> q)"
    then have "unat (g - 1) = unat g - 1" "g - 1 < g"
      by (simp_all add: unat_pred pred_less)
    with * show "unat g = q + 1" by fastforce
  qed (simp add: word_less_nat_alt)
  finally show ?thesis by (simp add: q_def d_def)
qed

lemma least_gross_net:
  assumes "f < 10000" "0 < n" "least_gross f n g"
  shows "net_of_gross f g = unat n"
proof (rule ccontr)
  assume "net_of_gross f g \<noteq> unat n"
  with assms(3) have "Suc (unat n) \<le> net_of_gross f g" by (simp add: least_gross_def)
  then have lt: "unat n * 10000 < unat g * (10000 - unat f)"
    using net_of_gross_ge_iff [OF assms(1), of "Suc (unat n)" g] by simp
  then have "0 < unat g" by (cases "unat g") auto
  then have g1: "unat (g - 1) = unat g - 1" "g - 1 < g"
    by (simp_all add: unat_pred pred_less)
  have "(unat g - 1) * (10000 - unat f) + 10000 \<ge> unat g * (10000 - unat f)"
    by (cases "unat g") auto
  with lt have "unat n * 10000 < unat (g - 1) * (10000 - unat f) + 10000"
    using g1 by simp
  moreover have "0 < unat n" using assms(2) by (simp add: word_less_nat_alt)
  ultimately have "(unat n - 1) * 10000 < unat (g - 1) * (10000 - unat f)"
    by (simp add: diff_mult_distrib less_diff_conv2)
  then have "unat n \<le> net_of_gross f (g - 1)"
    using net_of_gross_ge_iff [OF assms(1), of "unat n" "g - 1"] \<open>0 < unat n\<close> by simp
  with assms(3) g1(2) show False by (auto simp: least_gross_def)
qed

lemma gross_seed_chain:
  assumes "0 < (n :: u64)" "f < (10000 :: u16)"
  obtains den below scaled gross :: u128 where
    "checked_sub (10000 :: u128) (ucast f) = Some den"
    "checked_sub (ucast n :: u128) 1 = Some below"
    "checked_mul below 10000 = Some scaled"
    "checked_div scaled den = Some (scaled div den)"
    "checked_add (scaled div den) 1 = Some gross"
    "unat gross = (unat n - 1) * 10000 div (10000 - unat f) + 1"
proof -
  have n: "0 < unat n" and f: "unat f < 10000"
    using assms by (simp_all add: word_less_nat_alt)
  define den where "den = (10000 - ucast f :: u128)"
  define below where "below = (ucast n - 1 :: u128)"
  define scaled where "scaled = below * 10000"
  define gross where "gross = scaled div den + 1"
  have den: "checked_sub (10000 :: u128) (ucast f) = Some den" "unat den = 10000 - unat f"
    using f by (simp_all add: den_def checked_sub_def word_le_nat_alt unat_sub)
  have below: "checked_sub (ucast n :: u128) 1 = Some below" "unat below = unat n - 1"
    using n by (simp_all add: below_def checked_sub_def word_le_nat_alt unat_sub)
  have "unat below * 10000 < 2 ^ 64 * 10000"
    using unat_bound [of n] by (simp add: below(2))
  then have fits: "unat below * 10000 < 2 ^ 128" "Suc (unat below * 10000) < 2 ^ 128" by simp_all
  then have scaled: "checked_mul below 10000 = Some scaled" "unat scaled = unat below * 10000"
    by (simp_all add: checked_nat_defs scaled_def unat_word_ariths)
  have "unat scaled div unat den \<le> unat scaled" by simp
  with fits(2) scaled(2) have "Suc (unat scaled div unat den) < 2 ^ 128" by linarith
  then have gross: "checked_add (scaled div den) 1 = Some gross"
      "unat gross = unat scaled div unat den + 1"
    by (simp_all add: gross_def checked_nat_defs unat_word_ariths unat_div)
  have "checked_div scaled den = Some (scaled div den)"
    using den(2) f by (auto simp: checked_div_def)
  with den below scaled gross show ?thesis
    by (intro that [of den below scaled gross]) simp_all
qed

lemma min_gross_seed:
  assumes "0 < n" "f < 10000" "f \<noteq> 0"
  obtains gross :: u128 where
    "unat gross = (unat n - 1) * 10000 div (10000 - unat f) + 1"
    "min_gross_input_for_net_input n f =
       try_bind (ok_or (uint_try_from gross) (canonical_err CanonicalGrossNotU64))
         (\<lambda>g. try_bind (shrink_gross f n g) (raise_gross f n))"
proof -
  from assms have "n \<noteq> 0" "\<not> 10000 \<le> f" by auto
  with assms(3) show ?thesis
    by (rule_tac gross_seed_chain [OF assms(1,2)], intro that)
      (simp_all add: min_gross_input_for_net_input_def)
qed

lemma min_gross_input_for_net_input_iff:
  "min_gross_input_for_net_input n f = Inr g \<longleftrightarrow> 0 < n \<and> f < 10000 \<and> least_gross f n g"
proof (cases "0 < n \<and> f < 10000")
  case False
  then show ?thesis by (auto simp: min_gross_input_for_net_input_def word_neq_0_conv not_less)
next
  case pos: True
  show ?thesis
  proof (cases "f = 0")
    case True
    with pos have "least_gross f n g \<longleftrightarrow> n = g"
      using least_gross_closed [of f n g] by (auto simp: word_unat_eq_iff word_less_nat_alt)
    with True pos show ?thesis by (auto simp: min_gross_input_for_net_input_def)
  next
    case False
    with pos obtain gross :: u128 where
        gross: "unat gross = (unat n - 1) * 10000 div (10000 - unat f) + 1"
      and eq: "min_gross_input_for_net_input n f =
        try_bind (ok_or (uint_try_from gross) (canonical_err CanonicalGrossNotU64))
          (\<lambda>g. try_bind (shrink_gross f n g) (raise_gross f n))"
      using min_gross_seed by blast
    have least: "least_gross f n h \<longleftrightarrow> uint_try_from gross = Some h" for h
      using pos gross by (simp add: least_gross_closed checked_iff)
    have run: "try_bind (shrink_gross f n h) (raise_gross f n) = Inr h" if "least_gross f n h" for h
    proof -
      have "shrink_gross f n h = Inr h"
      proof (rule shrink_gross_stop)
        assume "1 < h"
        then have "h - 1 < h" by (intro pred_less) (simp add: word_less_nat_alt)
        with that show "net_of_gross f (h - 1) < unat n" by (simp add: least_gross_def)
      qed (use pos in simp_all)
      with that pos show ?thesis by (simp add: least_gross_def raise_gross_stop)
    qed
    show ?thesis
      using pos least run by (cases "uint_try_from gross :: u64 option") (auto simp: eq)
  qed
qed

lemma buy_with_gross_Inr_iff:
  "buy_with_gross rt x y g f = Inr (fee, net, out, rt', x', y') \<longleftrightarrow>
     unat fee = unat g * unat f div 10000 \<and> unat fee + unat net = unat g
     \<and> cpmm_buy rt x y net = Inr (out, rt', x', y')"
  by (auto simp: buy_with_gross_def result_simps checked_iff calculate_trade_fee_Inr_iff
      split: prod.splits)

lemma buy_with_gross_net:
  "buy_with_gross rt x y g f = Inr (fee, net, out, rt', x', y') \<Longrightarrow> unat net = net_of_gross f g"
  by (auto simp: buy_with_gross_Inr_iff net_of_gross_def)

lemma min_gross_input_for_token_outD:
  assumes "min_gross_input_for_token_out rt x y t f = Inr g"
  obtains net_in fee net out rt' x' y' where
    "0 < t" "unat t < unat y"
    "unat x + unat net_in = ceil_div (unat x * unat y) (unat y - unat t)"
    "min_gross_input_for_net_input net_in f = Inr g"
    "buy_with_gross rt x y g f = Inr (fee, net, out, rt', x', y')" "t \<le> out"
proof -
  from assms obtain spend y_after net_in_u128 net_in fee net out rt' x' y' where *:
      "t \<noteq> 0" "checked_sub y t = Some y_after" "y_after \<noteq> 0"
      "\<not> ceil_div_u256 (ucast x * ucast y) (ucast y_after) \<le> ucast x"
      "uint_try_from (ceil_div_u256 (ucast x * ucast y) (ucast y_after) - ucast x) = Some (net_in_u128 :: u128)"
      "uint_try_from net_in_u128 = Some net_in"
      "min_gross_input_for_net_input net_in f = Inr g"
      "calculate_trade_fee g f = Inr fee" "checked_sub g fee = Some net"
      "cpmm_buy rt x y net = Inr (out, rt', x', y')" "t \<le> out"
    by (auto simp: min_gross_input_for_token_out_def Let_def result_simps split: prod.splits)
  let ?x = "ceil_div_u256 (ucast x * ucast y) (ucast y_after)"
  have "ucast y_after \<noteq> (0 :: uint256)" using *(3) by (simp add: word_as_nat)
  then have x_after: "unat ?x = ceil_div (unat x * unat y) (unat y_after)"
    by (simp add: unat_ceil_div_u256 unat_reserve_product)
  have "unat net_in = unat (?x - ucast x)" using *(5,6) by (simp add: checked_iff)
  also have "\<dots> = unat ?x - unat x" using *(4) by (simp add: unat_sub)
  finally have "unat x + unat net_in = unat ?x" using *(4) by (simp add: word_le_nat_alt)
  moreover have y: "unat y_after = unat y - unat t" "0 < unat y_after"
    using *(2,3) by (auto simp: checked_iff word_as_nat)
  ultimately show ?thesis
    using * x_after that [of net_in fee net out rt' x' y']
    by (simp add: buy_with_gross_def word_neq_0_conv)
qed

section \<open>Properties of the curve\<close>

text \<open>C20. Canonical gross input, exactly: the search of
  \<open>min_gross_input_for_net_input\<close> (a scaled division followed by a loop going
  down and a loop going up) returns a gross amount if and only if the target
  is positive, the fee is below 100 percent and the amount is the smallest
  64-bit amount whose value after the trade fee reaches the target. It is both
  sound and complete, and it always ends.\<close>

theorem min_gross_input_for_net_input_exact:
  "min_gross_input_for_net_input n f = Inr g \<longleftrightarrow>
     0 < n \<and> f < 10000 \<and>
     unat n \<le> unat g - unat g * unat f div 10000 \<and>
     (\<forall>g' < g. unat g' - unat g' * unat f div 10000 < unat n)"
  by (simp add: min_gross_input_for_net_input_iff least_gross_def net_of_gross_def)

theorem min_gross_input_for_net_input_exact_witness:
  "min_gross_input_for_net_input 990 100 = Inr 999 \<and> (0::u64) < 990 \<and> (100::u16) < 10000"
proof -
  have "min_gross_input_for_net_input 990 100 = Inr 999" by code_simp
  with min_gross_input_for_net_input_exact [of 990 100 999] show ?thesis by blast
qed

text \<open>C21. Canonical buy: when \<open>min_gross_input_for_token_out\<close> returns a gross
  input, the buy with it (fee, net amount, constant-product step) succeeds and
  yields at least the requested tokens, and every buy with a smaller gross
  input yields strictly fewer.\<close>

theorem min_gross_input_for_token_out_least:
  assumes g: "min_gross_input_for_token_out rt x y t f = Inr g"
  shows "(\<exists>fee net out rt' x' y'. buy_with_gross rt x y g f = Inr (fee, net, out, rt', x', y') \<and> t \<le> out)
    \<and> (\<forall>g' fee net out rt' x' y'.
        g' < g \<longrightarrow> buy_with_gross rt x y g' f = Inr (fee, net, out, rt', x', y') \<longrightarrow> out < t)"
proof -
  obtain net_in where net_in: "unat t < unat y" 
      "unat x + unat net_in = ceil_div (unat x * unat y) (unat y - unat t)"
      "min_gross_input_for_net_input net_in f = Inr g"
    and ex: "\<exists>fee net out rt' x' y'. buy_with_gross rt x y g f = Inr (fee, net, out, rt', x', y') \<and> t \<le> out"
    using min_gross_input_for_token_outD [OF g] by metis
  have "out < t" if "g' < g" "buy_with_gross rt x y g' f = Inr (fee, net, out, rt', x', y')"
    for g' fee net out rt' x' y'
  proof -
    have buy: "cpmm_buy rt x y net = Inr (out, rt', x', y')"
      using that(2) by (simp add: buy_with_gross_Inr_iff)
    have "unat net < unat net_in"
      using net_in(3) that(1) buy_with_gross_net [OF that(2)]
      by (simp add: min_gross_input_for_net_input_iff least_gross_def)
    then have "unat x' < ceil_div (unat x * unat y) (unat y - unat t)"
      using consensus_curve.buyD(1) [OF buy] net_in(2) by linarith
    then have "unat x' * (unat y - unat t) < unat x * unat y"
      using net_in(1) ceil_div_le_iff [of "unat y - unat t" "unat x * unat y" "unat x'"] by simp
    then have "unat y - unat t < unat y'"
      using ceil_div_le_iff [OF consensus_curve.buyD(3) [OF buy], of "unat x * unat y" "unat y - unat t"]
      by (simp add: consensus_curve.buyD(2) [OF buy] mult.commute)
    with consensus_curve.buyD(5) [OF buy] show ?thesis by (simp add: word_less_nat_alt)
  qed
  with ex show ?thesis by blast
qed

theorem min_gross_input_for_token_out_least_witness:
  "min_gross_input_for_token_out 1000000 1000 1000000 90000 100 = Inr 99 \<and>
   (\<exists>fee net out rt' x' y'.
      buy_with_gross 1000000 1000 1000000 99 100 = Inr (fee, net, out, rt', x', y') \<and> 90000 \<le> out)"
proof -
  have "min_gross_input_for_token_out 1000000 1000 1000000 90000 100 = Inr 99" by code_simp
  with min_gross_input_for_token_out_least [OF this] show ?thesis by blast
qed

text \<open>C22. No profit from buying and selling back: selling exactly the tokens a
  buy gave returns at most the net amount paid, restores the virtual token
  reserves and leaves the virtual CPAY reserves no smaller than before.\<close>

theorem buy_then_sell_no_profit:
  assumes "cpmm_buy rt x y n = Inr (out, rt', x', y')"
    and "cpmm_sell rc x' y' out = Inr (gross, rc', x'', y'')"
  shows "gross \<le> n \<and> x \<le> x'' \<and> y'' = y"
  using assms by (rule consensus_curve.buy_sell)

theorem buy_then_sell_no_profit_witness:
  "cpmm_buy 1000000 1000 1000000 100 = Inr (90909, 909091, 1100, 909091) \<and>
   cpmm_sell 101 1100 909091 90909 = Inr (99, 2, 1001, 1000000) \<and> (99::u64) \<le> 100"
proof -
  have buy: "cpmm_buy 1000000 1000 1000000 100 = Inr (90909, 909091, 1100, 909091)" by code_simp
  have sell: "cpmm_sell 101 1100 909091 90909 = Inr (99, 2, 1001, 1000000)" by code_simp
  show ?thesis using buy_then_sell_no_profit [OF buy sell] buy sell by blast
qed

text \<open>C23. No profit from selling and buying back: spending all the CPAY a sell
  gave buys at most the tokens sold, restores the virtual CPAY reserves and
  leaves the virtual token reserves no smaller than before.\<close>

theorem sell_then_buy_no_profit:
  assumes "cpmm_sell rc x y t = Inr (gross, rc', x', y')"
    and "cpmm_buy rt x' y' gross = Inr (out, rt', x'', y'')"
  shows "out \<le> t \<and> y \<le> y'' \<and> x'' = x"
  using assms by (rule consensus_curve.sell_buy)

theorem sell_then_buy_no_profit_witness:
  "cpmm_sell 500 1100 909091 90909 = Inr (99, 401, 1001, 1000000) \<and>
   cpmm_buy 1000000 1001 1000000 99 = Inr (90000, 910000, 1100, 910000) \<and> (90000::u128) \<le> 90909"
proof -
  have sell: "cpmm_sell 500 1100 909091 90909 = Inr (99, 401, 1001, 1000000)" by code_simp
  have buy: "cpmm_buy 1000000 1001 1000000 99 = Inr (90000, 910000, 1100, 910000)" by code_simp
  show ?thesis using sell_then_buy_no_profit [OF sell buy] sell buy by blast
qed

end
