(* ===== verification/Liquidity_Index.thy ===== *)
theory Liquidity_Index
  imports Liquidity_Math
begin

text \<open>
  The liquidity curve of the Atomic index
  (\<open>src/indexes/atomicindex/src/liquidity_math.rs\<close>), a second implementation
  of the consensus curve with its own error type and its own checks, and the
  proof that the two accept the same inputs with the same results. Names that
  also occur in the consensus code carry the suffix \<open>_idx\<close>.
\<close>

section \<open>Constants and errors\<close>

definition LIQUIDITY_TOKEN_DECIMALS_IDX :: u8 where [simp]: "LIQUIDITY_TOKEN_DECIMALS_IDX = 0"
definition MIN_LIQUIDITY_SUPPLY_RAW_IDX :: u128 where
  [simp]: "MIN_LIQUIDITY_SUPPLY_RAW_IDX = 100000"
definition LIQUIDITY_TOKEN_SUPPLY_RAW_IDX :: u128 where
  [simp]: "LIQUIDITY_TOKEN_SUPPLY_RAW_IDX = 1000000"
definition MAX_LIQUIDITY_SUPPLY_RAW_IDX :: u128 where
  [simp]: "MAX_LIQUIDITY_SUPPLY_RAW_IDX = 10000000"
definition MIN_LIQUIDITY_SEED_RESERVE_SOMPI_IDX :: u64 where
  [simp]: "MIN_LIQUIDITY_SEED_RESERVE_SOMPI_IDX = SOMPI_PER_CRYPTIX"
definition INITIAL_REAL_CPAY_RESERVES_SOMPI_IDX :: u64 where
  [simp]: "INITIAL_REAL_CPAY_RESERVES_SOMPI_IDX = SOMPI_PER_CRYPTIX"
definition MIN_CPAY_RESERVE_SOMPI_IDX :: u64 where [simp]: "MIN_CPAY_RESERVE_SOMPI_IDX = 1"
definition MIN_REAL_TOKEN_RESERVE_IDX :: u128 where [simp]: "MIN_REAL_TOKEN_RESERVE_IDX = 1"
definition LIQUIDITY_CURVE_MODE_BASIC_IDX :: u8 where [simp]: "LIQUIDITY_CURVE_MODE_BASIC_IDX = 0"
definition LIQUIDITY_CURVE_MODE_AGGRESSIVE_IDX :: u8 where
  [simp]: "LIQUIDITY_CURVE_MODE_AGGRESSIVE_IDX = 1"
definition LIQUIDITY_CURVE_MODE_INDIVIDUAL_IDX :: u8 where
  [simp]: "LIQUIDITY_CURVE_MODE_INDIVIDUAL_IDX = 2"
definition INITIAL_VIRTUAL_CPAY_RESERVES_SOMPI_IDX :: u64 where
  [simp]: "INITIAL_VIRTUAL_CPAY_RESERVES_SOMPI_IDX = 250000000000000"
definition AGGRESSIVE_INITIAL_VIRTUAL_CPAY_RESERVES_SOMPI_IDX :: u64 where
  [simp]: "AGGRESSIVE_INITIAL_VIRTUAL_CPAY_RESERVES_SOMPI_IDX = 200000000000000"
definition INDIVIDUAL_MIN_VIRTUAL_CPAY_RESERVES_SOMPI_IDX :: u64 where
  [simp]: "INDIVIDUAL_MIN_VIRTUAL_CPAY_RESERVES_SOMPI_IDX = 100000000000000"
definition INDIVIDUAL_MAX_VIRTUAL_CPAY_RESERVES_SOMPI_IDX :: u64 where
  [simp]: "INDIVIDUAL_MAX_VIRTUAL_CPAY_RESERVES_SOMPI_IDX = 800000000000000"
definition INDIVIDUAL_VIRTUAL_CPAY_STEP_SOMPI_IDX :: u64 where
  [simp]: "INDIVIDUAL_VIRTUAL_CPAY_STEP_SOMPI_IDX = 10000000000000"
definition INDIVIDUAL_MIN_VIRTUAL_TOKEN_MULTIPLIER_BPS_IDX :: u16 where
  [simp]: "INDIVIDUAL_MIN_VIRTUAL_TOKEN_MULTIPLIER_BPS_IDX = 10100"
definition INDIVIDUAL_MAX_VIRTUAL_TOKEN_MULTIPLIER_BPS_IDX :: u16 where
  [simp]: "INDIVIDUAL_MAX_VIRTUAL_TOKEN_MULTIPLIER_BPS_IDX = 20000"
definition INDIVIDUAL_VIRTUAL_TOKEN_MULTIPLIER_STEP_BPS_IDX :: u16 where
  [simp]: "INDIVIDUAL_VIRTUAL_TOKEN_MULTIPLIER_STEP_BPS_IDX = 100"
definition VIRTUAL_TOKEN_MULTIPLIER_BPS_DENOMINATOR_IDX :: u16 where
  [simp]: "VIRTUAL_TOKEN_MULTIPLIER_BPS_DENOMINATOR_IDX = 10000"

datatype liquidity_math_error = Overflow | InvalidInput | InvalidState | ZeroOutput

type_synonym 'a math_result = "liquidity_math_error + 'a"

section \<open>Curve parameters\<close>

definition validate_liquidity_curve_mode_idx :: "u8 \<Rightarrow> unit math_result" where
  "validate_liquidity_curve_mode_idx mode =
     (if mode = LIQUIDITY_CURVE_MODE_BASIC_IDX \<or> mode = LIQUIDITY_CURVE_MODE_AGGRESSIVE_IDX
         \<or> mode = LIQUIDITY_CURVE_MODE_INDIVIDUAL_IDX
      then Inr () else Inl InvalidInput)"

definition liquidity_curve_mode_label :: "u8 \<Rightarrow> string" where
  "liquidity_curve_mode_label mode =
     (if mode = LIQUIDITY_CURVE_MODE_AGGRESSIVE_IDX then ''aggressive''
      else if mode = LIQUIDITY_CURVE_MODE_INDIVIDUAL_IDX then ''individual''
      else ''basic'')"

definition default_liquidity_curve_custom_params :: "u8 \<Rightarrow> u64 \<times> u16" where
  "default_liquidity_curve_custom_params mode =
     (if mode = LIQUIDITY_CURVE_MODE_INDIVIDUAL_IDX then
        (AGGRESSIVE_INITIAL_VIRTUAL_CPAY_RESERVES_SOMPI_IDX,
         INDIVIDUAL_MIN_VIRTUAL_TOKEN_MULTIPLIER_BPS_IDX
           + 4 * INDIVIDUAL_VIRTUAL_TOKEN_MULTIPLIER_STEP_BPS_IDX)
      else (0, 0))"

definition validate_individual_liquidity_curve_params_idx :: "u64 \<Rightarrow> u16 \<Rightarrow> unit math_result" where
  "validate_individual_liquidity_curve_params_idx virtual_cpay virtual_token_multiplier_bps =
     (if \<not> (INDIVIDUAL_MIN_VIRTUAL_CPAY_RESERVES_SOMPI_IDX \<le> virtual_cpay
             \<and> virtual_cpay \<le> INDIVIDUAL_MAX_VIRTUAL_CPAY_RESERVES_SOMPI_IDX)
      then Inl InvalidInput
      else if virtual_cpay mod INDIVIDUAL_VIRTUAL_CPAY_STEP_SOMPI_IDX \<noteq> 0 then Inl InvalidInput
      else if \<not> (INDIVIDUAL_MIN_VIRTUAL_TOKEN_MULTIPLIER_BPS_IDX \<le> virtual_token_multiplier_bps
             \<and> virtual_token_multiplier_bps \<le> INDIVIDUAL_MAX_VIRTUAL_TOKEN_MULTIPLIER_BPS_IDX)
      then Inl InvalidInput
      else if virtual_token_multiplier_bps mod INDIVIDUAL_VIRTUAL_TOKEN_MULTIPLIER_STEP_BPS_IDX \<noteq> 0
      then Inl InvalidInput
      else Inr ())"

definition validate_liquidity_curve_parameters_idx :: "u8 \<Rightarrow> u64 \<Rightarrow> u16 \<Rightarrow> unit math_result" where
  "validate_liquidity_curve_parameters_idx mode individual_cpay individual_multiplier_bps =
     (if mode = LIQUIDITY_CURVE_MODE_BASIC_IDX \<or> mode = LIQUIDITY_CURVE_MODE_AGGRESSIVE_IDX then
        (if individual_cpay = 0 \<and> individual_multiplier_bps = 0 then Inr () else Inl InvalidInput)
      else if mode = LIQUIDITY_CURVE_MODE_INDIVIDUAL_IDX then
        validate_individual_liquidity_curve_params_idx individual_cpay individual_multiplier_bps
      else Inl InvalidInput)"

definition initial_virtual_cpay_reserves_sompi_for_mode_idx :: "u8 \<Rightarrow> u64 math_result" where
  "initial_virtual_cpay_reserves_sompi_for_mode_idx mode =
     (if mode = LIQUIDITY_CURVE_MODE_BASIC_IDX then Inr INITIAL_VIRTUAL_CPAY_RESERVES_SOMPI_IDX
      else if mode = LIQUIDITY_CURVE_MODE_AGGRESSIVE_IDX
      then Inr AGGRESSIVE_INITIAL_VIRTUAL_CPAY_RESERVES_SOMPI_IDX
      else Inl InvalidInput)"

definition initial_virtual_cpay_reserves_sompi_for_curve_idx :: "u8 \<Rightarrow> u64 \<Rightarrow> u64 math_result" where
  "initial_virtual_cpay_reserves_sompi_for_curve_idx mode individual_cpay =
     (if mode = LIQUIDITY_CURVE_MODE_INDIVIDUAL_IDX then
        try_bind (validate_individual_liquidity_curve_params_idx individual_cpay
                    INDIVIDUAL_MIN_VIRTUAL_TOKEN_MULTIPLIER_BPS_IDX) (\<lambda>_. Inr individual_cpay)
      else if mode = LIQUIDITY_CURVE_MODE_BASIC_IDX \<or> mode = LIQUIDITY_CURVE_MODE_AGGRESSIVE_IDX
      then initial_virtual_cpay_reserves_sompi_for_mode_idx mode
      else Inl InvalidInput)"

definition initial_virtual_token_reserves_for_mode_idx :: "u128 \<Rightarrow> u8 \<Rightarrow> u128 math_result" where
  "initial_virtual_token_reserves_for_mode_idx max_supply mode =
     (if \<not> (MIN_LIQUIDITY_SUPPLY_RAW_IDX \<le> max_supply \<and> max_supply \<le> MAX_LIQUIDITY_SUPPLY_RAW_IDX)
      then Inl InvalidInput
      else try_bind
        (if mode = LIQUIDITY_CURVE_MODE_BASIC_IDX then Inr (6, 5)
         else if mode = LIQUIDITY_CURVE_MODE_AGGRESSIVE_IDX then Inr (21, 20)
         else Inl InvalidInput) (\<lambda>(numerator, denominator).
      try_bind (ok_or (checked_mul max_supply numerator) Overflow) (\<lambda>value.
      ok_or (checked_div value denominator) Overflow)))"

definition initial_virtual_token_reserves_idx :: "u128 \<Rightarrow> u128 math_result" where
  "initial_virtual_token_reserves_idx max_supply =
     initial_virtual_token_reserves_for_mode_idx max_supply LIQUIDITY_CURVE_MODE_BASIC_IDX"

definition initial_virtual_token_reserves_for_curve_idx ::
    "u128 \<Rightarrow> u8 \<Rightarrow> u16 \<Rightarrow> u128 math_result" where
  "initial_virtual_token_reserves_for_curve_idx max_supply mode individual_multiplier_bps =
     (if \<not> (MIN_LIQUIDITY_SUPPLY_RAW_IDX \<le> max_supply \<and> max_supply \<le> MAX_LIQUIDITY_SUPPLY_RAW_IDX)
      then Inl InvalidInput
      else if mode = LIQUIDITY_CURVE_MODE_INDIVIDUAL_IDX then
        try_bind (validate_individual_liquidity_curve_params_idx
                    INDIVIDUAL_MIN_VIRTUAL_CPAY_RESERVES_SOMPI_IDX individual_multiplier_bps) (\<lambda>_.
        try_bind (ok_or (checked_mul max_supply (ucast individual_multiplier_bps)) Overflow) (\<lambda>value.
        ok_or (checked_div value (ucast VIRTUAL_TOKEN_MULTIPLIER_BPS_DENOMINATOR_IDX)) Overflow))
      else if mode = LIQUIDITY_CURVE_MODE_BASIC_IDX \<or> mode = LIQUIDITY_CURVE_MODE_AGGRESSIVE_IDX
      then initial_virtual_token_reserves_for_mode_idx max_supply mode
      else Inl InvalidInput)"

section \<open>Fees and the constant-product curve\<close>

definition calculate_trade_fee_idx :: "u64 \<Rightarrow> u16 \<Rightarrow> u64 math_result" where
  "calculate_trade_fee_idx amount fee_bps =
     try_bind (ok_or (checked_mul (ucast amount :: u128) (ucast fee_bps)) Overflow) (\<lambda>product.
     ok_or (uint_try_from (product div 10000)) Overflow)"

definition ceil_div_u256_idx :: "uint256 \<Rightarrow> uint256 \<Rightarrow> uint256" where
  "ceil_div_u256_idx numerator denominator =
     (let quotient = numerator div denominator; remainder = numerator mod denominator
      in if remainder = 0 then quotient else quotient + 1)"

definition cpmm_buy_idx ::
    "u128 \<Rightarrow> u64 \<Rightarrow> u128 \<Rightarrow> u64 \<Rightarrow> (u128 \<times> u128 \<times> u64 \<times> u128) math_result" where
  "cpmm_buy_idx real_token_reserves virtual_cpay_reserves_sompi virtual_token_reserves cpay_net_in =
     (if cpay_net_in = 0 then Inl InvalidInput
      else if real_token_reserves \<le> MIN_REAL_TOKEN_RESERVE_IDX then Inl InvalidInput
      else (let x_before = virtual_cpay_reserves_sompi; y_before = virtual_token_reserves
      in try_bind (ok_or (checked_add x_before cpay_net_in) Overflow) (\<lambda>x_after.
      if x_after = 0 then Inl InvalidInput
      else (let k = (ucast x_before :: uint256) * ucast y_before;
                y_after_u256 = ceil_div_u256_idx k (ucast x_after)
      in try_bind (ok_or (uint_try_from y_after_u256) Overflow) (\<lambda>y_after :: u128.
      if y_after = 0 \<or> y_after > y_before then Inl InvalidState
      else try_bind (ok_or (checked_sub y_before y_after) Overflow) (\<lambda>token_out.
      if token_out = 0 then Inl ZeroOutput
      else try_bind (ok_or (checked_sub real_token_reserves MIN_REAL_TOKEN_RESERVE_IDX) Overflow)
        (\<lambda>spendable_tokens.
      if token_out > spendable_tokens then Inl InvalidInput
      else try_bind (ok_or (checked_sub real_token_reserves token_out) Overflow)
        (\<lambda>new_real_token_reserves.
      Inr (token_out, new_real_token_reserves, x_after, y_after)))))))))"

definition cpmm_sell_idx ::
    "u64 \<Rightarrow> u64 \<Rightarrow> u128 \<Rightarrow> u128 \<Rightarrow> (u64 \<times> u64 \<times> u64 \<times> u128) math_result" where
  "cpmm_sell_idx real_cpay_reserves_sompi virtual_cpay_reserves_sompi virtual_token_reserves token_in =
     (if token_in = 0 then Inl InvalidInput
      else (let y_before = virtual_token_reserves
      in try_bind (ok_or (checked_add y_before token_in) Overflow) (\<lambda>y_after.
      let x_before = virtual_cpay_reserves_sompi;
          k = (ucast x_before :: uint256) * ucast y_before;
          x_after_u256 = ceil_div_u256_idx k (ucast y_after)
      in try_bind (ok_or (uint_try_from x_after_u256) Overflow) (\<lambda>x_after_u128 :: u128.
      try_bind (ok_or (uint_try_from x_after_u128) Overflow) (\<lambda>x_after.
      if x_after > x_before then Inl InvalidState
      else try_bind (ok_or (checked_sub x_before x_after) Overflow) (\<lambda>gross_out.
      if gross_out = 0 then Inl ZeroOutput
      else try_bind (ok_or (checked_sub real_cpay_reserves_sompi MIN_CPAY_RESERVE_SOMPI_IDX) Overflow)
        (\<lambda>spendable_cpay.
      if gross_out > spendable_cpay then Inl InvalidInput
      else try_bind (ok_or (checked_sub real_cpay_reserves_sompi gross_out) Overflow)
        (\<lambda>new_real_cpay_reserves.
      Inr (gross_out, new_real_cpay_reserves, x_after, y_after)))))))))"

section \<open>Canonical gross input\<close>

function shrink_gross_idx :: "u16 \<Rightarrow> u64 \<Rightarrow> u64 \<Rightarrow> u64 math_result" where
  "shrink_gross_idx fee_bps net_in gross =
     (if gross > 1 then
        try_bind (ok_or (checked_sub gross 1) Overflow) (\<lambda>previous.
        try_bind (calculate_trade_fee_idx previous fee_bps) (\<lambda>previous_fee.
        try_bind (ok_or (checked_sub previous previous_fee) Overflow) (\<lambda>previous_net.
        if previous_net < net_in then Inr gross else shrink_gross_idx fee_bps net_in previous)))
      else Inr gross)"
  by pat_completeness auto
termination
  by (relation "measure (\<lambda>(fee_bps, net_in, gross). unat gross)")
    (auto simp: result_simps checked_iff)

function raise_gross_idx :: "u16 \<Rightarrow> u64 \<Rightarrow> u64 \<Rightarrow> u64 math_result" where
  "raise_gross_idx fee_bps net_in gross =
     try_bind (calculate_trade_fee_idx gross fee_bps) (\<lambda>fee.
     try_bind (ok_or (checked_sub gross fee) Overflow) (\<lambda>net.
     if net < net_in then
       try_bind (ok_or (checked_add (ucast gross :: u128) 1) Overflow) (\<lambda>raised.
       try_bind (ok_or (uint_try_from raised) Overflow) (\<lambda>raised_u64.
       raise_gross_idx fee_bps net_in raised_u64))
     else Inr gross))"
  by pat_completeness auto
termination
proof (relation "measure (\<lambda>(fee_bps, net_in, gross). 2 ^ 64 - unat gross)", goal_cases)
  case 1
  show ?case by simp
next
  case (2 fee_bps net_in gross fee net raised raised_u64)
  then have "unat raised_u64 = unat gross + 1"
    by (simp add: result_simps checked_iff)
  with unat_bound [of raised_u64] show ?case by simp
qed

declare shrink_gross_idx.simps [simp del] raise_gross_idx.simps [simp del]

definition min_gross_input_for_net_input_idx :: "u64 \<Rightarrow> u16 \<Rightarrow> u64 math_result" where
  "min_gross_input_for_net_input_idx net_in fee_bps =
     (if net_in = 0 \<or> fee_bps \<ge> 10000 then Inl InvalidInput
      else if fee_bps = 0 then Inr net_in
      else
        try_bind (ok_or (checked_sub (10000 :: u128) (ucast fee_bps)) InvalidInput) (\<lambda>fee_denominator.
        try_bind (ok_or (checked_sub (ucast net_in :: u128) 1) InvalidInput) (\<lambda>net_below.
        try_bind (ok_or (checked_mul net_below 10000) Overflow) (\<lambda>scaled.
        try_bind (ok_or (checked_div scaled fee_denominator) InvalidInput) (\<lambda>floor_gross.
        try_bind (ok_or (checked_add floor_gross 1) Overflow) (\<lambda>gross.
        try_bind (ok_or (uint_try_from gross) Overflow) (\<lambda>gross_u64.
        try_bind (shrink_gross_idx fee_bps net_in gross_u64) (\<lambda>gross_u64.
        raise_gross_idx fee_bps net_in gross_u64))))))))"

definition min_gross_input_for_token_out_idx ::
    "u128 \<Rightarrow> u64 \<Rightarrow> u128 \<Rightarrow> u128 \<Rightarrow> u16 \<Rightarrow> u64 math_result" where
  "min_gross_input_for_token_out_idx real_token_reserves virtual_cpay_reserves_sompi
       virtual_token_reserves token_out fee_bps =
     (if token_out = 0 \<or> virtual_cpay_reserves_sompi = 0 \<or> virtual_token_reserves = 0
      then Inl InvalidInput
      else try_bind (ok_or (checked_sub real_token_reserves MIN_REAL_TOKEN_RESERVE_IDX) InvalidInput)
        (\<lambda>spendable_tokens.
      if token_out > spendable_tokens then Inl InvalidInput
      else try_bind (ok_or (checked_sub virtual_token_reserves token_out) InvalidInput) (\<lambda>y_after.
      if y_after = 0 then Inl InvalidInput
      else (let x_before = (ucast virtual_cpay_reserves_sompi :: uint256);
                k = x_before * ucast virtual_token_reserves;
                x_after = ceil_div_u256_idx k (ucast y_after)
      in if x_after \<le> x_before then Inl ZeroOutput
      else try_bind (ok_or (uint_try_from (x_after - x_before)) Overflow) (\<lambda>net_in_u128 :: u128.
      try_bind (ok_or (uint_try_from net_in_u128) Overflow) (\<lambda>net_in.
      try_bind (min_gross_input_for_net_input_idx net_in fee_bps) (\<lambda>gross_in.
      try_bind (calculate_trade_fee_idx gross_in fee_bps) (\<lambda>fee.
      try_bind (ok_or (checked_sub gross_in fee) Overflow) (\<lambda>net.
      try_bind (cpmm_buy_idx real_token_reserves virtual_cpay_reserves_sompi
                  virtual_token_reserves net) (\<lambda>(actual_token_out, _, _, _).
      if actual_token_out < token_out then Inl InvalidState
      else Inr gross_in))))))))))"

definition max_tokens_out :: "u128 \<Rightarrow> u128" where
  "max_tokens_out real_token_reserves = saturating_sub real_token_reserves MIN_REAL_TOKEN_RESERVE_IDX"

definition max_buy_in_sompi :: "u128 \<Rightarrow> u64 \<Rightarrow> u128 \<Rightarrow> u16 \<Rightarrow> u64 math_result" where
  "max_buy_in_sompi real_token_reserves virtual_cpay_reserves_sompi virtual_token_reserves fee_bps =
     (let token_out = max_tokens_out real_token_reserves
      in if token_out = 0 then Inr 0
         else min_gross_input_for_token_out_idx real_token_reserves virtual_cpay_reserves_sompi
                virtual_token_reserves token_out fee_bps)"

section \<open>The index curve is a curve\<close>

lemma calculate_trade_fee_idx_ok:
  "calculate_trade_fee_idx a f = Inr r \<longleftrightarrow> calculate_trade_fee a f = Inr r"
  by (simp add: calculate_trade_fee_idx_def calculate_trade_fee_def result_simps)

lemma ceil_div_u256_idx_eq: "ceil_div_u256_idx n d = ceil_div_u256 n d"
  by (simp add: ceil_div_u256_idx_def ceil_div_u256_def)

lemma cpmm_buy_idx_Inr_iff: "cpmm_buy_idx rt x y n = Inr b \<longleftrightarrow> cpmm_buy_spec rt x y n b"
proof (cases b)
  case (fields out rt' x' y')
  have "cpmm_buy_spec rt x y n b" if "cpmm_buy_idx rt x y n = Inr b"
    using that unfolding fields
    by (simp add: cpmm_buy_idx_def Let_def result_simps checked_iff ceil_div_u256_idx_eq)
      (auto simp: cpmm_buy_spec_def word_as_nat unat_ceil_div_u256 unat_reserve_product)
  moreover have "cpmm_buy_idx rt x y n = Inr b" if spec: "cpmm_buy_spec rt x y n b"
  proof -
    from spec have "checked_add x n = Some x'" "checked_sub y y' = Some out" "checked_sub rt out = Some rt'"
      "checked_sub rt 1 = Some (rt - 1)"
      by (auto simp: fields cpmm_buy_spec_def checked_iff unat_pred)
    moreover have "uint_try_from (ceil_div_u256 (ucast x * ucast y) (ucast x')) = Some y'"
      using spec
      by (auto simp: fields cpmm_buy_spec_def checked_iff word_as_nat unat_ceil_div_u256 unat_reserve_product)
    ultimately show ?thesis
      using spec cpmm_buy_spec_pos [OF spec]
      by (auto simp: fields cpmm_buy_idx_def cpmm_buy_spec_def word_as_nat ceil_div_u256_idx_eq unat_pred)
  qed
  ultimately show ?thesis by blast
qed

lemma cpmm_sell_idx_Inr_iff: "cpmm_sell_idx rc x y t = Inr s \<longleftrightarrow> cpmm_sell_spec rc x y t s"
proof (cases s)
  case (fields out rc' x' y')
  have "cpmm_sell_spec rc x y t s" if "cpmm_sell_idx rc x y t = Inr s"
    using that unfolding fields
    by (simp add: cpmm_sell_idx_def Let_def result_simps checked_iff ceil_div_u256_idx_eq)
      (auto simp: cpmm_sell_spec_def word_as_nat unat_ceil_div_u256 unat_reserve_product)
  moreover have "cpmm_sell_idx rc x y t = Inr s" if spec: "cpmm_sell_spec rc x y t s"
  proof -
    from spec have "checked_add y t = Some y'" "checked_sub x x' = Some out" "checked_sub rc out = Some rc'"
      "checked_sub rc 1 = Some (rc - 1)"
      by (auto simp: fields cpmm_sell_spec_def checked_iff unat_pred)
    moreover have "uint_try_from (ceil_div_u256 (ucast x * ucast y) (ucast y')) = Some (ucast x' :: u128)"
      "uint_try_from (ucast x' :: u128) = Some x'"
      using spec by (auto simp: fields cpmm_sell_spec_def intro!: sell_step_x)
    ultimately show ?thesis
      using spec cpmm_sell_spec_pos [OF spec]
      by (auto simp: fields cpmm_sell_idx_def cpmm_sell_spec_def word_as_nat ceil_div_u256_idx_eq unat_pred)
  qed
  ultimately show ?thesis by blast
qed

interpretation index_curve: cpmm_curve calculate_trade_fee_idx cpmm_buy_idx cpmm_sell_idx
  by unfold_locales
    (simp_all only: calculate_trade_fee_idx_ok calculate_trade_fee_Inr_iff cpmm_buy_idx_Inr_iff cpmm_sell_idx_Inr_iff)

lemma calculate_trade_fee_idx_res:
  "res_ok (calculate_trade_fee_idx a f) = res_ok (calculate_trade_fee a f)"
  by (simp add: res_ok_eq_iff calculate_trade_fee_idx_ok)

lemma shrink_gross_idx_res: "res_ok (shrink_gross_idx f n g) = res_ok (shrink_gross f n g)"
proof (induction f n g rule: shrink_gross.induct)
  case (1 f n g)
  then show ?case
    by (subst shrink_gross_idx.simps, subst shrink_gross.simps)
      (auto simp: res_ok_push calculate_trade_fee_idx_res result_simps intro!: Option.bind_cong)
qed

lemma raise_gross_idx_res: "res_ok (raise_gross_idx f n g) = res_ok (raise_gross f n g)"
proof (induction f n g rule: raise_gross.induct)
  case (1 f n g)
  then show ?case
    by (subst raise_gross_idx.simps, subst raise_gross.simps)
      (auto simp: res_ok_push calculate_trade_fee_idx_res result_simps intro!: Option.bind_cong)
qed

lemma min_gross_input_for_net_input_idx_res:
  "res_ok (min_gross_input_for_net_input_idx n f) = res_ok (min_gross_input_for_net_input n f)"
  unfolding min_gross_input_for_net_input_idx_def min_gross_input_for_net_input_def
  by (simp add: res_ok_push shrink_gross_idx_res raise_gross_idx_res)

lemma cpmm_idx_res:
  "res_ok (cpmm_buy_idx rt x y n) = res_ok (cpmm_buy rt x y n)"
  "res_ok (cpmm_sell_idx rc x y t) = res_ok (cpmm_sell rc x y t)"
  by (simp_all add: res_ok_eq_iff cpmm_buy_idx_Inr_iff cpmm_buy_Inr_iff
      cpmm_sell_idx_Inr_iff cpmm_sell_Inr_iff)

lemma min_gross_input_for_token_out_idx_res:
  "res_ok (min_gross_input_for_token_out_idx rt x y t f) = res_ok (min_gross_input_for_token_out rt x y t f)"
  unfolding min_gross_input_for_token_out_idx_def min_gross_input_for_token_out_def
  by (simp add: res_ok_push Let_def ceil_div_u256_idx_eq min_gross_input_for_net_input_idx_res
     calculate_trade_fee_idx_res cpmm_idx_res case_prod_beta cong: if_cong)

lemma curve_params_idx_res:
  "res_ok (validate_individual_liquidity_curve_params_idx c b) = res_ok (validate_individual_liquidity_curve_params c b)"
  by (simp add: validate_individual_liquidity_curve_params_idx_def validate_individual_liquidity_curve_params_def)

lemma curve_init_idx_res:
  "res_ok (validate_liquidity_curve_parameters_idx mode c b) = res_ok (validate_liquidity_curve_parameters mode c b)"
  "res_ok (initial_virtual_cpay_reserves_sompi_for_curve_idx mode c) = res_ok (initial_virtual_cpay_reserves_sompi_for_curve mode c)"
  "res_ok (initial_virtual_token_reserves_for_curve_idx s mode b) = res_ok (initial_virtual_token_reserves_for_curve s mode b)"
  by (simp_all add: validate_liquidity_curve_parameters_idx_def validate_liquidity_curve_parameters_def
     initial_virtual_cpay_reserves_sompi_for_curve_idx_def initial_virtual_cpay_reserves_sompi_for_curve_def
     initial_virtual_cpay_reserves_sompi_for_mode_idx_def initial_virtual_cpay_reserves_sompi_for_mode_def
     initial_virtual_token_reserves_for_curve_idx_def initial_virtual_token_reserves_for_curve_def
     initial_virtual_token_reserves_for_mode_idx_def initial_virtual_token_reserves_for_mode_def
     res_ok_push curve_params_idx_res)

text \<open>The canonical gross input of the index also buys its target.\<close>

lemma max_buy_is_canonical:
  assumes "max_buy_in_sompi rt x y f = Inr g" "1 < unat rt"
  shows "min_gross_input_for_token_out rt x y (rt - 1) f = Inr g"
proof -
  have "saturating_sub rt 1 = rt - 1" "rt - 1 \<noteq> 0"
    using assms(2) unat_pred [of rt] by (simp_all add: word_unat_eq_iff)
  with assms(1) have "res_ok (min_gross_input_for_token_out_idx rt x y (rt - 1) f) = Some g"
    by (simp add: max_buy_in_sompi_def max_tokens_out_def)
  then show ?thesis by (simp add: min_gross_input_for_token_out_idx_res result_simps)
qed

section \<open>Properties\<close>

text \<open>C24. The index computes the consensus curve: fees, buys, sells, canonical
  gross inputs and initial reserves succeed on the same inputs with the same
  values, although the two files check in a different order and report
  different errors.\<close>

theorem index_curve_matches_consensus:
  "res_ok (calculate_trade_fee_idx a f) = res_ok (calculate_trade_fee a f) \<and>
   res_ok (cpmm_buy_idx rt x y n) = res_ok (cpmm_buy rt x y n) \<and>
   res_ok (cpmm_sell_idx rc x y t) = res_ok (cpmm_sell rc x y t) \<and>
   res_ok (min_gross_input_for_net_input_idx n f) = res_ok (min_gross_input_for_net_input n f) \<and>
   res_ok (min_gross_input_for_token_out_idx rt x y t f)
     = res_ok (min_gross_input_for_token_out rt x y t f) \<and>
   res_ok (validate_liquidity_curve_parameters_idx mode c b)
     = res_ok (validate_liquidity_curve_parameters mode c b) \<and>
   res_ok (initial_virtual_cpay_reserves_sompi_for_curve_idx mode c)
     = res_ok (initial_virtual_cpay_reserves_sompi_for_curve mode c) \<and>
   res_ok (initial_virtual_token_reserves_for_curve_idx s mode b)
     = res_ok (initial_virtual_token_reserves_for_curve s mode b)"
  by (simp add: calculate_trade_fee_idx_res cpmm_idx_res min_gross_input_for_net_input_idx_res
      min_gross_input_for_token_out_idx_res curve_init_idx_res)

text \<open>C25. The largest buy the index quotes for a pool that holds more than one
  token is accepted by the curve and leaves exactly the one-token reserve
  floor.\<close>

theorem max_buy_leaves_the_floor:
  assumes quote: "max_buy_in_sompi rt x y f = Inr g" and tokens: "1 < unat rt"
  shows "\<exists>fee net x' y'. buy_with_gross rt x y g f = Inr (fee, net, rt - 1, 1, x', y')"
proof -
  obtain fee net out rt' x' y' where
      buy: "buy_with_gross rt x y g f = Inr (fee, net, out, rt', x', y')" "rt - 1 \<le> out"
    by (rule min_gross_input_for_token_outD [OF max_buy_is_canonical [OF assms]]) (rule that)
  then have "cpmm_buy rt x y net = Inr (out, rt', x', y')"
    by (simp add: buy_with_gross_Inr_iff)
  note step = consensus_curve.buyD [OF this]
  have "unat (rt - 1) = unat rt - 1" using tokens by (simp add: unat_pred)
  moreover have "unat (rt - 1) \<le> unat out" using buy(2) by (simp add: word_le_nat_alt)
  ultimately have "unat out = unat (rt - 1)" "unat rt' = 1" using step(7,8) by linarith+
  then have "out = rt - 1" "rt' = 1" by (simp_all only: word_unat_eq_iff unat_1)
  with buy show ?thesis by blast
qed

theorem max_buy_leaves_the_floor_witness:
  "max_buy_in_sompi 1000 1000 1200 100 = Inr 5021 \<and>
   (\<exists>fee net x' y'. buy_with_gross 1000 1000 1200 5021 100 = Inr (fee, net, 999, 1, x', y'))"
proof -
  have quote: "max_buy_in_sompi 1000 1000 1200 100 = Inr 5021" by code_simp
  have "(1000 :: u128) - 1 = 999" "1 < unat (1000 :: u128)" by simp_all
  with max_buy_leaves_the_floor [OF quote] quote show ?thesis by metis
qed

end
