(* ===== verification/Byte_Reader.thy ===== *)
theory Byte_Reader
  imports Tx_Rule_Error
begin

text \<open>
  Reading typed fields off a byte slice with a moving cursor, as the payload
  parsers of the sources do: little-endian integers, the UTF-8 check of
  \<open>std::str::from_utf8\<close>, and readers, functions of the payload and the
  cursor that return the value read and the new cursor or an error. The laws
  say what a reader does on a payload in which the encoding of a value sits at
  the cursor.
\<close>

named_theorems reads_intro \<open>what a reader returns at the encoding of a value\<close>

section \<open>Little-endian integers\<close>

fun le_value :: "bytes \<Rightarrow> int" where
  "le_value [] = 0"
| "le_value (b # bs) = uint b + 256 * le_value bs"

definition from_le_bytes :: "bytes \<Rightarrow> 'a::len word" where
  "from_le_bytes bs = word_of_int (le_value bs)"

fun le_digits :: "nat \<Rightarrow> int \<Rightarrow> bytes" where
  "le_digits 0 k = []"
| "le_digits (Suc n) k = word_of_int k # le_digits n (k div 256)"

definition to_le_bytes :: "'a::len word \<Rightarrow> bytes" where
  "to_le_bytes w = le_digits (LENGTH('a) div 8) (uint w)"

section \<open>UTF-8\<close>

text \<open>
  The validation table of \<open>core::str\<close>: the ranges of the second byte exclude
  overlong forms, surrogates and code points above the last one.
\<close>

definition byte_in :: "u8 \<Rightarrow> u8 \<Rightarrow> u8 \<Rightarrow> bool" where
  "byte_in lo hi b \<longleftrightarrow> lo \<le> b \<and> b \<le> hi"

definition is_cont :: "u8 \<Rightarrow> bool" where
  "is_cont b \<longleftrightarrow> byte_in 0x80 0xBF b"

definition second_of_3 :: "u8 \<Rightarrow> u8 \<Rightarrow> bool" where
  "second_of_3 a b \<longleftrightarrow>
     (a = 0xE0 \<and> byte_in 0xA0 0xBF b) \<or> (byte_in 0xE1 0xEC a \<and> is_cont b)
     \<or> (a = 0xED \<and> byte_in 0x80 0x9F b) \<or> (byte_in 0xEE 0xEF a \<and> is_cont b)"

definition second_of_4 :: "u8 \<Rightarrow> u8 \<Rightarrow> bool" where
  "second_of_4 a b \<longleftrightarrow>
     (a = 0xF0 \<and> byte_in 0x90 0xBF b) \<or> (byte_in 0xF1 0xF3 a \<and> is_cont b)
     \<or> (a = 0xF4 \<and> byte_in 0x80 0x8F b)"

fun is_utf8 :: "bytes \<Rightarrow> bool" where
  "is_utf8 [] \<longleftrightarrow> True"
| "is_utf8 (a # bs) \<longleftrightarrow>
     (if a \<le> 0x7F then is_utf8 bs
      else if byte_in 0xC2 0xDF a then
        (case bs of b # bs' \<Rightarrow> is_cont b \<and> is_utf8 bs' | _ \<Rightarrow> False)
      else if byte_in 0xE0 0xEF a then
        (case bs of b # c # bs' \<Rightarrow> second_of_3 a b \<and> is_cont c \<and> is_utf8 bs' | _ \<Rightarrow> False)
      else if byte_in 0xF0 0xF4 a then
        (case bs of b # c # d # bs' \<Rightarrow>
           second_of_4 a b \<and> is_cont c \<and> is_cont d \<and> is_utf8 bs' | _ \<Rightarrow> False)
      else False)"

section \<open>Readers\<close>

type_synonym ('e, 'a) reader = "bytes \<Rightarrow> nat \<Rightarrow> 'e + 'a \<times> nat"

definition r_return :: "'a \<Rightarrow> ('e, 'a) reader" where
  "r_return x payload cursor = Inr (x, cursor)"

definition r_bind :: "('e, 'a) reader \<Rightarrow> ('a \<Rightarrow> ('e, 'b) reader) \<Rightarrow> ('e, 'b) reader" where
  "r_bind r f payload cursor = try_bind (r payload cursor) (\<lambda>(x, cursor'). f x payload cursor')"

text \<open>\<open>take_x(payload, &mut cursor).ok_or(e)?\<close>, an early return, and a check.\<close>

definition r_take :: "(bytes \<Rightarrow> nat \<Rightarrow> ('a \<times> nat) option) \<Rightarrow> 'e \<Rightarrow> ('e, 'a) reader" where
  "r_take t e payload cursor = ok_or (t payload cursor) e"

definition r_lift :: "'e + 'a \<Rightarrow> ('e, 'a) reader" where
  "r_lift r payload cursor = try_bind r (\<lambda>x. Inr (x, cursor))"

definition r_reject :: "bool \<Rightarrow> 'e \<Rightarrow> ('e, unit) reader" where
  "r_reject b e payload cursor = (if b then Inl e else Inr ((), cursor))"

definition r_at_end :: "('e, bool) reader" where
  "r_at_end payload cursor = Inr (cursor = length payload, cursor)"

definition r_map :: "('a \<Rightarrow> 'b) \<Rightarrow> ('e, 'a) reader \<Rightarrow> ('e, 'b) reader" where
  "r_map f r = r_bind r (\<lambda>x. r_return (f x))"

text \<open>A counted loop pushing what it reads.\<close>

fun r_repeat :: "nat \<Rightarrow> ('e, 'a) reader \<Rightarrow> ('e, 'a list) reader" where
  "r_repeat 0 r = r_return []"
| "r_repeat (Suc n) r = r_bind r (\<lambda>x. r_bind (r_repeat n r) (\<lambda>xs. r_return (x # xs)))"

text \<open>
  \<open>reads r x bs\<close>: wherever the bytes \<open>bs\<close> sit at the cursor, \<open>r\<close> returns \<open>x\<close> and
  moves behind them. \<open>reads_last\<close> is the same when nothing follows them.
\<close>

definition reads :: "('e, 'a) reader \<Rightarrow> 'a \<Rightarrow> bytes \<Rightarrow> bool" where
  "reads r x bs \<longleftrightarrow>
     (\<forall>pre post. r (pre @ bs @ post) (length pre) = Inr (x, length pre + length bs))"

definition reads_last :: "('e, 'a) reader \<Rightarrow> 'a \<Rightarrow> bytes \<Rightarrow> bool" where
  "reads_last r x bs \<longleftrightarrow> (\<forall>pre. r (pre @ bs) (length pre) = Inr (x, length pre + length bs))"

text \<open>
  Two readers with different error types agree up to \<open>f\<close>: they succeed on the
  same payloads, move the cursor alike, and \<open>f\<close> maps the second value to the
  first.
\<close>

definition r_sim :: "('b \<Rightarrow> 'a) \<Rightarrow> ('e, 'a) reader \<Rightarrow> ('f, 'b) reader \<Rightarrow> bool" where
  "r_sim f r r' \<longleftrightarrow> (\<forall>p c. res_ok (r p c) = map_option (\<lambda>(x, c'). (f x, c')) (res_ok (r' p c)))"

text \<open>What holds of every value a reader returns.\<close>

definition r_ensures :: "('a \<Rightarrow> bool) \<Rightarrow> ('e, 'a) reader \<Rightarrow> bool" where
  "r_ensures P r \<longleftrightarrow> (\<forall>payload cursor x cursor'. r payload cursor = Inr (x, cursor') \<longrightarrow> P x)"

section \<open>Laws\<close>

lemma length_le_digits [simp]: "length (le_digits n k) = n"
  by (induction n arbitrary: k) simp_all

lemma length_to_le_bytes [simp]: "length (to_le_bytes (w :: 'a::len word)) = LENGTH('a) div 8"
  by (simp add: to_le_bytes_def)

lemma le_value_le_digits: "le_value (le_digits n k) = k mod 256 ^ n"
proof (induction n arbitrary: k)
  case (Suc n)
  have "uint (word_of_int k :: u8) = k mod 256" by (simp add: uint_word_of_int)
  then show ?case by (simp add: Suc zmod_zmult2_eq)
qed simp

lemma from_to_le_bytes:
  assumes "8 dvd LENGTH('a::len)"
  shows "from_le_bytes (to_le_bytes (w :: 'a word)) = w"
proof -
  have "(256 :: int) ^ (LENGTH('a) div 8) = 2 ^ LENGTH('a)"
    using power_mult [of "2 :: int" 8 "LENGTH('a) div 8"] assms by simp
  then show ?thesis
    by (simp add: from_le_bytes_def to_le_bytes_def le_value_le_digits)
qed

lemma reads_return: "reads (r_return x) x []"
  by (simp add: reads_def r_return_def)

lemma reads_bind: "reads r x bs \<Longrightarrow> reads (f x) y cs \<Longrightarrow> reads (r_bind r f) y (bs @ cs)"
proof (unfold reads_def, intro allI)
  fix pre post
  assume "\<forall>pre post. r (pre @ bs @ post) (length pre) = Inr (x, length pre + length bs)"
    and "\<forall>pre post. f x (pre @ cs @ post) (length pre) = Inr (y, length pre + length cs)"
  from spec [OF spec [OF this(1), of pre], of "cs @ post"]
    and spec [OF spec [OF this(2), of "pre @ bs"], of post]
  show "r_bind r f (pre @ (bs @ cs) @ post) (length pre) = Inr (y, length pre + length (bs @ cs))"
    by (simp add: r_bind_def)
qed

lemma reads_last_bind: "reads r x bs \<Longrightarrow> reads_last (f x) y cs \<Longrightarrow> reads_last (r_bind r f) y (bs @ cs)"
proof (unfold reads_def reads_last_def, intro allI)
  fix pre
  assume "\<forall>pre post. r (pre @ bs @ post) (length pre) = Inr (x, length pre + length bs)"
    and "\<forall>pre. f x (pre @ cs) (length pre) = Inr (y, length pre + length cs)"
  from spec [OF spec [OF this(1), of pre], of cs] and spec [OF this(2), of "pre @ bs"]
  show "r_bind r f (pre @ bs @ cs) (length pre) = Inr (y, length pre + length (bs @ cs))"
    by (simp add: r_bind_def)
qed

lemma reads_imp_last: "reads r x bs \<Longrightarrow> reads_last r x bs"
  unfolding reads_def reads_last_def by (metis append_Nil2)

lemma reads_reject: "\<not> b \<Longrightarrow> reads (r_reject b e) () []"
  by (simp add: reads_def r_reject_def)

lemma reads_lift: "r = Inr x \<Longrightarrow> reads (r_lift r) x []"
  by (simp add: reads_def r_lift_def)

text \<open>Comparing two readers with different error types.\<close>

lemma res_ok_r_bind:
  "res_ok (r_bind r f p c) = Option.bind (res_ok (r p c)) (\<lambda>(x, c'). res_ok (f x p c'))"
  by (cases "r p c") (auto simp: r_bind_def)

lemma res_ok_r_basic:
  "res_ok (r_return x p c) = Some (x, c)"
  "res_ok (r_take t e p c) = t p c"
  "res_ok (r_reject b e p c) = (if b then None else Some ((), c))"
  "res_ok (r_at_end p c) = Some (c = length p, c)"
  "res_ok (r_lift r p c) = Option.bind (res_ok r) (\<lambda>x. Some (x, c))"
  by (simp_all add: r_return_def r_take_def r_reject_def r_at_end_def r_lift_def res_ok_push)

lemma r_sim_bind:
  assumes "r_sim f r r'" "\<And>x. r_sim g (k (f x)) (k' x)"
  shows "r_sim g (r_bind r k) (r_bind r' k')"
  using assms unfolding r_sim_def res_ok_r_bind
  by (auto simp: option.map_comp split: option.splits Option.bind_splits)

lemma r_sim_return: "f y = x \<Longrightarrow> r_sim f (r_return x) (r_return y)"
  by (simp add: r_sim_def res_ok_r_basic)

lemma r_sim_take: "t = t' \<Longrightarrow> r_sim (\<lambda>x. x) (r_take t e) (r_take t' e')"
  by (simp add: r_sim_def res_ok_r_basic option.map_id0)

lemma r_sim_reject: "b = b' \<Longrightarrow> r_sim (\<lambda>x. x) (r_reject b e) (r_reject b' e')"
  by (simp add: r_sim_def res_ok_r_basic)

lemma r_sim_at_end: "r_sim (\<lambda>x. x) r_at_end r_at_end"
  by (simp add: r_sim_def res_ok_r_basic)

lemma r_sim_lift: "res_ok r = map_option f (res_ok r') \<Longrightarrow> r_sim f (r_lift r) (r_lift r')"
  by (cases "res_ok r'") (simp_all add: r_sim_def res_ok_r_basic)

lemma r_sim_if: "b = b' \<Longrightarrow> r_sim f r r' \<Longrightarrow> r_sim f s s' \<Longrightarrow> r_sim f (if b then r else s) (if b' then r' else s')"
  by simp

lemma r_sim_repeat: "r_sim f r r' \<Longrightarrow> n = n' \<Longrightarrow> r_sim (map f) (r_repeat n r) (r_repeat n' r')"
  by (induction n arbitrary: n') (auto intro!: r_sim_return r_sim_bind)

lemma r_sim_map: "r_sim (\<lambda>x. f (g x)) r r' \<Longrightarrow> r_sim f r (r_map g r')"
  by (simp add: r_sim_def r_map_def res_ok_r_bind res_ok_r_basic)
   (auto split: option.splits Option.bind_splits)

text \<open>A check that depends only on what was already read can be made before or after the next field.\<close>

lemma r_reject_later:
  "res_ok (r_bind (r_reject b e) (\<lambda>u. r_bind (r_take t e') k) p c) =
   res_ok (r_bind (r_take t e') (\<lambda>x. r_bind (r_reject b e) (\<lambda>u. k x)) p c)"
  by (auto simp: res_ok_r_bind res_ok_r_basic split: Option.bind_splits)

lemma r_sim_case_prod:
  "(\<And>a b. r_sim g (k a b) (k' a b)) \<Longrightarrow>
   r_sim g (case x of (a, b) \<Rightarrow> k a b) (case x of (a, b) \<Rightarrow> k' a b)"
  by (cases x) simp

lemma r_sim_lift_same: "res_ok r = res_ok r' \<Longrightarrow> r_sim (\<lambda>x. x) (r_lift r) (r_lift r')"
  by (rule r_sim_lift) (simp add: option.map_ident)

lemmas r_sim_binds =
  r_sim_bind [OF r_sim_take] r_sim_bind [OF r_sim_reject] r_sim_bind [OF r_sim_at_end] r_sim_bind [OF r_sim_lift_same]

lemmas r_sim_intros = r_sim_binds r_sim_case_prod r_sim_return r_sim_if

text \<open>Postconditions of readers.\<close>

lemma r_ensures_bind:
  "r_ensures Q r \<Longrightarrow> (\<And>x. Q x \<Longrightarrow> r_ensures P (k x)) \<Longrightarrow> r_ensures P (r_bind r k)"
  unfolding r_ensures_def r_bind_def by (clarsimp simp: result_simps) blast

lemma r_ensures_return: "P x \<Longrightarrow> r_ensures P (r_return x)"
  by (simp add: r_ensures_def r_return_def)

lemma r_ensures_reject: "r_ensures (\<lambda>_. \<not> b) (r_reject b e)"
  by (simp add: r_ensures_def r_reject_def)

lemma r_ensures_lift: "r_ensures (\<lambda>x. r = Inr x) (r_lift r)"
  by (auto simp: r_ensures_def r_lift_def result_simps)

lemma r_ensures_True: "r_ensures (\<lambda>_. True) r"
  by (simp add: r_ensures_def)

lemma r_ensures_if:
  "(b \<Longrightarrow> r_ensures P r) \<Longrightarrow> (\<not> b \<Longrightarrow> r_ensures P s) \<Longrightarrow> r_ensures P (if b then r else s)"
  by simp

lemma r_ensures_case_prod:
  "(\<And>a b. x = (a, b) \<Longrightarrow> r_ensures P (k a b)) \<Longrightarrow> r_ensures P (case x of (a, b) \<Rightarrow> k a b)"
  by (cases x) simp

lemma r_ensures_repeat:
  "r_ensures P r \<Longrightarrow> r_ensures (\<lambda>xs. length xs = n \<and> (\<forall>x \<in> set xs. P x)) (r_repeat n r)"
proof (induction n)
  case (Suc n)
  show ?case
    by (auto intro!: r_ensures_bind [OF Suc.prems] r_ensures_bind [OF Suc.IH [OF Suc.prems]] r_ensures_return)
qed (simp add: r_ensures_return)

lemma reads_last_done: "reads_last (r_return x) x []"
  by (simp add: reads_last_def r_return_def)

text \<open>One step of reading a concatenation, for a reader in the middle and at the end.\<close>

lemma reads_reject_bind: "\<not> b \<Longrightarrow> reads (k ()) y cs \<Longrightarrow> reads (r_bind (r_reject b e) k) y cs"
  using reads_bind [OF reads_reject, of b k y cs] by simp

lemma reads_last_reject_bind:
  "\<not> b \<Longrightarrow> reads_last (k ()) y cs \<Longrightarrow> reads_last (r_bind (r_reject b e) k) y cs"
  using reads_last_bind [OF reads_reject, of b k y cs] by simp

lemma reads_lift_bind: "r = Inr x \<Longrightarrow> reads (k x) y cs \<Longrightarrow> reads (r_bind (r_lift r) k) y cs"
  using reads_bind [OF reads_lift, of r x k y cs] by simp

lemma reads_last_lift_bind:
  "r = Inr x \<Longrightarrow> reads_last (k x) y cs \<Longrightarrow> reads_last (r_bind (r_lift r) k) y cs"
  using reads_last_bind [OF reads_lift, of r x k y cs] by simp

lemma reads_last_case_prod:
  "reads_last (k a b) y bs \<Longrightarrow> reads_last (case (a, b) of (c, d) \<Rightarrow> k c d) y bs"
  by simp

lemma reads_last_end_bind: "reads_last (k True) y [] \<Longrightarrow> reads_last (r_bind r_at_end k) y []"
  by (simp add: reads_last_def r_bind_def r_at_end_def)

lemma reads_last_more_bind: "bs \<noteq> [] \<Longrightarrow> reads_last (k False) y bs \<Longrightarrow> reads_last (r_bind r_at_end k) y bs"
  by (simp add: reads_last_def r_bind_def r_at_end_def)

lemma reads_last_field:
  "reads r x bs \<Longrightarrow> reads_last (k x) y [] \<Longrightarrow> reads_last (r_bind r k) y bs"
  using reads_last_bind [of r x bs k y "[]"] by simp

lemma reads_last_at_last:
  "reads_last r x bs \<Longrightarrow> reads_last (k x) y [] \<Longrightarrow> reads_last (r_bind r k) y bs"
proof (unfold reads_last_def, intro allI)
  fix pre
  assume "\<forall>pre. r (pre @ bs) (length pre) = Inr (x, length pre + length bs)"
    and "\<forall>pre. k x (pre @ []) (length pre) = Inr (y, length pre + length [])"
  from spec [OF this(1), of pre] spec [OF this(2), of "pre @ bs"]
  show "r_bind r k (pre @ bs) (length pre) = Inr (y, length pre + length bs)"
    by (simp add: r_bind_def)
qed

lemma reads_field: "reads r x bs \<Longrightarrow> reads (k x) y [] \<Longrightarrow> reads (r_bind r k) y bs"
  using reads_bind [of r x bs k y "[]"] by simp

end
