(* ===== verification/Payload_Consensus.thy ===== *)
theory Payload_Consensus
  imports Liquidity_Math Byte_Reader
begin

text \<open>
  The payload parser of the consensus code
  (\<open>parse_atomic_payload\<close> and its helpers in
  \<open>src/consensus/src/processes/transaction_validator/transaction_validator_populated.rs\<close>):
  the nine Atomic token operations, their field limits and the two optional
  tails. A payload that does not start with the magic is no token payload
  (\<open>Inr None\<close>); one that does is parsed completely or rejected.
\<close>

section \<open>Constants and types\<close>

definition CAT_MAGIC :: bytes where [simp]: "CAT_MAGIC = [0x43, 0x41, 0x54]"
definition CAT_VERSION :: u8 where [simp]: "CAT_VERSION = 1"
definition CAT_CURRENT_TOKEN_VERSION :: u8 where [simp]: "CAT_CURRENT_TOKEN_VERSION = 1"
definition CAT_CURRENT_LIQUIDITY_CURVE_VERSION :: u8 where
  [simp]: "CAT_CURRENT_LIQUIDITY_CURVE_VERSION = 1"
definition CAT_LIQUIDITY_CURVE_MODE_BASIC :: u8 where [simp]: "CAT_LIQUIDITY_CURVE_MODE_BASIC = 0"
definition CAT_LIQUIDITY_CURVE_MODE_AGGRESSIVE :: u8 where
  [simp]: "CAT_LIQUIDITY_CURVE_MODE_AGGRESSIVE = 1"
definition CAT_LIQUIDITY_CURVE_MODE_INDIVIDUAL :: u8 where
  [simp]: "CAT_LIQUIDITY_CURVE_MODE_INDIVIDUAL = 2"
definition CAT_DEFAULT_LIQUIDITY_CURVE_MODE :: u8 where
  [simp]: "CAT_DEFAULT_LIQUIDITY_CURVE_MODE = CAT_LIQUIDITY_CURVE_MODE_BASIC"
definition CAT_INDIVIDUAL_MIN_VIRTUAL_CPAY_RESERVES_SOMPI :: u64 where
  [simp]: "CAT_INDIVIDUAL_MIN_VIRTUAL_CPAY_RESERVES_SOMPI = 100000000000000"
definition CAT_INDIVIDUAL_MAX_VIRTUAL_CPAY_RESERVES_SOMPI :: u64 where
  [simp]: "CAT_INDIVIDUAL_MAX_VIRTUAL_CPAY_RESERVES_SOMPI = 800000000000000"
definition CAT_INDIVIDUAL_VIRTUAL_CPAY_STEP_SOMPI :: u64 where
  [simp]: "CAT_INDIVIDUAL_VIRTUAL_CPAY_STEP_SOMPI = 10000000000000"
definition CAT_INDIVIDUAL_MIN_VIRTUAL_TOKEN_MULTIPLIER_BPS :: u16 where
  [simp]: "CAT_INDIVIDUAL_MIN_VIRTUAL_TOKEN_MULTIPLIER_BPS = 10100"
definition CAT_INDIVIDUAL_MAX_VIRTUAL_TOKEN_MULTIPLIER_BPS :: u16 where
  [simp]: "CAT_INDIVIDUAL_MAX_VIRTUAL_TOKEN_MULTIPLIER_BPS = 20000"
definition CAT_INDIVIDUAL_VIRTUAL_TOKEN_MULTIPLIER_STEP_BPS :: u16 where
  [simp]: "CAT_INDIVIDUAL_VIRTUAL_TOKEN_MULTIPLIER_STEP_BPS = 100"
definition CAT_MAX_TOKEN_VERSION :: u8 where [simp]: "CAT_MAX_TOKEN_VERSION = 99"
definition CAT_MAX_LIQUIDITY_CURVE_VERSION :: u8 where
  [simp]: "CAT_MAX_LIQUIDITY_CURVE_VERSION = 99"
definition CAT_MAX_NAME_LEN :: nat where [simp]: "CAT_MAX_NAME_LEN = 32"
definition CAT_MAX_SYMBOL_LEN :: nat where [simp]: "CAT_MAX_SYMBOL_LEN = 10"
definition CAT_MAX_METADATA_LEN :: nat where [simp]: "CAT_MAX_METADATA_LEN = 256"
definition CAT_MAX_PLATFORM_TAG_LEN :: nat where [simp]: "CAT_MAX_PLATFORM_TAG_LEN = 50"
definition CAT_MAX_DECIMALS :: u8 where [simp]: "CAT_MAX_DECIMALS = 18"
definition CAT_MAX_LIQUIDITY_RECIPIENTS :: nat where [simp]: "CAT_MAX_LIQUIDITY_RECIPIENTS = 2"
definition CAT_MIN_LIQUIDITY_FEE_BPS :: u16 where [simp]: "CAT_MIN_LIQUIDITY_FEE_BPS = 10"
definition CAT_MAX_LIQUIDITY_FEE_BPS :: u16 where [simp]: "CAT_MAX_LIQUIDITY_FEE_BPS = 1000"
definition CAT_LIQUIDITY_TOKEN_DECIMALS :: u8 where [simp]: "CAT_LIQUIDITY_TOKEN_DECIMALS = 0"
definition CAT_MIN_LIQUIDITY_SUPPLY_RAW :: u128 where
  [simp]: "CAT_MIN_LIQUIDITY_SUPPLY_RAW = 100000"
definition CAT_MAX_LIQUIDITY_SUPPLY_RAW :: u128 where
  [simp]: "CAT_MAX_LIQUIDITY_SUPPLY_RAW = 10000000"
definition CAT_MIN_LIQUIDITY_SEED_RESERVE_SOMPI :: u64 where
  [simp]: "CAT_MIN_LIQUIDITY_SEED_RESERVE_SOMPI = SOMPI_PER_CRYPTIX"

datatype (plugins only: code) supply_mode = Uncapped | Capped

record recipient_address =
  address_version :: u8
  address_payload :: bytes

datatype (plugins only: code) atomic_payload_op =
    CreateAsset (op_token_version: u8) (op_decimals: u8) (op_supply_mode: supply_mode)
      (op_max_supply: u128) (op_mint_authority_owner_id: hash32) (op_name: bytes) (op_symbol: bytes)
      (op_metadata: bytes) (op_platform_tag: bytes)
  | Transfer (op_asset_id: hash32) (op_to_owner_id: hash32) (op_amount: u128)
  | Mint (op_asset_id: hash32) (op_to_owner_id: hash32) (op_amount: u128)
  | Burn (op_asset_id: hash32) (op_amount: u128)
  | CreateAssetWithMint (op_token_version: u8) (op_decimals: u8) (op_supply_mode: supply_mode)
      (op_max_supply: u128) (op_mint_authority_owner_id: hash32) (op_name: bytes) (op_symbol: bytes)
      (op_metadata: bytes) (op_initial_mint_amount: u128) (op_initial_mint_to_owner_id: hash32)
      (op_platform_tag: bytes)
  | CreateLiquidityAsset (op_token_version: u8) (op_curve_version: u8) (op_curve_mode: u8)
      (op_individual_virtual_cpay_reserves_sompi: u64) (op_individual_virtual_token_multiplier_bps: u16)
      (op_decimals: u8) (op_max_supply: u128) (op_name: bytes) (op_symbol: bytes) (op_metadata: bytes)
      (op_seed_reserve_sompi: u64) (op_fee_bps: u16) (op_recipients: "recipient_address list")
      (op_launch_buy_sompi: u64) (op_launch_buy_min_token_out: u128) (op_platform_tag: bytes)
      (op_liquidity_unlock_target_sompi: u64)
  | BuyLiquidityExactIn (op_asset_id: hash32) (op_expected_pool_nonce: u64) (op_cpay_in_sompi: u64)
      (op_min_token_out: u128)
  | SellLiquidityExactIn (op_asset_id: hash32) (op_expected_pool_nonce: u64) (op_token_in: u128)
      (op_min_cpay_out_sompi: u64) (op_cpay_receive_output_index: u16)
  | ClaimLiquidityFees (op_asset_id: hash32) (op_expected_pool_nonce: u64) (op_recipient_index: u8)
      (op_claim_amount_sompi: u64) (op_claim_receive_output_index: u16)

record parsed_atomic_payload =
  auth_input_index :: u16
  payload_nonce :: u64
  payload_op :: atomic_payload_op

section \<open>Reading fields\<close>

definition take_bytes :: "nat \<Rightarrow> bytes \<Rightarrow> nat \<Rightarrow> (bytes \<times> nat) option" where
  "take_bytes len payload cursor =
     (if cursor + len > length payload then None
      else Some (take len (drop cursor payload), cursor + len))"

definition take_u8 :: "bytes \<Rightarrow> nat \<Rightarrow> (u8 \<times> nat) option" where
  "take_u8 payload cursor =
     (if cursor < length payload then Some (payload ! cursor, cursor + 1) else None)"

definition take_u16_le :: "bytes \<Rightarrow> nat \<Rightarrow> (u16 \<times> nat) option" where
  "take_u16_le payload cursor =
     Option.bind (take_bytes 2 payload cursor) (\<lambda>(bs, c). Some (from_le_bytes bs, c))"

definition take_u64_le :: "bytes \<Rightarrow> nat \<Rightarrow> (u64 \<times> nat) option" where
  "take_u64_le payload cursor =
     Option.bind (take_bytes 8 payload cursor) (\<lambda>(bs, c). Some (from_le_bytes bs, c))"

definition take_u128_le :: "bytes \<Rightarrow> nat \<Rightarrow> (u128 \<times> nat) option" where
  "take_u128_le payload cursor =
     Option.bind (take_bytes 16 payload cursor) (\<lambda>(bs, c). Some (from_le_bytes bs, c))"

definition take_32 :: "bytes \<Rightarrow> nat \<Rightarrow> (hash32 \<times> nat) option" where
  "take_32 payload cursor = take_bytes 32 payload cursor"

definition take_vec :: "nat \<Rightarrow> bytes \<Rightarrow> nat \<Rightarrow> (bytes \<times> nat) option" where
  "take_vec len payload cursor = take_bytes len payload cursor"

section \<open>Field validators\<close>

type_synonym 'a parser = "(parse_error, 'a) reader"

definition validate_token_version :: "u8 \<Rightarrow> parse_error + unit" where
  "validate_token_version version =
     (if (1 \<le> version \<and> version \<le> CAT_MAX_TOKEN_VERSION) \<and> version = CAT_CURRENT_TOKEN_VERSION
      then Inr () else Inl UnsupportedTokenVersion)"

definition validate_liquidity_curve_version :: "u8 \<Rightarrow> parse_error + unit" where
  "validate_liquidity_curve_version version =
     (if (1 \<le> version \<and> version \<le> CAT_MAX_LIQUIDITY_CURVE_VERSION)
         \<and> version = CAT_CURRENT_LIQUIDITY_CURVE_VERSION
      then Inr () else Inl UnsupportedCurveVersion)"

definition validate_payload_curve_mode :: "u8 \<Rightarrow> parse_error + unit" where
  "validate_payload_curve_mode mode =
     (if mode = CAT_LIQUIDITY_CURVE_MODE_BASIC \<or> mode = CAT_LIQUIDITY_CURVE_MODE_AGGRESSIVE
         \<or> mode = CAT_LIQUIDITY_CURVE_MODE_INDIVIDUAL
      then Inr () else Inl UnsupportedParsedCurveMode)"

definition validate_payload_individual_params :: "u64 \<Rightarrow> u16 \<Rightarrow> parse_error + unit" where
  "validate_payload_individual_params virtual_cpay multiplier_bps =
     (if \<not> (CAT_INDIVIDUAL_MIN_VIRTUAL_CPAY_RESERVES_SOMPI \<le> virtual_cpay
             \<and> virtual_cpay \<le> CAT_INDIVIDUAL_MAX_VIRTUAL_CPAY_RESERVES_SOMPI)
      then Inl ParsedCurveParameters
      else if virtual_cpay mod CAT_INDIVIDUAL_VIRTUAL_CPAY_STEP_SOMPI \<noteq> 0
      then Inl ParsedCurveParameters
      else if \<not> (CAT_INDIVIDUAL_MIN_VIRTUAL_TOKEN_MULTIPLIER_BPS \<le> multiplier_bps
             \<and> multiplier_bps \<le> CAT_INDIVIDUAL_MAX_VIRTUAL_TOKEN_MULTIPLIER_BPS)
      then Inl ParsedCurveParameters
      else if multiplier_bps mod CAT_INDIVIDUAL_VIRTUAL_TOKEN_MULTIPLIER_STEP_BPS \<noteq> 0
      then Inl ParsedCurveParameters
      else Inr ())"

definition validate_payload_curve_parameters :: "u8 \<Rightarrow> u64 \<Rightarrow> u16 \<Rightarrow> parse_error + unit" where
  "validate_payload_curve_parameters mode virtual_cpay multiplier_bps =
     (if mode = CAT_LIQUIDITY_CURVE_MODE_BASIC \<or> mode = CAT_LIQUIDITY_CURVE_MODE_AGGRESSIVE then
        (if virtual_cpay = 0 \<and> multiplier_bps = 0 then Inr () else Inl ParsedCurveParameters)
      else if mode = CAT_LIQUIDITY_CURVE_MODE_INDIVIDUAL then
        validate_payload_individual_params virtual_cpay multiplier_bps
      else Inl UnsupportedParsedCurveMode)"

section \<open>Tails and recipients\<close>

definition parse_platform_tag :: "bytes parser" where
  "parse_platform_tag =
     r_bind (r_take take_u8 TruncatedField) (\<lambda>tag_len.
     r_bind (r_reject (unat tag_len > CAT_MAX_PLATFORM_TAG_LEN) PlatformTagTooLong) (\<lambda>_.
     r_bind (r_take (take_vec (unat tag_len)) TruncatedField) (\<lambda>tag.
     r_bind (r_reject (\<not> is_utf8 tag) PlatformTagNotUtf8) (\<lambda>_.
     r_return tag))))"

definition parse_optional_platform_tag_tail :: "bytes parser" where
  "parse_optional_platform_tag_tail =
     r_bind r_at_end (\<lambda>done. if done then r_return [] else parse_platform_tag)"

definition parse_curve_tail :: "(u8 \<times> u64 \<times> u16) parser" where
  "parse_curve_tail =
     r_bind r_at_end (\<lambda>done.
     if done then r_return (CAT_DEFAULT_LIQUIDITY_CURVE_MODE, 0, 0)
     else r_bind (r_take take_u8 TruncatedField) (\<lambda>mode.
       r_bind (r_lift (validate_payload_curve_mode mode)) (\<lambda>_.
       if mode = CAT_LIQUIDITY_CURVE_MODE_INDIVIDUAL then
         r_bind (r_take take_u64_le TruncatedField) (\<lambda>fixed_cpay.
         r_bind (r_take take_u16_le TruncatedField) (\<lambda>multiplier.
         r_bind (r_lift (validate_payload_curve_parameters mode fixed_cpay multiplier)) (\<lambda>_.
         r_return (mode, fixed_cpay, multiplier))))
       else
         r_bind (r_lift (validate_payload_curve_parameters mode 0 0)) (\<lambda>_.
         r_return (mode, 0, 0)))))"

definition parse_optional_liquidity_create_tail :: "(bytes \<times> u64 \<times> u8 \<times> u64 \<times> u16) parser" where
  "parse_optional_liquidity_create_tail =
     r_bind r_at_end (\<lambda>done.
     if done then r_return ([], 0, CAT_DEFAULT_LIQUIDITY_CURVE_MODE, 0, 0)
     else r_bind parse_platform_tag (\<lambda>tag.
       r_bind (r_take take_u64_le TruncatedField) (\<lambda>unlock_target.
       r_bind (r_reject (unlock_target > MAX_SOMPI) ParsedUnlockTarget) (\<lambda>_.
       r_bind parse_curve_tail (\<lambda>(mode, fixed_cpay, multiplier).
       r_return (tag, unlock_target, mode, fixed_cpay, multiplier))))))"

definition recipient_payload_len :: "u8 \<Rightarrow> parse_error + nat" where
  "recipient_payload_len version =
     (if version = 0 then Inr 32 else if version = 1 then Inr 33 else if version = 8 then Inr 32
      else Inl UnsupportedAddressVersion)"

definition parse_recipient_address :: "recipient_address parser" where
  "parse_recipient_address =
     r_bind (r_take take_u8 TruncatedField) (\<lambda>version.
     r_bind (r_lift (recipient_payload_len version)) (\<lambda>expected_len.
     r_bind (r_take (take_vec expected_len) TruncatedField) (\<lambda>bs.
     r_return \<lparr>address_version = version, address_payload = bs\<rparr>)))"

definition recipient_order_key :: "recipient_address \<Rightarrow> u8 \<times> bytes" where
  "recipient_order_key r = (address_version r, address_payload r)"

section \<open>Operations\<close>

definition decode_supply_mode :: "u8 \<Rightarrow> parse_error + supply_mode" where
  "decode_supply_mode raw =
     (if raw = 0 then Inr Uncapped else if raw = 1 then Inr Capped else Inl InvalidSupplyMode)"

definition check_max_supply :: "supply_mode \<Rightarrow> u128 \<Rightarrow> parse_error + unit" where
  "check_max_supply mode supply =
     (case mode of
        Capped \<Rightarrow> if supply = 0 then Inl CappedZeroMaxSupply else Inr ()
      | Uncapped \<Rightarrow> if supply \<noteq> 0 then Inl UncappedNonZeroMaxSupply else Inr ())"

type_synonym token_strings = "bytes \<times> bytes \<times> bytes"

text \<open>Lengths, then contents of name, symbol and metadata, then the UTF-8 check.\<close>

definition parse_token_strings :: "token_strings parser" where
  "parse_token_strings =
     r_bind (r_take take_u8 TruncatedField) (\<lambda>name_len.
     r_bind (r_take take_u8 TruncatedField) (\<lambda>symbol_len.
     r_bind (r_take take_u16_le TruncatedField) (\<lambda>metadata_len.
     r_bind (r_reject (unat name_len > CAT_MAX_NAME_LEN \<or> unat symbol_len > CAT_MAX_SYMBOL_LEN
                       \<or> unat metadata_len > CAT_MAX_METADATA_LEN) StringFieldTooLong) (\<lambda>_.
     r_bind (r_take (take_vec (unat name_len)) TruncatedField) (\<lambda>name.
     r_bind (r_take (take_vec (unat symbol_len)) TruncatedField) (\<lambda>symbol.
     r_bind (r_take (take_vec (unat metadata_len)) TruncatedField) (\<lambda>metadata.
     r_bind (r_reject (\<not> is_utf8 name \<or> \<not> is_utf8 symbol) NotUtf8) (\<lambda>_.
     r_return (name, symbol, metadata)))))))))"

type_synonym asset_common =
  "u8 \<times> u8 \<times> supply_mode \<times> u128 \<times> hash32 \<times> bytes \<times> bytes \<times> bytes"

definition parse_create_asset_common :: "asset_common parser" where
  "parse_create_asset_common =
     r_bind (r_take take_u8 TruncatedField) (\<lambda>version.
     r_bind (r_lift (validate_token_version version)) (\<lambda>_.
     r_bind (r_take take_u8 TruncatedField) (\<lambda>decimals.
     r_bind (r_reject (decimals > CAT_MAX_DECIMALS) DecimalsAboveMax) (\<lambda>_.
     r_bind (r_take take_u8 TruncatedField) (\<lambda>raw_supply_mode.
     r_bind (r_lift (decode_supply_mode raw_supply_mode)) (\<lambda>mode.
     r_bind (r_take take_u128_le TruncatedField) (\<lambda>max_supply.
     r_bind (r_take take_32 TruncatedField) (\<lambda>mint_authority.
     r_bind parse_token_strings (\<lambda>(name, symbol, metadata).
     r_bind (r_lift (check_max_supply mode max_supply)) (\<lambda>_.
     r_return (version, decimals, mode, max_supply, mint_authority, name, symbol, metadata)))))))))))"

text \<open>
  The arm of operation 0 repeats the statements of
  \<open>parse_create_asset_common\<close> in place; it is the same reader followed by the
  tag tail.
\<close>

definition parse_create_asset :: "atomic_payload_op parser" where
  "parse_create_asset =
     r_bind parse_create_asset_common
       (\<lambda>(version, decimals, mode, max_supply, mint_authority, name, symbol, metadata).
     r_bind parse_optional_platform_tag_tail (\<lambda>tag.
     r_return (CreateAsset version decimals mode max_supply mint_authority name symbol metadata tag)))"

definition parse_transfer :: "atomic_payload_op parser" where
  "parse_transfer =
     r_bind (r_take take_32 TruncatedField) (\<lambda>asset.
     r_bind (r_take take_32 TruncatedField) (\<lambda>owner.
     r_bind (r_take take_u128_le TruncatedField) (\<lambda>amount.
     r_bind (r_reject (amount = 0) ZeroAmount) (\<lambda>_.
     r_return (Transfer asset owner amount)))))"

definition parse_mint :: "atomic_payload_op parser" where
  "parse_mint =
     r_bind (r_take take_32 TruncatedField) (\<lambda>asset.
     r_bind (r_take take_32 TruncatedField) (\<lambda>owner.
     r_bind (r_take take_u128_le TruncatedField) (\<lambda>amount.
     r_bind (r_reject (amount = 0) ZeroAmount) (\<lambda>_.
     r_return (Mint asset owner amount)))))"

definition parse_burn :: "atomic_payload_op parser" where
  "parse_burn =
     r_bind (r_take take_32 TruncatedField) (\<lambda>asset.
     r_bind (r_take take_u128_le TruncatedField) (\<lambda>amount.
     r_bind (r_reject (amount = 0) ZeroAmount) (\<lambda>_.
     r_return (Burn asset amount))))"

definition zero_owner :: hash32 where
  "zero_owner = replicate 32 0"

definition parse_create_asset_with_mint :: "atomic_payload_op parser" where
  "parse_create_asset_with_mint =
     r_bind parse_create_asset_common
       (\<lambda>(version, decimals, mode, max_supply, mint_authority, name, symbol, metadata).
     r_bind (r_take take_u128_le TruncatedField) (\<lambda>mint_amount.
     r_bind (r_take take_32 TruncatedField) (\<lambda>mint_owner.
     r_bind (r_reject (mint_amount = 0 \<and> mint_owner \<noteq> zero_owner) MintOwnerMustBeZero) (\<lambda>_.
     r_bind (r_reject (mint_amount > 0 \<and> mint_owner = zero_owner) MintOwnerMustBeNonZero) (\<lambda>_.
     r_bind parse_optional_platform_tag_tail (\<lambda>tag.
     r_return (CreateAssetWithMint version decimals mode max_supply mint_authority name symbol
                 metadata mint_amount mint_owner tag)))))))"

definition check_recipients :: "recipient_address list \<Rightarrow> parse_error + unit" where
  "check_recipients rs =
     (if length rs = 2 then
        (if rs ! 0 = rs ! 1 then Inl DuplicateRecipients
         else if recipient_order_key (rs ! 0) > recipient_order_key (rs ! 1) then Inl RecipientsNotSorted
         else Inr ())
      else Inr ())"

definition parse_recipients :: "u16 \<Rightarrow> recipient_address list parser" where
  "parse_recipients fee =
     r_bind (r_take take_u8 TruncatedField) (\<lambda>count.
     r_bind (r_reject (unat count > CAT_MAX_LIQUIDITY_RECIPIENTS) RecipientCountAboveMax) (\<lambda>_.
     r_bind (r_reject (fee = 0 \<and> count \<noteq> 0) RecipientCountMustBeZero) (\<lambda>_.
     r_bind (r_reject (fee > 0 \<and> \<not> (1 \<le> unat count \<and> unat count \<le> CAT_MAX_LIQUIDITY_RECIPIENTS))
               RecipientCountOneOrTwo) (\<lambda>_.
     r_bind (r_repeat (unat count) parse_recipient_address) (\<lambda>rs.
     r_bind (r_lift (check_recipients rs)) (\<lambda>_.
     r_return rs))))))"

definition parse_create_liquidity_asset :: "atomic_payload_op parser" where
  "parse_create_liquidity_asset =
     r_bind (r_take take_u8 TruncatedField) (\<lambda>version.
     r_bind (r_lift (validate_token_version version)) (\<lambda>_.
     r_bind (r_take take_u8 TruncatedField) (\<lambda>curve.
     r_bind (r_lift (validate_liquidity_curve_version curve)) (\<lambda>_.
     r_bind (r_take take_u8 TruncatedField) (\<lambda>decimals.
     r_bind (r_reject (decimals \<noteq> CAT_LIQUIDITY_TOKEN_DECIMALS) LiquidityDecimals) (\<lambda>_.
     r_bind (r_take take_u128_le TruncatedField) (\<lambda>max_supply.
     r_bind (r_reject (\<not> (CAT_MIN_LIQUIDITY_SUPPLY_RAW \<le> max_supply
                           \<and> max_supply \<le> CAT_MAX_LIQUIDITY_SUPPLY_RAW)) LiquidityMaxSupplyRange) (\<lambda>_.
     r_bind parse_token_strings (\<lambda>(name, symbol, metadata).
     r_bind (r_take take_u64_le TruncatedField) (\<lambda>seed.
     r_bind (r_reject (seed \<noteq> CAT_MIN_LIQUIDITY_SEED_RESERVE_SOMPI) SeedReserveMismatch) (\<lambda>_.
     r_bind (r_take take_u16_le TruncatedField) (\<lambda>fee.
     r_bind (r_reject (\<not> (fee = 0 \<or> (CAT_MIN_LIQUIDITY_FEE_BPS \<le> fee \<and> fee \<le> CAT_MAX_LIQUIDITY_FEE_BPS)))
               FeeBpsRange) (\<lambda>_.
     r_bind (parse_recipients fee) (\<lambda>rs.
     r_bind (r_take take_u64_le TruncatedField) (\<lambda>buy_sompi.
     r_bind (r_take take_u128_le TruncatedField) (\<lambda>buy_min.
     r_bind (r_reject (buy_sompi = 0 \<and> buy_min \<noteq> 0) LaunchBuyMinMustBeZero) (\<lambda>_.
     r_bind (r_reject (buy_sompi > 0 \<and> buy_min = 0) LaunchBuyMinMustBePositive) (\<lambda>_.
     r_bind parse_optional_liquidity_create_tail (\<lambda>(tag, unlock_target, mode, fixed_cpay, multiplier).
     r_return (CreateLiquidityAsset version curve mode fixed_cpay multiplier decimals max_supply
                 name symbol metadata seed fee rs buy_sompi buy_min tag unlock_target)
     )))))))))))))))))))"

definition parse_buy :: "atomic_payload_op parser" where
  "parse_buy =
     r_bind (r_take take_32 TruncatedField) (\<lambda>asset.
     r_bind (r_take take_u64_le TruncatedField) (\<lambda>pool_nonce.
     r_bind (r_reject (pool_nonce = 0) ZeroPoolNonce) (\<lambda>_.
     r_bind (r_take take_u64_le TruncatedField) (\<lambda>cpay_in.
     r_bind (r_take take_u128_le TruncatedField) (\<lambda>min_out.
     r_bind (r_reject (cpay_in = 0) ZeroAmount) (\<lambda>_.
     r_bind (r_reject (min_out = 0) ZeroAmount) (\<lambda>_.
     r_return (BuyLiquidityExactIn asset pool_nonce cpay_in min_out))))))))"

definition parse_sell :: "atomic_payload_op parser" where
  "parse_sell =
     r_bind (r_take take_32 TruncatedField) (\<lambda>asset.
     r_bind (r_take take_u64_le TruncatedField) (\<lambda>pool_nonce.
     r_bind (r_reject (pool_nonce = 0) ZeroPoolNonce) (\<lambda>_.
     r_bind (r_take take_u128_le TruncatedField) (\<lambda>tokens.
     r_bind (r_take take_u64_le TruncatedField) (\<lambda>min_out.
     r_bind (r_take take_u16_le TruncatedField) (\<lambda>output_index.
     r_bind (r_reject (tokens = 0) ZeroAmount) (\<lambda>_.
     r_bind (r_reject (min_out = 0) ZeroAmount) (\<lambda>_.
     r_return (SellLiquidityExactIn asset pool_nonce tokens min_out output_index)))))))))"

definition parse_claim :: "atomic_payload_op parser" where
  "parse_claim =
     r_bind (r_take take_32 TruncatedField) (\<lambda>asset.
     r_bind (r_take take_u64_le TruncatedField) (\<lambda>pool_nonce.
     r_bind (r_reject (pool_nonce = 0) ZeroPoolNonce) (\<lambda>_.
     r_bind (r_take take_u8 TruncatedField) (\<lambda>recipient.
     r_bind (r_take take_u64_le TruncatedField) (\<lambda>claim.
     r_bind (r_take take_u16_le TruncatedField) (\<lambda>output_index.
     r_bind (r_reject (claim = 0) ZeroAmount) (\<lambda>_.
     r_return (ClaimLiquidityFees asset pool_nonce recipient claim output_index))))))))"

section \<open>The parser\<close>

definition parse_op_fields :: "u8 \<Rightarrow> atomic_payload_op parser" where
  "parse_op_fields op =
     (if op = 0 then parse_create_asset
      else if op = 1 then parse_transfer
      else if op = 2 then parse_mint
      else if op = 3 then parse_burn
      else if op = 4 then parse_create_asset_with_mint
      else if op = 5 then parse_create_liquidity_asset
      else if op = 6 then parse_buy
      else if op = 7 then parse_sell
      else parse_claim)"

definition parse_atomic_header :: "(u8 \<times> u16 \<times> u64) parser" where
  "parse_atomic_header =
     r_bind (r_take (take_bytes (length CAT_MAGIC)) TruncatedMagic) (\<lambda>magic.
     r_bind (r_reject (magic \<noteq> CAT_MAGIC) InvalidMagic) (\<lambda>_.
     r_bind (r_take take_u8 TruncatedVersion) (\<lambda>version.
     r_bind (r_reject (version \<noteq> CAT_VERSION) UnsupportedVersion) (\<lambda>_.
     r_bind (r_take take_u8 TruncatedOp) (\<lambda>op.
     r_bind (r_reject (op > 8) UnsupportedOp) (\<lambda>_.
     r_bind (r_take take_u8 TruncatedFlags) (\<lambda>flags.
     r_bind (r_reject (flags \<noteq> 0) InvalidFlags) (\<lambda>_.
     r_bind (r_take take_u16_le TruncatedAuthInputIndex) (\<lambda>auth_index.
     r_bind (r_take take_u64_le TruncatedNonce) (\<lambda>nonce.
     r_bind (r_reject (nonce = 0) ZeroNonce) (\<lambda>_.
     r_return (op, auth_index, nonce))))))))))))"

definition parse_atomic_fields :: "parsed_atomic_payload parser" where
  "parse_atomic_fields =
     r_bind parse_atomic_header (\<lambda>(op, auth_index, nonce).
     r_bind (parse_op_fields op) (\<lambda>op.
     r_bind r_at_end (\<lambda>done.
     r_bind (r_reject (\<not> done) TrailingBytes) (\<lambda>_.
     r_return \<lparr>auth_input_index = auth_index, payload_nonce = nonce, payload_op = op\<rparr>))))"

definition parse_atomic_payload :: "bytes \<Rightarrow> parse_error + parsed_atomic_payload option" where
  "parse_atomic_payload payload =
     (if length payload < length CAT_MAGIC \<or> take (length CAT_MAGIC) payload \<noteq> CAT_MAGIC
      then Inr None
      else try_bind (parse_atomic_fields payload 0) (\<lambda>(parsed, _). Inr (Some parsed)))"

section \<open>Well-formed operations\<close>

definition wf_tag :: "bytes \<Rightarrow> bool" where
  "wf_tag tag \<longleftrightarrow> length tag \<le> 50 \<and> is_utf8 tag"

definition wf_strings :: "bytes \<Rightarrow> bytes \<Rightarrow> bytes \<Rightarrow> bool" where
  "wf_strings name symbol metadata \<longleftrightarrow>
     length name \<le> 32 \<and> length symbol \<le> 10 \<and> length metadata \<le> 256 \<and> is_utf8 name \<and> is_utf8 symbol"

definition wf_recipient :: "recipient_address \<Rightarrow> bool" where
  "wf_recipient r \<longleftrightarrow>
     (address_version r, length (address_payload r)) \<in> {(0, 32), (1, 33), (8, 32)}"

definition wf_recipients :: "u16 \<Rightarrow> recipient_address list \<Rightarrow> bool" where
  "wf_recipients fee rs \<longleftrightarrow>
     (\<forall>r \<in> set rs. wf_recipient r) \<and> sorted (map recipient_order_key rs)
     \<and> distinct rs \<and> length rs \<le> 2 \<and> (fee = 0 \<longleftrightarrow> rs = [])"

definition wf_asset :: "u8 \<Rightarrow> u8 \<Rightarrow> supply_mode \<Rightarrow> u128 \<Rightarrow> hash32 \<Rightarrow> bytes \<Rightarrow> bytes \<Rightarrow> bytes \<Rightarrow> bool" where
  "wf_asset version dec mode supply authority name symbol metadata \<longleftrightarrow>
     version = 1 \<and> dec \<le> 18 \<and> (mode = Capped \<longleftrightarrow> supply \<noteq> 0) \<and> length authority = 32
     \<and> wf_strings name symbol metadata"

fun wf_op :: "atomic_payload_op \<Rightarrow> bool" where
  "wf_op (CreateAsset version dec mode supply authority name symbol metadata tag) \<longleftrightarrow>
     wf_asset version dec mode supply authority name symbol metadata \<and> wf_tag tag"
| "wf_op (CreateAssetWithMint version dec mode supply authority name symbol metadata mint owner tag) \<longleftrightarrow>
     wf_asset version dec mode supply authority name symbol metadata \<and> wf_tag tag
     \<and> length owner = 32 \<and> (mint = 0 \<longleftrightarrow> owner = zero_owner)"
| "wf_op (CreateLiquidityAsset version curve mode cpay multiplier dec supply name symbol metadata
     seed fee rs buy buy_min tag unlock) \<longleftrightarrow>
     version = 1 \<and> curve = 1 \<and> validate_payload_curve_parameters mode cpay multiplier = Inr ()
     \<and> dec = 0 \<and> 100000 \<le> supply \<and> supply \<le> 10000000 \<and> wf_strings name symbol metadata
     \<and> seed = SOMPI_PER_CRYPTIX \<and> (fee = 0 \<or> 10 \<le> fee \<and> fee \<le> 1000) \<and> wf_recipients fee rs
     \<and> (buy = 0 \<longleftrightarrow> buy_min = 0) \<and> wf_tag tag \<and> unlock \<le> MAX_SOMPI"
| "wf_op (Transfer asset owner n) \<longleftrightarrow> length asset = 32 \<and> length owner = 32 \<and> 0 < n"
| "wf_op (Mint asset owner n) \<longleftrightarrow> length asset = 32 \<and> length owner = 32 \<and> 0 < n"
| "wf_op (Burn asset n) \<longleftrightarrow> length asset = 32 \<and> 0 < n"
| "wf_op (BuyLiquidityExactIn asset nonce cpay min_out) \<longleftrightarrow>
     length asset = 32 \<and> 0 < nonce \<and> 0 < cpay \<and> 0 < min_out"
| "wf_op (SellLiquidityExactIn asset nonce tokens min_out i) \<longleftrightarrow>
     length asset = 32 \<and> 0 < nonce \<and> 0 < tokens \<and> 0 < min_out"
| "wf_op (ClaimLiquidityFees asset nonce r claim i) \<longleftrightarrow>
     length asset = 32 \<and> 0 < nonce \<and> 0 < claim"

text \<open>Two encoded payloads used as examples.\<close>

definition burn_payload_example :: bytes where
  "burn_payload_example =
     [0x43, 0x41, 0x54, 1, 3, 0, 2, 0, 5, 0, 0, 0, 0, 0, 0, 0] @ replicate 32 7 @ [9] @ replicate 15 0"

definition liquidity_payload_example :: bytes where
  "liquidity_payload_example =
     [0x43, 0x41, 0x54, 1, 5, 0, 0, 0, 1, 0, 0, 0, 0, 0, 0, 0, 1, 1, 0]
     @ [0x40, 0x42, 0x0F] @ replicate 13 0 @ [1, 1, 0, 0, 0x41, 0x42]
     @ [0x00, 0xE1, 0xF5, 0x05, 0, 0, 0, 0] @ [0, 0, 0] @ replicate 24 0"

section \<open>Accepted payloads are well formed\<close>

lemma r_ensures_take_vec: "r_ensures (\<lambda>bs. length bs = n) (r_take (take_vec n) e)"
  by (auto simp: r_ensures_def r_take_def take_vec_def take_bytes_def result_simps split: if_splits)

lemma r_ensures_take_32: "r_ensures (\<lambda>bs. length bs = 32) (r_take take_32 e)"
  by (auto simp: r_ensures_def r_take_def take_32_def take_bytes_def result_simps split: if_splits)

lemmas r_ensures_intros =
  r_ensures_bind [OF r_ensures_take_vec] r_ensures_bind [OF r_ensures_take_32]
  r_ensures_bind [OF r_ensures_reject] r_ensures_bind [OF r_ensures_lift]
  r_ensures_bind [OF r_ensures_True [of "r_take t e" for t e]] r_ensures_bind [OF r_ensures_True [of r_at_end]]
  r_ensures_if r_ensures_case_prod r_ensures_return

lemma ensures_platform_tag: "r_ensures wf_tag parse_platform_tag"
  unfolding parse_platform_tag_def
  by (intro r_ensures_intros) (simp add: wf_tag_def)

lemma ensures_platform_tail: "r_ensures wf_tag parse_optional_platform_tag_tail"
  unfolding parse_optional_platform_tag_tail_def
  by (intro r_ensures_intros ensures_platform_tag) (simp add: wf_tag_def)

lemma ensures_curve_tail:
  "r_ensures (\<lambda>(mode, cpay, multiplier). validate_payload_curve_parameters mode cpay multiplier = Inr ())
     parse_curve_tail"
  unfolding parse_curve_tail_def
  by (intro r_ensures_intros) (simp_all add: validate_payload_curve_parameters_def)

lemma ensures_liquidity_tail:
  "r_ensures (\<lambda>(tag, unlock, mode, cpay, multiplier).
     wf_tag tag \<and> unlock \<le> MAX_SOMPI \<and> validate_payload_curve_parameters mode cpay multiplier = Inr ())
     parse_optional_liquidity_create_tail"
  unfolding parse_optional_liquidity_create_tail_def
  by (intro r_ensures_intros r_ensures_bind [OF ensures_platform_tag] r_ensures_bind [OF ensures_curve_tail])
   (simp_all add: wf_tag_def validate_payload_curve_parameters_def not_less)

lemma ensures_token_strings:
  "r_ensures (\<lambda>(name, symbol, metadata). wf_strings name symbol metadata) parse_token_strings"
  unfolding parse_token_strings_def
  by (intro r_ensures_intros) (simp add: wf_strings_def)

lemma ensures_common:
  "r_ensures (\<lambda>(v, d, m, s, a, n, y, z). wf_asset v d m s a n y z) parse_create_asset_common"
  unfolding parse_create_asset_common_def
  by (intro r_ensures_intros r_ensures_bind [OF ensures_token_strings])
   (auto simp: wf_asset_def validate_token_version_def check_max_supply_def not_less
      split: if_splits supply_mode.splits)

lemma ensures_recipient: "r_ensures wf_recipient parse_recipient_address"
  unfolding parse_recipient_address_def
  by (intro r_ensures_intros) (auto simp: wf_recipient_def recipient_payload_len_def split: if_splits)

lemma ensures_recipients: "r_ensures (wf_recipients fee) (parse_recipients fee)"
  unfolding parse_recipients_def
proof (intro r_ensures_intros r_ensures_bind [OF r_ensures_repeat [OF ensures_recipient]], goal_cases)
  case (1 count _ _ _ rs _)
  then have n: "length rs = unat count" "\<forall>r \<in> set rs. wf_recipient r" "unat count \<le> 2"
    "fee = 0 \<longrightarrow> count = 0" "fee > 0 \<longrightarrow> unat count \<ge> 1" by (auto simp: not_less)
  moreover have "fee = 0 \<longleftrightarrow> rs = []"
    using n by (auto simp: word_gt_0)
  moreover have "sorted (map recipient_order_key rs) \<and> distinct rs"
  proof (cases "length rs = 2")
    case True
    then obtain a b where rs: "rs = [a, b]" by (auto simp: length_Suc_conv numeral_2_eq_2)
    then show ?thesis using 1 by (auto simp: check_recipients_def not_less split: if_splits)
  next
    case False
    with n(1,3) have "rs = [] \<or> (\<exists>a. rs = [a])" by (cases rs; cases "tl rs") auto
    then show ?thesis by auto
  qed
  ultimately show ?case by (simp add: wf_recipients_def)
qed

lemma ensures_op_fields: "op \<le> 8 \<Longrightarrow> r_ensures wf_op (parse_op_fields op)"
  unfolding parse_op_fields_def parse_create_asset_def parse_transfer_def parse_mint_def parse_burn_def
    parse_create_asset_with_mint_def parse_create_liquidity_asset_def parse_buy_def parse_sell_def parse_claim_def
  apply (intro r_ensures_intros r_ensures_bind [OF ensures_platform_tail] r_ensures_bind [OF ensures_common]
    r_ensures_bind [OF ensures_token_strings]  r_ensures_bind [OF ensures_recipients] r_ensures_bind [OF ensures_liquidity_tail])
  apply (simp_all add: word_neq_0_conv not_less)
  apply (auto simp: word_neq_0_conv validate_token_version_def validate_liquidity_curve_version_def not_less split: if_splits)
  done

lemma ensures_header: "r_ensures (\<lambda>(op, auth, nonce). op \<le> 8 \<and> 0 < nonce) parse_atomic_header"
  unfolding parse_atomic_header_def
  by (intro r_ensures_intros r_ensures_bind [OF r_ensures_True [of "r_take t e" for t e]]) (simp add: not_less word_gt_0)

lemma ensures_fields: "r_ensures (\<lambda>p. wf_op (payload_op p) \<and> 0 < payload_nonce p) parse_atomic_fields"
  unfolding parse_atomic_fields_def
  by (intro r_ensures_intros r_ensures_bind [OF ensures_header])
    (auto intro!: r_ensures_bind [OF ensures_op_fields] r_ensures_intros)

lemma parse_atomic_payload_Some:
  "parse_atomic_payload payload = Inr (Some p) \<Longrightarrow> wf_op (payload_op p) \<and> 0 < payload_nonce p"
  using ensures_fields
  by (auto simp: parse_atomic_payload_def r_ensures_def result_simps split: if_splits)

lemma payload_curve_parameters_ok:
  "validate_payload_curve_parameters mode cpay multiplier = Inr () \<longleftrightarrow>
   validate_liquidity_curve_parameters mode cpay multiplier = Inr ()"
  by (simp add: validate_payload_curve_parameters_def validate_liquidity_curve_parameters_def
      validate_payload_individual_params_def validate_individual_liquidity_curve_params_def)

lemma curve_token_reserves_ok:
  assumes "100000 \<le> supply" "supply \<le> 10000000"
    and "validate_liquidity_curve_parameters mode cpay multiplier = Inr ()"
  shows "\<exists>y. initial_virtual_token_reserves_for_curve supply mode multiplier = Inr y"
proof -
  have mul: "\<exists>v. checked_mul supply k = Some v" if "unat k < 2 ^ 64" for k :: u128
  proof -
    have "unat supply * unat k < 2 ^ 64 * 2 ^ 64"
      using assms(2) that by (intro mult_strict_mono) (simp_all add: word_le_nat_alt)
    then show ?thesis by (simp add: checked_nat_defs)
  qed
  have "unat multiplier < 2 ^ 64" using unat_bound [of multiplier] by simp
  then show ?thesis
    using assms mul [of 6] mul [of 21] mul [of "ucast multiplier"]
    by (auto simp: initial_virtual_token_reserves_for_curve_def initial_virtual_token_reserves_for_mode_def
        validate_liquidity_curve_parameters_def validate_individual_liquidity_curve_params_def checked_div_def
        split: if_splits)
qed

lemma curve_cpay_reserves_ok:
  assumes "validate_liquidity_curve_parameters mode cpay multiplier = Inr ()"
  shows "\<exists>x. initial_virtual_cpay_reserves_sompi_for_curve mode cpay = Inr x"
  using assms
  by (auto simp: initial_virtual_cpay_reserves_sompi_for_curve_def initial_virtual_cpay_reserves_sompi_for_mode_def
      validate_liquidity_curve_parameters_def validate_individual_liquidity_curve_params_def split: if_splits)

section \<open>Properties\<close>

text \<open>C27. An accepted payload is well formed: every field limit of the format
  holds of the operation returned (versions, decimals, lengths, UTF-8, supply
  mode against maximum supply, fee range, recipients of the right length, sorted
  and distinct, launch buy fields, unlock target, positive amounts and nonces).\<close>

theorem parse_atomic_payload_wf:
  assumes "parse_atomic_payload payload = Inr (Some p)"
  shows "wf_op (payload_op p) \<and> 0 < payload_nonce p"
  using assms by (rule parse_atomic_payload_Some)

theorem parse_atomic_payload_wf_witness:
  "parse_atomic_payload burn_payload_example
     = Inr (Some \<lparr>auth_input_index = 2, payload_nonce = 5, payload_op = Burn (replicate 32 7) 9\<rparr>)
   \<and> wf_op (Burn (replicate 32 7) 9)"
proof -
  have "parse_atomic_payload burn_payload_example
     = Inr (Some \<lparr>auth_input_index = 2, payload_nonce = 5, payload_op = Burn (replicate 32 7) 9\<rparr>)"
    by code_simp
  from this parse_atomic_payload_wf [OF this] show ?thesis by simp
qed

text \<open>C28. What the parser lets through, the creation of a pool accepts: an
  accepted liquidity asset payload passes the creation, curve and unlock-target
  checks of the state transition, and both initial virtual reserves exist.\<close>

theorem parsed_liquidity_asset_is_creatable:
  assumes "parse_atomic_payload payload = Inr (Some p)"
    and "payload_op p = CreateLiquidityAsset version curve mode cpay multiplier dec supply name symbol
      metadata seed fee rs buy buy_min tag unlock"
  shows "validate_liquidity_creation_parameters dec supply seed = Inr ()
    \<and> validate_liquidity_curve_parameters mode cpay multiplier = Inr ()
    \<and> validate_liquidity_unlock_target unlock = Inr ()
    \<and> (\<exists>x. initial_virtual_cpay_reserves_sompi_for_curve mode cpay = Inr x)
    \<and> (\<exists>y. initial_virtual_token_reserves_for_curve supply mode multiplier = Inr y)"
proof -
  from parse_atomic_payload_Some [OF assms(1)] assms(2)
  have wf: "wf_op (CreateLiquidityAsset version curve mode cpay multiplier dec supply name symbol
      metadata seed fee rs buy buy_min tag unlock)" by simp
  then have curve: "validate_liquidity_curve_parameters mode cpay multiplier = Inr ()"
    by (simp add: payload_curve_parameters_ok)
  moreover have "validate_liquidity_creation_parameters dec supply seed = Inr ()"
    "validate_liquidity_unlock_target unlock = Inr ()"
    using wf by (auto simp: validate_liquidity_creation_parameters_def validate_liquidity_unlock_target_def)
  moreover have "\<exists>y. initial_virtual_token_reserves_for_curve supply mode multiplier = Inr y"
    using wf curve by (intro curve_token_reserves_ok) auto
  ultimately show ?thesis using curve_cpay_reserves_ok by blast
qed

theorem parsed_liquidity_asset_is_creatable_witness:
  "validate_liquidity_creation_parameters 0 1000000 100000000 = Inr ()
   \<and> (\<exists>y. initial_virtual_token_reserves_for_curve 1000000 0 0 = Inr y)"
proof -
  have parsed: "parse_atomic_payload liquidity_payload_example
     = Inr (Some \<lparr>auth_input_index = 0, payload_nonce = 1,
         payload_op = CreateLiquidityAsset 1 1 0 0 0 0 1000000 [0x41] [0x42] [] 100000000 0 [] 0 0 [] 0\<rparr>)"
    by code_simp
  show ?thesis
    using parsed_liquidity_asset_is_creatable [OF parsed parsed_atomic_payload.select_convs(3)] by blast
qed

end
