(* ===== verification/Payload_Index.thy ===== *)
theory Payload_Index
  imports Liquidity_Index Payload_Consensus
begin

text \<open>
  The payload parser of the Atomic index
  (\<open>src/indexes/atomicindex/src/payload.rs\<close>), with its own operation
  structures, error codes and order of checks, and the proof that it accepts
  exactly the payloads the consensus parser accepts and reads the same
  operation from them. Names that also occur in the consensus parser carry the
  suffix \<open>_idx\<close>; the fields of each structure carry a two-letter prefix.
\<close>

section \<open>Constants and types\<close>

definition CRYPTIX_ATOMIC_TOKEN_MAGIC :: bytes where
  [simp]: "CRYPTIX_ATOMIC_TOKEN_MAGIC = [0x43, 0x41, 0x54]"
definition CRYPTIX_ATOMIC_TOKEN_VERSION :: u8 where [simp]: "CRYPTIX_ATOMIC_TOKEN_VERSION = 1"
definition CURRENT_TOKEN_VERSION :: u8 where [simp]: "CURRENT_TOKEN_VERSION = 1"
definition CURRENT_LIQUIDITY_CURVE_VERSION :: u8 where [simp]: "CURRENT_LIQUIDITY_CURVE_VERSION = 1"
definition MAX_TOKEN_VERSION :: u8 where [simp]: "MAX_TOKEN_VERSION = 99"
definition MAX_LIQUIDITY_CURVE_VERSION :: u8 where [simp]: "MAX_LIQUIDITY_CURVE_VERSION = 99"
definition MAX_NAME_LEN :: nat where [simp]: "MAX_NAME_LEN = 32"
definition MAX_SYMBOL_LEN :: nat where [simp]: "MAX_SYMBOL_LEN = 10"
definition MAX_METADATA_LEN :: nat where [simp]: "MAX_METADATA_LEN = 256"
definition MAX_PLATFORM_TAG_LEN :: nat where [simp]: "MAX_PLATFORM_TAG_LEN = 50"
definition MAX_DECIMALS :: u8 where [simp]: "MAX_DECIMALS = 18"
definition MAX_LIQUIDITY_RECIPIENTS :: nat where [simp]: "MAX_LIQUIDITY_RECIPIENTS = 2"
definition MIN_LIQUIDITY_FEE_BPS :: u16 where [simp]: "MIN_LIQUIDITY_FEE_BPS = 10"
definition MAX_LIQUIDITY_FEE_BPS :: u16 where [simp]: "MAX_LIQUIDITY_FEE_BPS = 1000"

datatype (plugins only: code) token_op_code =
    OpCreateAsset | OpTransfer | OpMint | OpBurn | OpCreateAssetWithMint
  | OpCreateLiquidityAsset | OpBuyLiquidityExactIn | OpSellLiquidityExactIn
  | OpClaimLiquidityFees

datatype (plugins only: code) supply_mode_idx = UncappedIdx | CappedIdx

datatype (plugins only: code) noop_reason =
    NoopNone | NoopBadMagic | NoopBadVersion | NoopBadOp | NoopBadFlags | NoopBadLength
   | NoopBadUtf8 | NoopBadAuthInput | NoopBadNonce | NoopAssetNotFound | NoopAssetAlreadyExists
   | NoopUnauthorizedMint | NoopInvalidAmount | NoopInsufficientBalance | NoopBalanceOverflow
   | NoopSupplyOverflow | NoopSupplyUnderflow | NoopSupplyCapExceeded | NoopBadSupplyMode
   | NoopBadDecimals | NoopBadMaxSupply | NoopAlreadyProcessed
   | NoopInternalMalformedAcceptance | NoopBadLiquidityFeeBps | NoopBadLiquidityRecipientCount
   | NoopRecipientEncodingInvalid | NoopRecipientDuplicate | NoopRecipientNotCanonical
   | NoopBadLaunchBuyFields | NoopMinOutViolation | NoopZeroOutput
   | NoopLegacyOpForLiquidityAsset | NoopNonceStale | NoopVaultInputCount
   | NoopVaultOutputCount | NoopVaultOutpointMismatch | NoopPayoutScriptClassInvalid
   | NoopHistoricalStateUnavailable | NoopBadPlatformTag | NoopBadLiquidityUnlockTarget
   | NoopLiquiditySellLocked | NoopBadTokenVersion | NoopBadLiquidityCurveVersion
   | NoopBadLiquidityCurveMode

record create_asset_op =
  ca_token_version :: u8
  ca_decimals :: u8
  ca_supply_mode :: supply_mode_idx
  ca_max_supply :: u128
  ca_mint_authority_owner_id :: hash32
  ca_name :: bytes
  ca_symbol :: bytes
  ca_metadata :: bytes
  ca_platform_tag :: bytes

record create_asset_with_mint_op =
  cm_token_version :: u8
  cm_decimals :: u8
  cm_supply_mode :: supply_mode_idx
  cm_max_supply :: u128
  cm_mint_authority_owner_id :: hash32
  cm_name :: bytes
  cm_symbol :: bytes
  cm_metadata :: bytes
  cm_initial_mint_amount :: u128
  cm_initial_mint_to_owner_id :: hash32
  cm_platform_tag :: bytes

record transfer_op =
  tr_asset_id :: hash32
  tr_to_owner_id :: hash32
  tr_amount :: u128

record mint_op =
  mi_asset_id :: hash32
  mi_to_owner_id :: hash32
  mi_amount :: u128

record burn_op =
  bu_asset_id :: hash32
  bu_amount :: u128

record recipient_address_idx =
  idx_address_version :: u8
  idx_address_payload :: bytes

record create_liquidity_asset_op =
  cl_token_version :: u8
  cl_curve_version :: u8
  cl_curve_mode :: u8
  cl_virtual_cpay :: u64
  cl_virtual_token_multiplier_bps :: u16
  cl_decimals :: u8
  cl_max_supply :: u128
  cl_name :: bytes
  cl_symbol :: bytes
  cl_metadata :: bytes
  cl_seed_reserve_sompi :: u64
  cl_fee_bps :: u16
  cl_recipients :: "recipient_address_idx list"
  cl_launch_buy_sompi :: u64
  cl_launch_buy_min_token_out :: u128
  cl_platform_tag :: bytes
  cl_unlock_target_sompi :: u64

record buy_liquidity_op =
  by_asset_id :: hash32
  by_expected_pool_nonce :: u64
  by_cpay_in_sompi :: u64
  by_min_token_out :: u128

record sell_liquidity_op =
  se_asset_id :: hash32
  se_expected_pool_nonce :: u64
  se_token_in :: u128
  se_min_cpay_out_sompi :: u64
  se_cpay_receive_output_index :: u16

record claim_liquidity_op =
  cf_asset_id :: hash32
  cf_expected_pool_nonce :: u64
  cf_recipient_index :: u8
  cf_claim_amount_sompi :: u64
  cf_claim_receive_output_index :: u16

datatype (plugins only: code) token_op =
    CreateAssetOp create_asset_op | TransferOp transfer_op | MintOp mint_op | BurnOp burn_op
  | CreateAssetWithMintOp create_asset_with_mint_op
  | CreateLiquidityAssetOp create_liquidity_asset_op
  | BuyLiquidityOp buy_liquidity_op | SellLiquidityOp sell_liquidity_op
  | ClaimLiquidityOp claim_liquidity_op

record token_op_header =
  header_op :: token_op_code
  header_auth_input_index :: u16
  header_nonce :: u64

record parsed_token_payload =
  token_header :: token_op_header
  token_op_of :: token_op

section \<open>Reading fields\<close>

definition take_bytes_idx :: "nat \<Rightarrow> bytes \<Rightarrow> nat \<Rightarrow> (bytes \<times> nat) option" where
  "take_bytes_idx len payload cursor =
     (if cursor + len > length payload then None
      else Some (take len (drop cursor payload), cursor + len))"

definition take_vec_idx :: "nat \<Rightarrow> bytes \<Rightarrow> nat \<Rightarrow> (bytes \<times> nat) option" where
  "take_vec_idx len payload cursor = take_bytes_idx len payload cursor"

definition take_u8_idx :: "bytes \<Rightarrow> nat \<Rightarrow> (u8 \<times> nat) option" where
  "take_u8_idx payload cursor =
     (if cursor + 1 > length payload then None else Some (payload ! cursor, cursor + 1))"

definition take_u16_le_idx :: "bytes \<Rightarrow> nat \<Rightarrow> (u16 \<times> nat) option" where
  "take_u16_le_idx payload cursor =
     (if cursor + 2 > length payload then None
      else Some (from_le_bytes (take 2 (drop cursor payload)), cursor + 2))"

definition take_u64_le_idx :: "bytes \<Rightarrow> nat \<Rightarrow> (u64 \<times> nat) option" where
  "take_u64_le_idx payload cursor =
     (if cursor + 8 > length payload then None
      else Some (from_le_bytes (take 8 (drop cursor payload)), cursor + 8))"

definition take_u128_le_idx :: "bytes \<Rightarrow> nat \<Rightarrow> (u128 \<times> nat) option" where
  "take_u128_le_idx payload cursor =
     (if cursor + 16 > length payload then None
      else Some (from_le_bytes (take 16 (drop cursor payload)), cursor + 16))"

definition take_32_idx :: "bytes \<Rightarrow> nat \<Rightarrow> (hash32 \<times> nat) option" where
  "take_32_idx payload cursor =
     (if cursor + 32 > length payload then None
      else Some (take 32 (drop cursor payload), cursor + 32))"

section \<open>Validators, tails and recipients\<close>

type_synonym 'a parser_idx = "(noop_reason, 'a) reader"

definition validate_token_version_idx :: "u8 \<Rightarrow> noop_reason + unit" where
  "validate_token_version_idx version =
     (if (1 \<le> version \<and> version \<le> MAX_TOKEN_VERSION) \<and> version = CURRENT_TOKEN_VERSION
      then Inr () else Inl NoopBadTokenVersion)"

definition validate_liquidity_curve_version_idx :: "u8 \<Rightarrow> noop_reason + unit" where
  "validate_liquidity_curve_version_idx version =
     (if (1 \<le> version \<and> version \<le> MAX_LIQUIDITY_CURVE_VERSION)
         \<and> version = CURRENT_LIQUIDITY_CURVE_VERSION
      then Inr () else Inl NoopBadLiquidityCurveVersion)"

definition validate_payload_curve_mode_idx :: "u8 \<Rightarrow> noop_reason + unit" where
  "validate_payload_curve_mode_idx mode =
     map_err (\<lambda>_. NoopBadLiquidityCurveMode) (validate_liquidity_curve_mode_idx mode)"

definition validate_liquidity_unlock_target_idx :: "u64 \<Rightarrow> noop_reason + unit" where
  "validate_liquidity_unlock_target_idx value =
     (if value = 0 \<or> value \<le> MAX_SOMPI then Inr () else Inl NoopBadLiquidityUnlockTarget)"

definition parse_platform_tag_idx :: "bytes parser_idx" where
  "parse_platform_tag_idx =
     r_bind (r_take take_u8_idx NoopBadLength) (\<lambda>tag_len.
     r_bind (r_reject (unat tag_len > MAX_PLATFORM_TAG_LEN) NoopBadPlatformTag) (\<lambda>_.
     r_bind (r_take (take_vec_idx (unat tag_len)) NoopBadLength) (\<lambda>tag.
     r_bind (r_reject (\<not> is_utf8 tag) NoopBadPlatformTag) (\<lambda>_.
     r_return tag))))"

definition parse_optional_platform_tag_tail_idx :: "bytes parser_idx" where
  "parse_optional_platform_tag_tail_idx =
     r_bind r_at_end (\<lambda>done. if done then r_return [] else parse_platform_tag_idx)"

definition parse_curve_tail_idx :: "(u8 \<times> u64 \<times> u16) parser_idx" where
  "parse_curve_tail_idx =
     r_bind r_at_end (\<lambda>done.
     if done then r_return (LIQUIDITY_CURVE_MODE_BASIC_IDX, 0, 0)
     else r_bind (r_take take_u8_idx NoopBadLength) (\<lambda>mode.
       r_bind (r_lift (validate_payload_curve_mode_idx mode)) (\<lambda>_.
       if mode = LIQUIDITY_CURVE_MODE_INDIVIDUAL_IDX then
         r_bind (r_take take_u64_le_idx NoopBadLength) (\<lambda>fixed_cpay.
         r_bind (r_take take_u16_le_idx NoopBadLength) (\<lambda>multiplier_bps.
         r_bind (r_lift (map_err (\<lambda>_. NoopBadLiquidityCurveMode)
                   (validate_liquidity_curve_parameters_idx mode fixed_cpay multiplier_bps))) (\<lambda>_.
         r_return (mode, fixed_cpay, multiplier_bps))))
       else
         r_bind (r_lift (map_err (\<lambda>_. NoopBadLiquidityCurveMode)
                   (validate_liquidity_curve_parameters_idx mode 0 0))) (\<lambda>_.
         r_return (mode, 0, 0)))))"

definition parse_optional_liquidity_create_tail_idx ::
    "(bytes \<times> u64 \<times> u8 \<times> u64 \<times> u16) parser_idx" where
  "parse_optional_liquidity_create_tail_idx =
     r_bind r_at_end (\<lambda>done.
     if done then r_return ([], 0, LIQUIDITY_CURVE_MODE_BASIC_IDX, 0, 0)
     else r_bind parse_platform_tag_idx (\<lambda>tag.
       r_bind (r_take take_u64_le_idx NoopBadLength) (\<lambda>unlock_target.
       r_bind (r_lift (validate_liquidity_unlock_target_idx unlock_target)) (\<lambda>_.
       r_bind parse_curve_tail_idx (\<lambda>(mode, fixed_cpay, multiplier).
       r_return (tag, unlock_target, mode, fixed_cpay, multiplier))))))"

definition recipient_payload_len_idx :: "u8 \<Rightarrow> noop_reason + nat" where
  "recipient_payload_len_idx version =
     (if version = 0 then Inr 32 else if version = 1 then Inr 33 else if version = 8 then Inr 32
      else Inl NoopRecipientEncodingInvalid)"

definition parse_recipient_address_idx :: "recipient_address_idx parser_idx" where
  "parse_recipient_address_idx =
     r_bind (r_take take_u8_idx NoopBadLength) (\<lambda>version.
     r_bind (r_lift (recipient_payload_len_idx version)) (\<lambda>expected_len.
     r_bind (r_take (take_vec_idx expected_len) NoopBadLength) (\<lambda>bs.
     r_return \<lparr>idx_address_version = version, idx_address_payload = bs\<rparr>)))"

definition recipient_order_key_idx :: "recipient_address_idx \<Rightarrow> u8 \<times> bytes" where
  "recipient_order_key_idx r = (idx_address_version r, idx_address_payload r)"

section \<open>Operations\<close>

definition decode_supply_mode_idx :: "u8 \<Rightarrow> noop_reason + supply_mode_idx" where
  "decode_supply_mode_idx raw =
     (if raw = 0 then Inr UncappedIdx else if raw = 1 then Inr CappedIdx else Inl NoopBadSupplyMode)"

definition check_max_supply_idx :: "supply_mode_idx \<Rightarrow> u128 \<Rightarrow> noop_reason + unit" where
  "check_max_supply_idx mode supply =
     (case mode of
        CappedIdx \<Rightarrow> if supply = 0 then Inl NoopBadMaxSupply else Inr ()
      | UncappedIdx \<Rightarrow> if supply \<noteq> 0 then Inl NoopBadMaxSupply else Inr ())"

definition parse_token_strings_idx :: "token_strings parser_idx" where
  "parse_token_strings_idx =
     r_bind (r_take take_u8_idx NoopBadLength) (\<lambda>name_len.
     r_bind (r_take take_u8_idx NoopBadLength) (\<lambda>symbol_len.
     r_bind (r_take take_u16_le_idx NoopBadLength) (\<lambda>metadata_len.
     r_bind (r_reject (unat name_len > MAX_NAME_LEN \<or> unat symbol_len > MAX_SYMBOL_LEN
                       \<or> unat metadata_len > MAX_METADATA_LEN) NoopBadLength) (\<lambda>_.
     r_bind (r_take (take_vec_idx (unat name_len)) NoopBadLength) (\<lambda>name.
     r_bind (r_take (take_vec_idx (unat symbol_len)) NoopBadLength) (\<lambda>symbol.
     r_bind (r_take (take_vec_idx (unat metadata_len)) NoopBadLength) (\<lambda>metadata.
     r_bind (r_reject (\<not> is_utf8 name \<or> \<not> is_utf8 symbol) NoopBadUtf8) (\<lambda>_.
     r_return (name, symbol, metadata)))))))))"

type_synonym asset_common_idx =
  "u8 \<times> u8 \<times> supply_mode_idx \<times> u128 \<times> hash32 \<times> bytes \<times> bytes \<times> bytes"

definition parse_create_asset_common_idx :: "asset_common_idx parser_idx" where
  "parse_create_asset_common_idx =
     r_bind (r_take take_u8_idx NoopBadLength) (\<lambda>version.
     r_bind (r_lift (validate_token_version_idx version)) (\<lambda>_.
     r_bind (r_take take_u8_idx NoopBadLength) (\<lambda>decimals.
     r_bind (r_reject (decimals > MAX_DECIMALS) NoopBadDecimals) (\<lambda>_.
     r_bind (r_take take_u8_idx NoopBadLength) (\<lambda>supply_mode_raw.
     r_bind (r_lift (decode_supply_mode_idx supply_mode_raw)) (\<lambda>mode.
     r_bind (r_take take_u128_le_idx NoopBadLength) (\<lambda>max_supply.
     r_bind (r_take take_32_idx NoopBadLength) (\<lambda>mint_authority.
     r_bind parse_token_strings_idx (\<lambda>(name, symbol, metadata).
     r_bind (r_lift (check_max_supply_idx mode max_supply)) (\<lambda>_.
     r_return (version, decimals, mode, max_supply, mint_authority, name, symbol, metadata)))))))))))"

definition parse_create_asset_op :: "create_asset_op parser_idx" where
  "parse_create_asset_op =
     r_bind parse_create_asset_common_idx (\<lambda>
       (version, decimals, mode, max_supply, mint_authority, name, symbol, metadata).
     r_bind parse_optional_platform_tag_tail_idx (\<lambda>tag.
     r_return \<lparr>ca_token_version = version, ca_decimals = decimals, ca_supply_mode = mode, ca_max_supply = max_supply, ca_mint_authority_owner_id = mint_authority, ca_name = name, ca_symbol = symbol, ca_metadata = metadata, ca_platform_tag = tag\<rparr>))"

definition parse_transfer_op :: "transfer_op parser_idx" where
  "parse_transfer_op =
     r_bind (r_take take_32_idx NoopBadLength) (\<lambda>asset.
     r_bind (r_take take_32_idx NoopBadLength) (\<lambda>owner.
     r_bind (r_take take_u128_le_idx NoopBadLength) (\<lambda>amount.
     r_bind (r_reject (amount = 0) NoopInvalidAmount) (\<lambda>_.
     r_return \<lparr>tr_asset_id = asset, tr_to_owner_id = owner, tr_amount = amount\<rparr>))))"

definition parse_mint_op :: "mint_op parser_idx" where
  "parse_mint_op =
     r_bind (r_take take_32_idx NoopBadLength) (\<lambda>asset.
     r_bind (r_take take_32_idx NoopBadLength) (\<lambda>owner.
     r_bind (r_take take_u128_le_idx NoopBadLength) (\<lambda>amount.
     r_bind (r_reject (amount = 0) NoopInvalidAmount) (\<lambda>_.
     r_return \<lparr>mi_asset_id = asset, mi_to_owner_id = owner, mi_amount = amount\<rparr>))))"

definition parse_burn_op :: "burn_op parser_idx" where
  "parse_burn_op =
     r_bind (r_take take_32_idx NoopBadLength) (\<lambda>asset.
     r_bind (r_take take_u128_le_idx NoopBadLength) (\<lambda>amount.
     r_bind (r_reject (amount = 0) NoopInvalidAmount) (\<lambda>_.
     r_return \<lparr>bu_asset_id = asset, bu_amount = amount\<rparr>)))"

definition parse_create_asset_with_mint_op :: "create_asset_with_mint_op parser_idx" where
  "parse_create_asset_with_mint_op =
     r_bind parse_create_asset_common_idx (\<lambda>
       (version, decimals, mode, max_supply, mint_authority, name, symbol, metadata).
     r_bind (r_take take_u128_le_idx NoopBadLength) (\<lambda>mint_amount.
     r_bind (r_take take_32_idx NoopBadLength) (\<lambda>mint_owner.
     r_bind (r_reject (mint_amount = 0 \<and> mint_owner \<noteq> zero_owner) NoopInvalidAmount) (\<lambda>_.
     r_bind (r_reject (mint_amount > 0 \<and> mint_owner = zero_owner) NoopInvalidAmount) (\<lambda>_.
     r_bind parse_optional_platform_tag_tail_idx (\<lambda>tag.
     r_return \<lparr>cm_token_version = version, cm_decimals = decimals, cm_supply_mode = mode, cm_max_supply = max_supply, cm_mint_authority_owner_id = mint_authority, cm_name = name, cm_symbol = symbol, cm_metadata = metadata, cm_initial_mint_amount = mint_amount, cm_initial_mint_to_owner_id = mint_owner, cm_platform_tag = tag\<rparr>))))))"

definition check_recipients_idx :: "recipient_address_idx list \<Rightarrow> noop_reason + unit" where
  "check_recipients_idx rs =
     (if length rs = 2 then
        (if rs ! 0 = rs ! 1 then Inl NoopRecipientDuplicate
         else if recipient_order_key_idx (rs ! 0) > recipient_order_key_idx (rs ! 1)
         then Inl NoopRecipientNotCanonical
         else Inr ())
      else Inr ())"

definition parse_recipients_idx :: "u16 \<Rightarrow> recipient_address_idx list parser_idx" where
  "parse_recipients_idx fee =
     r_bind (r_take take_u8_idx NoopBadLength) (\<lambda>count.
     r_bind (r_reject (unat count > MAX_LIQUIDITY_RECIPIENTS) NoopBadLiquidityRecipientCount) (\<lambda>_.
     r_bind (r_reject (fee = 0 \<and> count \<noteq> 0) NoopBadLiquidityRecipientCount) (\<lambda>_.
     r_bind (r_reject (fee > 0 \<and> \<not> (1 \<le> unat count \<and> unat count \<le> MAX_LIQUIDITY_RECIPIENTS)) 
               NoopBadLiquidityRecipientCount) (\<lambda>_.
     r_bind (r_repeat (unat count) parse_recipient_address_idx) (\<lambda>rs.
     r_bind (r_lift (check_recipients_idx rs)) (\<lambda>_.
     r_return rs))))))"

definition parse_create_liquidity_asset_op :: "create_liquidity_asset_op parser_idx" where
  "parse_create_liquidity_asset_op =
     r_bind (r_take take_u8_idx NoopBadLength) (\<lambda>version.
     r_bind (r_lift (validate_token_version_idx version)) (\<lambda>_.
     r_bind (r_take take_u8_idx NoopBadLength) (\<lambda>curve.
     r_bind (r_lift (validate_liquidity_curve_version_idx curve)) (\<lambda>_.
     r_bind (r_take take_u8_idx NoopBadLength) (\<lambda>decimals.
     r_bind (r_reject (decimals \<noteq> LIQUIDITY_TOKEN_DECIMALS_IDX) NoopBadDecimals) (\<lambda>_.
     r_bind (r_take take_u128_le_idx NoopBadLength) (\<lambda>max_supply.
     r_bind (r_reject (\<not> (MIN_LIQUIDITY_SUPPLY_RAW_IDX \<le> max_supply
                           \<and> max_supply \<le> MAX_LIQUIDITY_SUPPLY_RAW_IDX)) NoopBadMaxSupply) (\<lambda>_.
     r_bind parse_token_strings_idx (\<lambda>(name, symbol, metadata).
     r_bind (r_take take_u64_le_idx NoopBadLength) (\<lambda>seed.
     r_bind (r_reject (seed \<noteq> MIN_LIQUIDITY_SEED_RESERVE_SOMPI_IDX) NoopInvalidAmount) (\<lambda>_.
     r_bind (r_take take_u16_le_idx NoopBadLength) (\<lambda>fee.
     r_bind (r_reject (\<not> (fee = 0 \<or> (MIN_LIQUIDITY_FEE_BPS \<le> fee \<and> fee \<le> MAX_LIQUIDITY_FEE_BPS))) 
               NoopBadLiquidityFeeBps) (\<lambda>_.
     r_bind (parse_recipients_idx fee) (\<lambda>rs.
     r_bind (r_take take_u64_le_idx NoopBadLength) (\<lambda>buy_sompi.
     r_bind (r_take take_u128_le_idx NoopBadLength) (\<lambda>buy_min.
     r_bind (r_reject (buy_sompi = 0 \<and> buy_min \<noteq> 0) NoopBadLaunchBuyFields) (\<lambda>_.
     r_bind (r_reject (buy_sompi > 0 \<and> buy_min = 0) NoopBadLaunchBuyFields) (\<lambda>_.
     r_bind parse_optional_liquidity_create_tail_idx (\<lambda>(tag, unlock_target, mode, fixed_cpay, multiplier).
     r_return \<lparr>cl_token_version = version, cl_curve_version = curve, cl_curve_mode = mode, cl_virtual_cpay = fixed_cpay, cl_virtual_token_multiplier_bps = multiplier, cl_decimals = decimals, cl_max_supply = max_supply, cl_name = name, cl_symbol = symbol, cl_metadata = metadata, cl_seed_reserve_sompi = seed, cl_fee_bps = fee, cl_recipients = rs, cl_launch_buy_sompi = buy_sompi, cl_launch_buy_min_token_out = buy_min, cl_platform_tag = tag, cl_unlock_target_sompi = unlock_target\<rparr>)))))))))))))))))))"

definition parse_buy_liquidity_exact_in_op :: "buy_liquidity_op parser_idx" where
  "parse_buy_liquidity_exact_in_op =
     r_bind (r_take take_32_idx NoopBadLength) (\<lambda>asset.
     r_bind (r_take take_u64_le_idx NoopBadLength) (\<lambda>pool_nonce.
     r_bind (r_take take_u64_le_idx NoopBadLength) (\<lambda>cpay_in.
     r_bind (r_take take_u128_le_idx NoopBadLength) (\<lambda>min_out.
     r_bind (r_reject (pool_nonce = 0) NoopBadNonce) (\<lambda>_.
     r_bind (r_reject (cpay_in = 0) NoopInvalidAmount) (\<lambda>_.
     r_bind (r_reject (min_out = 0) NoopMinOutViolation) (\<lambda>_.
     r_return \<lparr>by_asset_id = asset, by_expected_pool_nonce = pool_nonce, by_cpay_in_sompi = cpay_in, by_min_token_out = min_out\<rparr>)))))))"

definition parse_sell_liquidity_exact_in_op :: "sell_liquidity_op parser_idx" where
  "parse_sell_liquidity_exact_in_op =
     r_bind (r_take take_32_idx NoopBadLength) (\<lambda>asset.
     r_bind (r_take take_u64_le_idx NoopBadLength) (\<lambda>pool_nonce.
     r_bind (r_take take_u128_le_idx NoopBadLength) (\<lambda>tokens.
     r_bind (r_take take_u64_le_idx NoopBadLength) (\<lambda>min_out.
     r_bind (r_take take_u16_le_idx NoopBadLength) (\<lambda>output_index.
     r_bind (r_reject (pool_nonce = 0) NoopBadNonce) (\<lambda>_.
     r_bind (r_reject (tokens = 0) NoopInvalidAmount) (\<lambda>_.
     r_bind (r_reject (min_out = 0) NoopMinOutViolation) (\<lambda>_.
     r_return \<lparr>se_asset_id = asset, se_expected_pool_nonce = pool_nonce, se_token_in = tokens, se_min_cpay_out_sompi = min_out, se_cpay_receive_output_index = output_index\<rparr>))))))))"

definition parse_claim_liquidity_fees_op :: "claim_liquidity_op parser_idx" where
  "parse_claim_liquidity_fees_op =
     r_bind (r_take take_32_idx NoopBadLength) (\<lambda>asset.
     r_bind (r_take take_u64_le_idx NoopBadLength) (\<lambda>pool_nonce.
     r_bind (r_take take_u8_idx NoopBadLength) (\<lambda>recipient.
     r_bind (r_take take_u64_le_idx NoopBadLength) (\<lambda>claim.
     r_bind (r_take take_u16_le_idx NoopBadLength) (\<lambda>output_index.
     r_bind (r_reject (pool_nonce = 0) NoopBadNonce) (\<lambda>_.
     r_bind (r_reject (claim = 0) NoopInvalidAmount) (\<lambda>_.
     r_return \<lparr>cf_asset_id = asset, cf_expected_pool_nonce = pool_nonce, cf_recipient_index = recipient, cf_claim_amount_sompi = claim, cf_claim_receive_output_index = output_index\<rparr>)))))))"

section \<open>The parser\<close>

definition decode_op_code :: "u8 \<Rightarrow> noop_reason + token_op_code" where
  "decode_op_code raw =
     (if raw = 0 then Inr OpCreateAsset else if raw = 1 then Inr OpTransfer
      else if raw = 2 then Inr OpMint else if raw = 3 then Inr OpBurn
      else if raw = 4 then Inr OpCreateAssetWithMint else if raw = 5 then Inr OpCreateLiquidityAsset
      else if raw = 6 then Inr OpBuyLiquidityExactIn else if raw = 7 then Inr OpSellLiquidityExactIn
      else if raw = 8 then Inr OpClaimLiquidityFees else Inl NoopBadOp)"

definition parse_token_op :: "token_op_code \<Rightarrow> token_op parser_idx" where
  "parse_token_op op =
     (case op of
        OpCreateAsset \<Rightarrow> r_map CreateAssetOp parse_create_asset_op
      | OpTransfer \<Rightarrow> r_map TransferOp parse_transfer_op
      | OpMint \<Rightarrow> r_map MintOp parse_mint_op
      | OpBurn \<Rightarrow> r_map BurnOp parse_burn_op
      | OpCreateAssetWithMint \<Rightarrow> r_map CreateAssetWithMintOp parse_create_asset_with_mint_op
      | OpCreateLiquidityAsset \<Rightarrow> r_map CreateLiquidityAssetOp parse_create_liquidity_asset_op
      | OpBuyLiquidityExactIn \<Rightarrow> r_map BuyLiquidityOp parse_buy_liquidity_exact_in_op
      | OpSellLiquidityExactIn \<Rightarrow> r_map SellLiquidityOp parse_sell_liquidity_exact_in_op
      | OpClaimLiquidityFees \<Rightarrow> r_map ClaimLiquidityOp parse_claim_liquidity_fees_op)"

definition parse_atomic_token_header :: "token_op_header parser_idx" where
  "parse_atomic_token_header =
     r_bind (r_take (take_bytes_idx 3) NoopBadLength) (\<lambda>magic.
     r_bind (r_reject (magic \<noteq> CRYPTIX_ATOMIC_TOKEN_MAGIC) NoopBadMagic) (\<lambda>_.
     r_bind (r_take take_u8_idx NoopBadLength) (\<lambda>version.
     r_bind (r_reject (version \<noteq> CRYPTIX_ATOMIC_TOKEN_VERSION) NoopBadVersion) (\<lambda>_.
     r_bind (r_take take_u8_idx NoopBadLength) (\<lambda>op_raw.
     r_bind (r_lift (decode_op_code op_raw)) (\<lambda>op.
     r_bind (r_take take_u8_idx NoopBadLength) (\<lambda>flags.
     r_bind (r_reject (flags \<noteq> 0) NoopBadFlags) (\<lambda>_.
     r_bind (r_take take_u16_le_idx NoopBadLength) (\<lambda>auth_index.
     r_bind (r_take take_u64_le_idx NoopBadLength) (\<lambda>nonce.
     r_bind (r_reject (nonce = 0) NoopBadNonce) (\<lambda>_.
     r_return \<lparr>header_op = op, header_auth_input_index = auth_index, header_nonce = nonce\<rparr>)))))))))))"

definition parse_token_fields :: "parsed_token_payload parser_idx" where
  "parse_token_fields =
     r_bind parse_atomic_token_header (\<lambda>header.
     r_bind (parse_token_op (header_op header)) (\<lambda>op.
     r_bind r_at_end (\<lambda>done.
     r_bind (r_reject (\<not> done) NoopBadLength) (\<lambda>_.
     r_return \<lparr>token_header = header, token_op_of = op\<rparr>))))"

definition parse_atomic_token_payload_strict :: "bytes \<Rightarrow> noop_reason + parsed_token_payload" where
  "parse_atomic_token_payload_strict payload =
     try_bind (parse_token_fields payload 0) (\<lambda>(parsed, _). Inr parsed)"

definition parse_atomic_token_payload :: "bytes \<Rightarrow> (noop_reason + parsed_token_payload) option" where
  "parse_atomic_token_payload payload =
     (if length payload < length CRYPTIX_ATOMIC_TOKEN_MAGIC then None
      else if take 3 payload \<noteq> CRYPTIX_ATOMIC_TOKEN_MAGIC then None
      else Some (parse_atomic_token_payload_strict payload))"

section \<open>Reading an index operation as a consensus operation\<close>

fun abs_supply_mode where
  "abs_supply_mode UncappedIdx = Uncapped"
| "abs_supply_mode CappedIdx = Capped"

definition abs_recipient :: "recipient_address_idx \<Rightarrow> recipient_address" where
  "abs_recipient r = \<lparr>address_version = idx_address_version r, address_payload = idx_address_payload r\<rparr>"

fun abs_token_op :: "token_op \<Rightarrow> atomic_payload_op" where
  "abs_token_op (CreateAssetOp op) = CreateAsset (ca_token_version op) (ca_decimals op)
     (abs_supply_mode (ca_supply_mode op)) (ca_max_supply op) (ca_mint_authority_owner_id op)
     (ca_name op) (ca_symbol op) (ca_metadata op) (ca_platform_tag op)"
| "abs_token_op (TransferOp op) = Transfer (tr_asset_id op) (tr_to_owner_id op) (tr_amount op)"
| "abs_token_op (MintOp op) = Mint (mi_asset_id op) (mi_to_owner_id op) (mi_amount op)"
| "abs_token_op (BurnOp op) = Burn (bu_asset_id op) (bu_amount op)"
| "abs_token_op (CreateAssetWithMintOp op) = CreateAssetWithMint (cm_token_version op)
     (cm_decimals op) (abs_supply_mode (cm_supply_mode op)) (cm_max_supply op)
     (cm_mint_authority_owner_id op) (cm_name op) (cm_symbol op) (cm_metadata op)
     (cm_initial_mint_amount op) (cm_initial_mint_to_owner_id op) (cm_platform_tag op)"
| "abs_token_op (CreateLiquidityAssetOp op) = CreateLiquidityAsset (cl_token_version op)
     (cl_curve_version op) (cl_curve_mode op) (cl_virtual_cpay op)
     (cl_virtual_token_multiplier_bps op) (cl_decimals op) (cl_max_supply op) (cl_name op)
     (cl_symbol op) (cl_metadata op) (cl_seed_reserve_sompi op) (cl_fee_bps op)
     (map abs_recipient (cl_recipients op)) (cl_launch_buy_sompi op)
     (cl_launch_buy_min_token_out op) (cl_platform_tag op) (cl_unlock_target_sompi op)"
| "abs_token_op (BuyLiquidityOp op) = BuyLiquidityExactIn (by_asset_id op)
     (by_expected_pool_nonce op) (by_cpay_in_sompi op) (by_min_token_out op)"
| "abs_token_op (SellLiquidityOp op) = SellLiquidityExactIn (se_asset_id op)
     (se_expected_pool_nonce op) (se_token_in op) (se_min_cpay_out_sompi op)
     (se_cpay_receive_output_index op)"
| "abs_token_op (ClaimLiquidityOp op) = ClaimLiquidityFees (cf_asset_id op)
     (cf_expected_pool_nonce op) (cf_recipient_index op) (cf_claim_amount_sompi op)
     (cf_claim_receive_output_index op)"

definition abs_parsed :: "parsed_token_payload \<Rightarrow> parsed_atomic_payload" where
  "abs_parsed q = \<lparr>auth_input_index = header_auth_input_index (token_header q),
     payload_nonce = header_nonce (token_header q), payload_op = abs_token_op (token_op_of q)\<rparr>"

definition abs_common :: "asset_common_idx \<Rightarrow> asset_common" where
  "abs_common = (\<lambda>(v, d, m, s, a, strings). (v, d, abs_supply_mode m, s, a, strings))"

fun op_byte :: "token_op_code \<Rightarrow> u8" where
  "op_byte OpCreateAsset = 0" | "op_byte OpTransfer = 1" | "op_byte OpMint = 2"
| "op_byte OpBurn = 3" | "op_byte OpCreateAssetWithMint = 4" | "op_byte OpCreateLiquidityAsset = 5"
| "op_byte OpBuyLiquidityExactIn = 6" | "op_byte OpSellLiquidityExactIn = 7"
| "op_byte OpClaimLiquidityFees = 8"

definition abs_header :: "token_op_header \<Rightarrow> u8 \<times> u16 \<times> u64" where
  "abs_header h = (op_byte (header_op h), header_auth_input_index h, header_nonce h)"

section \<open>Agreement of the two parsers\<close>

lemma take_idx_eq:
  "take_bytes = take_bytes_idx" "take_vec = take_vec_idx" "take_u8 = take_u8_idx"
  "take_u16_le = take_u16_le_idx" "take_u64_le = take_u64_le_idx"
  "take_u128_le = take_u128_le_idx" "take_32 = take_32_idx"
  by (simp_all add: fun_eq_iff take_bytes_def take_bytes_idx_def take_vec_def take_vec_idx_def
      take_u8_def take_u8_idx_def take_u16_le_def take_u16_le_idx_def take_u64_le_def
      take_u64_le_idx_def take_u128_le_def take_u128_le_idx_def take_32_def take_32_idx_def not_le not_less)

lemma validators_idx_eq:
  "res_ok (validate_token_version v) = res_ok (validate_token_version_idx v)"
  "res_ok (validate_liquidity_curve_version v) = res_ok (validate_liquidity_curve_version_idx v)"
  "res_ok (validate_payload_curve_mode v) = res_ok (validate_payload_curve_mode_idx v)"
  "res_ok (validate_payload_curve_parameters v c m) = res_ok (validate_liquidity_curve_parameters_idx v c m)"
  "res_ok (recipient_payload_len v) = res_ok (recipient_payload_len_idx v)"
  "res_ok (decode_supply_mode v) = map_option abs_supply_mode (res_ok (decode_supply_mode_idx v))"
  "res_ok (check_max_supply (abs_supply_mode mode) s) = res_ok (check_max_supply_idx mode s)"
  by (simp_all add: validate_token_version_def validate_token_version_idx_def
   validate_liquidity_curve_version_def validate_liquidity_curve_version_idx_def
   validate_payload_curve_mode_def validate_payload_curve_mode_idx_def validate_liquidity_curve_mode_idx_def
   validate_payload_curve_parameters_def validate_liquidity_curve_parameters_idx_def
   validate_payload_individual_params_def validate_individual_liquidity_curve_params_idx_def
   recipient_payload_len_def recipient_payload_len_idx_def decode_supply_mode_def decode_supply_mode_idx_def
   check_max_supply_def check_max_supply_idx_def split: supply_mode_idx.splits)

lemma r_sim_platform_tag: "r_sim (\<lambda>x. x) parse_platform_tag parse_platform_tag_idx"
  unfolding parse_platform_tag_def parse_platform_tag_idx_def
  by (intro r_sim_intros) (simp_all add: take_idx_eq)

lemma r_sim_platform_tail:
  "r_sim (\<lambda>x. x) parse_optional_platform_tag_tail parse_optional_platform_tag_tail_idx"
  unfolding parse_optional_platform_tag_tail_def parse_optional_platform_tag_tail_idx_def
  by (intro r_sim_intros r_sim_platform_tag refl)

lemma r_sim_curve_tail: "r_sim (\<lambda>x. x) parse_curve_tail parse_curve_tail_idx"
  unfolding parse_curve_tail_def parse_curve_tail_idx_def
  by (intro r_sim_intros) (simp_all add: take_idx_eq validators_idx_eq res_ok_map_err)

lemma r_sim_unlock_target:
  "r_sim (\<lambda>x. x) (r_reject (v > MAX_SOMPI) e) (r_lift (validate_liquidity_unlock_target_idx v))"
  by (auto simp: r_sim_def res_ok_r_basic validate_liquidity_unlock_target_idx_def word_as_nat)

lemma r_sim_liquidity_tail:
  "r_sim (\<lambda>x. x) parse_optional_liquidity_create_tail parse_optional_liquidity_create_tail_idx"
  unfolding parse_optional_liquidity_create_tail_def parse_optional_liquidity_create_tail_idx_def
  by (intro r_sim_intros r_sim_bind [OF r_sim_platform_tag] r_sim_bind [OF r_sim_unlock_target]
      r_sim_bind [OF r_sim_curve_tail]) (simp_all add: take_idx_eq)

lemma r_sim_recipient: "r_sim abs_recipient parse_recipient_address parse_recipient_address_idx"
  unfolding parse_recipient_address_def parse_recipient_address_idx_def
  by (intro r_sim_intros) (simp_all add: take_idx_eq validators_idx_eq abs_recipient_def)

lemma check_recipients_idx_eq:
  "res_ok (check_recipients (map abs_recipient rs)) = res_ok (check_recipients_idx rs)"
proof -
  have "abs_recipient a = abs_recipient b \<longleftrightarrow> a = b" for a b
    by (cases a; cases b) (simp add: abs_recipient_def)
  moreover have "recipient_order_key (abs_recipient a) = recipient_order_key_idx a" for a
    by (simp add: abs_recipient_def recipient_order_key_def recipient_order_key_idx_def)
  ultimately show ?thesis
    by (auto simp: check_recipients_def check_recipients_idx_def)
qed

lemma r_sim_recipients: "r_sim (map abs_recipient) (parse_recipients fee) (parse_recipients_idx fee)"
  unfolding parse_recipients_def parse_recipients_idx_def
  by (intro r_sim_intros r_sim_bind [OF r_sim_repeat [OF r_sim_recipient refl]])
    (simp_all add: take_idx_eq check_recipients_idx_eq)

lemma r_sim_token_strings: "r_sim (\<lambda>x. x) parse_token_strings parse_token_strings_idx"
  unfolding parse_token_strings_def parse_token_strings_idx_def
  by (intro r_sim_intros) (simp_all add: take_idx_eq)

lemma r_sim_decode_mode:
  "r_sim abs_supply_mode (r_lift (decode_supply_mode v)) (r_lift (decode_supply_mode_idx v))"
  by (rule r_sim_lift) (rule validators_idx_eq)

lemma r_sim_common: "r_sim abs_common parse_create_asset_common parse_create_asset_common_idx"
  unfolding parse_create_asset_common_def parse_create_asset_common_idx_def
  by (intro r_sim_intros r_sim_bind [OF r_sim_decode_mode] r_sim_bind [OF r_sim_token_strings])
    (simp_all add: take_idx_eq validators_idx_eq abs_common_def)

lemma r_sim_ops:
  "r_sim (\<lambda>op. abs_token_op (TransferOp op)) parse_transfer parse_transfer_op"
  "r_sim (\<lambda>op. abs_token_op (MintOp op)) parse_mint parse_mint_op"
  "r_sim (\<lambda>op. abs_token_op (BurnOp op)) parse_burn parse_burn_op"
  unfolding parse_transfer_def parse_transfer_op_def parse_mint_def parse_mint_op_def
    parse_burn_def parse_burn_op_def
  by (intro r_sim_intros; simp add: take_idx_eq)+

lemma r_sim_common_bind:
  assumes "\<And>v d m s a n y z. r_sim g (k v d (abs_supply_mode m) s a n y z) (k' v d m s a n y z)"
  shows "r_sim g (r_bind parse_create_asset_common (\<lambda>(v, d, m, s, a, n, y, z). k v d m s a n y z))
    (r_bind parse_create_asset_common_idx (\<lambda>(v, d, m, s, a, n, y, z). k' v d m s a n y z))"
  by (rule r_sim_bind [OF r_sim_common]) (auto simp: abs_common_def assms split: prod.splits)

lemma r_sim_create_ops:
  "r_sim (\<lambda>op. abs_token_op (CreateAssetOp op)) parse_create_asset parse_create_asset_op"
  "r_sim (\<lambda>op. abs_token_op (CreateAssetWithMintOp op))
     parse_create_asset_with_mint parse_create_asset_with_mint_op"
  unfolding parse_create_asset_def parse_create_asset_op_def
    parse_create_asset_with_mint_def parse_create_asset_with_mint_op_def
  by (intro r_sim_common_bind r_sim_intros r_sim_bind [OF r_sim_platform_tail]; simp add: take_idx_eq)+

lemma r_sim_create_liquidity:
  "r_sim (\<lambda>op. abs_token_op (CreateLiquidityAssetOp op))
     parse_create_liquidity_asset parse_create_liquidity_asset_op"
  unfolding parse_create_liquidity_asset_def parse_create_liquidity_asset_op_def
  by (intro r_sim_intros r_sim_bind [OF r_sim_token_strings] r_sim_bind [OF r_sim_recipients]
      r_sim_bind [OF r_sim_liquidity_tail]; simp add: take_idx_eq validators_idx_eq)

lemma r_sim_trades:
  "r_sim (\<lambda>op. abs_token_op (BuyLiquidityOp op)) parse_buy parse_buy_liquidity_exact_in_op"
  "r_sim (\<lambda>op. abs_token_op (SellLiquidityOp op)) parse_sell parse_sell_liquidity_exact_in_op"
  "r_sim (\<lambda>op. abs_token_op (ClaimLiquidityOp op)) parse_claim parse_claim_liquidity_fees_op"
  unfolding parse_buy_def parse_buy_liquidity_exact_in_op_def parse_sell_def
    parse_sell_liquidity_exact_in_op_def parse_claim_def parse_claim_liquidity_fees_op_def
    r_sim_def res_ok_r_bind res_ok_r_basic take_idx_eq
  by (auto split: Option.bind_splits option.splits if_splits)

lemma r_sim_token_op:
  assumes "decode_op_code raw = Inr code"
  shows "r_sim abs_token_op (parse_op_fields raw) (parse_token_op code)"
  using assms
  by (auto simp: decode_op_code_def parse_op_fields_def parse_token_op_def split: if_splits
      intro!: r_sim_map r_sim_ops r_sim_create_ops r_sim_create_liquidity r_sim_trades)

lemma decode_op_code_iff: "decode_op_code raw = Inr code \<longleftrightarrow> raw = op_byte code"
  by (cases code) (auto simp: decode_op_code_def)

lemma decode_op_code_total: "raw \<le> 8 \<longleftrightarrow> (\<exists>code. decode_op_code raw = Inr code)"
proof
  assume "raw \<le> 8"
  then have "unat raw \<le> 8" by (simp add: word_le_nat_alt)
  then have "raw = 0 \<or> raw = 1 \<or> raw = 2 \<or> raw = 3 \<or> raw = 4 \<or> raw = 5 \<or> raw = 6 \<or> raw = 7 \<or> raw = 8"
    unfolding word_unat_eq_iff by simp linarith
  then show "\<exists>code. decode_op_code raw = Inr code" by (auto simp: decode_op_code_def)
next
  assume "\<exists>code. decode_op_code raw = Inr code"
  then obtain code where "raw = op_byte code" by (auto simp: decode_op_code_iff)
  then show "raw \<le> 8" by (cases code) simp_all
qed

lemma r_sim_op_code_bind:
  assumes "\<And>code. raw = op_byte code \<Longrightarrow> r_sim g k (k' code)"
  shows "r_sim g (r_bind (r_reject (raw > 8) e) (\<lambda>_. k)) (r_bind (r_lift (decode_op_code raw)) k')"
proof (cases "raw \<le> 8")
  case True
  then obtain code where code: "decode_op_code raw = Inr code" by (auto simp: decode_op_code_total)
  then have "r_sim g k (k' code)" by (intro assms) (simp add: decode_op_code_iff)
  moreover have "(raw > 8) = False" using True by auto
  ultimately show ?thesis
    using code by (simp only: r_sim_def res_ok_r_bind res_ok_r_basic res_ok_simps if_False
        Option.bind.bind_lunit case_prod_conv simp_thms)
next
  case False
  then have "res_ok (decode_op_code raw) = None"
    using decode_op_code_total [of raw] by (cases "decode_op_code raw") auto
  with False show ?thesis by (simp add: r_sim_def res_ok_r_bind res_ok_r_basic not_le)
qed

lemma r_sim_header: "r_sim abs_header parse_atomic_header parse_atomic_token_header"
  unfolding parse_atomic_header_def parse_atomic_token_header_def
  by (intro r_sim_op_code_bind r_sim_intros) (simp_all add: take_idx_eq abs_header_def numeral_3_eq_3)

lemma r_sim_token_op_bind:
  "(\<And>op. r_sim g (k (abs_token_op op)) (k' op)) \<Longrightarrow>
   r_sim g (r_bind (parse_op_fields (op_byte code)) k) (r_bind (parse_token_op code) k')"
  by (rule r_sim_bind [OF r_sim_token_op]) (auto simp: decode_op_code_iff)

lemma r_sim_token_fields: "r_sim abs_parsed parse_atomic_fields parse_token_fields"
  unfolding parse_atomic_fields_def parse_token_fields_def
  by (rule r_sim_bind [OF r_sim_header])
    (auto simp: abs_header_def abs_parsed_def intro!: r_sim_token_op_bind r_sim_intros)

lemma token_fields_iff:
  "parse_atomic_fields payload 0 = Inr (p, c) \<longleftrightarrow>
   (\<exists>q. parse_token_fields payload 0 = Inr (q, c) \<and> p = abs_parsed q)"
proof -
  have "res_ok (parse_atomic_fields payload 0)
    = map_option (\<lambda>(q, c). (abs_parsed q, c)) (res_ok (parse_token_fields payload 0))"
    using r_sim_token_fields unfolding r_sim_def by blast
  then show ?thesis
    by (cases "parse_atomic_fields payload 0"; cases "parse_token_fields payload 0") auto
qed

section \<open>Properties\<close>

text \<open>C26. The two parsers agree: the index takes a payload for a token payload
  exactly when consensus does, accepts exactly the payloads consensus accepts,
  and reads from them the same authorising input, nonce and operation.\<close>

theorem index_parser_matches_consensus:
  "(parse_atomic_token_payload payload = None \<longleftrightarrow> parse_atomic_payload payload = Inr None)
   \<and> (\<forall>p. parse_atomic_payload payload = Inr (Some p) \<longleftrightarrow>
        (\<exists>q. parse_atomic_token_payload payload = Some (Inr q) \<and> p = abs_parsed q))"
  by (auto simp: parse_atomic_payload_def parse_atomic_token_payload_def
      parse_atomic_token_payload_strict_def result_simps token_fields_iff numeral_3_eq_3 split: prod.splits)

end
