(* ===== verification/Wallet_Payload.thy ===== *)
theory Wallet_Payload
  imports Payload_Consensus
begin

text \<open>
  The payload builders and liquidity quotes of the wallet daemon
  (\<open>src/wallet/native/src/daemon.rs\<close>), and the round trip with the consensus
  parser: what the wallet builds, consensus reads back as the operation meant.
  A \<open>&str\<close> is its UTF-8 bytes. \<open>hex::decode\<close> belongs to the third-party crate
  \<open>hex\<close> and is the parameter \<open>hex_decode\<close>; nothing is assumed of it.
\<close>

section \<open>Strings\<close>

text \<open>
  \<open>str::trim\<close>: drops white space (as Unicode defines it) at both ends. The
  bytes at the end are matched reversed.
\<close>

definition ascii_white :: "u8 \<Rightarrow> bool" where
  "ascii_white b \<longleftrightarrow> byte_in 0x09 0x0D b \<or> b = 0x20"

definition white2 :: "u8 \<Rightarrow> u8 \<Rightarrow> bool" where
  "white2 a b \<longleftrightarrow> a = 0xC2 \<and> (b = 0x85 \<or> b = 0xA0)"

definition white3 :: "u8 \<Rightarrow> u8 \<Rightarrow> u8 \<Rightarrow> bool" where
  "white3 a b c \<longleftrightarrow>
     (a = 0xE1 \<and> b = 0x9A \<and> c = 0x80)
     \<or> (a = 0xE2 \<and> b = 0x80 \<and> (byte_in 0x80 0x8A c \<or> c = 0xA8 \<or> c = 0xA9 \<or> c = 0xAF))
     \<or> (a = 0xE2 \<and> b = 0x81 \<and> c = 0x9F)
     \<or> (a = 0xE3 \<and> b = 0x80 \<and> c = 0x80)"

fun trim_start :: "bytes \<Rightarrow> bytes" where
  "trim_start [] = []"
| "trim_start (a # bs) =
     (if ascii_white a then trim_start bs
      else case bs of
        [] \<Rightarrow> a # bs
      | b # cs \<Rightarrow>
          if white2 a b then trim_start cs
          else (case cs of [] \<Rightarrow> a # bs | c # ds \<Rightarrow> if white3 a b c then trim_start ds else a # bs))"

fun trim_end_rev :: "bytes \<Rightarrow> bytes" where
  "trim_end_rev [] = []"
| "trim_end_rev (a # bs) =
     (if ascii_white a then trim_end_rev bs
      else case bs of
        [] \<Rightarrow> a # bs
      | b # cs \<Rightarrow>
          if white2 b a then trim_end_rev cs
          else (case cs of [] \<Rightarrow> a # bs | c # ds \<Rightarrow> if white3 c b a then trim_end_rev ds else a # bs))"

definition str_trim :: "bytes \<Rightarrow> bytes" where
  "str_trim bs = rev (trim_end_rev (rev (trim_start bs)))"

definition strip_prefix :: "bytes \<Rightarrow> bytes \<Rightarrow> bytes option" where
  "strip_prefix pre bs =
     (if take (length pre) bs = pre then Some (drop (length pre) bs) else None)"

section \<open>Errors and constants\<close>

datatype (plugins only: code) wallet_status =
    WNonceZero | WBadHex | WHexLength | WPlatformTagTooLong | WMaxSupplyZero
  | WSeedReserveZero | WUnlockTargetTooLarge | WTooManyRecipients | WLiquidityDecimals
  | WLiquiditySupplyRange | WLiquiditySeedReserve | WVirtualReserveOverflow
  | WFeeOverflow | WFeeNotU64 | WDivisionByZero | WBuyFeeUnderflow | WBuyZeroOutput
  | WBuyXAfterOverflow | WInvariantOverflow | WTokenOutUnderflow | WNetOrFeeInvalid
  | WFeeDenominatorUnderflow | WNetUnderflow | WGrossOverflow | WFeeDenominatorZero
  | WGrossNotU64 | WTokenOutInvalid | WYAfterUnderflow | WYAfterZero | WZeroInput
  | WNetNotU64

type_synonym 'a wallet_result = "wallet_status + 'a"

definition W_CAT_MAGIC :: bytes where [simp]: "W_CAT_MAGIC = [0x43, 0x41, 0x54]"
definition W_CAT_VERSION :: u8 where [simp]: "W_CAT_VERSION = 1"
definition W_CAT_CURRENT_TOKEN_VERSION :: u8 where [simp]: "W_CAT_CURRENT_TOKEN_VERSION = 1"
definition W_CAT_CURRENT_LIQUIDITY_CURVE_VERSION :: u8 where
  [simp]: "W_CAT_CURRENT_LIQUIDITY_CURVE_VERSION = 1"
definition CAT_FLAGS :: u8 where [simp]: "CAT_FLAGS = 0"
definition CAT_OP_CREATE_ASSET :: u8 where [simp]: "CAT_OP_CREATE_ASSET = 0"
definition CAT_OP_TRANSFER :: u8 where [simp]: "CAT_OP_TRANSFER = 1"
definition CAT_OP_MINT :: u8 where [simp]: "CAT_OP_MINT = 2"
definition CAT_OP_BURN :: u8 where [simp]: "CAT_OP_BURN = 3"
definition CAT_OP_CREATE_ASSET_WITH_MINT :: u8 where [simp]: "CAT_OP_CREATE_ASSET_WITH_MINT = 4"
definition CAT_OP_CREATE_LIQUIDITY_ASSET :: u8 where [simp]: "CAT_OP_CREATE_LIQUIDITY_ASSET = 5"
definition CAT_OP_BUY_LIQUIDITY_EXACT_IN :: u8 where [simp]: "CAT_OP_BUY_LIQUIDITY_EXACT_IN = 6"
definition CAT_OP_SELL_LIQUIDITY_EXACT_IN :: u8 where [simp]: "CAT_OP_SELL_LIQUIDITY_EXACT_IN = 7"
definition CAT_OP_CLAIM_LIQUIDITY_FEES :: u8 where [simp]: "CAT_OP_CLAIM_LIQUIDITY_FEES = 8"
definition W_CAT_MAX_PLATFORM_TAG_LEN :: nat where [simp]: "W_CAT_MAX_PLATFORM_TAG_LEN = 50"
definition W_CAT_MAX_LIQUIDITY_RECIPIENTS :: nat where [simp]: "W_CAT_MAX_LIQUIDITY_RECIPIENTS = 2"
definition W_LIQUIDITY_TOKEN_DECIMALS :: u8 where [simp]: "W_LIQUIDITY_TOKEN_DECIMALS = 0"
definition MIN_LIQUIDITY_TOKEN_SUPPLY_RAW :: u128 where
  [simp]: "MIN_LIQUIDITY_TOKEN_SUPPLY_RAW = 100000"
definition MAX_LIQUIDITY_TOKEN_SUPPLY_RAW :: u128 where
  [simp]: "MAX_LIQUIDITY_TOKEN_SUPPLY_RAW = 10000000"
definition W_MIN_LIQUIDITY_SEED_RESERVE_SOMPI :: u64 where
  [simp]: "W_MIN_LIQUIDITY_SEED_RESERVE_SOMPI = SOMPI_PER_CRYPTIX"
definition MIN_LIQUIDITY_REAL_TOKEN_RESERVE_RAW :: u128 where
  [simp]: "MIN_LIQUIDITY_REAL_TOKEN_RESERVE_RAW = 1"
definition W_INITIAL_VIRTUAL_CPAY_RESERVES_SOMPI :: u64 where
  [simp]: "W_INITIAL_VIRTUAL_CPAY_RESERVES_SOMPI = 250000000000000"

section \<open>Payload builders\<close>

definition parse_hex_32 :: "(bytes \<Rightarrow> bytes option) \<Rightarrow> bytes \<Rightarrow> hash32 wallet_result" where
  "parse_hex_32 hex_decode v =
     (let normalized = (case strip_prefix [0x30, 0x78] (str_trim v) of
                          Some s \<Rightarrow> s | None \<Rightarrow> str_trim v)
      in try_bind (ok_or (hex_decode normalized) WBadHex) (\<lambda>bs.
         if length bs \<noteq> 32 then Inl WHexLength else Inr bs))"

definition validate_platform_tag :: "bytes \<Rightarrow> unit wallet_result" where
  "validate_platform_tag tag =
     (if length tag > W_CAT_MAX_PLATFORM_TAG_LEN then Inl WPlatformTagTooLong else Inr ())"

definition append_platform_tag_tail :: "bytes \<Rightarrow> bytes \<Rightarrow> bytes wallet_result" where
  "append_platform_tag_tail payload tag =
     try_bind (validate_platform_tag tag) (\<lambda>_.
     if length tag > 255 then Inl WPlatformTagTooLong
     else Inr (payload @ [word_of_nat (length tag)] @ tag))"

definition append_optional_platform_tag_tail :: "bytes \<Rightarrow> bytes \<Rightarrow> bytes wallet_result" where
  "append_optional_platform_tag_tail payload tag =
     try_bind (validate_platform_tag tag) (\<lambda>_.
     if tag \<noteq> [] then append_platform_tag_tail payload tag else Inr payload)"

definition build_header :: "u8 \<Rightarrow> u64 \<Rightarrow> u16 \<Rightarrow> bytes wallet_result" where
  "build_header op nonce auth_index =
     (if nonce = 0 then Inl WNonceZero
      else Inr (W_CAT_MAGIC @ [W_CAT_VERSION, op, CAT_FLAGS] @ to_le_bytes auth_index
                @ to_le_bytes nonce))"

text \<open>The casts \<open>as u8\<close> and \<open>as u16\<close> of the lengths truncate.\<close>

definition push_token_strings :: "bytes \<Rightarrow> bytes \<Rightarrow> bytes \<Rightarrow> bytes \<Rightarrow> bytes" where
  "push_token_strings payload name symbol metadata =
     payload @ [word_of_nat (length name), word_of_nat (length symbol)]
     @ to_le_bytes (word_of_nat (length metadata) :: u16) @ name @ symbol @ metadata"

definition push_create_common_fields ::
    "(bytes \<Rightarrow> bytes option) \<Rightarrow> bytes \<Rightarrow> bytes \<Rightarrow> bytes \<Rightarrow> u8 \<Rightarrow> u8 \<Rightarrow> u128 \<Rightarrow> bytes \<Rightarrow> bytes
     \<Rightarrow> bytes wallet_result" where
  "push_create_common_fields hex_decode payload name symbol dec mode supply authority metadata =
     try_bind (parse_hex_32 hex_decode authority) (\<lambda>authority_id.
     Inr (push_token_strings
            (payload @ [W_CAT_CURRENT_TOKEN_VERSION, dec, mode] @ to_le_bytes supply
             @ authority_id) name symbol metadata))"

definition build_transfer_payload ::
    "(bytes \<Rightarrow> bytes option) \<Rightarrow> bytes \<Rightarrow> bytes \<Rightarrow> u128 \<Rightarrow> u64 \<Rightarrow> u16 \<Rightarrow> bytes wallet_result" where
  "build_transfer_payload hex_decode asset owner amt nonce auth_index =
     try_bind (parse_hex_32 hex_decode asset) (\<lambda>asset_id.
     try_bind (parse_hex_32 hex_decode owner) (\<lambda>owner_id.
     try_bind (build_header CAT_OP_TRANSFER nonce auth_index) (\<lambda>payload.
     Inr (payload @ asset_id @ owner_id @ to_le_bytes amt))))"

definition build_mint_payload ::
    "(bytes \<Rightarrow> bytes option) \<Rightarrow> bytes \<Rightarrow> bytes \<Rightarrow> u128 \<Rightarrow> u64 \<Rightarrow> u16 \<Rightarrow> bytes wallet_result" where
  "build_mint_payload hex_decode asset owner amt nonce auth_index =
     try_bind (parse_hex_32 hex_decode asset) (\<lambda>asset_id.
     try_bind (parse_hex_32 hex_decode owner) (\<lambda>owner_id.
     try_bind (build_header CAT_OP_MINT nonce auth_index) (\<lambda>payload.
     Inr (payload @ asset_id @ owner_id @ to_le_bytes amt))))"

definition build_burn_payload ::
    "(bytes \<Rightarrow> bytes option) \<Rightarrow> bytes \<Rightarrow> u128 \<Rightarrow> u64 \<Rightarrow> u16 \<Rightarrow> bytes wallet_result" where
  "build_burn_payload hex_decode asset amt nonce auth_index =
     try_bind (parse_hex_32 hex_decode asset) (\<lambda>asset_id.
     try_bind (build_header CAT_OP_BURN nonce auth_index) (\<lambda>payload.
     Inr (payload @ asset_id @ to_le_bytes amt)))"

definition build_create_asset_payload ::
    "(bytes \<Rightarrow> bytes option) \<Rightarrow> bytes \<Rightarrow> bytes \<Rightarrow> u8 \<Rightarrow> u8 \<Rightarrow> u128 \<Rightarrow> bytes \<Rightarrow> bytes \<Rightarrow> bytes
     \<Rightarrow> u64 \<Rightarrow> u16 \<Rightarrow> bytes wallet_result" where
  "build_create_asset_payload hex_decode name symbol dec mode supply authority metadata tag
       nonce auth_index =
     try_bind (build_header CAT_OP_CREATE_ASSET nonce auth_index) (\<lambda>payload.
     try_bind (push_create_common_fields hex_decode payload name symbol dec mode supply
                 authority metadata) (\<lambda>payload.
     append_optional_platform_tag_tail payload tag))"

definition build_create_asset_with_mint_payload ::
    "(bytes \<Rightarrow> bytes option) \<Rightarrow> bytes \<Rightarrow> bytes \<Rightarrow> u8 \<Rightarrow> u8 \<Rightarrow> u128 \<Rightarrow> bytes \<Rightarrow> bytes \<Rightarrow> u128 \<Rightarrow> bytes
     \<Rightarrow> bytes \<Rightarrow> u64 \<Rightarrow> u16 \<Rightarrow> bytes wallet_result" where
  "build_create_asset_with_mint_payload hex_decode name symbol dec mode supply authority
       metadata mint_amount mint_owner tag nonce auth_index =
     try_bind (parse_hex_32 hex_decode mint_owner) (\<lambda>mint_owner_id.
     try_bind (build_header CAT_OP_CREATE_ASSET_WITH_MINT nonce auth_index) (\<lambda>payload.
     try_bind (push_create_common_fields hex_decode payload name symbol dec mode supply
                 authority metadata) (\<lambda>payload.
     append_optional_platform_tag_tail (payload @ to_le_bytes mint_amount @ mint_owner_id) tag)))"

definition validate_liquidity_create_parameters :: "u8 \<Rightarrow> u128 \<Rightarrow> u64 \<Rightarrow> unit wallet_result" where
  "validate_liquidity_create_parameters dec supply seed =
     (if dec \<noteq> W_LIQUIDITY_TOKEN_DECIMALS then Inl WLiquidityDecimals
      else if \<not> (MIN_LIQUIDITY_TOKEN_SUPPLY_RAW \<le> supply
                 \<and> supply \<le> MAX_LIQUIDITY_TOKEN_SUPPLY_RAW) then Inl WLiquiditySupplyRange
      else if seed \<noteq> W_MIN_LIQUIDITY_SEED_RESERVE_SOMPI then Inl WLiquiditySeedReserve
      else Inr ())"

definition push_recipients :: "recipient_address list \<Rightarrow> bytes" where
  "push_recipients rs = concat (map (\<lambda>r. address_version r # address_payload r) rs)"

definition build_create_liquidity_asset_payload ::
    "bytes \<Rightarrow> bytes \<Rightarrow> u8 \<Rightarrow> u128 \<Rightarrow> bytes \<Rightarrow> u64 \<Rightarrow> u16 \<Rightarrow> recipient_address list \<Rightarrow> u64 \<Rightarrow> u128
     \<Rightarrow> bytes \<Rightarrow> u64 \<Rightarrow> u64 \<Rightarrow> u16 \<Rightarrow> bytes wallet_result" where
  "build_create_liquidity_asset_payload name symbol dec supply metadata seed fee rs
       buy_sompi buy_min tag unlock_target nonce auth_index =
     (if supply = 0 then Inl WMaxSupplyZero
      else if seed = 0 then Inl WSeedReserveZero
      else try_bind (validate_platform_tag tag) (\<lambda>_.
      if unlock_target > MAX_SOMPI then Inl WUnlockTargetTooLarge
      else try_bind (validate_liquidity_create_parameters dec supply seed) (\<lambda>_.
      if length rs > W_CAT_MAX_LIQUIDITY_RECIPIENTS then Inl WTooManyRecipients
      else try_bind (build_header CAT_OP_CREATE_LIQUIDITY_ASSET nonce auth_index) (\<lambda>payload.
      let payload =
            push_token_strings
              (payload @ [W_CAT_CURRENT_TOKEN_VERSION, W_CAT_CURRENT_LIQUIDITY_CURVE_VERSION, dec]
               @ to_le_bytes supply) name symbol metadata
            @ to_le_bytes seed @ to_le_bytes fee @ [word_of_nat (length rs)] @ push_recipients rs
            @ to_le_bytes buy_sompi @ to_le_bytes buy_min
      in if tag \<noteq> [] \<or> unlock_target > 0 then
           try_bind (append_platform_tag_tail payload tag) (\<lambda>payload.
           Inr (payload @ to_le_bytes unlock_target))
         else Inr payload))))"

definition build_buy_liquidity_payload ::
    "(bytes \<Rightarrow> bytes option) \<Rightarrow> bytes \<Rightarrow> u64 \<Rightarrow> u64 \<Rightarrow> u128 \<Rightarrow> u64 \<Rightarrow> u16 \<Rightarrow> bytes wallet_result" where
  "build_buy_liquidity_payload hex_decode asset pool_nonce cpay_in min_out nonce auth_index =
     try_bind (parse_hex_32 hex_decode asset) (\<lambda>asset_id.
     try_bind (build_header CAT_OP_BUY_LIQUIDITY_EXACT_IN nonce auth_index) (\<lambda>payload.
     Inr (payload @ asset_id @ to_le_bytes pool_nonce @ to_le_bytes cpay_in @ to_le_bytes min_out)))"

definition build_sell_liquidity_payload ::
    "(bytes \<Rightarrow> bytes option) \<Rightarrow> bytes \<Rightarrow> u64 \<Rightarrow> u128 \<Rightarrow> u64 \<Rightarrow> u16 \<Rightarrow> u64 \<Rightarrow> u16 \<Rightarrow> bytes wallet_result" where
  "build_sell_liquidity_payload hex_decode asset pool_nonce tokens min_out output_index nonce auth_index =
     try_bind (parse_hex_32 hex_decode asset) (\<lambda>asset_id.
     try_bind (build_header CAT_OP_SELL_LIQUIDITY_EXACT_IN nonce auth_index) (\<lambda>payload.
     Inr (payload @ asset_id @ to_le_bytes pool_nonce @ to_le_bytes tokens @ to_le_bytes min_out
          @ to_le_bytes output_index)))"

definition build_claim_liquidity_payload ::
    "(bytes \<Rightarrow> bytes option) \<Rightarrow> bytes \<Rightarrow> u64 \<Rightarrow> u8 \<Rightarrow> u64 \<Rightarrow> u16 \<Rightarrow> u64 \<Rightarrow> u16 \<Rightarrow> bytes wallet_result" where
  "build_claim_liquidity_payload hex_decode asset pool_nonce recipient claim output_index nonce auth_index =
     try_bind (parse_hex_32 hex_decode asset) (\<lambda>asset_id.
     try_bind (build_header CAT_OP_CLAIM_LIQUIDITY_FEES nonce auth_index) (\<lambda>payload.
     Inr (payload @ asset_id @ to_le_bytes pool_nonce @ [recipient] @ to_le_bytes claim
          @ to_le_bytes output_index)))"

section \<open>Quotes\<close>

definition initial_liquidity_virtual_token_reserves :: "u128 \<Rightarrow> u128 wallet_result" where
  "initial_liquidity_virtual_token_reserves supply =
     (if \<not> (MIN_LIQUIDITY_TOKEN_SUPPLY_RAW \<le> supply \<and> supply \<le> MAX_LIQUIDITY_TOKEN_SUPPLY_RAW)
      then Inl WLiquiditySupplyRange
      else ok_or (Option.bind (checked_mul supply 6) (\<lambda>v. checked_div v 5))
             WVirtualReserveOverflow)"

definition liquidity_trade_fee :: "u64 \<Rightarrow> u16 \<Rightarrow> u64 wallet_result" where
  "liquidity_trade_fee amt fee =
     try_bind (ok_or (checked_mul (ucast amt :: u128) (ucast fee)) WFeeOverflow) (\<lambda>product.
     ok_or (uint_try_from (product div 10000)) WFeeNotU64)"

definition ceil_div_u128 :: "u128 \<Rightarrow> u128 \<Rightarrow> u128 wallet_result" where
  "ceil_div_u128 numerator denominator =
     (if denominator = 0 then Inl WDivisionByZero
      else (let quotient = numerator div denominator; remainder = numerator mod denominator
            in Inr (if remainder = 0 then quotient else quotient + 1)))"

definition quote_liquidity_buy_token_out :: "u128 \<Rightarrow> u64 \<Rightarrow> u128 \<Rightarrow> u64 \<Rightarrow> u16 \<Rightarrow> u128 wallet_result" where
  "quote_liquidity_buy_token_out real_token virtual_cpay virtual_token gross fee_bps =
     try_bind (liquidity_trade_fee gross fee_bps) (\<lambda>fee.
     try_bind (ok_or (checked_sub gross fee) WBuyFeeUnderflow) (\<lambda>net_in.
     if net_in = 0 \<or> real_token \<le> MIN_LIQUIDITY_REAL_TOKEN_RESERVE_RAW then Inl WBuyZeroOutput
     else (let x_before = (ucast virtual_cpay :: u128)
     in try_bind (ok_or (checked_add x_before (ucast net_in)) WBuyXAfterOverflow) (\<lambda>x_after.
     try_bind (ok_or (checked_mul x_before virtual_token) WInvariantOverflow) (\<lambda>k.
     try_bind (ceil_div_u128 k x_after) (\<lambda>y_after.
     try_bind (ok_or (checked_sub virtual_token y_after) WTokenOutUnderflow) (\<lambda>token_out.
     if token_out = 0
        \<or> token_out > saturating_sub real_token MIN_LIQUIDITY_REAL_TOKEN_RESERVE_RAW
     then Inl WBuyZeroOutput
     else Inr token_out)))))))"

definition quote_initial_liquidity_buy_token_out :: "u128 \<Rightarrow> u64 \<Rightarrow> u16 \<Rightarrow> u128 wallet_result" where
  "quote_initial_liquidity_buy_token_out supply gross fee_bps =
     try_bind (initial_liquidity_virtual_token_reserves supply) (\<lambda>virtual_token.
     quote_liquidity_buy_token_out supply W_INITIAL_VIRTUAL_CPAY_RESERVES_SOMPI virtual_token
       gross fee_bps)"

definition min_liquidity_gross_input_for_net_input :: "u64 \<Rightarrow> u16 \<Rightarrow> u64 wallet_result" where
  "min_liquidity_gross_input_for_net_input net_in fee_bps =
     (if net_in = 0 \<or> fee_bps \<ge> 10000 then Inl WNetOrFeeInvalid
      else if fee_bps = 0 then Inr net_in
      else
        try_bind (ok_or (checked_sub (10000 :: u128) (ucast fee_bps)) WFeeDenominatorUnderflow)
          (\<lambda>fee_denominator.
        try_bind (ok_or (checked_sub (ucast net_in :: u128) 1) WNetUnderflow) (\<lambda>net_below.
        try_bind (ok_or (checked_mul net_below 10000) WGrossOverflow) (\<lambda>scaled.
        try_bind (ok_or (checked_div scaled fee_denominator) WFeeDenominatorZero) (\<lambda>floor_gross.
        try_bind (ok_or (checked_add floor_gross 1) WGrossOverflow) (\<lambda>gross.
        ok_or (uint_try_from gross) WGrossNotU64))))))"

definition min_liquidity_gross_input_for_token_out ::
    "u128 \<Rightarrow> u64 \<Rightarrow> u128 \<Rightarrow> u128 \<Rightarrow> u16 \<Rightarrow> u64 wallet_result" where
  "min_liquidity_gross_input_for_token_out real_token virtual_cpay virtual_token token_out fee_bps =
     (if token_out = 0
         \<or> token_out > saturating_sub real_token MIN_LIQUIDITY_REAL_TOKEN_RESERVE_RAW
      then Inl WTokenOutInvalid
      else try_bind (ok_or (checked_sub virtual_token token_out) WYAfterUnderflow) (\<lambda>y_after.
      if y_after = 0 then Inl WYAfterZero
      else (let x_before = (ucast virtual_cpay :: u128)
      in try_bind (ok_or (checked_mul x_before virtual_token) WInvariantOverflow) (\<lambda>k.
      try_bind (ceil_div_u128 k y_after) (\<lambda>x_after.
      if x_after \<le> x_before then Inl WZeroInput
      else try_bind (ok_or (uint_try_from (x_after - x_before)) WNetNotU64) (\<lambda>net_in.
      min_liquidity_gross_input_for_net_input net_in fee_bps))))))"

section \<open>Encodings\<close>

text \<open>The byte strings the builders produce, and what it means that consensus reads one back.\<close>

definition header_bytes :: "u8 \<Rightarrow> u16 \<Rightarrow> u64 \<Rightarrow> bytes" where
  "header_bytes op auth_index nonce =
     [0x43, 0x41, 0x54] @ 1 # op # 0 # to_le_bytes auth_index @ to_le_bytes nonce @ []"

definition strings_bytes :: "bytes \<Rightarrow> bytes \<Rightarrow> bytes \<Rightarrow> bytes" where
  "strings_bytes name symbol metadata =
     word_of_nat (length name) # word_of_nat (length symbol)
     # to_le_bytes (word_of_nat (length metadata) :: u16) @ name @ symbol @ metadata @ []"

fun mode_byte :: "supply_mode \<Rightarrow> u8" where
  "mode_byte Uncapped = 0" | "mode_byte Capped = 1"

definition tag_bytes :: "bytes \<Rightarrow> bytes" where
  "tag_bytes tag = word_of_nat (length tag) # tag @ []"

definition reads_back :: "bytes wallet_result \<Rightarrow> u16 \<Rightarrow> u64 \<Rightarrow> atomic_payload_op \<Rightarrow> bool" where
  "reads_back r auth_index nonce op \<longleftrightarrow>
     (\<exists>payload. r = Inr payload \<and> parse_atomic_payload payload
        = Inr (Some \<lparr>auth_input_index = auth_index, payload_nonce = nonce, payload_op = op\<rparr>))"

text \<open>A hexadecimal decoder for the examples: pairs of digits, either case.\<close>

definition hex_digit :: "u8 \<Rightarrow> u8 option" where
  "hex_digit b =
     (if byte_in 0x30 0x39 b then Some (b - 0x30)
      else if byte_in 0x61 0x66 b then Some (b - 0x57)
      else if byte_in 0x41 0x46 b then Some (b - 0x37) else None)"

fun hex_pairs :: "bytes \<Rightarrow> bytes option" where
  "hex_pairs [] = Some []"
| "hex_pairs [a] = None"
| "hex_pairs (a # b # bs) =
     Option.bind (hex_digit a) (\<lambda>x. Option.bind (hex_digit b) (\<lambda>y.
     Option.bind (hex_pairs bs) (\<lambda>rest. Some ((16 * x + y) # rest))))"

section \<open>Reading the fields back\<close>

lemma reads_take_bytes: "length bs = n \<Longrightarrow> reads (r_take (take_bytes n) e) bs bs"
  by (simp add: reads_def r_take_def take_bytes_def)

lemma reads_take_vec: "length bs = n \<Longrightarrow> reads (r_take (take_vec n) e) bs bs"
  by (simp add: reads_def r_take_def take_bytes_def take_vec_def)

lemma reads_take_32: "length bs = 32 \<Longrightarrow> reads (r_take take_32 e) bs bs"
  by (simp add: reads_def r_take_def take_bytes_def take_32_def)

lemma reads_take_u8: "reads (r_take take_u8 e) b [b]"
  by (simp add: reads_def r_take_def take_u8_def)

lemma reads_take_le:
  "reads (r_take take_u16_le e) w16 (to_le_bytes w16)"
  "reads (r_take take_u64_le e) w64 (to_le_bytes w64)"
  "reads (r_take take_u128_le e) w128 (to_le_bytes w128)"
  by (simp_all add: reads_def r_take_def take_bytes_def take_u16_le_def take_u64_le_def
      take_u128_le_def from_to_le_bytes)

lemma reads_u8_bind: "reads (k b) y cs \<Longrightarrow> reads (r_bind (r_take take_u8 e) k) y (b # cs)"
  using reads_bind [OF reads_take_u8, of k b y cs] by simp

lemma reads_last_u8_bind:
  "reads_last (k b) y cs \<Longrightarrow> reads_last (r_bind (r_take take_u8 e) k) y (b # cs)"
  using reads_last_bind [OF reads_take_u8, of k b y cs] by simp

lemmas reads_takes = reads_take_bytes reads_take_vec reads_take_32 reads_take_le
lemmas reads_steps = reads_return reads_reject_bind reads_lift_bind reads_u8_bind reads_bind [OF reads_takes(1)]
  reads_bind [OF reads_takes(2)] reads_bind [OF reads_takes(3)] reads_bind [OF reads_takes(4)]
  reads_bind [OF reads_takes(5)] reads_bind [OF reads_takes(6)]
lemmas reads_last_steps = reads_last_done reads_last_reject_bind reads_last_lift_bind reads_last_u8_bind
   reads_last_bind [OF reads_takes(1)]
  reads_last_bind [OF reads_takes(2)] reads_last_bind [OF reads_takes(3)] reads_last_bind [OF reads_takes(4)]
  reads_last_bind [OF reads_takes(5)] reads_last_bind [OF reads_takes(6)]
  reads_last_field [OF reads_takes(4)] reads_last_field [OF reads_takes(5)]
  reads_last_field [OF reads_takes(6)]

lemma reads_header:
  "op \<le> 8 \<Longrightarrow> 0 < nonce \<Longrightarrow> reads parse_atomic_header (op, auth_index, nonce) (header_bytes op auth_index nonce)"
  unfolding parse_atomic_header_def header_bytes_def
  by (intro reads_steps) (auto simp: word_gt_0)

lemma parse_header_then:
  assumes "op \<le> 8" "0 < nonce" "reads_last (parse_op_fields op) x body"
  shows "parse_atomic_payload (header_bytes op auth_index nonce @ body)
    = Inr (Some \<lparr>auth_input_index = auth_index, payload_nonce = nonce, payload_op = x\<rparr>)"
proof -
  have "parse_atomic_header (header_bytes op auth_index nonce @ body) 0
    = Inr ((op, auth_index, nonce), length (header_bytes op auth_index nonce))"
    using reads_header [OF assms(1,2), of auth_index] unfolding reads_def
    by (metis append_Nil list.size(3) plus_nat.add_0)
  moreover have "parse_op_fields op (header_bytes op auth_index nonce @ body)
      (length (header_bytes op auth_index nonce))
    = Inr (x, length (header_bytes op auth_index nonce) + length body)"
    using assms(3) by (simp add: reads_last_def)
  ultimately have "parse_atomic_fields (header_bytes op auth_index nonce @ body) 0
    = Inr (\<lparr>auth_input_index = auth_index, payload_nonce = nonce, payload_op = x\<rparr>,
        length (header_bytes op auth_index nonce @ body))"
    by (simp add: parse_atomic_fields_def r_bind_def r_at_end_def r_reject_def r_return_def)
  then show ?thesis by (simp add: parse_atomic_payload_def header_bytes_def)
qed

lemma build_header_iff: "build_header op nonce auth_index = Inr bs \<longleftrightarrow> 0 < nonce \<and> bs = header_bytes op auth_index nonce"
  by (auto simp: build_header_def header_bytes_def word_gt_0)

lemma parse_hex_32_len: "parse_hex_32 hex_decode s = Inr bs \<Longrightarrow> length bs = 32"
  by (auto simp: parse_hex_32_def result_simps Let_def split: if_splits)

lemma reads_ops:
  "length asset = 32 \<Longrightarrow> length owner = 32 \<Longrightarrow> 0 < amt \<Longrightarrow>
     reads_last (parse_op_fields 1) (Transfer asset owner amt) (asset @ owner @ to_le_bytes amt)"
  "length asset = 32 \<Longrightarrow> length owner = 32 \<Longrightarrow> 0 < amt \<Longrightarrow>
     reads_last (parse_op_fields 2) (Mint asset owner amt) (asset @ owner @ to_le_bytes amt)"
  "length asset = 32 \<Longrightarrow> 0 < amt \<Longrightarrow>
     reads_last (parse_op_fields 3) (Burn asset amt) (asset @ to_le_bytes amt)"
  "length asset = 32 \<Longrightarrow> 0 < pool_nonce \<Longrightarrow> 0 < cpay \<Longrightarrow> 0 < min_tokens \<Longrightarrow>
     reads_last (parse_op_fields 6) (BuyLiquidityExactIn asset pool_nonce cpay min_tokens)
       (asset @ to_le_bytes pool_nonce @ to_le_bytes cpay @ to_le_bytes min_tokens)"
  "length asset = 32 \<Longrightarrow> 0 < pool_nonce \<Longrightarrow> 0 < tokens \<Longrightarrow> 0 < min_cpay \<Longrightarrow>
     reads_last (parse_op_fields 7) (SellLiquidityExactIn asset pool_nonce tokens min_cpay output_index)
       (asset @ to_le_bytes pool_nonce @ to_le_bytes tokens @ to_le_bytes min_cpay @ to_le_bytes output_index)"
  "length asset = 32 \<Longrightarrow> 0 < pool_nonce \<Longrightarrow> 0 < claim \<Longrightarrow>
     reads_last (parse_op_fields 8) (ClaimLiquidityFees asset pool_nonce recipient claim output_index)
       (asset @ to_le_bytes pool_nonce @ recipient # to_le_bytes claim @ to_le_bytes output_index)"
  unfolding parse_op_fields_def parse_transfer_def parse_mint_def parse_burn_def parse_buy_def
    parse_sell_def parse_claim_def
  by (auto intro!: reads_last_steps)

text \<open>Strings, recipients and tails.\<close>

lemma unat_len: "n < 256 \<Longrightarrow> unat (word_of_nat n :: u8) = n" "n < 65536 \<Longrightarrow> unat (word_of_nat n :: u16) = n"
  by (simp_all add: unsigned_of_nat take_bit_nat_eq_self)

lemma reads_token_strings:
  "wf_strings name symbol metadata \<Longrightarrow>
   reads parse_token_strings (name, symbol, metadata) (strings_bytes name symbol metadata)"
  unfolding parse_token_strings_def strings_bytes_def wf_strings_def
  by (intro reads_steps) (auto simp: unat_len)

lemma reads_common:
  assumes "wf_asset version dec mode supply authority name symbol metadata"
  shows "reads parse_create_asset_common (version, dec, mode, supply, authority, name, symbol, metadata)
    (version # dec # mode_byte mode # to_le_bytes supply @ authority @ strings_bytes name symbol metadata)"
proof -
  have "decode_supply_mode (mode_byte mode) = Inr mode" "check_max_supply mode supply = Inr ()"
    "validate_token_version version = Inr ()"
    using assms
    by (cases mode; simp add: decode_supply_mode_def check_max_supply_def validate_token_version_def wf_asset_def)+
  with assms show ?thesis
    unfolding parse_create_asset_common_def
    by (intro reads_steps reads_field [OF reads_token_strings]) (auto simp: wf_asset_def intro!: reads_lift_bind reads_return)
qed

lemma reads_platform_tag: "wf_tag tag \<Longrightarrow> reads parse_platform_tag tag (tag_bytes tag)"
  unfolding parse_platform_tag_def tag_bytes_def wf_tag_def
  by (intro reads_steps) (auto simp: unat_len)

lemma reads_platform_tail:
  "wf_tag tag \<Longrightarrow> reads_last parse_optional_platform_tag_tail tag (if tag = [] then [] else tag_bytes tag)"
  unfolding parse_optional_platform_tag_tail_def
  using reads_imp_last [OF reads_platform_tag, of tag]
  by (auto simp: tag_bytes_def intro!: reads_last_end_bind reads_last_more_bind reads_last_done)

lemma reads_recipient: "wf_recipient r \<Longrightarrow> reads parse_recipient_address r (address_version r # address_payload r)"
proof -
  assume wf: "wf_recipient r"
  have "reads parse_recipient_address \<lparr>address_version = address_version r, address_payload = address_payload r\<rparr>
    (address_version r # address_payload r @ [])"
    unfolding parse_recipient_address_def
    by (intro reads_steps) (use wf in \<open>auto simp: wf_recipient_def recipient_payload_len_def\<close>)
  then show ?thesis by (cases r) simp
qed

lemma reads_recipients_list:
  "\<forall>r \<in> set rs. wf_recipient r \<Longrightarrow> n = length rs \<Longrightarrow>
   reads (r_repeat n parse_recipient_address) rs (push_recipients rs)"
proof (induction rs arbitrary: n)
  case Nil
  then show ?case by (simp add: push_recipients_def reads_return)
next
  case (Cons r rs)
  then have "reads (r_bind (r_repeat (length rs) parse_recipient_address) (\<lambda>xs. r_return (r # xs)))
      (r # rs) (push_recipients rs)"
    by (intro reads_field [OF Cons.IH reads_return]) auto
  from reads_bind [of parse_recipient_address r "address_version r # address_payload r"
      "\<lambda>x. r_bind (r_repeat (length rs) parse_recipient_address) (\<lambda>xs. r_return (x # xs))",
      OF reads_recipient this] Cons.prems
  show ?case by (simp add: push_recipients_def)
qed

lemma wf_check_recipients: "wf_recipients fee rs \<Longrightarrow> check_recipients rs = Inr ()"
  by (auto simp: wf_recipients_def check_recipients_def length_Suc_conv numeral_2_eq_2)

lemma reads_recipients:
  assumes "wf_recipients fee rs"
  shows "reads (parse_recipients fee) rs (word_of_nat (length rs) # push_recipients rs)"
proof -
  have wf: "length rs \<le> 2" "\<forall>r \<in> set rs. wf_recipient r" "fee = 0 \<longleftrightarrow> rs = []"
    using assms by (auto simp: wf_recipients_def)
  then have len: "unat (word_of_nat (length rs) :: u8) = length rs" by (simp add: unat_len)
  show ?thesis
    unfolding parse_recipients_def
    by (intro reads_steps reads_field [OF reads_recipients_list])
      (use wf len wf_check_recipients [OF assms] in \<open>auto simp: word_gt_0 Suc_le_eq reads_return\<close>)
qed

lemma reads_curve_tail: "reads_last parse_curve_tail (0, 0, 0) []"
  unfolding parse_curve_tail_def by (intro reads_last_end_bind) (simp add: reads_last_done)

lemma reads_liquidity_tail:
  assumes "wf_tag tag" "unlock \<le> MAX_SOMPI"
  shows "reads_last parse_optional_liquidity_create_tail (tag, unlock, 0, 0, 0)
    (if tag \<noteq> [] \<or> 0 < unlock then tag_bytes tag @ to_le_bytes unlock else [])"
proof (cases "tag \<noteq> [] \<or> 0 < unlock")
  case True
  have "reads_last parse_optional_liquidity_create_tail (tag, unlock, 0, 0, 0) (tag_bytes tag @ to_le_bytes unlock)"
    unfolding parse_optional_liquidity_create_tail_def
    using assms reads_last_at_last [OF reads_curve_tail]
    by (auto simp: tag_bytes_def not_less
        intro!: reads_last_more_bind reads_last_bind [OF reads_platform_tag, unfolded tag_bytes_def, simplified]
          reads_last_steps reads_last_at_last [OF reads_curve_tail])
  with True show ?thesis by simp
next
  case False
  then show ?thesis
    unfolding parse_optional_liquidity_create_tail_def
    by (auto simp: word_gt_0 intro!: reads_last_end_bind reads_last_done)
qed

lemma reads_backI:
  assumes "0 < nonce" "op \<le> 8" "reads_last (parse_op_fields op) x body"
    and "r = Inr (header_bytes op auth_index nonce @ body)"
  shows "reads_back r auth_index nonce x"
  using parse_header_then [OF assms(2,1,3)] assms(4) by (auto simp: reads_back_def)

lemma build_header_ok: "0 < nonce \<Longrightarrow> build_header op nonce auth_index = Inr (header_bytes op auth_index nonce)"
  by (simp add: build_header_iff)

lemma push_token_strings_eq: "push_token_strings payload name symbol metadata = payload @ strings_bytes name symbol metadata"
  by (simp add: push_token_strings_def strings_bytes_def)

lemma append_tag_eq:
  "wf_tag tag \<Longrightarrow> append_platform_tag_tail payload tag = Inr (payload @ tag_bytes tag)"
  "wf_tag tag \<Longrightarrow> append_optional_platform_tag_tail payload tag
     = Inr (payload @ (if tag = [] then [] else tag_bytes tag))"
  by (auto simp: append_optional_platform_tag_tail_def append_platform_tag_tail_def wf_tag_def
      validate_platform_tag_def tag_bytes_def)

lemma reads_create_asset:
  assumes "wf_asset version dec mode supply authority name symbol metadata" "wf_tag tag"
  shows "reads_last (parse_op_fields 0) (CreateAsset version dec mode supply authority name symbol metadata tag)
    ((version # dec # mode_byte mode # to_le_bytes supply @ authority @ strings_bytes name symbol metadata)
     @ (if tag = [] then [] else tag_bytes tag))"
  unfolding parse_op_fields_def parse_create_asset_def
  using reads_platform_tail [OF assms(2)]
  by (simp only: refl if_True)
    (intro reads_last_bind [OF reads_common [OF assms(1)]],
     simp only: case_prod_conv, rule reads_last_at_last, assumption, rule reads_last_done)

lemma reads_create_asset_with_mint:
  assumes "wf_asset version dec mode supply authority name symbol metadata" "wf_tag tag"
    and "length owner = 32" "amt = 0 \<longleftrightarrow> owner = zero_owner"
  shows "reads_last (parse_op_fields 4)
    (CreateAssetWithMint version dec mode supply authority name symbol metadata amt owner tag)
    ((version # dec # mode_byte mode # to_le_bytes supply @ authority @ strings_bytes name symbol metadata)
     @ to_le_bytes amt @ owner @ (if tag = [] then [] else tag_bytes tag))"
proof -
  have "parse_op_fields 4 = parse_create_asset_with_mint" by (simp add: parse_op_fields_def)
  then show ?thesis
    unfolding parse_create_asset_with_mint_def
    using assms reads_platform_tail [OF assms(2)]
    by (simp only:) (intro reads_last_bind [OF reads_common [OF assms(1)]], simp only: case_prod_conv,
      intro reads_last_steps reads_last_at_last [OF reads_platform_tail]; auto simp: word_gt_0)
qed

lemma reads_create_liquidity:
  assumes "wf_op (CreateLiquidityAsset 1 1 0 0 0 dec supply name symbol metadata seed fee rs buy buy_min tag unlock)"
  shows "reads_last (parse_op_fields 5)
    (CreateLiquidityAsset 1 1 0 0 0 dec supply name symbol metadata seed fee rs buy buy_min tag unlock)
    (1 # 1 # dec # to_le_bytes supply @ strings_bytes name symbol metadata @ to_le_bytes seed
     @ to_le_bytes fee @ (word_of_nat (length rs) # push_recipients rs) @ to_le_bytes buy @ to_le_bytes buy_min
     @ (if tag \<noteq> [] \<or> 0 < unlock then tag_bytes tag @ to_le_bytes unlock else []))"
proof -
  have parser: "parse_op_fields 5 = parse_create_liquidity_asset" by (simp add: parse_op_fields_def)
  have wf: "wf_strings name symbol metadata" "wf_recipients fee rs" "wf_tag tag" "unlock \<le> MAX_SOMPI"
    using assms by auto
  show ?thesis
    unfolding parser parse_create_liquidity_asset_def
    by (intro reads_last_steps reads_last_case_prod reads_last_bind [OF reads_token_strings [OF wf(1)]]
        reads_last_bind [OF reads_recipients [OF wf(2)]]
        reads_last_at_last [OF reads_liquidity_tail [OF wf(3,4)]])
      (use assms in \<open>auto simp: validate_token_version_def validate_liquidity_curve_version_def word_gt_0\<close>)
qed

lemma min_liquidity_gross_res:
  "min_liquidity_gross_input_for_net_input n f = Inr g \<longleftrightarrow> 0 < n \<and> f < 10000 \<and> least_gross f n g"
proof (cases "0 < n \<and> f < 10000 \<and> f \<noteq> 0")
  case False
  then consider "n = 0" | "10000 \<le> f" | "f = 0" "0 < n" by (force simp: word_gt_0 not_less)
  then show ?thesis
  proof cases
    case 3
    then have "0 < unat n" by (simp add: word_less_nat_alt)
    then have "least_gross 0 n g \<longleftrightarrow> g = n"
      using least_gross_closed [of 0 n g] 3 by (simp add: word_unat_eq_iff)
    moreover have "n \<noteq> 0" using 3 by auto
    ultimately show ?thesis
      using 3 by (auto simp: min_liquidity_gross_input_for_net_input_def)
  qed (auto simp: min_liquidity_gross_input_for_net_input_def)
next
  case True
  then have pos: "0 < n" "f < 10000" "n \<noteq> 0" "\<not> 10000 \<le> f" by auto
  obtain gross :: u128 where gross: "unat gross = (unat n - 1) * 10000 div (10000 - unat f) + 1"
      "min_liquidity_gross_input_for_net_input n f = ok_or (uint_try_from gross) WGrossNotU64"
    by (rule gross_seed_chain [OF pos(1,2)], rule that)
      (use True pos in \<open>simp_all add: min_liquidity_gross_input_for_net_input_def\<close>)
  then show ?thesis
    using pos by (simp add: ok_or_Inr_iff uint_try_from_Some_iff least_gross_closed)
qed

lemma liquidity_trade_fee_iff: "liquidity_trade_fee a f = Inr r \<longleftrightarrow> calculate_trade_fee a f = Inr r"
  by (simp add: liquidity_trade_fee_def calculate_trade_fee_def result_simps)

lemma ceil_div_u128_iff:
  "ceil_div_u128 n d = Inr q \<longleftrightarrow> 0 < unat d \<and> unat q = ceil_div (unat n) (unat d)"
  using unat_word_ceil_div [of d n]
  by (auto simp: ceil_div_u128_def Let_def word_unat_eq_iff)


section \<open>Properties\<close>

text \<open>C29. Wallet round trip, basic operations: for identifiers that decode to
  32 bytes, a positive nonce and positive amounts, the builders of the wallet
  for transfer, mint, burn, buy, sell and claim succeed, and the consensus parser
  reads the payload back as that operation, authorising input and nonce.\<close>

theorem wallet_operations_round_trip:
  assumes "parse_hex_32 hex_decode asset = Inr a" "parse_hex_32 hex_decode owner = Inr b"
    and "0 < nonce" "0 < amt" "0 < pool_nonce" "0 < cpay"
  shows "reads_back (build_transfer_payload hex_decode asset owner amt nonce i) i nonce (Transfer a b amt)
    \<and> reads_back (build_mint_payload hex_decode asset owner amt nonce i) i nonce (Mint a b amt)
    \<and> reads_back (build_burn_payload hex_decode asset amt nonce i) i nonce (Burn a amt)
    \<and> reads_back (build_buy_liquidity_payload hex_decode asset pool_nonce cpay amt nonce i) i nonce
        (BuyLiquidityExactIn a pool_nonce cpay amt)
    \<and> reads_back (build_sell_liquidity_payload hex_decode asset pool_nonce amt cpay out nonce i) i nonce
        (SellLiquidityExactIn a pool_nonce amt cpay out)
    \<and> reads_back (build_claim_liquidity_payload hex_decode asset pool_nonce recipient cpay out nonce i) i nonce
        (ClaimLiquidityFees a pool_nonce recipient cpay out)"
proof -
  have "length a = 32" "length b = 32" using assms(1,2) by (auto dest: parse_hex_32_len)
  note reads = reads_ops [OF this(1)] reads_ops(1,2) [OF this]
  show ?thesis
    using assms
    by (intro conjI; intro reads_backI)
      (auto intro!: reads simp: build_transfer_payload_def build_mint_payload_def build_burn_payload_def
        build_buy_liquidity_payload_def build_sell_liquidity_payload_def build_claim_liquidity_payload_def
        build_header_ok)
qed

theorem wallet_operations_round_trip_witness:
  "reads_back (build_transfer_payload hex_pairs (replicate 64 0x37) (replicate 64 0x38) 9 5 2) 2 5
     (Transfer (replicate 32 0x77) (replicate 32 0x88) 9)"
proof -
  have "parse_hex_32 hex_pairs (replicate 64 0x37) = Inr (replicate 32 0x77)"
    "parse_hex_32 hex_pairs (replicate 64 0x38) = Inr (replicate 32 0x88)" by code_simp+
  from wallet_operations_round_trip [OF this, of 5 9 1 1 2] show ?thesis by simp
qed

text \<open>C30. Wallet round trip, asset creation: for fields within the limits of the
  format the builders for plain assets, with and without an initial mint,
  succeed and consensus reads back the same asset.\<close>

theorem wallet_create_asset_round_trip:
  assumes "parse_hex_32 hex_decode authority = Inr a" "parse_hex_32 hex_decode owner = Inr b" "0 < nonce"
    and "wf_asset 1 dec mode supply a name symbol metadata" "wf_tag tag" "amt = 0 \<longleftrightarrow> b = zero_owner"
  shows "reads_back (build_create_asset_payload hex_decode name symbol dec (mode_byte mode) supply authority
             metadata tag nonce i) i nonce
           (CreateAsset 1 dec mode supply a name symbol metadata tag)
    \<and> reads_back (build_create_asset_with_mint_payload hex_decode name symbol dec (mode_byte mode) supply
             authority metadata amt owner tag nonce i) i nonce
           (CreateAssetWithMint 1 dec mode supply a name symbol metadata amt b tag)"
proof -
  note reads = reads_create_asset [OF assms(4,5)]
    reads_create_asset_with_mint [OF assms(4,5) parse_hex_32_len [OF assms(2)] assms(6)]
  show ?thesis
    using assms(1-3,5)
    by (intro conjI; intro reads_backI [OF assms(3) _ reads(1)] reads_backI [OF assms(3) _ reads(2)])
     (simp_all add: build_create_asset_payload_def build_create_asset_with_mint_payload_def
        push_create_common_fields_def build_header_ok push_token_strings_eq append_tag_eq)
qed

theorem wallet_create_asset_round_trip_witness:
  "reads_back (build_create_asset_payload hex_pairs [0x41] [0x42] 8 (mode_byte Capped) 1000
     (replicate 64 0x37) [] [0x74] 5 2) 2 5
     (CreateAsset 1 8 Capped 1000 (replicate 32 0x77) [0x41] [0x42] [] [0x74])"
proof -
  have "parse_hex_32 hex_pairs (replicate 64 0x37) = Inr (replicate 32 0x77)"
    "parse_hex_32 hex_pairs (replicate 64 0x38) = Inr (replicate 32 0x88)"
    "wf_asset 1 8 Capped 1000 (replicate 32 0x77) [0x41] [0x42] []" "wf_tag [0x74]"
    "(1 :: u128) = 0 \<longleftrightarrow> replicate 32 0x88 = zero_owner" by code_simp+
  from wallet_create_asset_round_trip [OF this(1,2) _ this(3-5), of 5 2] show ?thesis by simp
qed

text \<open>C31. Wallet round trip, liquidity assets: for every well-formed operation on
  the basic curve the builder succeeds, and consensus reads back all seventeen
  fields, the recipients and the optional tail included.\<close>

theorem wallet_create_liquidity_round_trip:
  assumes "wf_op (CreateLiquidityAsset 1 1 0 0 0 dec supply name symbol metadata seed fee rs buy buy_min tag unlock)"
    and "0 < nonce"
  shows "reads_back (build_create_liquidity_asset_payload name symbol dec supply metadata seed fee rs buy buy_min
             tag unlock nonce i) i nonce
    (CreateLiquidityAsset 1 1 0 0 0 dec supply name symbol metadata seed fee rs buy buy_min tag unlock)"
proof (rule reads_backI [OF assms(2) _ reads_create_liquidity [OF assms(1)]])
  have "wf_tag tag" "length rs \<le> 2" "\<not> MAX_SOMPI < unlock" "supply \<noteq> 0" "seed \<noteq> 0"
    using assms by (auto simp: wf_recipients_def)
  moreover have "validate_platform_tag tag = Inr ()" "validate_liquidity_create_parameters dec supply seed = Inr ()"
    using assms by (auto simp: wf_tag_def validate_platform_tag_def validate_liquidity_create_parameters_def)
  ultimately show "build_create_liquidity_asset_payload name symbol dec supply metadata seed fee rs buy buy_min
             tag unlock nonce i = Inr (header_bytes 5 i nonce @
      (1 # 1 # dec # to_le_bytes supply @ strings_bytes name symbol metadata @ to_le_bytes seed
     @ to_le_bytes fee @ (word_of_nat (length rs) # push_recipients rs) @ to_le_bytes buy @ to_le_bytes buy_min
     @ (if tag \<noteq> [] \<or> 0 < unlock then tag_bytes tag @ to_le_bytes unlock else [])))"
    using assms(2)
    by (simp add: build_create_liquidity_asset_payload_def Let_def build_header_ok push_token_strings_eq append_tag_eq)
qed simp

theorem wallet_create_liquidity_round_trip_witness:
  "reads_back (build_create_liquidity_asset_payload [0x41] [0x42] 0 1000000 [] 100000000 100
     [\<lparr>address_version = 0, address_payload = replicate 32 3\<rparr>] 0 0 [] 7 5 0) 0 5
     (CreateLiquidityAsset 1 1 0 0 0 0 1000000 [0x41] [0x42] [] 100000000 100
       [\<lparr>address_version = 0, address_payload = replicate 32 3\<rparr>] 0 0 [] 7)"
proof -
  have "wf_op (CreateLiquidityAsset 1 1 0 0 0 0 1000000 [0x41] [0x42] [] 100000000 100
       [\<lparr>address_version = 0, address_payload = replicate 32 3\<rparr>] 0 0 [] 7)" by code_simp
  from wallet_create_liquidity_round_trip [OF this, of 5 0] show ?thesis by simp
qed

text \<open>C32. The closed form the wallet uses for the gross input equals the search
  consensus makes: both succeed on the same arguments with the same amount.\<close>

theorem wallet_gross_input_is_canonical:
  "res_ok (min_liquidity_gross_input_for_net_input n f) = res_ok (min_gross_input_for_net_input n f)"
  by (simp add: res_ok_eq_iff min_liquidity_gross_res min_gross_input_for_net_input_iff)



text \<open>C34. Conversely, every buy that consensus accepts is quoted by the wallet with
  the same tokens, as long as the product of the reserves fits 128 bits (the
  wallet computes with 128 bits where consensus computes with 256).\<close>

theorem wallet_quotes_every_buy:
  assumes "unat x * unat y < 2 ^ 128"
    and "buy_with_gross rt x y g f = Inr (fee, net, out, rt', x', y')"
  shows "quote_liquidity_buy_token_out rt x y g f = Inr out"
proof -
  have g: "calculate_trade_fee g f = Inr fee" "checked_sub g fee = Some net" "cpmm_buy_spec rt x y net (out, rt', x', y')"
    using assms(2) by (auto simp: buy_with_gross_Inr_iff calculate_trade_fee_Inr_iff checked_sub_Some_iff cpmm_buy_Inr_iff)
  note pos = cpmm_buy_spec_pos [OF g(3)]
  define k where "k = (ucast x :: u128) * y"
  have k: "checked_mul (ucast x) y = Some k" "unat k = unat x * unat y"
    using assms(1) by (simp_all add: k_def checked_nat_defs unat_word_ariths)
  have "checked_add (ucast x :: u128) (ucast net) = Some (ucast x')" "ceil_div_u128 k (ucast x') = Inr y'"
    "checked_sub y y' = Some out"
    using g(3) by (auto simp: cpmm_buy_spec_def checked_add_Some_iff checked_sub_Some_iff ceil_div_u128_iff k(2))
  moreover have "net \<noteq> 0" "\<not> rt \<le> 1" "out \<noteq> 0" "\<not> saturating_sub rt 1 < out"
    using g(3) pos by (auto simp: cpmm_buy_spec_def word_as_nat)
  moreover have "liquidity_trade_fee g f = Inr fee" using g(1) by (simp add: liquidity_trade_fee_iff)
  ultimately show ?thesis
    using g(2) k(1) by (simp add: quote_liquidity_buy_token_out_def)
qed

theorem wallet_quotes_every_buy_witness:
  "quote_liquidity_buy_token_out 1000000 1000 1000000 100 100 = Inr 90081"
proof -
  have "buy_with_gross 1000000 1000 1000000 100 100 = Inr (1, 99, 90081, 909919, 1099, 909919)" by code_simp
  from wallet_quotes_every_buy [OF _ this] show ?thesis by simp
qed

end
