(* ===== verification/Script_Class.thy ===== *)
theory Script_Class
  imports Payload_Consensus
begin

text \<open>
  Transactions (\<open>src/consensus/core/src/tx.rs\<close>), the standard script classes
  (\<open>src/crypto/txscript/src/script_class.rs\<close>), the scripts that pay to an
  address and their inverse (\<open>src/crypto/txscript/src/standard.rs\<close>), and the
  owner identifiers of Atomic tokens
  (\<open>transaction_validator_populated.rs\<close>). The 32-byte Blake2b hash of
  the owner identifier belongs to a third-party crate and is the parameter
  \<open>blake\<close>. The assertions on address payload lengths in \<open>standard.rs\<close> are the
  result \<open>None\<close>.
\<close>

section \<open>Transactions\<close>

record script_public_key =
  spk_version :: u16
  spk_script :: bytes

record outpoint =
  outpoint_tx :: hash32
  outpoint_index :: u32

record tx_input =
  previous_outpoint :: outpoint
  signature_script :: bytes
  sequence :: u64
  sig_op_count :: u8

record tx_output =
  output_value :: u64
  output_spk :: script_public_key

record utxo_entry =
  entry_amount :: u64
  entry_spk :: script_public_key
  entry_daa_score :: u64
  entry_is_coinbase :: bool

text \<open>The cached identifier is a field, as in the source; \<open>subnetwork_id\<close> is its 20 bytes.\<close>

record transaction =
  tx_version :: u16
  tx_inputs :: "tx_input list"
  tx_outputs :: "tx_output list"
  lock_time :: u64
  subnetwork_id :: bytes
  gas :: u64
  tx_payload :: bytes
  tx_mass :: u64
  tx_id :: hash32

record populated_tx =
  ptx :: transaction
  ptx_entries :: "utxo_entry list"

definition populated_inputs :: "populated_tx \<Rightarrow> (tx_input \<times> utxo_entry) list" where
  "populated_inputs p = zip (tx_inputs (ptx p)) (ptx_entries p)"

definition SUBNETWORK_ID_COINBASE :: bytes where
  "SUBNETWORK_ID_COINBASE = 1 # replicate 19 0"

definition is_coinbase :: "transaction \<Rightarrow> bool" where
  "is_coinbase t \<longleftrightarrow> subnetwork_id t = SUBNETWORK_ID_COINBASE"

section \<open>Script classes\<close>

datatype (plugins only: code) script_class =
  NonStandard | PubKey | PubKeyECDSA | ScriptHash | LiquidityVault

definition OpData4 :: u8 where [simp]: "OpData4 = 0x04"
definition OpData32 :: u8 where [simp]: "OpData32 = 0x20"
definition OpData33 :: u8 where [simp]: "OpData33 = 0x21"
definition OpTrue :: u8 where [simp]: "OpTrue = 0x51"
definition OpDrop :: u8 where [simp]: "OpDrop = 0x75"
definition OpEqual :: u8 where [simp]: "OpEqual = 0x87"
definition OpBlake2b :: u8 where [simp]: "OpBlake2b = 0xaa"
definition OpCheckSigECDSA :: u8 where [simp]: "OpCheckSigECDSA = 0xab"
definition OpCheckSig :: u8 where [simp]: "OpCheckSig = 0xac"
definition MAX_SCRIPT_PUBLIC_KEY_VERSION :: u16 where [simp]: "MAX_SCRIPT_PUBLIC_KEY_VERSION = 0"

definition is_pay_to_pubkey :: "bytes \<Rightarrow> bool" where
  "is_pay_to_pubkey s \<longleftrightarrow> length s = 34 \<and> s ! 0 = OpData32 \<and> s ! 33 = OpCheckSig"

definition is_pay_to_pubkey_ecdsa :: "bytes \<Rightarrow> bool" where
  "is_pay_to_pubkey_ecdsa s \<longleftrightarrow> length s = 35 \<and> s ! 0 = OpData33 \<and> s ! 34 = OpCheckSigECDSA"

definition is_pay_to_script_hash :: "bytes \<Rightarrow> bool" where
  "is_pay_to_script_hash s \<longleftrightarrow>
     length s = 35 \<and> s ! 0 = OpBlake2b \<and> s ! 1 = OpData32 \<and> s ! 34 = OpEqual"

definition is_liquidity_vault :: "bytes \<Rightarrow> bool" where
  "is_liquidity_vault s \<longleftrightarrow>
     length s = 7 \<and> s ! 0 = OpData4 \<and> s ! 1 = 0x43 \<and> s ! 2 = 0x4C \<and> s ! 3 = 0x56
     \<and> s ! 4 = 0x31 \<and> s ! 5 = OpDrop \<and> s ! 6 = OpTrue"

definition from_script :: "script_public_key \<Rightarrow> script_class" where
  "from_script spk =
     (let s = spk_script spk in
      if spk_version spk = MAX_SCRIPT_PUBLIC_KEY_VERSION then
        if is_pay_to_pubkey s then PubKey
        else if is_pay_to_pubkey_ecdsa s then PubKeyECDSA
        else if is_pay_to_script_hash s then ScriptHash
        else if is_liquidity_vault s then LiquidityVault
        else NonStandard
      else NonStandard)"

definition class_version :: "script_class \<Rightarrow> u16" where
  "class_version c =
     (case c of NonStandard \<Rightarrow> 0 | PubKey \<Rightarrow> MAX_SCRIPT_PUBLIC_KEY_VERSION
      | PubKeyECDSA \<Rightarrow> MAX_SCRIPT_PUBLIC_KEY_VERSION | ScriptHash \<Rightarrow> MAX_SCRIPT_PUBLIC_KEY_VERSION
      | LiquidityVault \<Rightarrow> MAX_SCRIPT_PUBLIC_KEY_VERSION)"

section \<open>Addresses and scripts\<close>

datatype (plugins only: code) address_kind = AddrPubKey | AddrPubKeyECDSA | AddrScriptHash

fun kind_byte :: "address_kind \<Rightarrow> u8" where
  "kind_byte AddrPubKey = 0" | "kind_byte AddrPubKeyECDSA = 1" | "kind_byte AddrScriptHash = 8"

fun public_key_len :: "address_kind \<Rightarrow> nat" where
  "public_key_len AddrPubKey = 32"
| "public_key_len AddrPubKeyECDSA = 33"
| "public_key_len AddrScriptHash = 32"

fun class_of_kind :: "address_kind \<Rightarrow> script_class" where
  "class_of_kind AddrPubKey = PubKey"
| "class_of_kind AddrPubKeyECDSA = PubKeyECDSA"
| "class_of_kind AddrScriptHash = ScriptHash"

definition pay_to_pub_key :: "bytes \<Rightarrow> bytes option" where
  "pay_to_pub_key p = (if length p = 32 then Some ([OpData32] @ p @ [OpCheckSig]) else None)"

definition pay_to_pub_key_ecdsa :: "bytes \<Rightarrow> bytes option" where
  "pay_to_pub_key_ecdsa p = (if length p = 33 then Some ([OpData33] @ p @ [OpCheckSigECDSA]) else None)"

definition pay_to_script_hash :: "bytes \<Rightarrow> bytes option" where
  "pay_to_script_hash p =
     (if length p = 32 then Some ([OpBlake2b, OpData32] @ p @ [OpEqual]) else None)"

definition pay_to_address_script :: "address_kind \<Rightarrow> bytes \<Rightarrow> script_public_key option" where
  "pay_to_address_script kind p =
     map_option (\<lambda>s. \<lparr>spk_version = class_version (class_of_kind kind), spk_script = s\<rparr>)
       (case kind of
          AddrPubKey \<Rightarrow> pay_to_pub_key p
        | AddrPubKeyECDSA \<Rightarrow> pay_to_pub_key_ecdsa p
        | AddrScriptHash \<Rightarrow> pay_to_script_hash p)"

text \<open>\<open>None\<close> is \<open>TxScriptError::PubKeyFormat\<close>; the address prefix is left out.\<close>

definition extract_script_pub_key_address :: "script_public_key \<Rightarrow> (address_kind \<times> bytes) option" where
  "extract_script_pub_key_address spk =
     (let class = from_script spk; s = spk_script spk in
      if spk_version spk > class_version class then None
      else case class of
        NonStandard \<Rightarrow> None
      | PubKey \<Rightarrow> Some (AddrPubKey, take 32 (drop 1 s))
      | PubKeyECDSA \<Rightarrow> Some (AddrPubKeyECDSA, take 33 (drop 1 s))
      | ScriptHash \<Rightarrow> Some (AddrScriptHash, take 32 (drop 2 s))
      | LiquidityVault \<Rightarrow> None)"

section \<open>Owner identifiers\<close>

definition CAT_OWNER_DOMAIN :: bytes where
  "CAT_OWNER_DOMAIN = [0x43, 0x41, 0x54, 0x5F, 0x4F, 0x57, 0x4E, 0x45, 0x52, 0x5F, 0x56, 0x32]"

definition OWNER_AUTH_SCHEME_PUBKEY :: u8 where [simp]: "OWNER_AUTH_SCHEME_PUBKEY = 0"
definition OWNER_AUTH_SCHEME_PUBKEY_ECDSA :: u8 where [simp]: "OWNER_AUTH_SCHEME_PUBKEY_ECDSA = 1"
definition OWNER_AUTH_SCHEME_SCRIPT_HASH :: u8 where [simp]: "OWNER_AUTH_SCHEME_SCRIPT_HASH = 2"

definition canonical_atomic_owner_identity :: "script_public_key \<Rightarrow> (u8 \<times> bytes) option" where
  "canonical_atomic_owner_identity spk =
     (let s = spk_script spk in
      case from_script spk of
        PubKey \<Rightarrow> if length s = 34 then Some (OWNER_AUTH_SCHEME_PUBKEY, take 32 (drop 1 s)) else None
      | PubKeyECDSA \<Rightarrow>
          if length s = 35 then Some (OWNER_AUTH_SCHEME_PUBKEY_ECDSA, take 33 (drop 1 s)) else None
      | ScriptHash \<Rightarrow>
          if length s = 35 then Some (OWNER_AUTH_SCHEME_SCRIPT_HASH, take 32 (drop 2 s)) else None
      | _ \<Rightarrow> None)"

definition owner_preimage :: "u8 \<Rightarrow> bytes \<Rightarrow> bytes" where
  "owner_preimage scheme key =
     CAT_OWNER_DOMAIN @ [scheme] @ to_le_bytes (word_of_nat (length key) :: u16) @ key"

definition atomic_owner_id_from_script :: "(bytes \<Rightarrow> hash32) \<Rightarrow> script_public_key \<Rightarrow> hash32 option" where
  "atomic_owner_id_from_script blake spk =
     Option.bind (canonical_atomic_owner_identity spk) (\<lambda>(scheme, key).
     if length key > 65535 then None else Some (blake (owner_preimage scheme key)))"

definition atomic_owner_id_from_address_components ::
    "(bytes \<Rightarrow> hash32) \<Rightarrow> u8 \<Rightarrow> bytes \<Rightarrow> hash32 option" where
  "atomic_owner_id_from_address_components blake version p =
     Option.bind
       (if version = 0 \<and> length p = 32 then Some OWNER_AUTH_SCHEME_PUBKEY
        else if version = 1 \<and> length p = 33 then Some OWNER_AUTH_SCHEME_PUBKEY_ECDSA
        else if version = 8 \<and> length p = 32 then Some OWNER_AUTH_SCHEME_SCRIPT_HASH
        else None) (\<lambda>scheme.
     if length p > 65535 then None else Some (blake (owner_preimage scheme p)))"

section \<open>Paying to an address\<close>

lemma from_script_paid:
  assumes "pay_to_address_script kind p = Some spk"
  shows "from_script spk = class_of_kind kind" "spk_version spk = 0" "length p = public_key_len kind"
    "canonical_atomic_owner_identity spk
       = Some (case kind of AddrPubKey \<Rightarrow> 0 | AddrPubKeyECDSA \<Rightarrow> 1 | AddrScriptHash \<Rightarrow> 2, p)"
    "extract_script_pub_key_address spk = Some (kind, p)"
  using assms
  by (cases kind; auto simp: pay_to_address_script_def pay_to_pub_key_def pay_to_pub_key_ecdsa_def
      pay_to_script_hash_def from_script_def class_version_def is_pay_to_pubkey_def
      is_pay_to_pubkey_ecdsa_def is_pay_to_script_hash_def nth_append
      canonical_atomic_owner_identity_def extract_script_pub_key_address_def split: if_splits)+

lemma pay_to_address_script_total:
  "length p = public_key_len kind \<Longrightarrow> \<exists>spk. pay_to_address_script kind p = Some spk"
  by (cases kind) (auto simp: pay_to_address_script_def pay_to_pub_key_def pay_to_pub_key_ecdsa_def
      pay_to_script_hash_def)

section \<open>Properties\<close>

text \<open>C35. Addresses round trip through scripts: a payload of the length of its
  address kind has a standard script, and the address extracted from that script
  is the one paid to.\<close>

theorem address_script_round_trip:
  assumes "length p = public_key_len kind"
  shows "\<exists>spk. pay_to_address_script kind p = Some spk
    \<and> extract_script_pub_key_address spk = Some (kind, p)"
  using pay_to_address_script_total [OF assms] from_script_paid(5) by blast

theorem address_script_round_trip_witness:
  "\<exists>spk. pay_to_address_script AddrScriptHash (replicate 32 5) = Some spk
    \<and> extract_script_pub_key_address spk = Some (AddrScriptHash, replicate 32 5)"
  using address_script_round_trip [of "replicate 32 5" AddrScriptHash] by simp

text \<open>C36. One owner per address: the owner identifier computed from the script
  that pays to an address is the one computed from the address version and
  payload of a fee recipient, whatever the hash function. Fees claimed by the
  owner of a recipient address therefore reach the party that controls its
  script.\<close>

theorem owner_id_of_paid_script:
  assumes "pay_to_address_script kind p = Some spk"
  shows "atomic_owner_id_from_script blake spk
    = atomic_owner_id_from_address_components blake (kind_byte kind) p"
  using from_script_paid(3,4) [OF assms]
  by (cases kind) (auto simp: atomic_owner_id_from_script_def atomic_owner_id_from_address_components_def)

theorem owner_id_of_paid_script_witness:
  "atomic_owner_id_from_script (\<lambda>bs. take 32 (rev bs))
     \<lparr>spk_version = 0, spk_script = 0x20 # replicate 32 9 @ [0xac]\<rparr>
   = atomic_owner_id_from_address_components (\<lambda>bs. take 32 (rev bs)) 0 (replicate 32 9)"
proof -
  have "pay_to_address_script AddrPubKey (replicate 32 9)
    = Some \<lparr>spk_version = 0, spk_script = 0x20 # replicate 32 9 @ [0xac]\<rparr>" by code_simp
  from owner_id_of_paid_script [OF this] show ?thesis by simp
qed

end
