(* ===== verification/Atomic_Asset.thy ===== *)
theory Atomic_Asset
  imports Script_Class
begin

text \<open>
  The data of the Atomic token state and the hashes of its entries
  (\<open>src/consensus/src/model/stores/atomic_state.rs\<close>): keys, assets, liquidity
  pools with their fee recipients, and the byte strings that are hashed for a
  nonce, an asset, a balance and an anchor count. The streaming hasher is the
  parameter \<open>blake\<close> applied to the concatenation of what the source feeds it. The
  attributes that drive the serialisation library are not modelled.
\<close>

section \<open>Constants\<close>

definition ATOMIC_CONSENSUS_STATE_HASH_DOMAIN :: bytes where
  "ATOMIC_CONSENSUS_STATE_HASH_DOMAIN =
     [0x63, 0x72, 0x79, 0x70, 0x74, 0x69, 0x78, 0x2D, 0x61, 0x74, 0x6F, 0x6D, 0x69, 0x63, 0x2D,
      0x63, 0x6F, 0x6E, 0x73, 0x65, 0x6E, 0x73, 0x75, 0x73, 0x2D, 0x73, 0x74, 0x61, 0x74, 0x65,
      0x2D, 0x72, 0x6F, 0x6F, 0x74, 0x2D, 0x76, 0x32]"

definition ATOMIC_STATE_COMMITMENT_DOMAIN :: bytes where
  "ATOMIC_STATE_COMMITMENT_DOMAIN =
     [0x63, 0x72, 0x79, 0x70, 0x74, 0x69, 0x78, 0x2D, 0x75, 0x74, 0x78, 0x6F, 0x2D, 0x61, 0x74,
      0x6F, 0x6D, 0x69, 0x63, 0x2D, 0x73, 0x74, 0x61, 0x74, 0x65, 0x2D, 0x63, 0x6F, 0x6D, 0x6D,
      0x69, 0x74, 0x6D, 0x65, 0x6E, 0x74, 0x2D, 0x76, 0x31]"

definition ATOMIC_CONSENSUS_ROOT_ACCUMULATOR_VERSION :: u8 where
  [simp]: "ATOMIC_CONSENSUS_ROOT_ACCUMULATOR_VERSION = 2"
definition ATOMIC_ROOT_NAMESPACE_NONCE :: u8 where [simp]: "ATOMIC_ROOT_NAMESPACE_NONCE = 0x6E"
definition ATOMIC_ROOT_NAMESPACE_ASSET :: u8 where [simp]: "ATOMIC_ROOT_NAMESPACE_ASSET = 0x61"
definition ATOMIC_ROOT_NAMESPACE_BALANCE :: u8 where [simp]: "ATOMIC_ROOT_NAMESPACE_BALANCE = 0x62"
definition ATOMIC_ROOT_NAMESPACE_ANCHOR :: u8 where [simp]: "ATOMIC_ROOT_NAMESPACE_ANCHOR = 0x63"
definition ATOMIC_CURRENT_TOKEN_VERSION :: u8 where [simp]: "ATOMIC_CURRENT_TOKEN_VERSION = 1"
definition ATOMIC_CURRENT_LIQUIDITY_CURVE_VERSION :: u8 where
  [simp]: "ATOMIC_CURRENT_LIQUIDITY_CURVE_VERSION = 1"
definition ATOMIC_LIQUIDITY_CURVE_MODE_BASIC :: u8 where
  [simp]: "ATOMIC_LIQUIDITY_CURVE_MODE_BASIC = 0"
definition ATOMIC_LIQUIDITY_CURVE_MODE_AGGRESSIVE :: u8 where
  [simp]: "ATOMIC_LIQUIDITY_CURVE_MODE_AGGRESSIVE = 1"
definition ATOMIC_LIQUIDITY_CURVE_MODE_INDIVIDUAL :: u8 where
  [simp]: "ATOMIC_LIQUIDITY_CURVE_MODE_INDIVIDUAL = 2"
definition ATOMIC_INDIVIDUAL_MIN_VIRTUAL_CPAY_RESERVES_SOMPI :: u64 where
  [simp]: "ATOMIC_INDIVIDUAL_MIN_VIRTUAL_CPAY_RESERVES_SOMPI = 100000000000000"
definition ATOMIC_INDIVIDUAL_MAX_VIRTUAL_CPAY_RESERVES_SOMPI :: u64 where
  [simp]: "ATOMIC_INDIVIDUAL_MAX_VIRTUAL_CPAY_RESERVES_SOMPI = 800000000000000"
definition ATOMIC_INDIVIDUAL_VIRTUAL_CPAY_STEP_SOMPI :: u64 where
  [simp]: "ATOMIC_INDIVIDUAL_VIRTUAL_CPAY_STEP_SOMPI = 10000000000000"
definition ATOMIC_INDIVIDUAL_MIN_VIRTUAL_TOKEN_MULTIPLIER_BPS :: u16 where
  [simp]: "ATOMIC_INDIVIDUAL_MIN_VIRTUAL_TOKEN_MULTIPLIER_BPS = 10100"
definition ATOMIC_INDIVIDUAL_MAX_VIRTUAL_TOKEN_MULTIPLIER_BPS :: u16 where
  [simp]: "ATOMIC_INDIVIDUAL_MAX_VIRTUAL_TOKEN_MULTIPLIER_BPS = 20000"
definition ATOMIC_INDIVIDUAL_VIRTUAL_TOKEN_MULTIPLIER_STEP_BPS :: u16 where
  [simp]: "ATOMIC_INDIVIDUAL_VIRTUAL_TOKEN_MULTIPLIER_STEP_BPS = 100"
definition ATOMIC_MAX_TOKEN_VERSION :: u8 where [simp]: "ATOMIC_MAX_TOKEN_VERSION = 99"
definition ATOMIC_MAX_LIQUIDITY_CURVE_VERSION :: u8 where
  [simp]: "ATOMIC_MAX_LIQUIDITY_CURVE_VERSION = 99"
definition ATOMIC_OWNER_DOMAIN :: bytes where
  "ATOMIC_OWNER_DOMAIN = [0x43, 0x41, 0x54, 0x5F, 0x4F, 0x57, 0x4E, 0x45, 0x52, 0x5F, 0x56, 0x32]"
definition MAX_ATOMIC_LIQUIDITY_FEE_RECIPIENTS :: nat where
  [simp]: "MAX_ATOMIC_LIQUIDITY_FEE_RECIPIENTS = 2"
definition MIN_ATOMIC_LIQUIDITY_FEE_BPS :: u16 where [simp]: "MIN_ATOMIC_LIQUIDITY_FEE_BPS = 10"
definition MAX_ATOMIC_LIQUIDITY_FEE_BPS :: u16 where [simp]: "MAX_ATOMIC_LIQUIDITY_FEE_BPS = 1000"
definition MAX_ATOMIC_PLATFORM_TAG_LEN :: nat where [simp]: "MAX_ATOMIC_PLATFORM_TAG_LEN = 50"
definition MAX_ATOMIC_NAME_LEN :: nat where [simp]: "MAX_ATOMIC_NAME_LEN = 32"
definition MAX_ATOMIC_SYMBOL_LEN :: nat where [simp]: "MAX_ATOMIC_SYMBOL_LEN = 10"
definition MAX_ATOMIC_METADATA_LEN :: nat where [simp]: "MAX_ATOMIC_METADATA_LEN = 256"
definition MAX_ATOMIC_DECIMALS :: u8 where [simp]: "MAX_ATOMIC_DECIMALS = 18"
definition ATOMIC_NONCE_SCOPE_OWNER :: u8 where [simp]: "ATOMIC_NONCE_SCOPE_OWNER = 0"
definition ATOMIC_NONCE_SCOPE_ASSET :: u8 where [simp]: "ATOMIC_NONCE_SCOPE_ASSET = 1"

section \<open>Keys\<close>

record balance_key =
  bk_asset_id :: hash32
  bk_owner_id :: hash32

record nonce_key =
  nk_owner_id :: hash32
  nk_scope_kind :: u8
  nk_scope_id :: hash32

definition nonce_key_owner :: "hash32 \<Rightarrow> nonce_key" where
  "nonce_key_owner owner_id =
     \<lparr>nk_owner_id = owner_id, nk_scope_kind = ATOMIC_NONCE_SCOPE_OWNER, nk_scope_id = replicate 32 0\<rparr>"

definition nonce_key_asset :: "hash32 \<Rightarrow> hash32 \<Rightarrow> nonce_key" where
  "nonce_key_asset owner_id asset_id =
     \<lparr>nk_owner_id = owner_id, nk_scope_kind = ATOMIC_NONCE_SCOPE_ASSET, nk_scope_id = asset_id\<rparr>"

section \<open>Assets and pools\<close>

datatype (plugins only: code) atomic_supply_mode = UncappedSupply | CappedSupply

datatype (plugins only: code) asset_class = Standard | Liquidity

record fee_recipient =
  fr_owner_id :: hash32
  fr_address_version :: u8
  fr_address_payload :: bytes
  fr_unclaimed_sompi :: u64

record pool_state =
  pl_pool_nonce :: u64
  pl_curve_version :: u8
  pl_curve_mode :: u8
  pl_individual_virtual_cpay_reserves_sompi :: u64
  pl_individual_virtual_token_multiplier_bps :: u16
  pl_real_cpay_reserves_sompi :: u64
  pl_real_token_reserves :: u128
  pl_virtual_cpay_reserves_sompi :: u64
  pl_virtual_token_reserves :: u128
  pl_unclaimed_fee_total_sompi :: u64
  pl_fee_bps :: u16
  pl_fee_recipients :: "fee_recipient list"
  pl_vault_outpoint :: outpoint
  pl_vault_value_sompi :: u64
  pl_unlock_target_sompi :: u64
  pl_unlocked :: bool

record asset_state =
  as_creator_owner_id :: hash32
  as_asset_class :: asset_class
  as_token_version :: u8
  as_mint_authority_owner_id :: hash32
  as_decimals :: u8
  as_supply_mode :: atomic_supply_mode
  as_max_supply :: u128
  as_total_supply :: u128
  as_name :: bytes
  as_symbol :: bytes
  as_metadata :: bytes
  as_platform_tag :: bytes
  as_created_block_hash :: "hash32 option"
  as_created_daa_score :: "u64 option"
  as_created_at :: "u64 option"
  as_liquidity :: "pool_state option"

section \<open>Hashes of entries\<close>

definition atomic_asset_class_to_u8 :: "asset_class \<Rightarrow> u8" where
  "atomic_asset_class_to_u8 c = (case c of Standard \<Rightarrow> 0 | Liquidity \<Rightarrow> 1)"

definition atomic_supply_mode_to_u8 :: "atomic_supply_mode \<Rightarrow> u8" where
  "atomic_supply_mode_to_u8 mode = (case mode of UncappedSupply \<Rightarrow> 0 | CappedSupply \<Rightarrow> 1)"

definition hash_len :: "nat \<Rightarrow> bytes" where
  "hash_len n = to_le_bytes (word_of_nat n :: u64)"

definition hash_outpoint :: "outpoint \<Rightarrow> bytes" where
  "hash_outpoint o1 = outpoint_tx o1 @ to_le_bytes (outpoint_index o1)"

definition hash_fee_recipient :: "fee_recipient \<Rightarrow> bytes" where
  "hash_fee_recipient r = fr_owner_id r @ [fr_address_version r]
     @ hash_len (length (fr_address_payload r)) @ fr_address_payload r
     @ to_le_bytes (fr_unclaimed_sompi r)"

definition hash_liquidity_pool :: "pool_state \<Rightarrow> bytes" where
  "hash_liquidity_pool pool =
     to_le_bytes (pl_pool_nonce pool) @ [pl_curve_version pool] @ [pl_curve_mode pool]
     @ to_le_bytes (pl_individual_virtual_cpay_reserves_sompi pool)
     @ to_le_bytes (pl_individual_virtual_token_multiplier_bps pool)
     @ to_le_bytes (pl_real_cpay_reserves_sompi pool)
     @ to_le_bytes (pl_real_token_reserves pool)
     @ to_le_bytes (pl_virtual_cpay_reserves_sompi pool)
     @ to_le_bytes (pl_virtual_token_reserves pool)
     @ to_le_bytes (pl_unclaimed_fee_total_sompi pool)
     @ to_le_bytes (pl_fee_bps pool)
     @ hash_len (length (pl_fee_recipients pool))
     @ concat (map hash_fee_recipient (pl_fee_recipients pool))
     @ hash_outpoint (pl_vault_outpoint pool)
     @ to_le_bytes (pl_vault_value_sompi pool)
     @ to_le_bytes (pl_unlock_target_sompi pool)
     @ [if pl_unlocked pool then 1 else 0]"

definition hash_asset :: "asset_state \<Rightarrow> bytes" where
  "hash_asset asset =
     [atomic_asset_class_to_u8 (as_asset_class asset)] @ [as_token_version asset]
     @ as_mint_authority_owner_id asset
     @ [atomic_supply_mode_to_u8 (as_supply_mode asset)]
     @ to_le_bytes (as_max_supply asset) @ to_le_bytes (as_total_supply asset)
     @ hash_len (length (as_platform_tag asset)) @ as_platform_tag asset
     @ (case as_liquidity asset of Some pool \<Rightarrow> [1] @ hash_liquidity_pool pool | None \<Rightarrow> [0])"

definition new_entry_hasher :: "u8 \<Rightarrow> bytes" where
  "new_entry_hasher namespace = ATOMIC_CONSENSUS_STATE_HASH_DOMAIN @ [namespace]"

definition hash_nonce_entry :: "(bytes \<Rightarrow> hash32) \<Rightarrow> nonce_key \<Rightarrow> u64 \<Rightarrow> hash32" where
  "hash_nonce_entry blake key nonce =
     blake (new_entry_hasher ATOMIC_ROOT_NAMESPACE_NONCE @ nk_owner_id key @ [nk_scope_kind key]
            @ nk_scope_id key @ to_le_bytes nonce)"

definition hash_asset_entry :: "(bytes \<Rightarrow> hash32) \<Rightarrow> hash32 \<Rightarrow> asset_state \<Rightarrow> hash32" where
  "hash_asset_entry blake asset_id asset =
     blake (new_entry_hasher ATOMIC_ROOT_NAMESPACE_ASSET @ asset_id @ hash_asset asset)"

definition hash_balance_entry :: "(bytes \<Rightarrow> hash32) \<Rightarrow> balance_key \<Rightarrow> u128 \<Rightarrow> hash32" where
  "hash_balance_entry blake key amount =
     blake (new_entry_hasher ATOMIC_ROOT_NAMESPACE_BALANCE @ bk_asset_id key @ bk_owner_id key
            @ to_le_bytes amount)"

definition hash_anchor_count_entry :: "(bytes \<Rightarrow> hash32) \<Rightarrow> hash32 \<Rightarrow> u64 \<Rightarrow> hash32" where
  "hash_anchor_count_entry blake owner_id count =
     blake (new_entry_hasher ATOMIC_ROOT_NAMESPACE_ANCHOR @ owner_id @ to_le_bytes count)"

end
