(* ===== verification/Atomic_Root.thy ===== *)
theory Atomic_Root
  imports Atomic_Asset "HOL-Library.Multiset"
begin

text \<open>
  The root accumulator of the Atomic token state
  (\<open>AtomicConsensusRootAccumulator\<close> in \<open>atomic_state.rs\<close>): a counter and the
  exclusive or of the entry hashes for each of the four namespaces, updated one
  entry at a time. The lemmas compute a whole namespace from its entries,
  whatever their order, and show that an incremental update agrees with it.
\<close>

unbundle bit_operations_syntax

section \<open>The accumulator\<close>

record root_accumulator =
  ra_version :: u8
  ra_nonce_count :: u64
  ra_nonce_xor :: hash32
  ra_asset_count :: u64
  ra_asset_xor :: hash32
  ra_balance_count :: u64
  ra_balance_xor :: hash32
  ra_anchor_count :: u64
  ra_anchor_xor :: hash32

definition root_default :: root_accumulator where
  "root_default =
     \<lparr>ra_version = ATOMIC_CONSENSUS_ROOT_ACCUMULATOR_VERSION,
      ra_nonce_count = 0, ra_nonce_xor = replicate 32 0,
      ra_asset_count = 0, ra_asset_xor = replicate 32 0,
      ra_balance_count = 0, ra_balance_xor = replicate 32 0,
      ra_anchor_count = 0, ra_anchor_xor = replicate 32 0\<rparr>"

definition root_hash :: "(bytes \<Rightarrow> hash32) \<Rightarrow> root_accumulator \<Rightarrow> hash32" where
  "root_hash blake r =
     blake (ATOMIC_CONSENSUS_STATE_HASH_DOMAIN @ [ra_version r]
       @ [ATOMIC_ROOT_NAMESPACE_NONCE] @ to_le_bytes (ra_nonce_count r) @ ra_nonce_xor r
       @ [ATOMIC_ROOT_NAMESPACE_ASSET] @ to_le_bytes (ra_asset_count r) @ ra_asset_xor r
       @ [ATOMIC_ROOT_NAMESPACE_BALANCE] @ to_le_bytes (ra_balance_count r) @ ra_balance_xor r
       @ [ATOMIC_ROOT_NAMESPACE_ANCHOR] @ to_le_bytes (ra_anchor_count r) @ ra_anchor_xor r)"

definition xor_hash_in_place :: "hash32 \<Rightarrow> hash32 \<Rightarrow> hash32" where
  "xor_hash_in_place target hash =
     map2 (\<lambda>t v. t XOR v) target hash @ drop (length hash) target"

text \<open>
  \<open>namespace_mut\<close> gives mutable access to one counter and one hash; here it
  applies an update to them. An unknown namespace is unreachable in the source.
\<close>

definition namespace_mut ::
    "u8 \<Rightarrow> (u64 \<times> hash32 \<Rightarrow> u64 \<times> hash32) \<Rightarrow> root_accumulator \<Rightarrow> root_accumulator" where
  "namespace_mut namespace f r =
     (if namespace = ATOMIC_ROOT_NAMESPACE_NONCE then
        (let (c, x) = f (ra_nonce_count r, ra_nonce_xor r) in r\<lparr>ra_nonce_count := c, ra_nonce_xor := x\<rparr>)
      else if namespace = ATOMIC_ROOT_NAMESPACE_ASSET then
        (let (c, x) = f (ra_asset_count r, ra_asset_xor r) in r\<lparr>ra_asset_count := c, ra_asset_xor := x\<rparr>)
      else if namespace = ATOMIC_ROOT_NAMESPACE_BALANCE then
        (let (c, x) = f (ra_balance_count r, ra_balance_xor r)
         in r\<lparr>ra_balance_count := c, ra_balance_xor := x\<rparr>)
      else if namespace = ATOMIC_ROOT_NAMESPACE_ANCHOR then
        (let (c, x) = f (ra_anchor_count r, ra_anchor_xor r)
         in r\<lparr>ra_anchor_count := c, ra_anchor_xor := x\<rparr>)
      else r)"

definition apply_entry ::
    "u8 \<Rightarrow> hash32 option \<Rightarrow> hash32 option \<Rightarrow> root_accumulator \<Rightarrow> root_accumulator" where
  "apply_entry namespace old_hash new_hash r =
     (if old_hash = new_hash then r
      else
        let r1 = (case old_hash of
                    Some h \<Rightarrow> namespace_mut namespace
                      (\<lambda>(count, x). (saturating_sub count 1, xor_hash_in_place x h)) r
                  | None \<Rightarrow> r)
        in case new_hash of
             Some h \<Rightarrow> namespace_mut namespace
               (\<lambda>(count, x). (saturating_add count 1, xor_hash_in_place x h)) r1
           | None \<Rightarrow> r1)"

definition apply_nonce ::
    "(bytes \<Rightarrow> hash32) \<Rightarrow> nonce_key \<Rightarrow> u64 option \<Rightarrow> u64 option \<Rightarrow> root_accumulator \<Rightarrow> root_accumulator" where
  "apply_nonce blake key old_value new_value =
     apply_entry ATOMIC_ROOT_NAMESPACE_NONCE
       (map_option (hash_nonce_entry blake key) old_value)
       (map_option (hash_nonce_entry blake key) new_value)"

definition apply_asset ::
    "(bytes \<Rightarrow> hash32) \<Rightarrow> hash32 \<Rightarrow> asset_state option \<Rightarrow> asset_state option \<Rightarrow> root_accumulator \<Rightarrow> root_accumulator" where
  "apply_asset blake asset_id old_value new_value =
     apply_entry ATOMIC_ROOT_NAMESPACE_ASSET
       (map_option (hash_asset_entry blake asset_id) old_value)
       (map_option (hash_asset_entry blake asset_id) new_value)"

definition apply_balance ::
    "(bytes \<Rightarrow> hash32) \<Rightarrow> balance_key \<Rightarrow> u128 option \<Rightarrow> u128 option \<Rightarrow> root_accumulator \<Rightarrow> root_accumulator" where
  "apply_balance blake key old_value new_value =
     apply_entry ATOMIC_ROOT_NAMESPACE_BALANCE
       (map_option (hash_balance_entry blake key) old_value)
       (map_option (hash_balance_entry blake key) new_value)"

definition apply_anchor_count ::
    "(bytes \<Rightarrow> hash32) \<Rightarrow> hash32 \<Rightarrow> u64 option \<Rightarrow> u64 option \<Rightarrow> root_accumulator \<Rightarrow> root_accumulator" where
  "apply_anchor_count blake owner_id old_value new_value =
     apply_entry ATOMIC_ROOT_NAMESPACE_ANCHOR
       (map_option (hash_anchor_count_entry blake owner_id) old_value)
       (map_option (hash_anchor_count_entry blake owner_id) new_value)"

section \<open>A namespace as a whole\<close>

text \<open>
  One namespace over its counter and hash: the update of the source, and the
  value a list of hashes accumulates from the empty namespace.
\<close>

definition ns_step :: "hash32 option \<Rightarrow> hash32 option \<Rightarrow> u64 \<times> hash32 \<Rightarrow> u64 \<times> hash32" where
  "ns_step old new p =
     (if old = new then p
      else
        let p1 = (case old of Some h \<Rightarrow> (saturating_sub (fst p) 1, xor_hash_in_place (snd p) h) | None \<Rightarrow> p)
        in case new of Some h \<Rightarrow> (saturating_add (fst p1) 1, xor_hash_in_place (snd p1) h) | None \<Rightarrow> p1)"

definition ns_total :: "hash32 list \<Rightarrow> u64 \<times> hash32" where
  "ns_total hs = (word_of_nat (length hs), fold (\<lambda>h x. xor_hash_in_place x h) hs (replicate 32 0))"

text \<open>Setting or removing one key of a hash map, and the hashes of its entries.\<close>

definition alist_put :: "'k \<Rightarrow> 'v option \<Rightarrow> ('k \<times> 'v) list \<Rightarrow> ('k \<times> 'v) list" where
  "alist_put k v al = (case v of Some x \<Rightarrow> AList.update k x al | None \<Rightarrow> AList.delete k al)"

definition entry_hashes :: "('k \<Rightarrow> 'v \<Rightarrow> hash32) \<Rightarrow> ('k \<times> 'v) list \<Rightarrow> hash32 list" where
  "entry_hashes H al = map (\<lambda>(k, v). H k v) al"

section \<open>Exclusive or of hashes\<close>

lemma xor_hash_eq: "length a = length b \<Longrightarrow> xor_hash_in_place a b = map2 (XOR) a b"
  by (simp add: xor_hash_in_place_def)

lemma length_xor_hash [simp]: "length (xor_hash_in_place a b) = length a"
  by (simp add: xor_hash_in_place_def)

lemma nth_xor_hash:
  "i < length a \<Longrightarrow> xor_hash_in_place a b ! i = (if i < length b then a ! i XOR b ! i else a ! i)"
  by (simp add: xor_hash_in_place_def nth_append min_def)

lemma xor_hash_swap:
  "xor_hash_in_place (xor_hash_in_place a b) c = xor_hash_in_place (xor_hash_in_place a c) b"
  by (intro nth_equalityI) (simp_all add: nth_xor_hash ac_simps)

lemma xor_hash_cancel:
  "length a = 32 \<Longrightarrow> length b = 32 \<Longrightarrow> xor_hash_in_place (xor_hash_in_place a b) b = a"
  by (intro nth_equalityI) (simp_all add: xor_hash_eq ac_simps)

section \<open>Totals of a namespace\<close>

lemma fold_xor_length:
  "length x = 32 \<Longrightarrow> length (fold (\<lambda>h x. xor_hash_in_place x h) hs x) = 32"
  by (induction hs arbitrary: x) simp_all

lemma fold_xor_swap:
  "fold (\<lambda>h x. xor_hash_in_place x h) hs (xor_hash_in_place x h)
     = xor_hash_in_place (fold (\<lambda>h x. xor_hash_in_place x h) hs x) h"
  by (induction hs arbitrary: x) (simp_all add: xor_hash_swap [of _ h])

lemma saturating_add_one:
  "n + 1 < 2 ^ 64 \<Longrightarrow> saturating_add (word_of_nat n :: u64) 1 = word_of_nat (n + 1)"
  by (simp add: saturating_add_def word_of_nat_eq_iff unsigned_of_nat take_bit_nat_eq_self uint_nat)

lemma saturating_sub_one:
  "n < 2 ^ 64 \<Longrightarrow> 0 < n \<Longrightarrow> saturating_sub (word_of_nat n :: u64) 1 = word_of_nat (n - 1)"
  by (simp add: saturating_sub_def word_le_nat_alt unsigned_of_nat take_bit_nat_eq_self of_nat_diff)

lemma ns_total_cons:
  assumes "length hs + 1 < 2 ^ 64"
  shows "ns_total (h # hs)
    = (saturating_add (fst (ns_total hs)) 1, xor_hash_in_place (snd (ns_total hs)) h)"
  using assms by (simp add: ns_total_def saturating_add_one [simplified] fold_xor_swap)


lemma ns_total_mset:
  assumes "mset hs = mset hs'"
  shows "ns_total hs = ns_total hs'"
proof -
  have "fold (\<lambda>h x. xor_hash_in_place x h) hs = fold (\<lambda>h x. xor_hash_in_place x h) hs'"
    using assms by (intro fold_multiset_equiv) (auto simp: fun_eq_iff xor_hash_swap)
  moreover have "length hs = length hs'" using assms by (rule mset_eq_length)
  ultimately show ?thesis by (simp add: ns_total_def)
qed

lemma ns_step_add:
  "length hs + 1 < 2 ^ 64 \<Longrightarrow> ns_step None (Some h) (ns_total hs) = ns_total (h # hs)"
  by (simp add: ns_step_def ns_total_cons Let_def)

lemma ns_step_remove:
  assumes "length hs + 1 < 2 ^ 64" "length h = 32"
  shows "ns_step (Some h) None (ns_total (h # hs)) = ns_total hs"
  using assms saturating_sub_one [of "length hs + 1"]
  by (simp add: ns_step_def ns_total_def fold_xor_swap xor_hash_cancel fold_xor_length)

lemma ns_step_replace:
  assumes "length hs + 1 < 2 ^ 64" "length h = 32"
  shows "ns_step (Some h) (Some g) (ns_total (h # hs)) = ns_total (g # hs)"
proof (cases "h = g")
  case False
  then have "ns_step (Some h) (Some g) p = ns_step None (Some g) (ns_step (Some h) None p)" for p
    by (simp add: ns_step_def)
  then show ?thesis using assms by (simp only: ns_step_remove ns_step_add)
qed (simp add: ns_step_def)

section \<open>Keyed entries\<close>

lemma map_of_alist_put [simp]: "map_of (alist_put k v al) = (map_of al)(k := v)"
  by (cases v) (auto simp: alist_put_def update_conv' delete_conv')

lemma distinct_alist_put [simp]:
  "distinct (map fst al) \<Longrightarrow> distinct (map fst (alist_put k v al))"
  by (cases v) (auto simp: alist_put_def distinct_update distinct_delete)

lemma delete_absent: "map_of al k = None \<Longrightarrow> AList.delete k al = al"
  by (induction al) (auto split: if_splits)

lemma delete_updated: "AList.delete k (AList.update k v al) = AList.delete k al"
  by (induction al) auto

lemma mset_alist_delete:
  "distinct (map fst al) \<Longrightarrow> map_of al k = Some v \<Longrightarrow>
   mset al = add_mset (k, v) (mset (AList.delete k al))"
proof (induction al)
  case (Cons p al)
  show ?case
  proof (cases "fst p = k")
    case True
    then have "map_of al k = None" using Cons.prems(1) by (auto simp: map_of_eq_None_iff)
    then show ?thesis using True Cons.prems(2) by (cases p) (simp add: delete_absent)
  next
    case False
    then show ?thesis using Cons.IH Cons.prems by (cases p) (simp add: add_mset_commute)
  qed
qed simp

lemma mset_alist_update:
  "distinct (map fst al) \<Longrightarrow>
   mset (AList.update k v al) = add_mset (k, v) (mset (AList.delete k al))"
  using mset_alist_delete [of "AList.update k v al" k v]
  by (simp add: distinct_update update_conv' delete_updated)

lemma entry_hashes_simps [simp]:
  "length (entry_hashes H al) = length al" "entry_hashes H ((k, v) # al) = H k v # entry_hashes H al"
  by (simp_all add: entry_hashes_def)

lemma ns_total_entries_mset:
  "mset al = mset al' \<Longrightarrow> ns_total (entry_hashes H al) = ns_total (entry_hashes H al')"
  unfolding entry_hashes_def by (rule ns_total_mset) simp

lemma ns_step_entries:
  assumes "distinct (map fst al)" "length al + 1 < 2 ^ 64" "\<And>k v. length (H k v) = 32"
  shows "ns_step (map_option (H k) (map_of al k)) (map_option (H k) v) (ns_total (entry_hashes H al))
     = ns_total (entry_hashes H (alist_put k v al))"
proof -
  let ?d = "AList.delete k al"
  have short: "length ?d + 1 < 2 ^ 64"
    using assms(2) by (rule le_less_trans [rotated]) (simp add: length_delete_le)
  have present: "ns_total (entry_hashes H al) = ns_total (H k w # entry_hashes H ?d)"
    if "map_of al k = Some w" for w
    using ns_total_entries_mset [of al "(k, w) # ?d" H, simplified mset.simps entry_hashes_simps,
        OF mset_alist_delete [OF assms(1) that]] .
  have new: "ns_total (entry_hashes H (AList.update k x al)) = ns_total (H k x # entry_hashes H ?d)" for x
    using ns_total_entries_mset [of "AList.update k x al" "(k, x) # ?d" H,
        simplified mset.simps entry_hashes_simps, OF mset_alist_update [OF assms(1)]] .
  note steps = ns_step_add [of "entry_hashes H ?d", simplified entry_hashes_simps, OF short]
    ns_step_remove [of "entry_hashes H ?d", simplified entry_hashes_simps, OF short assms(3)]
    ns_step_replace [of "entry_hashes H ?d", simplified entry_hashes_simps, OF short assms(3)]
  show ?thesis
  proof (cases "map_of al k")
    case None
    show ?thesis
      using steps(1) unfolding None by (cases v) (simp_all add: alist_put_def new delete_absent [OF None] ns_step_def [of None None])
  next
    case (Some w)
    show ?thesis unfolding Some present [OF Some]
      by (cases v) (simp_all only: alist_put_def new option.map option.case steps)
  qed
qed

end
