(* ===== verification/Atomic_State.thy ===== *)
theory Atomic_State
  imports Atomic_Root
begin

text \<open>
  The Atomic token state (\<open>AtomicConsensusState\<close> in
  \<open>src/consensus/src/model/stores/atomic_state.rs\<close>): four keyed namespaces
  (nonces, assets, balances, anchor counts) and the index of liquidity vaults,
  held in memory or as an overlay over the current store on disk, with the delta
  that a block leaves behind. A hash map is an association list, whose order
  stands for the unspecified iteration order; the store on disk is the record of
  its lookup functions (a read that fails ends the node in the source). Setters
  that can fail return the error together with the state they leave.
\<close>

section \<open>The state\<close>

record atomic_store =
  read_current_nonce :: "nonce_key \<Rightarrow> u64 option"
  read_current_asset :: "hash32 \<Rightarrow> asset_state option"
  read_current_balance :: "balance_key \<Rightarrow> u128 option"
  read_current_anchor_count :: "hash32 \<Rightarrow> u64 option"
  read_current_vault_asset :: "outpoint \<Rightarrow> hash32 option"

record 'v delta_value =
  dv_old_value :: "'v option"
  dv_new_value :: "'v option"

record delta_builder =
  db_nonces :: "(nonce_key \<times> u64 delta_value) list"
  db_assets :: "(hash32 \<times> asset_state delta_value) list"
  db_balances :: "(balance_key \<times> u128 delta_value) list"
  db_anchor_counts :: "(hash32 \<times> u64 delta_value) list"

definition delta_builder_default :: delta_builder where
  "delta_builder_default = \<lparr>db_nonces = [], db_assets = [], db_balances = [], db_anchor_counts = []\<rparr>"

text \<open>One change of a delta; the four change types of the source differ in their key and value types.\<close>

record ('k, 'v) key_change =
  ch_key :: 'k
  ch_old_value :: "'v option"
  ch_new_value :: "'v option"

record state_delta =
  sd_nonce_changes :: "(nonce_key, u64) key_change list"
  sd_asset_changes :: "(hash32, asset_state) key_change list"
  sd_balance_changes :: "(balance_key, u128) key_change list"
  sd_anchor_count_changes :: "(hash32, u64) key_change list"

record atomic_state =
  st_next_nonces :: "(nonce_key \<times> u64) list"
  st_assets :: "(hash32 \<times> asset_state) list"
  st_balances :: "(balance_key \<times> u128) list"
  st_anchor_counts :: "(hash32 \<times> u64) list"
  st_vault_outpoints :: "(outpoint \<times> hash32) list"
  st_root :: root_accumulator
  st_delta_tracking :: bool
  st_dirty_delta :: delta_builder
  st_current_store :: "atomic_store option"
  st_deleted_nonces :: "nonce_key set"
  st_deleted_assets :: "hash32 set"
  st_deleted_balances :: "balance_key set"
  st_deleted_anchor_counts :: "hash32 set"
  st_deleted_vault_outpoints :: "outpoint set"

definition atomic_state_default :: atomic_state where
  "atomic_state_default =
     \<lparr>st_next_nonces = [], st_assets = [], st_balances = [], st_anchor_counts = [],
      st_vault_outpoints = [], st_root = root_default, st_delta_tracking = False,
      st_dirty_delta = delta_builder_default, st_current_store = None,
      st_deleted_nonces = {}, st_deleted_assets = {}, st_deleted_balances = {},
      st_deleted_anchor_counts = {}, st_deleted_vault_outpoints = {}\<rparr>"

definition root_only :: "root_accumulator \<Rightarrow> atomic_state" where
  "root_only r = atomic_state_default\<lparr>st_root := r\<rparr>"

definition is_disk_backed :: "atomic_state \<Rightarrow> bool" where
  "is_disk_backed st \<longleftrightarrow> st_current_store st \<noteq> None"

definition attach_current_store :: "atomic_store \<Rightarrow> atomic_state \<Rightarrow> atomic_state" where
  "attach_current_store store st = st\<lparr>st_current_store := Some store\<rparr>"

definition has_in_memory_values :: "atomic_state \<Rightarrow> bool" where
  "has_in_memory_values st \<longleftrightarrow>
     st_next_nonces st \<noteq> [] \<or> st_assets st \<noteq> [] \<or> st_balances st \<noteq> []
     \<or> st_anchor_counts st \<noteq> [] \<or> st_vault_outpoints st \<noteq> []"

section \<open>The root of a state\<close>

definition from_state_maps :: "(bytes \<Rightarrow> hash32) \<Rightarrow> atomic_state \<Rightarrow> root_accumulator" where
  "from_state_maps blake st =
     (let r0 = root_default;
          r1 = fold (\<lambda>(k, v). apply_nonce blake k None (Some v)) (st_next_nonces st) r0;
          r2 = fold (\<lambda>(k, v). apply_asset blake k None (Some v)) (st_assets st) r1;
          r3 = fold (\<lambda>(k, v). apply_balance blake k None (Some v)) (st_balances st) r2
      in fold (\<lambda>(k, v). apply_anchor_count blake k None (Some v)) (st_anchor_counts st) r3)"

definition root_accumulator :: "(bytes \<Rightarrow> hash32) \<Rightarrow> atomic_state \<Rightarrow> root_accumulator" where
  "root_accumulator blake st =
     (if st_current_store st \<noteq> None
         \<or> st_next_nonces st = [] \<and> st_assets st = [] \<and> st_balances st = [] \<and> st_anchor_counts st = []
      then st_root st else from_state_maps blake st)"

definition canonical_hash :: "(bytes \<Rightarrow> hash32) \<Rightarrow> atomic_state \<Rightarrow> hash32" where
  "canonical_hash blake st = root_hash blake (root_accumulator blake st)"

definition as_virtual_root_state :: "(bytes \<Rightarrow> hash32) \<Rightarrow> atomic_state \<Rightarrow> atomic_state" where
  "as_virtual_root_state blake st = root_only (root_accumulator blake st)"

definition is_root_only :: "atomic_state \<Rightarrow> bool" where
  "is_root_only st \<longleftrightarrow> \<not> has_in_memory_values st \<and> st_root st \<noteq> root_default"

definition header_commitment :: "(bytes \<Rightarrow> hash32) \<Rightarrow> hash32 \<Rightarrow> hash32 \<Rightarrow> bool \<Rightarrow> hash32" where
  "header_commitment blake utxo_commitment atomic_state_hash payload_hf_active =
     (if \<not> payload_hf_active then utxo_commitment
      else blake (ATOMIC_STATE_COMMITMENT_DOMAIN @ utxo_commitment @ atomic_state_hash))"

definition header_commitment_for_state ::
    "(bytes \<Rightarrow> hash32) \<Rightarrow> atomic_state \<Rightarrow> hash32 \<Rightarrow> bool \<Rightarrow> hash32" where
  "header_commitment_for_state blake st utxo_commitment payload_hf_active =
     header_commitment blake utxo_commitment (canonical_hash blake st) payload_hf_active"

section \<open>Lookups\<close>

definition read_store_nonce :: "atomic_state \<Rightarrow> nonce_key \<Rightarrow> u64 option" where
  "read_store_nonce st key =
     Option.bind (st_current_store st) (\<lambda>store. read_current_nonce store key)"

definition nonce_option :: "atomic_state \<Rightarrow> nonce_key \<Rightarrow> u64 option" where
  "nonce_option st key =
     (if key \<in> st_deleted_nonces st then None
      else case map_of (st_next_nonces st) key of Some v \<Rightarrow> Some v | None \<Rightarrow> read_store_nonce st key)"

definition read_store_asset :: "atomic_state \<Rightarrow> hash32 \<Rightarrow> asset_state option" where
  "read_store_asset st asset_id =
     Option.bind (st_current_store st) (\<lambda>store. read_current_asset store asset_id)"

definition asset_option :: "atomic_state \<Rightarrow> hash32 \<Rightarrow> asset_state option" where
  "asset_option st asset_id =
     (if asset_id \<in> st_deleted_assets st then None
      else case map_of (st_assets st) asset_id of Some v \<Rightarrow> Some v | None \<Rightarrow> read_store_asset st asset_id)"

definition read_store_balance :: "atomic_state \<Rightarrow> balance_key \<Rightarrow> u128 option" where
  "read_store_balance st key =
     Option.bind (st_current_store st) (\<lambda>store. read_current_balance store key)"

definition balance_option :: "atomic_state \<Rightarrow> balance_key \<Rightarrow> u128 option" where
  "balance_option st key =
     (if key \<in> st_deleted_balances st then None
      else case map_of (st_balances st) key of Some v \<Rightarrow> Some v | None \<Rightarrow> read_store_balance st key)"

definition read_store_anchor_count :: "atomic_state \<Rightarrow> hash32 \<Rightarrow> u64 option" where
  "read_store_anchor_count st owner_id =
     Option.bind (st_current_store st) (\<lambda>store. read_current_anchor_count store owner_id)"

definition anchor_count_option :: "atomic_state \<Rightarrow> hash32 \<Rightarrow> u64 option" where
  "anchor_count_option st owner_id =
     (if owner_id \<in> st_deleted_anchor_counts st then None
      else case map_of (st_anchor_counts st) owner_id of Some v \<Rightarrow> Some v | None \<Rightarrow> read_store_anchor_count st owner_id)"

definition store_vault_asset :: "atomic_state \<Rightarrow> outpoint \<Rightarrow> hash32 option" where
  "store_vault_asset st o1 =
     Option.bind (st_current_store st) (\<lambda>store. read_current_vault_asset store o1)"

definition has_nonce :: "atomic_state \<Rightarrow> nonce_key \<Rightarrow> bool" where
  "has_nonce st key \<longleftrightarrow> nonce_option st key \<noteq> None"

definition next_nonce :: "atomic_state \<Rightarrow> nonce_key \<Rightarrow> u64" where
  "next_nonce st key = (case nonce_option st key of Some n \<Rightarrow> n | None \<Rightarrow> 1)"

definition has_asset :: "atomic_state \<Rightarrow> hash32 \<Rightarrow> bool" where
  "has_asset st asset_id \<longleftrightarrow> asset_option st asset_id \<noteq> None"

definition cloned_asset :: "atomic_state \<Rightarrow> hash32 \<Rightarrow> asset_state option" where
  "cloned_asset st asset_id = asset_option st asset_id"

definition pool_nonce :: "atomic_state \<Rightarrow> hash32 \<Rightarrow> u64" where
  "pool_nonce st asset_id =
     (case Option.bind (cloned_asset st asset_id) (\<lambda>asset. map_option pl_pool_nonce (as_liquidity asset)) of
        Some n \<Rightarrow> n | None \<Rightarrow> 1)"

definition has_balance :: "atomic_state \<Rightarrow> balance_key \<Rightarrow> bool" where
  "has_balance st key \<longleftrightarrow> balance_option st key \<noteq> None"

definition balance :: "atomic_state \<Rightarrow> balance_key \<Rightarrow> u128" where
  "balance st key = (case balance_option st key of Some v \<Rightarrow> v | None \<Rightarrow> 0)"

definition has_anchor_count :: "atomic_state \<Rightarrow> hash32 \<Rightarrow> bool" where
  "has_anchor_count st owner_id \<longleftrightarrow> anchor_count_option st owner_id \<noteq> None"

definition anchor_count :: "atomic_state \<Rightarrow> hash32 \<Rightarrow> u64" where
  "anchor_count st owner_id = (case anchor_count_option st owner_id of Some v \<Rightarrow> v | None \<Rightarrow> 0)"

section \<open>Recording a delta\<close>

definition record_delta ::
    "'k \<Rightarrow> 'v option \<Rightarrow> 'v option \<Rightarrow> ('k \<times> 'v delta_value) list \<Rightarrow> ('k \<times> 'v delta_value) list" where
  "record_delta key old_value new_value m =
     (case map_of m key of
        Some entry \<Rightarrow>
          if old_value = new_value then m
          else if dv_old_value entry = new_value then AList.delete key m
          else AList.update key (entry\<lparr>dv_new_value := new_value\<rparr>) m
      | None \<Rightarrow>
          if old_value \<noteq> new_value
          then AList.update key \<lparr>dv_old_value = old_value, dv_new_value = new_value\<rparr> m else m)"

definition record_nonce :: "nonce_key \<Rightarrow> u64 option \<Rightarrow> u64 option \<Rightarrow> delta_builder \<Rightarrow> delta_builder" where
  "record_nonce key old_value new_value b =
     b\<lparr>db_nonces := record_delta key old_value new_value (db_nonces b)\<rparr>"

definition record_asset ::
    "hash32 \<Rightarrow> asset_state option \<Rightarrow> asset_state option \<Rightarrow> delta_builder \<Rightarrow> delta_builder" where
  "record_asset asset_id old_value new_value b =
     b\<lparr>db_assets := record_delta asset_id old_value new_value (db_assets b)\<rparr>"

definition record_balance :: "balance_key \<Rightarrow> u128 option \<Rightarrow> u128 option \<Rightarrow> delta_builder \<Rightarrow> delta_builder" where
  "record_balance key old_value new_value b =
     b\<lparr>db_balances := record_delta key old_value new_value (db_balances b)\<rparr>"

definition record_anchor_count :: "hash32 \<Rightarrow> u64 option \<Rightarrow> u64 option \<Rightarrow> delta_builder \<Rightarrow> delta_builder" where
  "record_anchor_count owner_id old_value new_value b =
     b\<lparr>db_anchor_counts := record_delta owner_id old_value new_value (db_anchor_counts b)\<rparr>"

text \<open>The derived ordering of the keys compares their fields in turn.\<close>

definition nonce_key_order :: "nonce_key \<Rightarrow> hash32 \<times> u8 \<times> hash32" where
  "nonce_key_order k = (nk_owner_id k, nk_scope_kind k, nk_scope_id k)"

definition balance_key_order :: "balance_key \<Rightarrow> hash32 \<times> hash32" where
  "balance_key_order k = (bk_asset_id k, bk_owner_id k)"

definition changes_of :: "('k \<times> 'v delta_value) list \<Rightarrow> ('k, 'v) key_change list" where
  "changes_of m = map (\<lambda>(k, d). \<lparr>ch_key = k, ch_old_value = dv_old_value d, ch_new_value = dv_new_value d\<rparr>) m"

definition into_delta :: "delta_builder \<Rightarrow> state_delta" where
  "into_delta b =
     \<lparr>sd_nonce_changes = sort_key (\<lambda>c. nonce_key_order (ch_key c)) (changes_of (db_nonces b)),
      sd_asset_changes = sort_key ch_key (changes_of (db_assets b)),
      sd_balance_changes = sort_key (\<lambda>c. balance_key_order (ch_key c)) (changes_of (db_balances b)),
      sd_anchor_count_changes = sort_key ch_key (changes_of (db_anchor_counts b))\<rparr>"

definition begin_delta_tracking :: "atomic_state \<Rightarrow> atomic_state" where
  "begin_delta_tracking st = st\<lparr>st_delta_tracking := True, st_dirty_delta := delta_builder_default\<rparr>"

definition take_delta :: "atomic_state \<Rightarrow> state_delta \<times> atomic_state" where
  "take_delta st =
     (into_delta (st_dirty_delta st),
      st\<lparr>st_delta_tracking := False, st_dirty_delta := delta_builder_default\<rparr>)"

section \<open>Setters\<close>

definition set_nonce_value_without_delta ::
    "(bytes \<Rightarrow> hash32) \<Rightarrow> nonce_key \<Rightarrow> u64 option \<Rightarrow> atomic_state \<Rightarrow> atomic_state" where
  "set_nonce_value_without_delta blake key value st =
     (let old_value = nonce_option st key;
          st1 = (if is_disk_backed st
                 then st\<lparr>st_root := apply_nonce blake key old_value value (st_root st)\<rparr> else st)
      in case value of
           Some nonce \<Rightarrow>
             st1\<lparr>st_deleted_nonces := st_deleted_nonces st1 - {key},
                 st_next_nonces := AList.update key nonce (st_next_nonces st1)\<rparr>
         | None \<Rightarrow>
             (let st2 = st1\<lparr>st_next_nonces := AList.delete key (st_next_nonces st1)\<rparr>
              in if is_disk_backed st2
                 then st2\<lparr>st_deleted_nonces := insert key (st_deleted_nonces st2)\<rparr> else st2))"

definition set_next_nonce :: "(bytes \<Rightarrow> hash32) \<Rightarrow> nonce_key \<Rightarrow> u64 \<Rightarrow> atomic_state \<Rightarrow> atomic_state" where
  "set_next_nonce blake key nonce st =
     (let old_value = nonce_option st key;
          st1 = (if st_delta_tracking st
                 then st\<lparr>st_dirty_delta := record_nonce key old_value (Some nonce) (st_dirty_delta st)\<rparr>
                 else st)
      in set_nonce_value_without_delta blake key (Some nonce) st1)"

definition set_vault_index_for_asset_change ::
    "hash32 \<Rightarrow> asset_state option \<Rightarrow> asset_state option \<Rightarrow> atomic_state \<Rightarrow> (store_error + unit) \<times> atomic_state" where
  "set_vault_index_for_asset_change asset_id old_value new_value st =
     (let st1 = (case Option.bind old_value as_liquidity of
                   Some previous_pool \<Rightarrow>
                     (let v = pl_vault_outpoint previous_pool;
                          s = st\<lparr>st_vault_outpoints := AList.delete v (st_vault_outpoints st)\<rparr>
                      in if is_disk_backed s
                         then s\<lparr>st_deleted_vault_outpoints := insert v (st_deleted_vault_outpoints s)\<rparr> else s)
                 | None \<Rightarrow> st)
      in case new_value of
           None \<Rightarrow> (Inr (), st1)
         | Some asset \<Rightarrow>
             if as_asset_class asset = Liquidity then
               case as_liquidity asset of
                 None \<Rightarrow> (Inl StoreLiquidityMissing, st1)
               | Some pool \<Rightarrow>
                   (let v = pl_vault_outpoint pool;
                        previous = map_of (st_vault_outpoints st1) v;
                        st2 = st1\<lparr>st_deleted_vault_outpoints := st_deleted_vault_outpoints st1 - {v},
                                  st_vault_outpoints := AList.update v asset_id (st_vault_outpoints st1)\<rparr>
                    in case previous of
                         Some previous_asset_id \<Rightarrow>
                           if previous_asset_id \<noteq> asset_id then (Inl SharedVaultOutpoint, st2) else (Inr (), st2)
                       | None \<Rightarrow> (Inr (), st2))
             else (Inr (), st1))"

definition set_asset_value_without_delta ::
    "(bytes \<Rightarrow> hash32) \<Rightarrow> hash32 \<Rightarrow> asset_state option \<Rightarrow> atomic_state \<Rightarrow> (store_error + unit) \<times> atomic_state" where
  "set_asset_value_without_delta blake asset_id value st =
     (let old_value = asset_option st asset_id;
          st1 = (if is_disk_backed st
                 then st\<lparr>st_root := apply_asset blake asset_id old_value value (st_root st)\<rparr> else st)
      in case set_vault_index_for_asset_change asset_id old_value value st1 of
           (Inl e, st2) \<Rightarrow> (Inl e, st2)
         | (Inr _, st2) \<Rightarrow>
             (Inr (),
              case value of
                Some asset \<Rightarrow>
                  st2\<lparr>st_deleted_assets := st_deleted_assets st2 - {asset_id},
                      st_assets := AList.update asset_id asset (st_assets st2)\<rparr>
              | None \<Rightarrow>
                  (let st3 = st2\<lparr>st_assets := AList.delete asset_id (st_assets st2)\<rparr>
                   in if is_disk_backed st3
                      then st3\<lparr>st_deleted_assets := insert asset_id (st_deleted_assets st3)\<rparr> else st3)))"

definition set_asset ::
    "(bytes \<Rightarrow> hash32) \<Rightarrow> hash32 \<Rightarrow> asset_state \<Rightarrow> atomic_state \<Rightarrow> (store_error + unit) \<times> atomic_state" where
  "set_asset blake asset_id asset st =
     (let old_value = asset_option st asset_id;
          st1 = (if st_delta_tracking st
                 then st\<lparr>st_dirty_delta := record_asset asset_id old_value (Some asset) (st_dirty_delta st)\<rparr>
                 else st)
      in set_asset_value_without_delta blake asset_id (Some asset) st1)"

definition set_balance_value_without_delta ::
    "(bytes \<Rightarrow> hash32) \<Rightarrow> balance_key \<Rightarrow> u128 option \<Rightarrow> atomic_state \<Rightarrow> atomic_state" where
  "set_balance_value_without_delta blake key value st =
     (let old_value = balance_option st key;
          st1 = (if is_disk_backed st
                 then st\<lparr>st_root := apply_balance blake key old_value value (st_root st)\<rparr> else st)
      in case value of
           Some amount \<Rightarrow>
             st1\<lparr>st_deleted_balances := st_deleted_balances st1 - {key},
                 st_balances := AList.update key amount (st_balances st1)\<rparr>
         | None \<Rightarrow>
             (let st2 = st1\<lparr>st_balances := AList.delete key (st_balances st1)\<rparr>
              in if is_disk_backed st2
                 then st2\<lparr>st_deleted_balances := insert key (st_deleted_balances st2)\<rparr> else st2))"

definition set_balance :: "(bytes \<Rightarrow> hash32) \<Rightarrow> balance_key \<Rightarrow> u128 \<Rightarrow> atomic_state \<Rightarrow> atomic_state" where
  "set_balance blake key amount st =
     (let old_value = balance_option st key;
          new_value = (if amount \<noteq> 0 then Some amount else None);
          st1 = (if st_delta_tracking st
                 then st\<lparr>st_dirty_delta := record_balance key old_value new_value (st_dirty_delta st)\<rparr>
                 else st)
      in set_balance_value_without_delta blake key new_value st1)"

definition set_anchor_count_value_without_delta ::
    "(bytes \<Rightarrow> hash32) \<Rightarrow> hash32 \<Rightarrow> u64 option \<Rightarrow> atomic_state \<Rightarrow> atomic_state" where
  "set_anchor_count_value_without_delta blake owner_id value st =
     (let old_value = anchor_count_option st owner_id;
          st1 = (if is_disk_backed st
                 then st\<lparr>st_root := apply_anchor_count blake owner_id old_value value (st_root st)\<rparr> else st)
      in case value of
           Some n \<Rightarrow>
             st1\<lparr>st_deleted_anchor_counts := st_deleted_anchor_counts st1 - {owner_id},
                 st_anchor_counts := AList.update owner_id n (st_anchor_counts st1)\<rparr>
         | None \<Rightarrow>
             (let st2 = st1\<lparr>st_anchor_counts := AList.delete owner_id (st_anchor_counts st1)\<rparr>
              in if is_disk_backed st2
                 then st2\<lparr>st_deleted_anchor_counts := insert owner_id (st_deleted_anchor_counts st2)\<rparr> else st2))"

definition set_anchor_count :: "(bytes \<Rightarrow> hash32) \<Rightarrow> hash32 \<Rightarrow> u64 \<Rightarrow> atomic_state \<Rightarrow> atomic_state" where
  "set_anchor_count blake owner_id new_count st =
     (let old_value = anchor_count_option st owner_id;
          new_value = (if new_count \<noteq> 0 then Some new_count else None);
          st1 = (if st_delta_tracking st
                 then st\<lparr>st_dirty_delta := record_anchor_count owner_id old_value new_value (st_dirty_delta st)\<rparr>
                 else st)
      in set_anchor_count_value_without_delta blake owner_id new_value st1)"

section \<open>Applying a delta\<close>

definition change_value :: "bool \<Rightarrow> ('k, 'v) key_change \<Rightarrow> 'v option" where
  "change_value forward c = (if forward then ch_new_value c else ch_old_value c)"

fun try_changes ::
    "('k \<Rightarrow> 'v option \<Rightarrow> 's \<Rightarrow> ('e + unit) \<times> 's) \<Rightarrow> bool \<Rightarrow> ('k, 'v) key_change list \<Rightarrow> 's
      \<Rightarrow> ('e + unit) \<times> 's" where
  "try_changes put forward [] s = (Inr (), s)"
| "try_changes put forward (c # cs) s =
     (case put (ch_key c) (change_value forward c) s of
        (Inl e, s1) \<Rightarrow> (Inl e, s1)
      | (Inr _, s1) \<Rightarrow> try_changes put forward cs s1)"

definition apply_delta ::
    "(bytes \<Rightarrow> hash32) \<Rightarrow> state_delta \<Rightarrow> bool \<Rightarrow> atomic_state \<Rightarrow> (store_error + unit) \<times> atomic_state" where
  "apply_delta blake delta forward st =
     (let tracking = st_delta_tracking st;
          st0 = st\<lparr>st_delta_tracking := False\<rparr>;
          st1 = fold (\<lambda>c. set_nonce_value_without_delta blake (ch_key c) (change_value forward c))
                  (sd_nonce_changes delta) st0
      in case try_changes (set_asset_value_without_delta blake) forward (sd_asset_changes delta) st1 of
           (Inl e, st2) \<Rightarrow> (Inl e, st2)
         | (Inr _, st2) \<Rightarrow>
             (let st3 = fold (\<lambda>c. set_balance_value_without_delta blake (ch_key c) (change_value forward c))
                          (sd_balance_changes delta) st2;
                  st4 = fold (\<lambda>c. set_anchor_count_value_without_delta blake (ch_key c) (change_value forward c))
                          (sd_anchor_count_changes delta) st3;
                  st5 = st4\<lparr>st_delta_tracking := tracking\<rparr>
              in (Inr (),
                  if tracking then st5\<lparr>st_dirty_delta := delta_builder_default\<rparr> else st5)))"

definition apply_delta_forward ::
    "(bytes \<Rightarrow> hash32) \<Rightarrow> state_delta \<Rightarrow> atomic_state \<Rightarrow> (store_error + unit) \<times> atomic_state" where
  "apply_delta_forward blake delta st = apply_delta blake delta True st"

definition apply_delta_rollback ::
    "(bytes \<Rightarrow> hash32) \<Rightarrow> state_delta \<Rightarrow> atomic_state \<Rightarrow> (store_error + unit) \<times> atomic_state" where
  "apply_delta_rollback blake delta st = apply_delta blake delta False st"

section \<open>The vault index\<close>

definition indexes_vault :: "outpoint \<Rightarrow> asset_state \<Rightarrow> bool" where
  "indexes_vault o1 asset \<longleftrightarrow>
     as_asset_class asset = Liquidity \<and> map_option pl_vault_outpoint (as_liquidity asset) = Some o1"

definition rebuild_liquidity_vault_outpoint_index :: "atomic_state \<Rightarrow> atomic_state" where
  "rebuild_liquidity_vault_outpoint_index st =
     (if is_disk_backed st then st
      else st\<lparr>st_vault_outpoints :=
        fold (\<lambda>(asset_id, asset) m.
                case as_liquidity asset of
                  None \<Rightarrow> m
                | Some pool \<Rightarrow>
                    if as_asset_class asset = Liquidity
                    then AList.update (pl_vault_outpoint pool) asset_id m else m)
          (st_assets st) []\<rparr>)"

definition checked_vault_asset :: "atomic_state \<Rightarrow> outpoint \<Rightarrow> hash32 \<Rightarrow> store_error + hash32 option" where
  "checked_vault_asset st o1 asset_id =
     (case cloned_asset st asset_id of
        None \<Rightarrow> Inl VaultIndexMissingAsset
      | Some asset \<Rightarrow>
          case as_liquidity asset of
            None \<Rightarrow> Inl VaultIndexNoLiquidity
          | Some pool \<Rightarrow>
              if as_asset_class asset \<noteq> Liquidity \<or> pl_vault_outpoint pool \<noteq> o1
              then Inl VaultIndexMismatch else Inr (Some asset_id))"

fun scan_vault_outpoint ::
    "outpoint \<Rightarrow> (hash32 \<times> asset_state) list \<Rightarrow> hash32 option \<Rightarrow> store_error + hash32 option" where
  "scan_vault_outpoint o1 [] matched = Inr matched"
| "scan_vault_outpoint o1 ((asset_id, asset) # rest) matched =
     (if \<not> indexes_vault o1 asset then scan_vault_outpoint o1 rest matched
      else if matched \<noteq> None then Inl SharedVaultOutpoint
      else scan_vault_outpoint o1 rest (Some asset_id))"

definition liquidity_asset_by_vault_outpoint :: "atomic_state \<Rightarrow> outpoint \<Rightarrow> store_error + hash32 option" where
  "liquidity_asset_by_vault_outpoint st o1 =
     (case map_of (st_vault_outpoints st) o1 of
        Some asset_id \<Rightarrow> checked_vault_asset st o1 asset_id
      | None \<Rightarrow>
          if o1 \<in> st_deleted_vault_outpoints st then Inr None
          else case store_vault_asset st o1 of
                 Some asset_id \<Rightarrow> checked_vault_asset st o1 asset_id
               | None \<Rightarrow> scan_vault_outpoint o1 (st_assets st) None)"

end
