(* ===== verification/Atomic_View.thy ===== *)
theory Atomic_View
  imports Atomic_State
begin

text \<open>
  The lookups of the Atomic token state after each setter. A namespace is an
  overlay: a set of deleted keys, the values in memory, and the store below; the
  lemmas show that setting or clearing a key has the effect of a function update on
  the lookup and no effect on the other namespaces, whether the state is held in
  memory or over the store on disk. The vault index is described by one function on
  the pair of its entries and its deleted outpoints.
\<close>

named_theorems view_simps \<open>lookups after a setter\<close>

section \<open>Overlays and the vault index\<close>

type_synonym vault_index = "(outpoint \<times> hash32) list \<times> outpoint set"

definition overlay_get :: "'k set \<Rightarrow> ('k \<times> 'v) list \<Rightarrow> ('k \<Rightarrow> 'v option) \<Rightarrow> 'k \<Rightarrow> 'v option" where
  "overlay_get deleted mem store k =
     (if k \<in> deleted then None else case map_of mem k of Some v \<Rightarrow> Some v | None \<Rightarrow> store k)"

definition deleted_put :: "bool \<Rightarrow> 'k \<Rightarrow> 'v option \<Rightarrow> 'k set \<Rightarrow> 'k set" where
  "deleted_put disk k v deleted =
     (case v of Some _ \<Rightarrow> deleted - {k} | None \<Rightarrow> if disk then insert k deleted else deleted)"

definition drop_old_vault ::
    "bool \<Rightarrow> asset_state option \<Rightarrow> vault_index \<Rightarrow> vault_index" where
  "drop_old_vault disk old p =
     (case Option.bind old as_liquidity of
        Some pool \<Rightarrow> (AList.delete (pl_vault_outpoint pool) (fst p),
                       if disk then insert (pl_vault_outpoint pool) (snd p) else snd p)
      | None \<Rightarrow> p)"

definition vault_put ::
    "bool \<Rightarrow> hash32 \<Rightarrow> asset_state option \<Rightarrow> asset_state option \<Rightarrow> vault_index
      \<Rightarrow> (store_error + unit) \<times> vault_index" where
  "vault_put disk a old new p =
     (let p1 = drop_old_vault disk old p
      in case Option.bind new (\<lambda>asset. if as_asset_class asset = Liquidity then Some (as_liquidity asset) else None) of
           None \<Rightarrow> (Inr (), p1)
         | Some None \<Rightarrow> (Inl StoreLiquidityMissing, p1)
         | Some (Some pool) \<Rightarrow>
             (let v = pl_vault_outpoint pool
              in (if map_of (fst p1) v \<in> {None, Some a} then Inr () else Inl SharedVaultOutpoint,
                  AList.update v a (fst p1), snd p1 - {v})))"

definition vault_pair :: "atomic_state \<Rightarrow> vault_index" where
  "vault_pair st = (st_vault_outpoints st, st_deleted_vault_outpoints st)"

definition with_vaults :: "vault_index \<Rightarrow> atomic_state \<Rightarrow> atomic_state" where
  "with_vaults p st = st\<lparr>st_vault_outpoints := fst p, st_deleted_vault_outpoints := snd p\<rparr>"

definition asset_written :: "hash32 \<Rightarrow> asset_state option \<Rightarrow> atomic_state \<Rightarrow> atomic_state" where
  "asset_written a v st =
     st\<lparr>st_assets := alist_put a v (st_assets st),
        st_deleted_assets := deleted_put (is_disk_backed st) a v (st_deleted_assets st)\<rparr>"

section \<open>Setters as field updates\<close>

lemma overlay_get_put:
  assumes "disk \<or> store k = None"
  shows "overlay_get (deleted_put disk k v deleted) (alist_put k v mem) store
    = (overlay_get deleted mem store)(k := v)"
  using assms by (cases v) (auto simp: overlay_get_def deleted_put_def fun_eq_iff)

lemma option_overlay:
  "nonce_option st = overlay_get (st_deleted_nonces st) (st_next_nonces st) (read_store_nonce st)"
  "asset_option st = overlay_get (st_deleted_assets st) (st_assets st) (read_store_asset st)"
  "balance_option st = overlay_get (st_deleted_balances st) (st_balances st) (read_store_balance st)"
  "anchor_count_option st
     = overlay_get (st_deleted_anchor_counts st) (st_anchor_counts st) (read_store_anchor_count st)"
  by (simp_all add: fun_eq_iff overlay_get_def nonce_option_def asset_option_def balance_option_def
      anchor_count_option_def)

lemma is_disk_backed_cong: "st_current_store st = st_current_store st' \<Longrightarrow> is_disk_backed st = is_disk_backed st'"
  by (simp add: is_disk_backed_def)

lemma read_store_cong:
  assumes "st_current_store st = st_current_store st'"
  shows "read_store_nonce st = read_store_nonce st'" "read_store_asset st = read_store_asset st'"
    "read_store_balance st = read_store_balance st'"
    "read_store_anchor_count st = read_store_anchor_count st'"
    "store_vault_asset st = store_vault_asset st'"
  using assms by (simp_all add: fun_eq_iff read_store_nonce_def read_store_asset_def
      read_store_balance_def read_store_anchor_count_def store_vault_asset_def)

lemma set_nonce_value_eq:
  "set_nonce_value_without_delta blake k v st =
     st\<lparr>st_next_nonces := alist_put k v (st_next_nonces st),
        st_deleted_nonces := deleted_put (is_disk_backed st) k v (st_deleted_nonces st),
        st_root := (if is_disk_backed st then apply_nonce blake k (nonce_option st k) v (st_root st)
                    else st_root st)\<rparr>"
  by (cases v) (simp_all add: set_nonce_value_without_delta_def Let_def alist_put_def deleted_put_def
      is_disk_backed_def)

lemma set_balance_value_eq:
  "set_balance_value_without_delta blake k v st =
     st\<lparr>st_balances := alist_put k v (st_balances st),
        st_deleted_balances := deleted_put (is_disk_backed st) k v (st_deleted_balances st),
        st_root := (if is_disk_backed st then apply_balance blake k (balance_option st k) v (st_root st)
                    else st_root st)\<rparr>"
  by (cases v) (simp_all add: set_balance_value_without_delta_def Let_def alist_put_def deleted_put_def
      is_disk_backed_def)

lemma set_anchor_count_value_eq:
  "set_anchor_count_value_without_delta blake k v st =
     st\<lparr>st_anchor_counts := alist_put k v (st_anchor_counts st),
        st_deleted_anchor_counts := deleted_put (is_disk_backed st) k v (st_deleted_anchor_counts st),
        st_root := (if is_disk_backed st
                    then apply_anchor_count blake k (anchor_count_option st k) v (st_root st)
                    else st_root st)\<rparr>"
  by (cases v) (simp_all add: set_anchor_count_value_without_delta_def Let_def alist_put_def
      deleted_put_def is_disk_backed_def)

lemma drop_old_vault_state:
  "(case Option.bind old as_liquidity of
      Some previous_pool \<Rightarrow>
        (let v = pl_vault_outpoint previous_pool;
             s = st\<lparr>st_vault_outpoints := AList.delete v (st_vault_outpoints st)\<rparr>
         in if is_disk_backed s
            then s\<lparr>st_deleted_vault_outpoints := insert v (st_deleted_vault_outpoints s)\<rparr> else s)
    | None \<Rightarrow> st) = with_vaults (drop_old_vault (is_disk_backed st) old (vault_pair st)) st"
  by (cases "Option.bind old as_liquidity")
    (simp_all add: drop_old_vault_def with_vaults_def vault_pair_def is_disk_backed_def Let_def)

lemma set_vault_index_eq:
  "set_vault_index_for_asset_change a old new st =
     (let p = vault_put (is_disk_backed st) a old new (vault_pair st)
      in (fst p, with_vaults (snd p) st))"
proof -
  let ?p1 = "drop_old_vault (is_disk_backed st) old (vault_pair st)"
  show ?thesis
  proof (cases new)
    case (Some asset)
    then show ?thesis
      by (cases "as_asset_class asset"; cases "as_liquidity asset")
        (auto simp: set_vault_index_for_asset_change_def drop_old_vault_state vault_put_def Let_def
          with_vaults_def split: option.split)
  qed (simp add: set_vault_index_for_asset_change_def drop_old_vault_state vault_put_def)
qed

lemma set_asset_value_eq:
  "set_asset_value_without_delta blake a v st =
     (let p = vault_put (is_disk_backed st) a (asset_option st a) v (vault_pair st);
          r = (if is_disk_backed st then apply_asset blake a (asset_option st a) v (st_root st)
               else st_root st);
          st1 = with_vaults (snd p) (st\<lparr>st_root := r\<rparr>)
      in case fst p of Inl e \<Rightarrow> (Inl e, st1) | Inr _ \<Rightarrow> (Inr (), asset_written a v st1))"
proof -
  let ?r = "if is_disk_backed st then apply_asset blake a (asset_option st a) v (st_root st) else st_root st"
  let ?p = "vault_put (is_disk_backed st) a (asset_option st a) v (vault_pair st)"
  have st1: "(if is_disk_backed st
        then st\<lparr>st_root := apply_asset blake a (asset_option st a) v (st_root st)\<rparr> else st) = st\<lparr>st_root := ?r\<rparr>"
    by simp
  have "set_vault_index_for_asset_change a (asset_option st a) v (st\<lparr>st_root := ?r\<rparr>)
      = (fst ?p, with_vaults (snd ?p) (st\<lparr>st_root := ?r\<rparr>))"
    by (simp add: set_vault_index_eq Let_def is_disk_backed_def vault_pair_def)
  then show ?thesis
    unfolding set_asset_value_without_delta_def st1 Let_def
    by (cases "fst ?p"; cases v)
      (simp_all add: asset_written_def alist_put_def deleted_put_def is_disk_backed_def with_vaults_def)
qed

lemma store_lookup_absent:
  assumes "\<not> is_disk_backed st"
  shows "read_store_nonce st k = None" "read_store_asset st a = None"
    "read_store_balance st b = None" "read_store_anchor_count st c = None" "store_vault_asset st d = None"
  using assms by (simp_all add: is_disk_backed_def read_store_nonce_def read_store_asset_def
      read_store_balance_def read_store_anchor_count_def store_vault_asset_def)

text \<open>The lookups depend on the fields of their own namespace and on the store only.\<close>

lemma set_nonce_value_views [view_simps]:
  "nonce_option (set_nonce_value_without_delta blake k v st) = (nonce_option st)(k := v)"
  "asset_option (set_nonce_value_without_delta blake k v st) = asset_option st"
  "balance_option (set_nonce_value_without_delta blake k v st) = balance_option st"
  "anchor_count_option (set_nonce_value_without_delta blake k v st) = anchor_count_option st"
  "vault_pair (set_nonce_value_without_delta blake k v st) = vault_pair st"
  "st_current_store (set_nonce_value_without_delta blake k v st) = st_current_store st"
  "st_delta_tracking (set_nonce_value_without_delta blake k v st) = st_delta_tracking st"
  "st_dirty_delta (set_nonce_value_without_delta blake k v st) = st_dirty_delta st"
  by (simp_all add: option_overlay set_nonce_value_eq vault_pair_def
      read_store_cong [of "_\<lparr>st_next_nonces := _, st_deleted_nonces := _, st_root := _\<rparr>" st]
      overlay_get_put store_lookup_absent disj_imp)

lemma set_balance_value_views [view_simps]:
  "nonce_option (set_balance_value_without_delta blake k v st) = nonce_option st"
  "asset_option (set_balance_value_without_delta blake k v st) = asset_option st"
  "balance_option (set_balance_value_without_delta blake k v st) = (balance_option st)(k := v)"
  "anchor_count_option (set_balance_value_without_delta blake k v st) = anchor_count_option st"
  "vault_pair (set_balance_value_without_delta blake k v st) = vault_pair st"
  "st_current_store (set_balance_value_without_delta blake k v st) = st_current_store st"
  "st_delta_tracking (set_balance_value_without_delta blake k v st) = st_delta_tracking st"
  "st_dirty_delta (set_balance_value_without_delta blake k v st) = st_dirty_delta st"
  by (simp_all add: option_overlay set_balance_value_eq vault_pair_def
      read_store_cong [of "_\<lparr>st_balances := _, st_deleted_balances := _, st_root := _\<rparr>" st]
      overlay_get_put store_lookup_absent disj_imp)

lemma set_anchor_count_value_views [view_simps]:
  "nonce_option (set_anchor_count_value_without_delta blake k v st) = nonce_option st"
  "asset_option (set_anchor_count_value_without_delta blake k v st) = asset_option st"
  "balance_option (set_anchor_count_value_without_delta blake k v st) = balance_option st"
  "anchor_count_option (set_anchor_count_value_without_delta blake k v st)
     = (anchor_count_option st)(k := v)"
  "vault_pair (set_anchor_count_value_without_delta blake k v st) = vault_pair st"
  "st_current_store (set_anchor_count_value_without_delta blake k v st) = st_current_store st"
  "st_delta_tracking (set_anchor_count_value_without_delta blake k v st) = st_delta_tracking st"
  "st_dirty_delta (set_anchor_count_value_without_delta blake k v st) = st_dirty_delta st"
  by (simp_all add: option_overlay set_anchor_count_value_eq vault_pair_def
      read_store_cong [of "_\<lparr>st_anchor_counts := _, st_deleted_anchor_counts := _, st_root := _\<rparr>" st]
      overlay_get_put store_lookup_absent disj_imp)

text \<open>The book-keeping fields do not show in any lookup.\<close>

lemma bookkeeping_views [view_simps]:
  "nonce_option (st\<lparr>st_dirty_delta := d\<rparr>) = nonce_option st"
  "asset_option (st\<lparr>st_dirty_delta := d\<rparr>) = asset_option st"
  "balance_option (st\<lparr>st_dirty_delta := d\<rparr>) = balance_option st"
  "anchor_count_option (st\<lparr>st_dirty_delta := d\<rparr>) = anchor_count_option st"
  "vault_pair (st\<lparr>st_dirty_delta := d\<rparr>) = vault_pair st"
  "is_disk_backed (st\<lparr>st_dirty_delta := d\<rparr>) = is_disk_backed st"
  "nonce_option (st\<lparr>st_delta_tracking := b\<rparr>) = nonce_option st"
  "asset_option (st\<lparr>st_delta_tracking := b\<rparr>) = asset_option st"
  "balance_option (st\<lparr>st_delta_tracking := b\<rparr>) = balance_option st"
  "anchor_count_option (st\<lparr>st_delta_tracking := b\<rparr>) = anchor_count_option st"
  "vault_pair (st\<lparr>st_delta_tracking := b\<rparr>) = vault_pair st"
  "is_disk_backed (st\<lparr>st_delta_tracking := b\<rparr>) = is_disk_backed st"
  by (simp_all add: option_overlay vault_pair_def is_disk_backed_def
      read_store_cong [of "_\<lparr>st_dirty_delta := _\<rparr>" st]
      read_store_cong [of "_\<lparr>st_delta_tracking := _\<rparr>" st])

lemma with_vaults_views [view_simps]:
  "nonce_option (with_vaults p (st\<lparr>st_root := r\<rparr>)) = nonce_option st"
  "asset_option (with_vaults p (st\<lparr>st_root := r\<rparr>)) = asset_option st"
  "balance_option (with_vaults p (st\<lparr>st_root := r\<rparr>)) = balance_option st"
  "anchor_count_option (with_vaults p (st\<lparr>st_root := r\<rparr>)) = anchor_count_option st"
  "vault_pair (with_vaults p (st\<lparr>st_root := r\<rparr>)) = p"
  "st_current_store (with_vaults p (st\<lparr>st_root := r\<rparr>)) = st_current_store st"
  "is_disk_backed (with_vaults p (st\<lparr>st_root := r\<rparr>)) = is_disk_backed st"
  "st_delta_tracking (with_vaults p (st\<lparr>st_root := r\<rparr>)) = st_delta_tracking st"
  "st_dirty_delta (with_vaults p (st\<lparr>st_root := r\<rparr>)) = st_dirty_delta st"
  by (simp_all add: option_overlay vault_pair_def is_disk_backed_def with_vaults_def
      read_store_cong [of "_\<lparr>st_root := _, st_vault_outpoints := _, st_deleted_vault_outpoints := _\<rparr>" st])

lemma asset_written_views [view_simps]:
  "nonce_option (asset_written a v st) = nonce_option st"
  "asset_option (asset_written a v st) = (asset_option st)(a := v)"
  "balance_option (asset_written a v st) = balance_option st"
  "anchor_count_option (asset_written a v st) = anchor_count_option st"
  "vault_pair (asset_written a v st) = vault_pair st"
  "st_current_store (asset_written a v st) = st_current_store st"
  "st_delta_tracking (asset_written a v st) = st_delta_tracking st"
  "st_dirty_delta (asset_written a v st) = st_dirty_delta st"
  by (simp_all add: option_overlay asset_written_def vault_pair_def
      read_store_cong [of "_\<lparr>st_assets := _, st_deleted_assets := _\<rparr>" st]
      overlay_get_put store_lookup_absent disj_imp)

lemma set_asset_value_views:
  assumes "set_asset_value_without_delta blake a v st = (r, st')"
  shows "nonce_option st' = nonce_option st"
    "asset_option st' = (if r = Inr () then (asset_option st)(a := v) else asset_option st)"
    "balance_option st' = balance_option st"
    "anchor_count_option st' = anchor_count_option st"
    "(r, vault_pair st') = vault_put (is_disk_backed st) a (asset_option st a) v (vault_pair st)"
    "st_current_store st' = st_current_store st"
    "st_delta_tracking st' = st_delta_tracking st"
    "st_dirty_delta st' = st_dirty_delta st"
  using assms by (auto simp: set_asset_value_eq Let_def view_simps split: sum.splits intro: prod_eqI)

end
