(* ===== verification/Atomic_Delta.thy ===== *)
theory Atomic_Delta
  imports Atomic_View
begin

text \<open>
  The delta a block leaves behind, and its application. A store with lookup and
  update is an interface (\<open>fallible_store\<close>, and \<open>keyed_store\<close> for the setters that
  cannot fail) whose laws give the effect of applying a list of changes; the four
  namespaces of the state interpret it. The recorded delta is exact: it holds, for
  each key that differs, the value before and the value after. Rolling it back
  restores every lookup, and replaying it reproduces them.
\<close>

section \<open>Exact deltas\<close>

datatype (plugins only: code) state_write =
    WriteNonce nonce_key u64
  | WriteAsset hash32 asset_state
  | WriteBalance balance_key u128
  | WriteAnchorCount hash32 u64

fun run_writes ::
    "(bytes \<Rightarrow> hash32) \<Rightarrow> state_write list \<Rightarrow> atomic_state \<Rightarrow> (store_error + unit) \<times> atomic_state" where
  "run_writes blake [] st = (Inr (), st)"
| "run_writes blake (WriteNonce k n # ws) st = run_writes blake ws (set_next_nonce blake k n st)"
| "run_writes blake (WriteAsset a asset # ws) st =
     (case set_asset blake a asset st of
        (Inl e, st1) \<Rightarrow> (Inl e, st1)
      | (Inr _, st1) \<Rightarrow> run_writes blake ws st1)"
| "run_writes blake (WriteBalance k v # ws) st = run_writes blake ws (set_balance blake k v st)"
| "run_writes blake (WriteAnchorCount k n # ws) st = run_writes blake ws (set_anchor_count blake k n st)"

definition delta_exact ::
    "('k \<times> 'v delta_value) list \<Rightarrow> ('k \<Rightarrow> 'v option) \<Rightarrow> ('k \<Rightarrow> 'v option) \<Rightarrow> bool" where
  "delta_exact m before after \<longleftrightarrow>
     distinct (map fst m)
     \<and> (\<forall>k. case map_of m k of
             Some d \<Rightarrow> dv_old_value d = before k \<and> dv_new_value d = after k \<and> before k \<noteq> after k
           | None \<Rightarrow> before k = after k)"

definition tracks :: "atomic_state \<Rightarrow> atomic_state \<Rightarrow> bool" where
  "tracks st0 st \<longleftrightarrow>
     st_delta_tracking st
     \<and> delta_exact (db_nonces (st_dirty_delta st)) (nonce_option st0) (nonce_option st)
     \<and> delta_exact (db_assets (st_dirty_delta st)) (asset_option st0) (asset_option st)
     \<and> delta_exact (db_balances (st_dirty_delta st)) (balance_option st0) (balance_option st)
     \<and> delta_exact (db_anchor_counts (st_dirty_delta st)) (anchor_count_option st0) (anchor_count_option st)"

definition same_view :: "atomic_state \<Rightarrow> atomic_state \<Rightarrow> bool" where
  "same_view st st' \<longleftrightarrow>
     nonce_option st = nonce_option st' \<and> asset_option st = asset_option st'
     \<and> balance_option st = balance_option st' \<and> anchor_count_option st = anchor_count_option st'"

definition changes_match :: "bool \<Rightarrow> ('k, 'v) key_change list \<Rightarrow> ('k \<Rightarrow> 'v option) \<Rightarrow> ('k \<Rightarrow> 'v option) \<Rightarrow> bool" where
  "changes_match forward cs f g \<longleftrightarrow>
     distinct (map ch_key cs)
     \<and> (\<forall>k. g k = (case map_of (map (\<lambda>c. (ch_key c, change_value forward c)) cs) k of Some v \<Rightarrow> v | None \<Rightarrow> f k))"

definition asset_vault :: "asset_state \<Rightarrow> outpoint option" where
  "asset_vault asset = map_option pl_vault_outpoint (as_liquidity asset)"

definition pools_ok :: "(hash32 \<Rightarrow> asset_state option) \<Rightarrow> bool" where
  "pools_ok f \<longleftrightarrow>
     (\<forall>a asset. f a = Some asset \<longrightarrow> (as_asset_class asset = Liquidity \<longleftrightarrow> as_liquidity asset \<noteq> None))"

definition vaults_apart :: "(hash32 \<Rightarrow> asset_state option) \<Rightarrow> (hash32 \<Rightarrow> asset_state option) \<Rightarrow> bool" where
  "vaults_apart f g \<longleftrightarrow>
     (\<forall>a b x y o1. f a = Some x \<and> g b = Some y \<and> asset_vault x = Some o1 \<and> asset_vault y = Some o1 \<longrightarrow> a = b)"

definition index_within ::
    "(outpoint \<times> hash32) list \<Rightarrow> (hash32 \<Rightarrow> asset_state option) \<Rightarrow> (hash32 \<Rightarrow> asset_state option) \<Rightarrow> bool" where
  "index_within idx f g \<longleftrightarrow>
     (\<forall>o1 a. map_of idx o1 = Some a \<longrightarrow>
        (\<exists>x. (f a = Some x \<or> g a = Some x) \<and> asset_vault x = Some o1))"

section \<open>Stores and lists of changes\<close>

locale fallible_store =
  fixes get :: "'s \<Rightarrow> 'k \<Rightarrow> 'v option" and put :: "'k \<Rightarrow> 'v option \<Rightarrow> 's \<Rightarrow> ('e + unit) \<times> 's"
  assumes put_ok: "put k v s = (Inr u, s') \<Longrightarrow> get s' = (get s)(k := v)"
begin

lemma get_try_changes:
  assumes "try_changes put forward cs s = (Inr u, s')" "distinct (map ch_key cs)"
  shows "get s' k = (case map_of (map (\<lambda>c. (ch_key c, change_value forward c)) cs) k of
     Some v \<Rightarrow> v | None \<Rightarrow> get s k)"
  using assms
proof (induction cs arbitrary: s)
  case (Cons c cs)
  from Cons.prems(1) obtain s1 where step: "put (ch_key c) (change_value forward c) s = (Inr (), s1)"
    and rest: "try_changes put forward cs s1 = (Inr u, s')"
    by (auto split: prod.splits sum.splits)
  have "map_of (map (\<lambda>c. (ch_key c, change_value forward c)) cs) (ch_key c) = None"
    using Cons.prems(2) by (auto simp: map_of_eq_None_iff)
  then show ?case
    using Cons.IH [OF rest] Cons.prems(2) put_ok [OF step] by (auto split: option.split)
qed simp

lemma get_try_changes_match:
  assumes "try_changes put forward cs s = (Inr u, s')" "changes_match forward cs (get s) g"
  shows "get s' = g"
  using get_try_changes [OF assms(1)] assms(2) by (auto simp: changes_match_def)

end

locale keyed_store =
  fixes get :: "'s \<Rightarrow> 'k \<Rightarrow> 'v option" and put :: "'k \<Rightarrow> 'v option \<Rightarrow> 's \<Rightarrow> 's"
  assumes get_put: "get (put k v s) = (get s)(k := v)"

sublocale keyed_store \<subseteq> total: fallible_store get "\<lambda>k v s. (Inr (), put k v s)"
  by unfold_locales (auto simp: get_put)

context keyed_store
begin

lemma try_changes_fold:
  "try_changes (\<lambda>k v s. (Inr (), put k v s)) forward cs s
     = (Inr (), fold (\<lambda>c. put (ch_key c) (change_value forward c)) cs s)"
  by (induction cs arbitrary: s) simp_all

lemma get_fold_match:
  "changes_match forward cs (get s) g \<Longrightarrow>
   get (fold (\<lambda>c. put (ch_key c) (change_value forward c)) cs s) = g"
  using total.get_try_changes_match [OF try_changes_fold] .

end

section \<open>Recording\<close>

lemma delta_exact_refl: "delta_exact [] f f"
  by (simp add: delta_exact_def)

lemma record_delta_lookup:
  "map_of (record_delta k old v m) k' =
     (if k' \<noteq> k \<or> old = v then map_of m k'
      else case map_of m k of
             Some d \<Rightarrow> if dv_old_value d = v then None else Some (d\<lparr>dv_new_value := v\<rparr>)
           | None \<Rightarrow> Some \<lparr>dv_old_value = old, dv_new_value = v\<rparr>)"
  by (cases "map_of m k") (simp_all add: record_delta_def update_conv' delete_conv')

lemma distinct_record_delta: "distinct (map fst m) \<Longrightarrow> distinct (map fst (record_delta k old v m))"
  by (simp add: record_delta_def distinct_update distinct_delete split: option.split)

lemma delta_exact_record:
  assumes "delta_exact m f0 f"
  shows "delta_exact (record_delta k (f k) v m) f0 (f(k := v))"
proof -
  have ok: "case map_of m k' of
      Some d \<Rightarrow> dv_old_value d = f0 k' \<and> dv_new_value d = f k' \<and> f0 k' \<noteq> f k' | None \<Rightarrow> f0 k' = f k'" for k'
    using assms by (simp add: delta_exact_def)
  have "case map_of (record_delta k (f k) v m) k' of
      Some d \<Rightarrow> dv_old_value d = f0 k' \<and> dv_new_value d = (f(k := v)) k' \<and> f0 k' \<noteq> (f(k := v)) k'
    | None \<Rightarrow> f0 k' = (f(k := v)) k'" for k'
  proof (cases "k' = k")
    case True
    then show ?thesis using ok [of k] by (cases "map_of m k") (auto simp: record_delta_lookup)
  next
    case False
    then show ?thesis using ok [of k'] by (simp add: record_delta_lookup split: option.splits)
  qed
  then show ?thesis using assms by (simp add: delta_exact_def distinct_record_delta)
qed

lemma changes_of_match:
  assumes "delta_exact m f0 f" "set cs = set (changes_of m)" "distinct (map ch_key cs)"
  shows "changes_match True cs f0 f" "changes_match False cs f f0"
proof -
  have map_of_eq: "map_of (map (\<lambda>c. (ch_key c, val c)) cs) k = map_option val' (map_of m k)"
    if that: "\<And>k d. val \<lparr>ch_key = k, ch_old_value = dv_old_value d, ch_new_value = dv_new_value d\<rparr> = val' d"
    for val :: "('a, 'b) key_change \<Rightarrow> 'b option" and val' k
  proof -
    let ?l = "map (\<lambda>c. (ch_key c, val c)) cs" and ?r = "map (\<lambda>(k, d). (k, val' d)) m"
    have "set ?l = set ?r"
      by (simp add: assms(2) that changes_of_def image_image case_prod_beta)
    moreover have "distinct (map fst ?l)" "distinct (map fst ?r)"
      using assms(1,3) by (simp_all add: delta_exact_def comp_def case_prod_beta)
    ultimately have "map_of ?l = map_of ?r" by (simp add: map_of_inject_set)
    then show ?thesis by (simp add: map_of_map)
  qed
  have ok: "case map_of m k of
      Some d \<Rightarrow> dv_old_value d = f0 k \<and> dv_new_value d = f k \<and> f0 k \<noteq> f k | None \<Rightarrow> f0 k = f k" for k
    using assms(1) by (simp add: delta_exact_def)
  have fwd: "f k = (case map_of m k of Some d \<Rightarrow> dv_new_value d | None \<Rightarrow> f0 k)"
    and bwd: "f0 k = (case map_of m k of Some d \<Rightarrow> dv_old_value d | None \<Rightarrow> f k)" for k
    using ok [of k] by (simp_all split: option.splits)
  show "changes_match True cs f0 f"
    using assms(3) map_of_eq [of "change_value True" dv_new_value] fwd
    by (simp add: changes_match_def change_value_def case_map_option o_apply cong: option.case_cong)
  show "changes_match False cs f f0"
    using assms(3) map_of_eq [of "change_value False" dv_old_value] bwd
    by (simp add: changes_match_def change_value_def case_map_option o_apply cong: option.case_cong)
qed

section \<open>The namespaces as stores\<close>

interpretation nonces: keyed_store nonce_option "set_nonce_value_without_delta blake" for blake
  by unfold_locales (simp add: view_simps)

interpretation balances: keyed_store balance_option "set_balance_value_without_delta blake" for blake
  by unfold_locales (simp add: view_simps)

interpretation anchors: keyed_store anchor_count_option "set_anchor_count_value_without_delta blake" for blake
  by unfold_locales (simp add: view_simps)

interpretation assets: fallible_store asset_option "set_asset_value_without_delta blake" for blake
  by unfold_locales (auto dest: set_asset_value_views(2))

lemma set_next_nonce_views [view_simps]:
  "nonce_option (set_next_nonce blake k n st) = (nonce_option st)(k := Some n)"
  "asset_option (set_next_nonce blake k n st) = asset_option st"
  "balance_option (set_next_nonce blake k n st) = balance_option st"
  "anchor_count_option (set_next_nonce blake k n st) = anchor_count_option st"
  "vault_pair (set_next_nonce blake k n st) = vault_pair st"
  "st_current_store (set_next_nonce blake k n st) = st_current_store st"
  "st_delta_tracking (set_next_nonce blake k n st) = st_delta_tracking st"
  by (simp_all add: set_next_nonce_def Let_def view_simps)

lemma set_balance_views [view_simps]:
  "nonce_option (set_balance blake k n st) = nonce_option st"
  "asset_option (set_balance blake k n st) = asset_option st"
  "balance_option (set_balance blake k n st) = (balance_option st)(k := if n \<noteq> 0 then Some n else None)"
  "anchor_count_option (set_balance blake k n st) = anchor_count_option st"
  "vault_pair (set_balance blake k n st) = vault_pair st"
  "st_current_store (set_balance blake k n st) = st_current_store st"
  "st_delta_tracking (set_balance blake k n st) = st_delta_tracking st"
  by (simp_all add: set_balance_def Let_def view_simps)

lemma set_anchor_count_views [view_simps]:
  "nonce_option (set_anchor_count blake k n st) = nonce_option st"
  "asset_option (set_anchor_count blake k n st) = asset_option st"
  "balance_option (set_anchor_count blake k n st) = balance_option st"
  "anchor_count_option (set_anchor_count blake k n st)
     = (anchor_count_option st)(k := if n \<noteq> 0 then Some n else None)"
  "vault_pair (set_anchor_count blake k n st) = vault_pair st"
  "st_current_store (set_anchor_count blake k n st) = st_current_store st"
  "st_delta_tracking (set_anchor_count blake k n st) = st_delta_tracking st"
  by (simp_all add: set_anchor_count_def Let_def view_simps)

lemma set_asset_views:
  assumes "set_asset blake a asset st = (r, st')"
  shows "nonce_option st' = nonce_option st"
    "asset_option st' = (if r = Inr () then (asset_option st)(a \<mapsto> asset) else asset_option st)"
    "balance_option st' = balance_option st"
    "anchor_count_option st' = anchor_count_option st"
    "(r, vault_pair st') = vault_put (is_disk_backed st) a (asset_option st a) (Some asset) (vault_pair st)"
    "st_current_store st' = st_current_store st"
    "st_delta_tracking st' = st_delta_tracking st"
  using set_asset_value_views [OF assms [unfolded set_asset_def Let_def]] by (simp_all add: view_simps)

section \<open>Tracking\<close>

lemma tracks_set_next_nonce: "tracks st0 st \<Longrightarrow> tracks st0 (set_next_nonce blake k n st)"
  by (simp add: tracks_def view_simps) (simp add: set_next_nonce_def Let_def view_simps record_nonce_def delta_exact_record)

lemma tracks_set_balance: "tracks st0 st \<Longrightarrow> tracks st0 (set_balance blake k n st)"
  by (simp add: tracks_def view_simps) (simp add: set_balance_def Let_def view_simps record_balance_def
    delta_exact_record [of _ _ "balance_option st", where v = "Some _"]
    delta_exact_record [of _ _ "balance_option st", where v = None])

lemma tracks_set_anchor_count: "tracks st0 st \<Longrightarrow> tracks st0 (set_anchor_count blake k n st)"
  by (simp add: tracks_def view_simps) (simp add: set_anchor_count_def Let_def view_simps record_anchor_count_def
    delta_exact_record [of _ _ "anchor_count_option st", where v = "Some _"]
    delta_exact_record [of _ _ "anchor_count_option st", where v = None])

lemma tracks_set_asset:
  assumes "tracks st0 st" "set_asset blake a asset st = (Inr u, st')"
  shows "tracks st0 st'"
proof -
  have "st_dirty_delta st' = record_asset a (asset_option st a) (Some asset) (st_dirty_delta st)"
    using assms(1) set_asset_value_views(8) [OF assms(2) [unfolded set_asset_def Let_def]]
    by (simp add: tracks_def)
  then show ?thesis
    using assms(1) set_asset_views [OF assms(2)]
    by (simp add: tracks_def record_asset_def delta_exact_record)
qed

lemma tracks_begin: "tracks st (begin_delta_tracking st)"
  by (simp add: tracks_def begin_delta_tracking_def delta_builder_default_def view_simps delta_exact_refl)


section \<open>Applying a delta\<close>

lemma vaults_apartD:
  "vaults_apart f g \<Longrightarrow> f a = Some x \<Longrightarrow> g b = Some y \<Longrightarrow> asset_vault x = Some o1
    \<Longrightarrow> asset_vault y = Some o1 \<Longrightarrow> a = b"
  unfolding vaults_apart_def by blast

lemma index_within_vault_put:
  assumes "index_within (fst p) f g"
    and "pools_ok g" "vaults_apart g g" "vaults_apart g f"
    and "vault_put disk a old (g a) p = (r, p')"
  shows "r = Inr ()" "index_within (fst p') f g"
proof -
  define p1 where "p1 = drop_old_vault disk old p"
  have p1: "index_within (fst p1) f g"
    using assms(1) unfolding p1_def drop_old_vault_def index_within_def
    by (auto simp: delete_conv' split: option.splits)
  have "r = Inr () \<and> index_within (fst p') f g"
  proof (cases "\<exists>asset pool. g a = Some asset \<and> as_asset_class asset = Liquidity \<and> as_liquidity asset = Some pool")
    case True
    then obtain asset pool where asset: "g a = Some asset" "as_asset_class asset = Liquidity"
      and pool: "as_liquidity asset = Some pool" by blast
    let ?v = "pl_vault_outpoint pool"
    have "b = a" if "map_of (fst p1) ?v = Some b" for b
    proof -
      from that p1 obtain x where "f b = Some x \<or> g b = Some x" "asset_vault x = Some ?v"
        unfolding index_within_def by blast
      moreover have "asset_vault asset = Some ?v" using pool by (simp add: asset_vault_def)
      ultimately show ?thesis
        using vaults_apartD [OF assms(3) asset(1)] vaults_apartD [OF assms(4) asset(1)] by metis
    qed
    then have "map_of (fst p1) ?v \<in> {None, Some a}" by (cases "map_of (fst p1) ?v") auto
    then have eq: "(r, p') = (Inr (), AList.update ?v a (fst p1), snd p1 - {?v})"
      using assms(5) asset pool by (simp add: vault_put_def p1_def [symmetric] Let_def)
    have "index_within (AList.update ?v a (fst p1)) f g"
      using p1 asset pool by (auto simp: index_within_def update_conv' asset_vault_def)
    with eq show ?thesis by simp
  next
    case False
    then have "(r, p') = (Inr (), p1)"
      using assms(2,5) unfolding pools_ok_def vault_put_def p1_def [symmetric] Let_def
      by (cases "g a") (auto split: if_splits)
    with p1 show ?thesis by simp
  qed
  then show "r = Inr ()" "index_within (fst p') f g" by blast+
qed

lemma try_asset_changes_succeed:
  assumes "pools_ok g" "vaults_apart g g" "vaults_apart g f"
    and "index_within (st_vault_outpoints st) f g"
    and "\<forall>c \<in> set cs. change_value forward c = g (ch_key c)"
  shows "\<exists>st'. try_changes (set_asset_value_without_delta blake) forward cs st = (Inr (), st')"
  using assms(4,5)
proof (induction cs arbitrary: st)
  case (Cons c cs)
  obtain r st1 where step: "set_asset_value_without_delta blake (ch_key c) (g (ch_key c)) st = (r, st1)"
    by fastforce
  have "r = Inr ()" "index_within (st_vault_outpoints st1) f g"
    using index_within_vault_put [OF _ assms(1-3) set_asset_value_views(5) [OF step, symmetric]] Cons.prems(1)
    by (simp_all add: vault_pair_def)
  then show ?case using Cons.IH [of st1] Cons.prems(2) step by simp
qed simp


lemma fold_frame: "(\<And>c s. h (f c s) = h s) \<Longrightarrow> h (fold f cs s) = h s"
  by (induction cs arbitrary: s) simp_all

lemma try_changes_frame:
  assumes "\<And>k v s r s'. put k v s = (r, s') \<Longrightarrow> h s' = h s"
  shows "try_changes put forward cs s = (r, s') \<Longrightarrow> h s' = h s"
  by (induction cs arbitrary: s) (auto split: prod.splits sum.splits dest: assms)

lemma try_asset_changes_frame:
  assumes "try_changes (set_asset_value_without_delta blake) forward cs st = (r, st')"
  shows "nonce_option st' = nonce_option st" "balance_option st' = balance_option st"
    "anchor_count_option st' = anchor_count_option st"
  using try_changes_frame [of "set_asset_value_without_delta blake" nonce_option forward cs st r st']
    try_changes_frame [of "set_asset_value_without_delta blake" balance_option forward cs st r st']
    try_changes_frame [of "set_asset_value_without_delta blake" anchor_count_option forward cs st r st']
    set_asset_value_views(1,3,4) [of blake] assms by blast+

lemma set_nonce_value_vaults:
  "st_vault_outpoints (set_nonce_value_without_delta blake k v st) = st_vault_outpoints st"
  using set_nonce_value_views(5) [of blake k v st] by (simp add: vault_pair_def)

lemma changes_match_value:
  assumes "changes_match forward cs f g" "c \<in> set cs"
  shows "change_value forward c = g (ch_key c)"
proof -
  have "map_of (map (\<lambda>c. (ch_key c, change_value forward c)) cs) (ch_key c) = Some (change_value forward c)"
    using assms by (intro map_of_is_SomeI) (auto simp: changes_match_def comp_def)
  then show ?thesis using assms(1) by (simp add: changes_match_def)
qed

lemma apply_delta_correct:
  assumes nonces: "changes_match forward (sd_nonce_changes d) (nonce_option st) fn"
    and assets: "changes_match forward (sd_asset_changes d) (asset_option st) fa"
    and balances: "changes_match forward (sd_balance_changes d) (balance_option st) fb"
    and anchors: "changes_match forward (sd_anchor_count_changes d) (anchor_count_option st) fc"
    and vaults: "pools_ok fa" "vaults_apart fa fa" "vaults_apart fa (asset_option st)"
    and index: "index_within (st_vault_outpoints st) (asset_option st) fa"
  shows "\<exists>st'. apply_delta blake d forward st = (Inr (), st')
    \<and> nonce_option st' = fn \<and> asset_option st' = fa \<and> balance_option st' = fb \<and> anchor_count_option st' = fc"
proof -
  define st0 where "st0 = st\<lparr>st_delta_tracking := False\<rparr>"
  define st1 where "st1 = fold (\<lambda>c. set_nonce_value_without_delta blake (ch_key c) (change_value forward c))
    (sd_nonce_changes d) st0"
  have st1: "nonce_option st1 = fn"
    unfolding st1_def by (rule nonces.get_fold_match) (simp add: st0_def view_simps nonces)
  have frame1: "asset_option st1 = asset_option st" "balance_option st1 = balance_option st"
    "anchor_count_option st1 = anchor_count_option st" "st_vault_outpoints st1 = st_vault_outpoints st"
    unfolding st1_def
    by (simp_all add: fold_frame [where h = asset_option] fold_frame [where h = balance_option]
        fold_frame [where h = anchor_count_option] fold_frame [where h = st_vault_outpoints]
        view_simps set_nonce_value_vaults st0_def)
  obtain st2 where st2: "try_changes (set_asset_value_without_delta blake) forward (sd_asset_changes d) st1
      = (Inr (), st2)"
    using try_asset_changes_succeed [OF vaults, of st1 "sd_asset_changes d" forward blake]
      changes_match_value [OF assets] index frame1 by auto
  have "asset_option st2 = fa"
    by (rule assets.get_try_changes_match [OF st2]) (simp add: frame1 assets)
  moreover have "nonce_option st2 = fn" "balance_option st2 = balance_option st"
    "anchor_count_option st2 = anchor_count_option st"
    using try_asset_changes_frame [OF st2] st1 frame1 by simp_all
  ultimately show ?thesis
    using st2 balances.get_fold_match [of forward "sd_balance_changes d" st2 fb blake]
      anchors.get_fold_match [of forward "sd_anchor_count_changes d" _ fc blake] balances anchors
    unfolding apply_delta_def Let_def st0_def [symmetric] st1_def [symmetric]
    by (simp add: view_simps fold_frame [where h = asset_option] fold_frame [where h = nonce_option]
        fold_frame [where h = balance_option] fold_frame [where h = anchor_count_option])
qed

lemma sorted_changes_match:
  assumes "delta_exact m f0 f"
  shows "changes_match True (sort_key g (changes_of m)) f0 f"
    "changes_match False (sort_key g (changes_of m)) f f0"
proof -
  have "mset (map ch_key (sort_key g (changes_of m))) = mset (map fst m)"
    by (simp add: changes_of_def case_prod_beta image_mset.compositionality comp_def)
  moreover have "distinct (map fst m)" using assms by (simp add: delta_exact_def)
  ultimately have "distinct (map ch_key (sort_key g (changes_of m)))"
    using mset_eq_imp_distinct_iff by blast
  then show "changes_match True (sort_key g (changes_of m)) f0 f"
    "changes_match False (sort_key g (changes_of m)) f f0"
    using changes_of_match [OF assms, of "sort_key g (changes_of m)"] by simp_all
qed

lemma take_delta_match:
  assumes "tracks st0 st" "d = fst (take_delta st)"
  shows
    "changes_match True (sd_nonce_changes d) (nonce_option st0) (nonce_option st)"
    "changes_match True (sd_asset_changes d) (asset_option st0) (asset_option st)"
    "changes_match True (sd_balance_changes d) (balance_option st0) (balance_option st)"
    "changes_match True (sd_anchor_count_changes d) (anchor_count_option st0) (anchor_count_option st)"
    "changes_match False (sd_nonce_changes d) (nonce_option st) (nonce_option st0)"
    "changes_match False (sd_asset_changes d) (asset_option st) (asset_option st0)"
    "changes_match False (sd_balance_changes d) (balance_option st) (balance_option st0)"
    "changes_match False (sd_anchor_count_changes d) (anchor_count_option st) (anchor_count_option st0)"
  using assms by (simp_all add: tracks_def take_delta_def into_delta_def sorted_changes_match)

lemma tracks_run_writes:
  "tracks st0 st \<Longrightarrow> run_writes blake ws st = (Inr u, st') \<Longrightarrow> tracks st0 st'"
proof (induction ws arbitrary: st)
  case (Cons w ws)
  show ?case
  proof (cases w)
    case (WriteNonce k n)
    then show ?thesis using Cons.IH [OF tracks_set_next_nonce [OF Cons.prems(1)]] Cons.prems(2) by simp
  next
    case (WriteAsset a asset)
    then obtain st1 where "set_asset blake a asset st = (Inr (), st1)" "run_writes blake ws st1 = (Inr u, st')"
      using Cons.prems(2) by (auto split: prod.splits sum.splits)
    then show ?thesis using Cons.IH [OF tracks_set_asset [OF Cons.prems(1)]] by blast
  next
    case (WriteBalance k v)
    then show ?thesis using Cons.IH [OF tracks_set_balance [OF Cons.prems(1)]] Cons.prems(2) by simp
  next
    case (WriteAnchorCount k n)
    then show ?thesis using Cons.IH [OF tracks_set_anchor_count [OF Cons.prems(1)]] Cons.prems(2) by simp
  qed
qed simp

lemma snd_take_delta_views [view_simps]:
  "nonce_option (snd (take_delta st)) = nonce_option st"
  "asset_option (snd (take_delta st)) = asset_option st"
  "balance_option (snd (take_delta st)) = balance_option st"
  "anchor_count_option (snd (take_delta st)) = anchor_count_option st"
  "st_vault_outpoints (snd (take_delta st)) = st_vault_outpoints st"
  by (simp_all add: take_delta_def view_simps)

section \<open>A small state\<close>

text \<open>A state with one liquidity asset whose vault moves, on which the properties are exercised.\<close>

definition example_pool :: "outpoint \<Rightarrow> u64 \<Rightarrow> pool_state" where
  "example_pool vault nonce =
     \<lparr>pl_pool_nonce = nonce, pl_curve_version = 1, pl_curve_mode = 0,
      pl_individual_virtual_cpay_reserves_sompi = 0, pl_individual_virtual_token_multiplier_bps = 0,
      pl_real_cpay_reserves_sompi = 100000000, pl_real_token_reserves = 1000000,
      pl_virtual_cpay_reserves_sompi = 250000000000000, pl_virtual_token_reserves = 1200000,
      pl_unclaimed_fee_total_sompi = 0, pl_fee_bps = 0, pl_fee_recipients = [],
      pl_vault_outpoint = vault, pl_vault_value_sompi = 100000000,
      pl_unlock_target_sompi = 0, pl_unlocked = True\<rparr>"

definition example_asset :: "pool_state \<Rightarrow> asset_state" where
  "example_asset pool =
     \<lparr>as_creator_owner_id = [7], as_asset_class = Liquidity, as_token_version = 1,
      as_mint_authority_owner_id = [0], as_decimals = 0, as_supply_mode = CappedSupply,
      as_max_supply = 1000000, as_total_supply = 0, as_name = [], as_symbol = [], as_metadata = [],
      as_platform_tag = [], as_created_block_hash = None, as_created_daa_score = None,
      as_created_at = None, as_liquidity = Some pool\<rparr>"

definition example_vault :: "u8 \<Rightarrow> outpoint" where
  "example_vault b = \<lparr>outpoint_tx = [b], outpoint_index = 0\<rparr>"

definition example_state :: atomic_state where
  "example_state =
     atomic_state_default
       \<lparr>st_assets := [([1], example_asset (example_pool (example_vault 1) 1))],
        st_vault_outpoints := [(example_vault 1, [1])]\<rparr>"

definition example_writes :: "state_write list" where
  "example_writes =
     [WriteAsset ([1]) (example_asset (example_pool (example_vault 2) 2)),
      WriteNonce (nonce_key_asset ([7]) ([1])) 2,
      WriteBalance \<lparr>bk_asset_id = [1], bk_owner_id = [7]\<rparr> 0,
      WriteAnchorCount ([7]) 3]"

definition example_after :: atomic_state where
  "example_after = snd (run_writes (\<lambda>_. []) example_writes (begin_delta_tracking example_state))"

lemma begin_delta_tracking_views [view_simps]:
  "nonce_option (begin_delta_tracking st) = nonce_option st"
  "asset_option (begin_delta_tracking st) = asset_option st"
  "balance_option (begin_delta_tracking st) = balance_option st"
  "anchor_count_option (begin_delta_tracking st) = anchor_count_option st"
  "vault_pair (begin_delta_tracking st) = vault_pair st"
  "is_disk_backed (begin_delta_tracking st) = is_disk_backed st"
  by (simp_all add: begin_delta_tracking_def view_simps)

lemma asset_option_memory:
  "st_current_store st = None \<Longrightarrow> st_deleted_assets st = {} \<Longrightarrow> asset_option st = map_of (st_assets st)"
  by (auto simp: fun_eq_iff asset_option_def read_store_asset_def split: option.split)

lemma example_state_assets:
  "asset_option example_state = [[1] \<mapsto> example_asset (example_pool (example_vault 1) 1)]"
  by (simp add: asset_option_memory example_state_def atomic_state_default_def)

lemma example_set_asset:
  "\<exists>st1. set_asset (\<lambda>_. []) [1] (example_asset (example_pool (example_vault 2) 2))
      (begin_delta_tracking example_state) = (Inr (), st1)
    \<and> vault_pair st1 = ([(example_vault 2, [1])], {})"
proof -
  let ?new = "example_asset (example_pool (example_vault 2) 2)"
  obtain r st1 where set: "set_asset (\<lambda>_. []) [1] ?new (begin_delta_tracking example_state) = (r, st1)"
    by fastforce
  have "(r, vault_pair st1) = vault_put False [1] (Some (example_asset (example_pool (example_vault 1) 1)))
      (Some ?new) ([(example_vault 1, [1])], {})"
    using set_asset_views(5) [OF set] example_state_assets
    by (simp add: view_simps) (simp add: is_disk_backed_def vault_pair_def example_state_def
        atomic_state_default_def)
  also have "\<dots> = (Inr (), [(example_vault 2, [1])], {})" by code_simp
  finally show ?thesis using set by simp
qed

lemma example_run:
  "run_writes (\<lambda>_. []) example_writes (begin_delta_tracking example_state) = (Inr (), example_after)"
  using example_set_asset by (auto simp: example_after_def example_writes_def)

lemma vaults_of_pair: "vault_pair st = (idx, del) \<Longrightarrow> st_vault_outpoints st = idx"
  by (simp add: vault_pair_def)

lemma example_after_fields:
  "st_vault_outpoints example_after = [(example_vault 2, [1])]"
  "asset_option example_after = [[1] \<mapsto> example_asset (example_pool (example_vault 2) 2)]"
proof -
  obtain st1 where set: "set_asset (\<lambda>_. []) [1] (example_asset (example_pool (example_vault 2) 2))
      (begin_delta_tracking example_state) = (Inr (), st1)"
    and pair: "vault_pair st1 = ([(example_vault 2, [1])], {})"
    using example_set_asset by blast
  have after: "example_after = set_anchor_count (\<lambda>_. []) [7] 3
      (set_balance (\<lambda>_. []) \<lparr>bk_asset_id = [1], bk_owner_id = [7]\<rparr> 0
        (set_next_nonce (\<lambda>_. []) (nonce_key_asset [7] [1]) 2 st1))"
    by (simp add: example_after_def example_writes_def set)
  show "st_vault_outpoints example_after = [(example_vault 2, [1])]"
    by (rule vaults_of_pair) (simp add: after view_simps pair)
  show "asset_option example_after = [[1] \<mapsto> example_asset (example_pool (example_vault 2) 2)]"
    using set_asset_views(2) [OF set] example_state_assets
    by (simp add: after view_simps)
qed

lemma example_vaults:
  "pools_ok (asset_option example_state)" "pools_ok (asset_option example_after)"
  "vaults_apart (asset_option example_state) (asset_option example_state)"
  "vaults_apart (asset_option example_after) (asset_option example_after)"
  "vaults_apart (asset_option example_state) (asset_option example_after)"
  "vaults_apart (asset_option example_after) (asset_option example_state)"
  "index_within (st_vault_outpoints example_after) (asset_option example_after) (asset_option example_state)"
  "index_within (st_vault_outpoints example_state) (asset_option example_state) (asset_option example_after)"
  unfolding example_state_assets example_after_fields
  by (auto simp: pools_ok_def vaults_apart_def index_within_def example_asset_def example_state_def
      asset_vault_def example_pool_def split: if_splits)

section \<open>Properties\<close>

text \<open>C37. The delta recorded over a sequence of writes can be rolled back when no vault changes hands. Let the writes
  succeed on a state in which exactly the liquidity assets have pools. Suppose that no outpoint is the vault of two
  different assets, neither within the start nor with one asset at the start and the other at the end, and that the
  vault index in memory lists only vaults of assets of the two states. Then rolling back succeeds on the resulting state
  and restores every nonce, asset, balance and anchor count. Without the condition on vaults the roll back can be
  refused: the setter does not give an asset a vault that the index still lists for another one.\<close>

theorem delta_rollback_restores:
  assumes "run_writes blake ws (begin_delta_tracking st0) = (Inr (), st)"
    and "pools_ok (asset_option st0)" "vaults_apart (asset_option st0) (asset_option st0)"
    and "vaults_apart (asset_option st0) (asset_option st)"
    and "index_within (st_vault_outpoints st) (asset_option st) (asset_option st0)"
  shows "\<exists>st'. apply_delta_rollback blake (fst (take_delta st)) (snd (take_delta st)) = (Inr (), st')
    \<and> same_view st' st0"
  unfolding apply_delta_rollback_def same_view_def
  by (rule apply_delta_correct [where st = "snd (take_delta st)", unfolded snd_take_delta_views,
        OF take_delta_match(5-8) [OF tracks_run_writes [OF tracks_begin assms(1)] refl] assms(2-5)])

theorem delta_rollback_restores_witness:
  "\<exists>st'. apply_delta_rollback (\<lambda>_. []) (fst (take_delta example_after)) (snd (take_delta example_after)) = (Inr (), st')
    \<and> same_view st' example_state"
  by (rule delta_rollback_restores [OF example_run example_vaults(1,3,5,7)])

text \<open>C38. The same delta can be replayed when no vault changes hands. It is applied forward to a state with the lookups of
  the start. Suppose that exactly the liquidity assets of the end have pools, that no outpoint is the vault of two
  different assets, neither within the end nor with one asset at the end and the other at the start, and that the vault
  index of the state lists only vaults of assets of the two ends. Then the application succeeds and reproduces every
  lookup of the end.\<close>

theorem delta_forward_replays:
  assumes "run_writes blake ws (begin_delta_tracking st0) = (Inr (), st)"
    and "same_view s st0"
    and "pools_ok (asset_option st)" "vaults_apart (asset_option st) (asset_option st)"
    and "vaults_apart (asset_option st) (asset_option st0)"
    and "index_within (st_vault_outpoints s) (asset_option st0) (asset_option st)"
  shows "\<exists>s'. apply_delta_forward blake (fst (take_delta st)) s = (Inr (), s') \<and> same_view s' st"
proof -
  have "nonce_option st0 = nonce_option s" "asset_option st0 = asset_option s"
    "balance_option st0 = balance_option s" "anchor_count_option st0 = anchor_count_option s"
    using assms(2) by (simp_all add: same_view_def)
  note matches = take_delta_match(1-4) [OF tracks_run_writes [OF tracks_begin assms(1)] refl, unfolded this]
    and vaults = assms(5,6) [unfolded this]
  show ?thesis
    unfolding apply_delta_forward_def same_view_def
    by (rule apply_delta_correct [OF matches assms(3,4) vaults])
qed

theorem delta_forward_replays_witness:
  "\<exists>s'. apply_delta_forward (\<lambda>_. []) (fst (take_delta example_after)) example_state = (Inr (), s')
    \<and> same_view s' example_after"
  by (rule delta_forward_replays [OF example_run _ example_vaults(2,4,6,8)]) (simp add: same_view_def)

end
