(* ===== verification/Atomic_Transition.thy ===== *)
theory Atomic_Transition
  imports Atomic_Delta
begin

text \<open>
  The Atomic token transition of consensus
  (\<open>src/consensus/src/pipeline/virtual_processor/utxo_validation.rs\<close>): what one
  transaction does to the token state, operation by operation, with the vault and
  payout checks, the anchor counts, the nonces, the growth limits of a block and
  the filter that replays a block. A mutable state is passed in and out: a handler
  returns its result together with the state it leaves, also when it fails.
\<close>

section \<open>Contexts and limits\<close>

record creation_context =
  cc_source_block_hash :: hash32
  cc_source_block_daa_score :: u64
  cc_source_block_time :: u64

record vault_transition =
  vt_input_value :: u64
  vt_output_index :: u32
  vt_output_value :: u64

record growth_limits =
  gl_max_new_assets :: u64
  gl_max_new_balance_keys :: u64
  gl_max_new_nonce_keys :: u64
  gl_max_new_pools :: u64
  gl_max_new_anchor_owner_keys :: u64

record state_growth =
  gr_new_assets :: u64
  gr_new_balance_keys :: u64
  gr_new_nonce_keys :: u64
  gr_new_pools :: u64
  gr_new_anchor_owner_keys :: u64

text \<open>The fields of the processor that the transition reads.\<close>

record atomic_env =
  env_payload_hf_activation_daa_score :: u64
  env_growth_limits :: growth_limits

definition growth_default :: state_growth where
  "growth_default =
     \<lparr>gr_new_assets = 0, gr_new_balance_keys = 0, gr_new_nonce_keys = 0, gr_new_pools = 0,
      gr_new_anchor_owner_keys = 0\<rparr>"

definition ensure_limit :: "u64 \<Rightarrow> u64 \<Rightarrow> u64 \<Rightarrow> growth_kind \<Rightarrow> unit tx_result" where
  "ensure_limit current delta limit kind =
     (if saturating_add current delta > limit
      then Inl (InvalidAtomicPayload (GrowthReason kind)) else Inr ())"

definition ensure_can_add :: "state_growth \<Rightarrow> state_growth \<Rightarrow> growth_limits \<Rightarrow> unit tx_result" where
  "ensure_can_add used delta limits =
     try_bind (ensure_limit (gr_new_assets used) (gr_new_assets delta)
                 (gl_max_new_assets limits) GrowthAssets) (\<lambda>_.
     try_bind (ensure_limit (gr_new_balance_keys used) (gr_new_balance_keys delta)
                 (gl_max_new_balance_keys limits) GrowthBalanceKeys) (\<lambda>_.
     try_bind (ensure_limit (gr_new_nonce_keys used) (gr_new_nonce_keys delta)
                 (gl_max_new_nonce_keys limits) GrowthNonceKeys) (\<lambda>_.
     try_bind (ensure_limit (gr_new_pools used) (gr_new_pools delta)
                 (gl_max_new_pools limits) GrowthPools) (\<lambda>_.
     ensure_limit (gr_new_anchor_owner_keys used) (gr_new_anchor_owner_keys delta)
       (gl_max_new_anchor_owner_keys limits) GrowthAnchorOwnerKeys))))"

definition commit_growth :: "state_growth \<Rightarrow> state_growth \<Rightarrow> state_growth" where
  "commit_growth delta used =
     \<lparr>gr_new_assets = saturating_add (gr_new_assets used) (gr_new_assets delta),
      gr_new_balance_keys = saturating_add (gr_new_balance_keys used) (gr_new_balance_keys delta),
      gr_new_nonce_keys = saturating_add (gr_new_nonce_keys used) (gr_new_nonce_keys delta),
      gr_new_pools = saturating_add (gr_new_pools used) (gr_new_pools delta),
      gr_new_anchor_owner_keys = saturating_add (gr_new_anchor_owner_keys used) (gr_new_anchor_owner_keys delta)\<rparr>"

definition SUBNETWORK_ID_PAYLOAD :: bytes where
  "SUBNETWORK_ID_PAYLOAD = 3 # replicate 19 0"

definition is_payload :: "bytes \<Rightarrow> bool" where
  "is_payload subnetwork \<longleftrightarrow> subnetwork = SUBNETWORK_ID_PAYLOAD"

definition is_payload_hf_active :: "atomic_env \<Rightarrow> u64 \<Rightarrow> bool" where
  "is_payload_hf_active env pov_daa_score \<longleftrightarrow> pov_daa_score \<ge> env_payload_hf_activation_daa_score env"

section \<open>Results with a state\<close>

text \<open>
  \<open>try_in\<close> is the question-mark operator in a function that holds the state \<open>s\<close>: an
  error returns with the state as it is. \<open>then_in\<close> continues with the state a call
  leaves, when the call succeeded.
\<close>

definition try_in :: "'s \<Rightarrow> 'e + 'a \<Rightarrow> ('a \<Rightarrow> ('e + 'b) \<times> 's) \<Rightarrow> ('e + 'b) \<times> 's" where
  "try_in s r f = (case r of Inl e \<Rightarrow> (Inl e, s) | Inr x \<Rightarrow> f x)"

definition then_in :: "('e + 'a) \<times> 's \<Rightarrow> ('a \<Rightarrow> 's \<Rightarrow> ('e + 'b) \<times> 's) \<Rightarrow> ('e + 'b) \<times> 's" where
  "then_in p f = (case p of (Inl e, s) \<Rightarrow> (Inl e, s) | (Inr x, s) \<Rightarrow> f x s)"

section \<open>Vault and payout checks\<close>

abbreviation is_vault_spk :: "script_public_key \<Rightarrow> bool" where
  "is_vault_spk spk \<equiv> from_script spk = LiquidityVault"

definition find_liquidity_asset_by_vault_outpoint :: "atomic_state \<Rightarrow> outpoint \<Rightarrow> hash32 option tx_result" where
  "find_liquidity_asset_by_vault_outpoint st o1 =
     map_err (\<lambda>e. InvalidAtomicPayload (StoreReason e)) (liquidity_asset_by_vault_outpoint st o1)"

fun collect_spent_vaults ::
    "atomic_state \<Rightarrow> (tx_input \<times> utxo_entry) list \<Rightarrow> (hash32 \<times> outpoint) list tx_result" where
  "collect_spent_vaults st [] = Inr []"
| "collect_spent_vaults st ((input, entry) # rest) =
     (if \<not> is_vault_spk (entry_spk entry) then collect_spent_vaults st rest
      else
        try_bind (find_liquidity_asset_by_vault_outpoint st (previous_outpoint input)) (\<lambda>found.
        case found of
          None \<Rightarrow> Inl (vault_err UnknownVaultInput)
        | Some asset_id \<Rightarrow>
            try_bind (collect_spent_vaults st rest) (\<lambda>spent.
            Inr ((asset_id, previous_outpoint input) # spent))))"

definition collect_spent_liquidity_vault_inputs ::
    "populated_tx \<Rightarrow> atomic_state \<Rightarrow> (hash32 \<times> outpoint) list tx_result" where
  "collect_spent_liquidity_vault_inputs tx st = collect_spent_vaults st (populated_inputs tx)"

text \<open>
  The loop over the outputs with a vault script, with their index. The two callers
  report a second vault output and an index beyond 32 bits in opposite order,
  which \<open>index_first\<close> selects.
\<close>

fun find_vault_output ::
    "bool \<Rightarrow> vault_error \<Rightarrow> (nat \<times> tx_output) list \<Rightarrow> (u32 \<times> u64) option \<Rightarrow> (u32 \<times> u64) option tx_result" where
  "find_vault_output index_first dup [] found = Inr found"
| "find_vault_output index_first dup ((index, output) # rest) found =
     (if \<not> is_vault_spk (output_spk output) then find_vault_output index_first dup rest found
      else if \<not> index_first \<and> found \<noteq> None then Inl (vault_err dup)
      else if index \<ge> 2 ^ 32 then Inl (vault_err VaultOutputIndexOverflow)
      else if found \<noteq> None then Inl (vault_err dup)
      else find_vault_output index_first dup rest (Some (word_of_nat index, output_value output)))"

definition resolve_create_liquidity_vault_output :: "populated_tx \<Rightarrow> (u32 \<times> u64) tx_result" where
  "resolve_create_liquidity_vault_output tx =
     (if \<exists>(_, entry) \<in> set (populated_inputs tx). is_vault_spk (entry_spk entry)
      then Inl (vault_err CreateSpendsVault)
      else
        try_bind (find_vault_output True CreateVaultOutputCount
                    (enumerate 0 (tx_outputs (ptx tx))) None) (\<lambda>found.
        ok_or found (vault_err CreateVaultOutputCount)))"

fun find_vault_input ::
    "outpoint \<Rightarrow> (tx_input \<times> utxo_entry) list \<Rightarrow> u64 option \<Rightarrow> u64 option tx_result" where
  "find_vault_input expected [] found = Inr found"
| "find_vault_input expected ((input, entry) # rest) found =
     (if \<not> is_vault_spk (entry_spk entry) then find_vault_input expected rest found
      else if found \<noteq> None then Inl (vault_err TransitionVaultInputCount)
      else if previous_outpoint input \<noteq> expected then Inl (vault_err VaultOutpointMismatch)
      else find_vault_input expected rest (Some (entry_amount entry)))"

definition resolve_liquidity_vault_transition :: "populated_tx \<Rightarrow> outpoint \<Rightarrow> vault_transition tx_result" where
  "resolve_liquidity_vault_transition tx expected =
     try_bind (find_vault_input expected (populated_inputs tx) None) (\<lambda>found_in.
     try_bind (ok_or found_in (vault_err TransitionVaultInputCount)) (\<lambda>input_value.
     try_bind (find_vault_output False TransitionVaultOutputCount
                 (enumerate 0 (tx_outputs (ptx tx))) None) (\<lambda>found_out.
     try_bind (ok_or found_out (vault_err TransitionVaultOutputCount)) (\<lambda>(output_index, output_value).
     Inr \<lparr>vt_input_value = input_value, vt_output_index = output_index,
          vt_output_value = output_value\<rparr>))))"

definition validate_payout_output ::
    "(bytes \<Rightarrow> hash32) \<Rightarrow> populated_tx \<Rightarrow> u16 \<Rightarrow> u64 \<Rightarrow> hash32 option \<Rightarrow> unit tx_result" where
  "validate_payout_output blake tx output_index expected_value expected_owner_id =
     (let outputs = tx_outputs (ptx tx) in
      if unat output_index \<ge> length outputs then Inl (vault_err PayoutIndexOutOfRange)
      else
        let out = outputs ! unat output_index in
        if output_value out \<noteq> expected_value then Inl (vault_err PayoutValueMismatch)
        else if \<not> (from_script (output_spk out) = PubKey \<or> from_script (output_spk out) = PubKeyECDSA
                    \<or> from_script (output_spk out) = ScriptHash)
        then Inl (vault_err PayoutScriptClass)
        else case expected_owner_id of
               None \<Rightarrow> Inr ()
             | Some owner_id \<Rightarrow>
                 try_bind (ok_or (atomic_owner_id_from_script blake (output_spk out))
                             (vault_err PayoutOwnerUnknown)) (\<lambda>output_owner_id.
                 if output_owner_id \<noteq> owner_id then Inl (vault_err PayoutOwnerMismatch) else Inr ()))"

section \<open>Pools\<close>

definition apply_fee_to_pool ::
    "fee_recipient list \<Rightarrow> u64 \<Rightarrow> u64 \<Rightarrow> (fee_recipient list \<times> u64) tx_result" where
  "apply_fee_to_pool recipients unclaimed_fee_total fee_trade =
     (if fee_trade = 0 then Inr (recipients, unclaimed_fee_total)
      else
        try_bind (ok_or (checked_add unclaimed_fee_total fee_trade) (fee_err UnclaimedFeeTotalOverflow)) (\<lambda>next_total.
        case recipients of
          [] \<Rightarrow> Inl (fee_err NoFeeRecipients)
        | [r0] \<Rightarrow>
            try_bind (ok_or (checked_add (fr_unclaimed_sompi r0) fee_trade) (fee_err RecipientFeeOverflow)) (\<lambda>next.
            Inr ([r0\<lparr>fr_unclaimed_sompi := next\<rparr>], next_total))
        | [r0, r1] \<Rightarrow>
            (let fee0 = fee_trade div 2; fee1 = fee_trade - fee0 in
             try_bind (ok_or (checked_add (fr_unclaimed_sompi r0) fee0) (fee_err Recipient0FeeOverflow)) (\<lambda>next0.
             try_bind (ok_or (checked_add (fr_unclaimed_sompi r1) fee1) (fee_err Recipient1FeeOverflow)) (\<lambda>next1.
             Inr ([r0\<lparr>fr_unclaimed_sompi := next0\<rparr>, r1\<lparr>fr_unclaimed_sompi := next1\<rparr>], next_total))))
        | _ \<Rightarrow> Inl (fee_err InvalidRecipientCount)))"

fun build_fee_recipient_state ::
    "(bytes \<Rightarrow> hash32) \<Rightarrow> recipient_address list \<Rightarrow> fee_recipient list tx_result" where
  "build_fee_recipient_state blake [] = Inr []"
| "build_fee_recipient_state blake (r # rs) =
     try_bind (ok_or (atomic_owner_id_from_address_components blake (address_version r) (address_payload r))
                 (op_err RecipientEncoding)) (\<lambda>owner_id.
     try_bind (build_fee_recipient_state blake rs) (\<lambda>out.
     Inr (\<lparr>fr_owner_id = owner_id, fr_address_version = address_version r,
           fr_address_payload = address_payload r, fr_unclaimed_sompi = 0\<rparr> # out)))"

definition liquidity_sell_locked :: "pool_state \<Rightarrow> bool" where
  "liquidity_sell_locked pool \<longleftrightarrow> pl_unlock_target_sompi pool > 0 \<and> \<not> pl_unlocked pool"

definition validate_liquidity_invariants :: "asset_state \<Rightarrow> unit tx_result" where
  "validate_liquidity_invariants asset =
     (if as_asset_class asset \<noteq> Liquidity then Inr ()
      else
        try_bind (ok_or (as_liquidity asset) (invariant_err InvariantStateMissing)) (\<lambda>pool.
        if as_supply_mode asset \<noteq> CappedSupply then Inl (invariant_err InvariantNotCapped)
        else
          try_bind (validate_liquidity_curve_mode (pl_curve_mode pool)) (\<lambda>_.
          try_bind (validate_liquidity_curve_parameters (pl_curve_mode pool)
                      (pl_individual_virtual_cpay_reserves_sompi pool)
                      (pl_individual_virtual_token_multiplier_bps pool)) (\<lambda>_.
          try_bind (validate_liquidity_unlock_target (pl_unlock_target_sompi pool)) (\<lambda>_.
          if pl_unlock_target_sompi pool = 0 \<and> \<not> pl_unlocked pool
          then Inl (invariant_err InvariantLockDisabled)
          else if pl_unlock_target_sompi pool > 0
                  \<and> pl_real_cpay_reserves_sompi pool \<ge> pl_unlock_target_sompi pool \<and> \<not> pl_unlocked pool
          then Inl (invariant_err InvariantLockReached)
          else if pl_real_cpay_reserves_sompi pool < MIN_CPAY_RESERVE_SOMPI
          then Inl (invariant_err InvariantCpayFloor)
          else if pl_real_token_reserves pool < MIN_REAL_TOKEN_RESERVE
          then Inl (invariant_err InvariantTokenFloor)
          else if pl_virtual_cpay_reserves_sompi pool = 0 \<or> pl_virtual_token_reserves pool = 0
          then Inl (invariant_err InvariantVirtualReserve)
          else
            try_bind (ok_or (checked_add (pl_real_cpay_reserves_sompi pool) (pl_unclaimed_fee_total_sompi pool))
                        (invariant_err InvariantVaultOverflow)) (\<lambda>expected_vault.
            if pl_vault_value_sompi pool \<noteq> expected_vault then Inl (invariant_err InvariantVaultValue)
            else
              try_bind (ok_or (checked_add (as_total_supply asset) (pl_real_token_reserves pool))
                          (invariant_err InvariantSupplyOverflow)) (\<lambda>expected_total.
              if expected_total \<noteq> as_max_supply asset then Inl (invariant_err InvariantSupply)
              else Inr ())))))))"

definition insert_atomic_asset_state ::
    "(bytes \<Rightarrow> hash32) \<Rightarrow> hash32 \<Rightarrow> asset_state \<Rightarrow> atomic_state \<Rightarrow> unit tx_result \<times> atomic_state" where
  "insert_atomic_asset_state blake asset_id asset st =
     (case set_asset blake asset_id asset st of
        (r, st') \<Rightarrow> (map_err (\<lambda>e. InvalidAtomicPayload (StoreReason e)) r, st'))"

section \<open>Creating assets\<close>

definition supply_mode_of :: "supply_mode \<Rightarrow> atomic_supply_mode" where
  "supply_mode_of mode = (case mode of Uncapped \<Rightarrow> UncappedSupply | Capped \<Rightarrow> CappedSupply)"

definition standard_asset ::
    "creation_context \<Rightarrow> hash32 \<Rightarrow> u8 \<Rightarrow> u8 \<Rightarrow> supply_mode \<Rightarrow> u128 \<Rightarrow> hash32 \<Rightarrow> bytes \<Rightarrow> bytes \<Rightarrow> bytes \<Rightarrow> bytes
      \<Rightarrow> u128 \<Rightarrow> asset_state" where
  "standard_asset ctx owner_id token_version decimals mode max_supply mint_authority name symbol metadata
       platform_tag total_supply =
     \<lparr>as_creator_owner_id = owner_id, as_asset_class = Standard, as_token_version = token_version,
      as_mint_authority_owner_id = mint_authority, as_decimals = decimals,
      as_supply_mode = supply_mode_of mode, as_max_supply = max_supply, as_total_supply = total_supply,
      as_name = name, as_symbol = symbol, as_metadata = metadata, as_platform_tag = platform_tag,
      as_created_block_hash = Some (cc_source_block_hash ctx),
      as_created_daa_score = Some (cc_source_block_daa_score ctx),
      as_created_at = Some (cc_source_block_time ctx), as_liquidity = None\<rparr>"

definition apply_create_asset ::
    "(bytes \<Rightarrow> hash32) \<Rightarrow> hash32 \<Rightarrow> asset_state \<Rightarrow> atomic_state \<Rightarrow> unit tx_result \<times> atomic_state" where
  "apply_create_asset blake asset_id asset st =
     (if has_asset st asset_id then (Inl (op_err AssetAlreadyExists), st)
      else insert_atomic_asset_state blake asset_id asset st)"

definition initial_mint ::
    "hash32 \<Rightarrow> supply_mode \<Rightarrow> u128 \<Rightarrow> u128 \<Rightarrow> hash32 \<Rightarrow> atomic_state \<Rightarrow> (u128 \<times> (balance_key \<times> u128) option) tx_result" where
  "initial_mint asset_id mode max_supply amount to_owner_id st =
     (if amount > 0 then
        if supply_mode_of mode = CappedSupply \<and> amount > max_supply
        then Inl (op_err InitialMintExceedsCap)
        else
          (let receiver_key = \<lparr>bk_asset_id = asset_id, bk_owner_id = to_owner_id\<rparr> in
           try_bind (ok_or (checked_add (balance st receiver_key) amount) (op_err BalanceOverflow)) (\<lambda>receiver_after.
           Inr (amount, Some (receiver_key, receiver_after))))
      else Inr (0, None))"

definition set_balance_opt ::
    "(bytes \<Rightarrow> hash32) \<Rightarrow> (balance_key \<times> u128) option \<Rightarrow> atomic_state \<Rightarrow> atomic_state" where
  "set_balance_opt blake pending st =
     (case pending of Some (key, amount) \<Rightarrow> set_balance blake key amount st | None \<Rightarrow> st)"

definition apply_create_asset_with_mint ::
    "(bytes \<Rightarrow> hash32) \<Rightarrow> hash32 \<Rightarrow> supply_mode \<Rightarrow> u128 \<Rightarrow> u128 \<Rightarrow> hash32 \<Rightarrow> (u128 \<Rightarrow> asset_state) \<Rightarrow> atomic_state
      \<Rightarrow> unit tx_result \<times> atomic_state" where
  "apply_create_asset_with_mint blake asset_id mode max_supply amount to_owner_id asset_with st =
     (if has_asset st asset_id then (Inl (op_err AssetAlreadyExists), st)
      else
        try_in st (initial_mint asset_id mode max_supply amount to_owner_id st) (\<lambda>(total_supply, mint).
        then_in (insert_atomic_asset_state blake asset_id (asset_with total_supply) st) (\<lambda>_ st1.
        (Inr (), set_balance_opt blake mint st1))))"

section \<open>Creating liquidity assets\<close>

text \<open>The local variables of the creation that a launch buy changes.\<close>

record launch_state =
  ls_real_cpay_reserves_sompi :: u64
  ls_real_token_reserves :: u128
  ls_virtual_cpay_reserves_sompi :: u64
  ls_virtual_token_reserves :: u128
  ls_unclaimed_fee_total_sompi :: u64
  ls_fee_recipients :: "fee_recipient list"
  ls_total_supply :: u128
  ls_receiver_after :: "(balance_key \<times> u128) option"

definition launch_buy ::
    "hash32 \<Rightarrow> hash32 \<Rightarrow> u16 \<Rightarrow> u64 \<Rightarrow> u128 \<Rightarrow> atomic_state \<Rightarrow> launch_state \<Rightarrow> launch_state tx_result" where
  "launch_buy asset_id owner_id fee_bps launch_buy_sompi min_token_out st ls =
     (if launch_buy_sompi > 0 then
        try_bind (calculate_trade_fee launch_buy_sompi fee_bps) (\<lambda>fee_trade.
        try_bind (ok_or (checked_sub launch_buy_sompi fee_trade) (op_err LaunchFeeUnderflow)) (\<lambda>launch_buy_net.
        try_bind (cpmm_buy (ls_real_token_reserves ls) (ls_virtual_cpay_reserves_sompi ls)
                    (ls_virtual_token_reserves ls) launch_buy_net)
          (\<lambda>(token_out, new_real_token, new_virtual_cpay, new_virtual_token).
        if token_out < min_token_out then Inl (op_err MinTokenOutViolated)
        else
          try_bind (min_gross_input_for_token_out (ls_real_token_reserves ls)
                      (ls_virtual_cpay_reserves_sompi ls) (ls_virtual_token_reserves ls) token_out fee_bps)
            (\<lambda>canonical_launch_buy.
          if launch_buy_sompi \<noteq> canonical_launch_buy then Inl (op_err NotCanonicalInput)
          else if token_out = 0 then Inl (op_err ZeroTokenOut)
          else
            try_bind (ok_or (checked_add (ls_real_cpay_reserves_sompi ls) launch_buy_net)
                        (op_err RealCpayReserveOverflow)) (\<lambda>new_real_cpay.
            try_bind (apply_fee_to_pool (ls_fee_recipients ls) (ls_unclaimed_fee_total_sompi ls) fee_trade)
              (\<lambda>(recipients, unclaimed).
            let receiver_key = \<lparr>bk_asset_id = asset_id, bk_owner_id = owner_id\<rparr> in
            try_bind (ok_or (checked_add (balance st receiver_key) token_out) (op_err BalanceOverflow))
              (\<lambda>receiver_after.
            Inr \<lparr>ls_real_cpay_reserves_sompi = new_real_cpay, ls_real_token_reserves = new_real_token,
                 ls_virtual_cpay_reserves_sompi = new_virtual_cpay,
                 ls_virtual_token_reserves = new_virtual_token,
                 ls_unclaimed_fee_total_sompi = unclaimed, ls_fee_recipients = recipients,
                 ls_total_supply = token_out,
                 ls_receiver_after = Some (receiver_key, receiver_after)\<rparr>)))))))
      else Inr ls)"

definition create_liquidity_plan ::
    "(bytes \<Rightarrow> hash32) \<Rightarrow> creation_context \<Rightarrow> populated_tx \<Rightarrow> hash32 \<Rightarrow> hash32 \<Rightarrow> atomic_state
      \<Rightarrow> u8 \<Rightarrow> u8 \<Rightarrow> u8 \<Rightarrow> u64 \<Rightarrow> u16 \<Rightarrow> u8 \<Rightarrow> u128 \<Rightarrow> bytes \<Rightarrow> bytes \<Rightarrow> bytes \<Rightarrow> u64 \<Rightarrow> u16
      \<Rightarrow> recipient_address list \<Rightarrow> u64 \<Rightarrow> u128 \<Rightarrow> bytes \<Rightarrow> u64
      \<Rightarrow> (asset_state \<times> (balance_key \<times> u128) option) tx_result" where
  "create_liquidity_plan blake ctx tx asset_id owner_id st token_version curve_version curve_mode
       individual_cpay individual_bps decimals max_supply name symbol metadata seed_reserve fee_bps
       recipients launch_buy_sompi launch_buy_min_token_out platform_tag unlock_target =
     try_bind (validate_liquidity_creation_parameters decimals max_supply seed_reserve) (\<lambda>_.
     try_bind (validate_liquidity_curve_mode curve_mode) (\<lambda>_.
     try_bind (validate_liquidity_curve_parameters curve_mode individual_cpay individual_bps) (\<lambda>_.
     try_bind (validate_liquidity_unlock_target unlock_target) (\<lambda>_.
     try_bind (resolve_create_liquidity_vault_output tx) (\<lambda>(vault_output_index, vault_output_value).
     try_bind (ok_or (checked_add seed_reserve launch_buy_sompi) (vault_err VaultValueOverflowOnCreate))
       (\<lambda>expected_vault_value.
     if vault_output_value \<noteq> expected_vault_value then Inl (vault_err CreateVaultValueMismatch)
     else
       try_bind (build_fee_recipient_state blake recipients) (\<lambda>fee_recipients.
       if fee_bps > 0 \<and> fee_recipients = [] then Inl (op_err FeeRequiresRecipient)
       else
         try_bind (initial_virtual_cpay_reserves_sompi_for_curve curve_mode individual_cpay) (\<lambda>virtual_cpay.
         try_bind (initial_virtual_token_reserves_for_curve max_supply curve_mode individual_bps) (\<lambda>virtual_token.
         try_bind (launch_buy asset_id owner_id fee_bps launch_buy_sompi launch_buy_min_token_out st
                     \<lparr>ls_real_cpay_reserves_sompi = INITIAL_REAL_CPAY_RESERVES_SOMPI,
                      ls_real_token_reserves = max_supply,
                      ls_virtual_cpay_reserves_sompi = virtual_cpay,
                      ls_virtual_token_reserves = virtual_token,
                      ls_unclaimed_fee_total_sompi = 0, ls_fee_recipients = fee_recipients,
                      ls_total_supply = 0, ls_receiver_after = None\<rparr>) (\<lambda>ls.
         let pool =
               \<lparr>pl_pool_nonce = 1, pl_curve_version = curve_version, pl_curve_mode = curve_mode,
                pl_individual_virtual_cpay_reserves_sompi = individual_cpay,
                pl_individual_virtual_token_multiplier_bps = individual_bps,
                pl_real_cpay_reserves_sompi = ls_real_cpay_reserves_sompi ls,
                pl_real_token_reserves = ls_real_token_reserves ls,
                pl_virtual_cpay_reserves_sompi = ls_virtual_cpay_reserves_sompi ls,
                pl_virtual_token_reserves = ls_virtual_token_reserves ls,
                pl_unclaimed_fee_total_sompi = ls_unclaimed_fee_total_sompi ls,
                pl_fee_bps = fee_bps, pl_fee_recipients = ls_fee_recipients ls,
                pl_vault_outpoint = \<lparr>outpoint_tx = tx_id (ptx tx), outpoint_index = vault_output_index\<rparr>,
                pl_vault_value_sompi = vault_output_value, pl_unlock_target_sompi = unlock_target,
                pl_unlocked = (unlock_target = 0 \<or> ls_real_cpay_reserves_sompi ls \<ge> unlock_target)\<rparr>;
             asset =
               \<lparr>as_creator_owner_id = owner_id, as_asset_class = Liquidity, as_token_version = token_version,
                as_mint_authority_owner_id = replicate 32 0, as_decimals = decimals,
                as_supply_mode = CappedSupply, as_max_supply = max_supply,
                as_total_supply = ls_total_supply ls, as_name = name, as_symbol = symbol,
                as_metadata = metadata, as_platform_tag = platform_tag,
                as_created_block_hash = Some (cc_source_block_hash ctx),
                as_created_daa_score = Some (cc_source_block_daa_score ctx),
                as_created_at = Some (cc_source_block_time ctx), as_liquidity = Some pool\<rparr>
         in try_bind (validate_liquidity_invariants asset) (\<lambda>_. Inr (asset, ls_receiver_after ls))))))))))))"

definition apply_create_liquidity_asset ::
    "(bytes \<Rightarrow> hash32) \<Rightarrow> hash32 \<Rightarrow> (atomic_state \<Rightarrow> (asset_state \<times> (balance_key \<times> u128) option) tx_result)
      \<Rightarrow> atomic_state \<Rightarrow> unit tx_result \<times> atomic_state" where
  "apply_create_liquidity_asset blake asset_id plan st =
     (if has_asset st asset_id then (Inl (op_err AssetAlreadyExists), st)
      else
        try_in st (plan st) (\<lambda>(asset, launch_receiver).
        then_in (insert_atomic_asset_state blake asset_id asset st) (\<lambda>_ st1.
        (Inr (), set_balance_opt blake launch_receiver st1))))"

section \<open>Transfer, mint and burn\<close>

definition apply_transfer ::
    "(bytes \<Rightarrow> hash32) \<Rightarrow> hash32 \<Rightarrow> hash32 \<Rightarrow> hash32 \<Rightarrow> u128 \<Rightarrow> atomic_state \<Rightarrow> unit tx_result \<times> atomic_state" where
  "apply_transfer blake owner_id asset_id to_owner_id amount st =
     (if \<not> has_asset st asset_id then (Inl (op_err UnknownAsset), st)
      else
        let from_key = \<lparr>bk_asset_id = asset_id, bk_owner_id = owner_id\<rparr>;
            to_key = \<lparr>bk_asset_id = asset_id, bk_owner_id = to_owner_id\<rparr>;
            sender_balance = balance st from_key
        in if from_key = to_key then
             try_in st (ok_or (checked_sub sender_balance amount) (op_err InsufficientBalance)) (\<lambda>_. (Inr (), st))
           else
             try_in st (ok_or (checked_sub sender_balance amount) (op_err InsufficientBalance)) (\<lambda>sender_after.
             try_in st (ok_or (checked_add (balance st to_key) amount) (op_err BalanceOverflow)) (\<lambda>receiver_after.
             let st1 = (if sender_after = 0 then set_balance blake from_key 0 st
                        else set_balance blake from_key sender_after st)
             in (Inr (), set_balance blake to_key receiver_after st1))))"

definition mint_plan ::
    "hash32 \<Rightarrow> hash32 \<Rightarrow> hash32 \<Rightarrow> u128 \<Rightarrow> atomic_state \<Rightarrow> (asset_state \<times> balance_key \<times> u128) tx_result" where
  "mint_plan owner_id asset_id to_owner_id amount st =
     try_bind (ok_or (cloned_asset st asset_id) (op_err UnknownAsset)) (\<lambda>asset.
     if as_asset_class asset = Liquidity then Inl (op_err LegacyOpForLiquidity)
     else if as_mint_authority_owner_id asset \<noteq> owner_id then Inl (op_err NotMintAuthority)
     else
       try_bind (ok_or (checked_add (as_total_supply asset) amount) (op_err SupplyOverflow)) (\<lambda>new_total_supply.
       if as_supply_mode asset = CappedSupply \<and> new_total_supply > as_max_supply asset
       then Inl (op_err MintExceedsCap)
       else
         let receiver_key = \<lparr>bk_asset_id = asset_id, bk_owner_id = to_owner_id\<rparr> in
         try_bind (ok_or (checked_add (balance st receiver_key) amount) (op_err BalanceOverflow)) (\<lambda>receiver_after.
         Inr (asset\<lparr>as_total_supply := new_total_supply\<rparr>, receiver_key, receiver_after))))"

definition apply_mint ::
    "(bytes \<Rightarrow> hash32) \<Rightarrow> hash32 \<Rightarrow> hash32 \<Rightarrow> hash32 \<Rightarrow> u128 \<Rightarrow> atomic_state \<Rightarrow> unit tx_result \<times> atomic_state" where
  "apply_mint blake owner_id asset_id to_owner_id amount st =
     try_in st (mint_plan owner_id asset_id to_owner_id amount st) (\<lambda>(asset, receiver_key, receiver_after).
     then_in (insert_atomic_asset_state blake asset_id asset st) (\<lambda>_ st1.
     (Inr (), set_balance blake receiver_key receiver_after st1)))"

definition burn_plan ::
    "hash32 \<Rightarrow> hash32 \<Rightarrow> u128 \<Rightarrow> atomic_state \<Rightarrow> (asset_state \<times> balance_key \<times> u128) tx_result" where
  "burn_plan owner_id asset_id amount st =
     try_bind (ok_or (cloned_asset st asset_id) (op_err UnknownAsset)) (\<lambda>asset.
     if as_asset_class asset = Liquidity then Inl (op_err LegacyOpForLiquidity)
     else
       let sender_key = \<lparr>bk_asset_id = asset_id, bk_owner_id = owner_id\<rparr> in
       try_bind (ok_or (checked_sub (balance st sender_key) amount) (op_err InsufficientBalance)) (\<lambda>sender_after.
       try_bind (ok_or (checked_sub (as_total_supply asset) amount) (op_err SupplyUnderflow)) (\<lambda>supply_after.
       Inr (asset\<lparr>as_total_supply := supply_after\<rparr>, sender_key, sender_after))))"

definition apply_burn ::
    "(bytes \<Rightarrow> hash32) \<Rightarrow> hash32 \<Rightarrow> hash32 \<Rightarrow> u128 \<Rightarrow> atomic_state \<Rightarrow> unit tx_result \<times> atomic_state" where
  "apply_burn blake owner_id asset_id amount st =
     try_in st (burn_plan owner_id asset_id amount st) (\<lambda>(asset, sender_key, sender_after).
     then_in (insert_atomic_asset_state blake asset_id asset st) (\<lambda>_ st1.
     (Inr (), if sender_after = 0 then set_balance blake sender_key 0 st1
              else set_balance blake sender_key sender_after st1)))"

section \<open>Buying, selling and claiming\<close>

definition liquidity_pool_of :: "atomic_state \<Rightarrow> hash32 \<Rightarrow> u64 \<Rightarrow> (asset_state \<times> pool_state) tx_result" where
  "liquidity_pool_of st asset_id expected_pool_nonce =
     try_bind (ok_or (cloned_asset st asset_id) (op_err UnknownAsset)) (\<lambda>asset.
     if as_asset_class asset \<noteq> Liquidity then Inl (pool_err NotLiquidityAsset)
     else
       try_bind (ok_or (as_liquidity asset) (pool_err LiquidityStateMissing)) (\<lambda>pool.
       if pl_pool_nonce pool \<noteq> expected_pool_nonce then Inl (pool_err StalePoolNonce)
       else Inr (asset, pool)))"

definition buy_plan ::
    "populated_tx \<Rightarrow> hash32 \<Rightarrow> hash32 \<Rightarrow> u64 \<Rightarrow> u64 \<Rightarrow> u128 \<Rightarrow> atomic_state
      \<Rightarrow> (asset_state \<times> balance_key \<times> u128) tx_result" where
  "buy_plan tx owner_id asset_id expected_pool_nonce cpay_in min_token_out st =
     try_bind (liquidity_pool_of st asset_id expected_pool_nonce) (\<lambda>(asset, pool).
     try_bind (resolve_liquidity_vault_transition tx (pl_vault_outpoint pool)) (\<lambda>vt.
     try_bind (ok_or (checked_sub (vt_output_value vt) (vt_input_value vt)) (pool_err BuyVaultMustIncrease)) (\<lambda>vault_delta.
     if vault_delta \<noteq> cpay_in then Inl (pool_err BuyVaultDelta)
     else
       try_bind (calculate_trade_fee cpay_in (pl_fee_bps pool)) (\<lambda>fee_trade.
       try_bind (ok_or (checked_sub cpay_in fee_trade) (pool_err BuyFeeUnderflow)) (\<lambda>net_in.
       try_bind (cpmm_buy (pl_real_token_reserves pool) (pl_virtual_cpay_reserves_sompi pool)
                   (pl_virtual_token_reserves pool) net_in)
         (\<lambda>(token_out, new_real_token, new_virtual_cpay, new_virtual_token).
       if token_out < min_token_out then Inl (op_err MinTokenOutViolated)
       else
         try_bind (min_gross_input_for_token_out (pl_real_token_reserves pool)
                     (pl_virtual_cpay_reserves_sompi pool) (pl_virtual_token_reserves pool) token_out
                     (pl_fee_bps pool)) (\<lambda>canonical_cpay_in.
         if cpay_in \<noteq> canonical_cpay_in then Inl (op_err NotCanonicalInput)
         else if token_out = 0 then Inl (op_err ZeroTokenOut)
         else
           try_bind (ok_or (checked_add (pl_real_cpay_reserves_sompi pool) net_in)
                       (op_err RealCpayReserveOverflow)) (\<lambda>new_real_cpay.
           try_bind (apply_fee_to_pool (pl_fee_recipients pool) (pl_unclaimed_fee_total_sompi pool) fee_trade)
             (\<lambda>(recipients, unclaimed).
           try_bind (ok_or (checked_add (pl_pool_nonce pool) 1) (pool_err PoolNonceOverflow)) (\<lambda>next_pool_nonce.
           let receiver_key = \<lparr>bk_asset_id = asset_id, bk_owner_id = owner_id\<rparr> in
           try_bind (ok_or (checked_add (balance st receiver_key) token_out) (op_err BalanceOverflow)) (\<lambda>receiver_after.
           try_bind (ok_or (checked_add (as_total_supply asset) token_out) (op_err SupplyOverflow)) (\<lambda>new_total_supply.
           let pool1 = pool\<lparr>pl_real_cpay_reserves_sompi := new_real_cpay,
                           pl_real_token_reserves := new_real_token,
                           pl_virtual_cpay_reserves_sompi := new_virtual_cpay,
                           pl_virtual_token_reserves := new_virtual_token,
                           pl_unlocked := (if pl_unlock_target_sompi pool > 0
                                              \<and> new_real_cpay \<ge> pl_unlock_target_sompi pool
                                           then True else pl_unlocked pool),
                           pl_fee_recipients := recipients, pl_unclaimed_fee_total_sompi := unclaimed,
                           pl_vault_outpoint := \<lparr>outpoint_tx = tx_id (ptx tx), outpoint_index = vt_output_index vt\<rparr>,
                           pl_vault_value_sompi := vt_output_value vt,
                           pl_pool_nonce := next_pool_nonce\<rparr>;
               asset1 = asset\<lparr>as_total_supply := new_total_supply, as_liquidity := Some pool1\<rparr>
           in try_bind (validate_liquidity_invariants asset1) (\<lambda>_.
              Inr (asset1, receiver_key, receiver_after))))))))))))))"

definition apply_buy ::
    "(bytes \<Rightarrow> hash32) \<Rightarrow> populated_tx \<Rightarrow> hash32 \<Rightarrow> hash32 \<Rightarrow> u64 \<Rightarrow> u64 \<Rightarrow> u128 \<Rightarrow> atomic_state
      \<Rightarrow> unit tx_result \<times> atomic_state" where
  "apply_buy blake tx owner_id asset_id expected_pool_nonce cpay_in min_token_out st =
     try_in st (buy_plan tx owner_id asset_id expected_pool_nonce cpay_in min_token_out st)
       (\<lambda>(asset, receiver_key, receiver_after).
     then_in (insert_atomic_asset_state blake asset_id asset st) (\<lambda>_ st1.
     (Inr (), set_balance blake receiver_key receiver_after st1)))"

definition sell_plan ::
    "(bytes \<Rightarrow> hash32) \<Rightarrow> populated_tx \<Rightarrow> hash32 \<Rightarrow> hash32 \<Rightarrow> u64 \<Rightarrow> u128 \<Rightarrow> u64 \<Rightarrow> u16 \<Rightarrow> atomic_state
      \<Rightarrow> (asset_state \<times> balance_key \<times> u128) tx_result" where
  "sell_plan blake tx owner_id asset_id expected_pool_nonce token_in min_cpay_out receive_index st =
     try_bind (liquidity_pool_of st asset_id expected_pool_nonce) (\<lambda>(asset, pool).
     if liquidity_sell_locked pool then Inl (pool_err SellLocked)
     else
       let sender_key = \<lparr>bk_asset_id = asset_id, bk_owner_id = owner_id\<rparr> in
       try_bind (ok_or (checked_sub (balance st sender_key) token_in) (op_err InsufficientBalance)) (\<lambda>sender_after.
       try_bind (ok_or (checked_sub (as_total_supply asset) token_in) (op_err SupplyUnderflow)) (\<lambda>supply_after.
       try_bind (cpmm_sell (pl_real_cpay_reserves_sompi pool) (pl_virtual_cpay_reserves_sompi pool)
                   (pl_virtual_token_reserves pool) token_in)
         (\<lambda>(gross_out, new_real_cpay, new_virtual_cpay, new_virtual_token).
       try_bind (calculate_trade_fee gross_out (pl_fee_bps pool)) (\<lambda>fee_trade.
       try_bind (ok_or (checked_sub gross_out fee_trade) (pool_err SellFeeUnderflow)) (\<lambda>cpay_out.
       if cpay_out = 0 then Inl (pool_err ZeroCpayOut)
       else if cpay_out < min_cpay_out then Inl (pool_err MinCpayOutViolated)
       else if cpay_out < LIQUIDITY_MIN_PAYOUT_SOMPI then Inl (pool_err BelowMinPayout)
       else
         try_bind (validate_payout_output blake tx receive_index cpay_out None) (\<lambda>_.
         try_bind (resolve_liquidity_vault_transition tx (pl_vault_outpoint pool)) (\<lambda>vt.
         try_bind (ok_or (checked_sub (vt_input_value vt) (vt_output_value vt)) (pool_err SellVaultMustDecrease)) (\<lambda>vault_delta.
         if vault_delta \<noteq> cpay_out then Inl (pool_err SellVaultDelta)
         else
           try_bind (ok_or (checked_add (pl_real_token_reserves pool) token_in)
                       (pool_err RealTokenReserveOverflow)) (\<lambda>new_real_token.
           try_bind (apply_fee_to_pool (pl_fee_recipients pool) (pl_unclaimed_fee_total_sompi pool) fee_trade)
             (\<lambda>(recipients, unclaimed).
           try_bind (ok_or (checked_add (pl_pool_nonce pool) 1) (pool_err PoolNonceOverflow)) (\<lambda>next_pool_nonce.
           let pool1 = pool\<lparr>pl_real_cpay_reserves_sompi := new_real_cpay,
                           pl_real_token_reserves := new_real_token,
                           pl_virtual_cpay_reserves_sompi := new_virtual_cpay,
                           pl_virtual_token_reserves := new_virtual_token,
                           pl_fee_recipients := recipients, pl_unclaimed_fee_total_sompi := unclaimed,
                           pl_vault_outpoint := \<lparr>outpoint_tx = tx_id (ptx tx), outpoint_index = vt_output_index vt\<rparr>,
                           pl_vault_value_sompi := vt_output_value vt,
                           pl_pool_nonce := next_pool_nonce\<rparr>;
               asset1 = asset\<lparr>as_total_supply := supply_after, as_liquidity := Some pool1\<rparr>
           in try_bind (validate_liquidity_invariants asset1) (\<lambda>_.
              Inr (asset1, sender_key, sender_after))))))))))))))"

definition apply_sell ::
    "(bytes \<Rightarrow> hash32) \<Rightarrow> populated_tx \<Rightarrow> hash32 \<Rightarrow> hash32 \<Rightarrow> u64 \<Rightarrow> u128 \<Rightarrow> u64 \<Rightarrow> u16 \<Rightarrow> atomic_state
      \<Rightarrow> unit tx_result \<times> atomic_state" where
  "apply_sell blake tx owner_id asset_id expected_pool_nonce token_in min_cpay_out receive_index st =
     try_in st (sell_plan blake tx owner_id asset_id expected_pool_nonce token_in min_cpay_out receive_index st)
       (\<lambda>(asset, sender_key, sender_after).
     then_in (insert_atomic_asset_state blake asset_id asset st) (\<lambda>_ st1.
     (Inr (), if sender_after = 0 then set_balance blake sender_key 0 st1
              else set_balance blake sender_key sender_after st1)))"

definition claim_plan ::
    "(bytes \<Rightarrow> hash32) \<Rightarrow> populated_tx \<Rightarrow> hash32 \<Rightarrow> hash32 \<Rightarrow> u64 \<Rightarrow> u8 \<Rightarrow> u64 \<Rightarrow> u16 \<Rightarrow> atomic_state
      \<Rightarrow> asset_state tx_result" where
  "claim_plan blake tx owner_id asset_id expected_pool_nonce recipient_index claim_amount receive_index st =
     try_bind (liquidity_pool_of st asset_id expected_pool_nonce) (\<lambda>(asset, pool).
     if liquidity_sell_locked pool then Inl (pool_err ClaimLocked)
     else if claim_amount < LIQUIDITY_MIN_PAYOUT_SOMPI then Inl (pool_err ClaimBelowMinPayout)
     else if unat recipient_index \<ge> length (pl_fee_recipients pool) then Inl (pool_err ClaimRecipientIndex)
     else
       let recipient = pl_fee_recipients pool ! unat recipient_index;
           recipient_unclaimed = fr_unclaimed_sompi recipient
       in if recipient_unclaimed < claim_amount then Inl (pool_err ClaimExceedsUnclaimed)
       else
         try_bind (validate_liquidity_claim_authorization owner_id (fr_owner_id recipient)) (\<lambda>_.
         try_bind (validate_payout_output blake tx receive_index claim_amount (Some (fr_owner_id recipient))) (\<lambda>_.
         try_bind (resolve_liquidity_vault_transition tx (pl_vault_outpoint pool)) (\<lambda>vt.
         try_bind (ok_or (checked_sub (vt_input_value vt) (vt_output_value vt)) (pool_err ClaimVaultMustDecrease)) (\<lambda>vault_delta.
         if vault_delta \<noteq> claim_amount then Inl (pool_err ClaimVaultDelta)
         else
           try_bind (ok_or (checked_sub (pl_unclaimed_fee_total_sompi pool) claim_amount)
                       (pool_err ClaimTotalUnderflow)) (\<lambda>unclaimed.
           try_bind (ok_or (checked_add (pl_pool_nonce pool) 1) (pool_err PoolNonceOverflow)) (\<lambda>next_pool_nonce.
           let recipients = (pl_fee_recipients pool)[unat recipient_index :=
                              recipient\<lparr>fr_unclaimed_sompi := recipient_unclaimed - claim_amount\<rparr>];
               pool1 = pool\<lparr>pl_fee_recipients := recipients, pl_unclaimed_fee_total_sompi := unclaimed,
                           pl_vault_outpoint := \<lparr>outpoint_tx = tx_id (ptx tx), outpoint_index = vt_output_index vt\<rparr>,
                           pl_vault_value_sompi := vt_output_value vt,
                           pl_pool_nonce := next_pool_nonce\<rparr>;
               asset1 = asset\<lparr>as_liquidity := Some pool1\<rparr>
           in try_bind (validate_liquidity_invariants asset1) (\<lambda>_. Inr asset1))))))))"

definition apply_claim ::
    "(bytes \<Rightarrow> hash32) \<Rightarrow> populated_tx \<Rightarrow> hash32 \<Rightarrow> hash32 \<Rightarrow> u64 \<Rightarrow> u8 \<Rightarrow> u64 \<Rightarrow> u16 \<Rightarrow> atomic_state
      \<Rightarrow> unit tx_result \<times> atomic_state" where
  "apply_claim blake tx owner_id asset_id expected_pool_nonce recipient_index claim_amount receive_index st =
     try_in st (claim_plan blake tx owner_id asset_id expected_pool_nonce recipient_index claim_amount receive_index st)
       (\<lambda>asset. insert_atomic_asset_state blake asset_id asset st)"

section \<open>One operation\<close>

definition apply_atomic_op_to_state ::
    "(bytes \<Rightarrow> hash32) \<Rightarrow> populated_tx \<Rightarrow> hash32 \<Rightarrow> hash32 \<Rightarrow> atomic_payload_op \<Rightarrow> creation_context \<Rightarrow> atomic_state
      \<Rightarrow> unit tx_result \<times> atomic_state" where
  "apply_atomic_op_to_state blake tx tx_id_bytes owner_id op ctx st =
     (case op of
        CreateAsset token_version decimals mode max_supply mint_authority name symbol metadata platform_tag \<Rightarrow>
          apply_create_asset blake tx_id_bytes
            (standard_asset ctx owner_id token_version decimals mode max_supply mint_authority name symbol
               metadata platform_tag 0) st
      | CreateAssetWithMint token_version decimals mode max_supply mint_authority name symbol metadata
          initial_amount initial_owner platform_tag \<Rightarrow>
          apply_create_asset_with_mint blake tx_id_bytes mode max_supply initial_amount initial_owner
            (standard_asset ctx owner_id token_version decimals mode max_supply mint_authority name symbol
               metadata platform_tag) st
      | CreateLiquidityAsset token_version curve_version curve_mode individual_cpay individual_bps decimals
          max_supply name symbol metadata seed_reserve fee_bps recipients launch_buy_sompi
          launch_buy_min_token_out platform_tag unlock_target \<Rightarrow>
          apply_create_liquidity_asset blake tx_id_bytes
            (\<lambda>st. create_liquidity_plan blake ctx tx tx_id_bytes owner_id st token_version curve_version
               curve_mode individual_cpay individual_bps decimals max_supply name symbol metadata
               seed_reserve fee_bps recipients launch_buy_sompi launch_buy_min_token_out platform_tag
               unlock_target) st
      | Transfer asset_id to_owner_id amount \<Rightarrow> apply_transfer blake owner_id asset_id to_owner_id amount st
      | Mint asset_id to_owner_id amount \<Rightarrow> apply_mint blake owner_id asset_id to_owner_id amount st
      | Burn asset_id amount \<Rightarrow> apply_burn blake owner_id asset_id amount st
      | BuyLiquidityExactIn asset_id expected_pool_nonce cpay_in min_token_out \<Rightarrow>
          apply_buy blake tx owner_id asset_id expected_pool_nonce cpay_in min_token_out st
      | SellLiquidityExactIn asset_id expected_pool_nonce token_in min_cpay_out receive_index \<Rightarrow>
          apply_sell blake tx owner_id asset_id expected_pool_nonce token_in min_cpay_out receive_index st
      | ClaimLiquidityFees asset_id expected_pool_nonce recipient_index claim_amount receive_index \<Rightarrow>
          apply_claim blake tx owner_id asset_id expected_pool_nonce recipient_index claim_amount receive_index st)"

definition atomic_op_allows_liquidity_vault_output :: "atomic_payload_op \<Rightarrow> bool" where
  "atomic_op_allows_liquidity_vault_output op =
     (case op of
        CreateLiquidityAsset _ _ _ _ _ _ _ _ _ _ _ _ _ _ _ _ _ \<Rightarrow> True
      | BuyLiquidityExactIn _ _ _ _ \<Rightarrow> True
      | SellLiquidityExactIn _ _ _ _ _ \<Rightarrow> True
      | ClaimLiquidityFees _ _ _ _ _ \<Rightarrow> True
      | _ \<Rightarrow> False)"

definition op_spends_vault :: "atomic_payload_op \<Rightarrow> bool" where
  "op_spends_vault op =
     (case op of
        BuyLiquidityExactIn _ _ _ _ \<Rightarrow> True
      | SellLiquidityExactIn _ _ _ _ _ \<Rightarrow> True
      | ClaimLiquidityFees _ _ _ _ _ \<Rightarrow> True
      | _ \<Rightarrow> False)"

definition op_creates_liquidity :: "atomic_payload_op \<Rightarrow> bool" where
  "op_creates_liquidity op =
     (case op of CreateLiquidityAsset _ _ _ _ _ _ _ _ _ _ _ _ _ _ _ _ _ \<Rightarrow> True | _ \<Rightarrow> False)"

definition atomic_nonce_key_for_op :: "hash32 \<Rightarrow> atomic_payload_op \<Rightarrow> nonce_key" where
  "atomic_nonce_key_for_op owner_id op =
     (case op of
        CreateAsset _ _ _ _ _ _ _ _ _ \<Rightarrow> nonce_key_owner owner_id
      | CreateAssetWithMint _ _ _ _ _ _ _ _ _ _ _ \<Rightarrow> nonce_key_owner owner_id
      | CreateLiquidityAsset _ _ _ _ _ _ _ _ _ _ _ _ _ _ _ _ _ \<Rightarrow> nonce_key_owner owner_id
      | Transfer asset_id _ _ \<Rightarrow> nonce_key_asset owner_id asset_id
      | Mint asset_id _ _ \<Rightarrow> nonce_key_asset owner_id asset_id
      | Burn asset_id _ \<Rightarrow> nonce_key_asset owner_id asset_id
      | BuyLiquidityExactIn asset_id _ _ _ \<Rightarrow> nonce_key_asset owner_id asset_id
      | SellLiquidityExactIn asset_id _ _ _ _ \<Rightarrow> nonce_key_asset owner_id asset_id
      | ClaimLiquidityFees asset_id _ _ _ _ \<Rightarrow> nonce_key_asset owner_id asset_id)"

section \<open>Owners and anchors\<close>

definition resolve_atomic_owner_from_populated_tx ::
    "(bytes \<Rightarrow> hash32) \<Rightarrow> populated_tx \<Rightarrow> u16 \<Rightarrow> hash32 tx_result" where
  "resolve_atomic_owner_from_populated_tx blake tx index =
     (if unat index \<ge> length (populated_inputs tx) then Inl (op_err AuthInputMissing)
      else ok_or (atomic_owner_id_from_script blake (entry_spk (snd (populated_inputs tx ! unat index))))
             (op_err AuthScriptUnsupported))"

definition validate_replacement_anchor ::
    "(bytes \<Rightarrow> hash32) \<Rightarrow> populated_tx \<Rightarrow> hash32 \<Rightarrow> atomic_state \<Rightarrow> unit tx_result" where
  "validate_replacement_anchor blake tx owner_id st =
     (let before_count = anchor_count st owner_id;
          spent_for_owner =
            fold (\<lambda>(_, entry) n. if atomic_owner_id_from_script blake (entry_spk entry) = Some owner_id
                                 then saturating_add n 1 else n) (populated_inputs tx) (0 :: u64)
      in if saturating_sub before_count spent_for_owner > 0 then Inr ()
         else if \<exists>out \<in> set (tx_outputs (ptx tx)). atomic_owner_id_from_script blake (output_spk out) = Some owner_id
         then Inr () else Inl (op_err FinalAnchorLost))"

definition owner_counts :: "(bytes \<Rightarrow> hash32) \<Rightarrow> script_public_key list \<Rightarrow> (hash32 \<times> u64) list" where
  "owner_counts blake spks =
     fold (\<lambda>spk m. case atomic_owner_id_from_script blake spk of
                     None \<Rightarrow> m
                   | Some owner_id \<Rightarrow>
                       AList.update owner_id ((case map_of m owner_id of Some n \<Rightarrow> n | None \<Rightarrow> 0) + 1) m)
       spks []"

definition apply_anchor_deltas_to_atomic_state ::
    "(bytes \<Rightarrow> hash32) \<Rightarrow> populated_tx \<Rightarrow> atomic_state \<Rightarrow> atomic_state" where
  "apply_anchor_deltas_to_atomic_state blake tx st =
     (let spent_counts = owner_counts blake (map (\<lambda>(_, entry). entry_spk entry) (populated_inputs tx));
          created_counts = owner_counts blake (map output_spk (tx_outputs (ptx tx)));
          owners = remdups (map fst spent_counts @ map fst created_counts)
      in fold (\<lambda>owner_id st.
                 let old_count = anchor_count st owner_id;
                     spent = (case map_of spent_counts owner_id of Some n \<Rightarrow> n | None \<Rightarrow> 0);
                     created = (case map_of created_counts owner_id of Some n \<Rightarrow> n | None \<Rightarrow> 0)
                 in set_anchor_count blake owner_id (saturating_add (saturating_sub old_count spent) created) st)
           owners st)"

section \<open>The transition of a transaction\<close>

definition vault_output_count :: "transaction \<Rightarrow> nat" where
  "vault_output_count t = length (filter (\<lambda>out. is_vault_spk (output_spk out)) (tx_outputs t))"

definition without_payload ::
    "(bytes \<Rightarrow> hash32) \<Rightarrow> populated_tx \<Rightarrow> (hash32 \<times> outpoint) list \<Rightarrow> atomic_state \<Rightarrow> unit tx_result \<times> atomic_state" where
  "without_payload blake tx spent_vault_inputs st =
     (if spent_vault_inputs \<noteq> [] \<or> vault_output_count (ptx tx) > 0
      then (Inl (vault_err VaultRequiresLiquidityPayload), st)
      else (Inr (), apply_anchor_deltas_to_atomic_state blake tx st))"

definition check_transition ::
    "(bytes \<Rightarrow> hash32) \<Rightarrow> populated_tx \<Rightarrow> (hash32 \<times> outpoint) list \<Rightarrow> parsed_atomic_payload \<Rightarrow> atomic_state
      \<Rightarrow> (hash32 \<times> nonce_key \<times> u64) tx_result" where
  "check_transition blake tx spent_vault_inputs parsed st =
     try_bind (resolve_atomic_owner_from_populated_tx blake tx (auth_input_index parsed)) (\<lambda>owner_id.
     let nonce_key = atomic_nonce_key_for_op owner_id (payload_op parsed);
         expected_nonce = next_nonce st nonce_key
     in if payload_nonce parsed \<noteq> expected_nonce then Inl (op_err NonceBaselineViolation)
     else
       try_bind (ok_or (checked_add expected_nonce 1) (op_err NonceProgressionOverflow)) (\<lambda>next.
       if spent_vault_inputs \<noteq> [] \<and> \<not> op_spends_vault (payload_op parsed)
       then Inl (vault_err VaultSpentByOtherOp)
       else if vault_output_count (ptx tx) > 0 \<and> \<not> atomic_op_allows_liquidity_vault_output (payload_op parsed)
       then Inl (vault_err VaultOutputByOtherOp)
       else if op_creates_liquidity (payload_op parsed) \<and> spent_vault_inputs \<noteq> []
       then Inl (vault_err CreateSpendsVault)
       else
         try_bind (validate_replacement_anchor blake tx owner_id st) (\<lambda>_.
         Inr (owner_id, nonce_key, next))))"

definition validate_and_apply_atomic_state_transition ::
    "(bytes \<Rightarrow> hash32) \<Rightarrow> atomic_env \<Rightarrow> populated_tx \<Rightarrow> u64 \<Rightarrow> creation_context \<Rightarrow> atomic_state
      \<Rightarrow> unit tx_result \<times> atomic_state" where
  "validate_and_apply_atomic_state_transition blake env tx pov_daa_score ctx st =
     try_in st (collect_spent_liquidity_vault_inputs tx st) (\<lambda>spent_vault_inputs.
     if \<not> is_payload_hf_active env pov_daa_score \<or> \<not> is_payload (subnetwork_id (ptx tx))
        \<or> tx_payload (ptx tx) = []
     then without_payload blake tx spent_vault_inputs st
     else
       try_in st (map_err (\<lambda>e. InvalidAtomicPayload (ParseReason e)) (parse_atomic_payload (tx_payload (ptx tx))))
         (\<lambda>payload.
       case payload of
         None \<Rightarrow> without_payload blake tx spent_vault_inputs st
       | Some parsed \<Rightarrow>
           try_in st (check_transition blake tx spent_vault_inputs parsed st) (\<lambda>(owner_id, nonce_key, next).
           then_in (apply_atomic_op_to_state blake tx (tx_id (ptx tx)) owner_id (payload_op parsed) ctx st) (\<lambda>_ st1.
           (Inr (), apply_anchor_deltas_to_atomic_state blake tx (set_next_nonce blake nonce_key next st1))))))"

section \<open>Growth of the state\<close>

definition growth_of_op :: "hash32 \<Rightarrow> hash32 \<Rightarrow> atomic_payload_op \<Rightarrow> atomic_state \<Rightarrow> state_growth \<Rightarrow> state_growth" where
  "growth_of_op tx_id_bytes owner_id op st g =
     (case op of
        CreateAsset _ _ _ _ _ _ _ _ _ \<Rightarrow>
          if \<not> has_asset st tx_id_bytes then g\<lparr>gr_new_assets := 1\<rparr> else g
      | CreateAssetWithMint _ _ _ _ _ _ _ _ initial_amount initial_owner _ \<Rightarrow>
          (let g1 = (if \<not> has_asset st tx_id_bytes then g\<lparr>gr_new_assets := 1\<rparr> else g)
           in if initial_amount > 0
                 \<and> \<not> has_balance st \<lparr>bk_asset_id = tx_id_bytes, bk_owner_id = initial_owner\<rparr>
              then g1\<lparr>gr_new_balance_keys := saturating_add (gr_new_balance_keys g1) 1\<rparr> else g1)
      | CreateLiquidityAsset _ _ _ _ _ _ _ _ _ _ _ _ _ launch_buy_sompi _ _ _ \<Rightarrow>
          (let g1 = (if \<not> has_asset st tx_id_bytes then g\<lparr>gr_new_assets := 1, gr_new_pools := 1\<rparr> else g)
           in if launch_buy_sompi > 0 \<and> \<not> has_balance st \<lparr>bk_asset_id = tx_id_bytes, bk_owner_id = owner_id\<rparr>
              then g1\<lparr>gr_new_balance_keys := saturating_add (gr_new_balance_keys g1) 1\<rparr> else g1)
      | Transfer asset_id to_owner_id amount \<Rightarrow>
          (let from_key = \<lparr>bk_asset_id = asset_id, bk_owner_id = owner_id\<rparr>;
               to_key = \<lparr>bk_asset_id = asset_id, bk_owner_id = to_owner_id\<rparr>
           in if amount > 0 \<and> from_key \<noteq> to_key \<and> \<not> has_balance st to_key
              then g\<lparr>gr_new_balance_keys := saturating_add (gr_new_balance_keys g) 1\<rparr> else g)
      | Mint asset_id to_owner_id amount \<Rightarrow>
          if amount > 0 \<and> \<not> has_balance st \<lparr>bk_asset_id = asset_id, bk_owner_id = to_owner_id\<rparr>
          then g\<lparr>gr_new_balance_keys := saturating_add (gr_new_balance_keys g) 1\<rparr> else g
      | BuyLiquidityExactIn asset_id _ _ _ \<Rightarrow>
          if \<not> has_balance st \<lparr>bk_asset_id = asset_id, bk_owner_id = owner_id\<rparr>
          then g\<lparr>gr_new_balance_keys := saturating_add (gr_new_balance_keys g) 1\<rparr> else g
      | Burn _ _ \<Rightarrow> g
      | SellLiquidityExactIn _ _ _ _ _ \<Rightarrow> g
      | ClaimLiquidityFees _ _ _ _ _ \<Rightarrow> g)"

definition new_anchor_owners :: "(bytes \<Rightarrow> hash32) \<Rightarrow> transaction \<Rightarrow> atomic_state \<Rightarrow> hash32 list" where
  "new_anchor_owners blake t st =
     remdups (filter (\<lambda>owner_id. \<not> has_anchor_count st owner_id)
       (List.map_filter (\<lambda>out. atomic_owner_id_from_script blake (output_spk out)) (tx_outputs t)))"

definition estimate_atomic_state_growth_for_tx ::
    "(bytes \<Rightarrow> hash32) \<Rightarrow> atomic_env \<Rightarrow> populated_tx \<Rightarrow> u64 \<Rightarrow> atomic_state \<Rightarrow> state_growth tx_result" where
  "estimate_atomic_state_growth_for_tx blake env tx pov_daa_score st =
     (let g = growth_default\<lparr>gr_new_anchor_owner_keys := word_of_nat (length (new_anchor_owners blake (ptx tx) st))\<rparr>
      in if \<not> is_payload_hf_active env pov_daa_score \<or> \<not> is_payload (subnetwork_id (ptx tx))
            \<or> tx_payload (ptx tx) = []
      then Inr g
      else
        try_bind (map_err (\<lambda>e. InvalidAtomicPayload (ParseReason e)) (parse_atomic_payload (tx_payload (ptx tx))))
          (\<lambda>payload.
        case payload of
          None \<Rightarrow> Inr g
        | Some parsed \<Rightarrow>
            try_bind (resolve_atomic_owner_from_populated_tx blake tx (auth_input_index parsed)) (\<lambda>owner_id.
            let nonce_key = atomic_nonce_key_for_op owner_id (payload_op parsed);
                g1 = (if \<not> has_nonce st nonce_key then g\<lparr>gr_new_nonce_keys := 1\<rparr> else g)
            in Inr (growth_of_op (tx_id (ptx tx)) owner_id (payload_op parsed) st g1))))"

definition validate_and_apply_atomic_state_transition_with_growth ::
    "(bytes \<Rightarrow> hash32) \<Rightarrow> atomic_env \<Rightarrow> populated_tx \<Rightarrow> u64 \<Rightarrow> creation_context \<Rightarrow> atomic_state \<Rightarrow> state_growth
      \<Rightarrow> unit tx_result \<times> atomic_state \<times> state_growth" where
  "validate_and_apply_atomic_state_transition_with_growth blake env tx pov_daa_score ctx st growth =
     (case estimate_atomic_state_growth_for_tx blake env tx pov_daa_score st of
        Inl e \<Rightarrow> (Inl e, st, growth)
      | Inr delta \<Rightarrow>
          (case ensure_can_add growth delta (env_growth_limits env) of
             Inl e \<Rightarrow> (Inl e, st, growth)
           | Inr _ \<Rightarrow>
               (case validate_and_apply_atomic_state_transition blake env tx pov_daa_score ctx st of
                  (Inl e, st1) \<Rightarrow> (Inl e, st1, growth)
                | (Inr _, st1) \<Rightarrow> (Inr (), st1, commit_growth delta growth))))"

section \<open>Replaying the transactions of a block\<close>

record filter_state =
  fs_atomic_state :: atomic_state
  fs_growth :: state_growth
  fs_seen_txids :: "hash32 set"
  fs_spent_outpoints :: "outpoint set"
  fs_filtered :: "(populated_tx \<times> u32) list"

definition filter_step ::
    "(bytes \<Rightarrow> hash32) \<Rightarrow> atomic_env \<Rightarrow> u64 \<Rightarrow> creation_context \<Rightarrow> populated_tx \<times> u32 \<Rightarrow> filter_state \<Rightarrow> filter_state" where
  "filter_step blake env pov_daa_score ctx p fs =
     (let tx = fst p; id1 = tx_id (ptx tx);
          outpoints = map previous_outpoint (tx_inputs (ptx tx))
      in if id1 \<in> fs_seen_txids fs then fs
         else
           let fs1 = fs\<lparr>fs_seen_txids := insert id1 (fs_seen_txids fs)\<rparr>
           in if \<exists>o1 \<in> set outpoints. o1 \<in> fs_spent_outpoints fs1 then fs1
              else case validate_and_apply_atomic_state_transition_with_growth blake env tx pov_daa_score ctx
                          (fs_atomic_state fs1) (fs_growth fs1) of
                     (Inl _, st1, growth1) \<Rightarrow> fs1\<lparr>fs_atomic_state := st1, fs_growth := growth1\<rparr>
                   | (Inr _, st1, growth1) \<Rightarrow>
                       fs1\<lparr>fs_atomic_state := st1, fs_growth := growth1,
                           fs_spent_outpoints := fs_spent_outpoints fs1 \<union> set outpoints,
                           fs_filtered := fs_filtered fs1 @ [p]\<rparr>)"

definition filter_validated_transactions_by_atomic_state ::
    "(bytes \<Rightarrow> hash32) \<Rightarrow> atomic_env \<Rightarrow> u64 \<Rightarrow> creation_context \<Rightarrow> (populated_tx \<times> u32) list \<Rightarrow> atomic_state
      \<Rightarrow> filter_state" where
  "filter_validated_transactions_by_atomic_state blake env pov_daa_score ctx txs st =
     fold (filter_step blake env pov_daa_score ctx) (sort_key snd txs)
       \<lparr>fs_atomic_state = st, fs_growth = growth_default, fs_seen_txids = {}, fs_spent_outpoints = {},
        fs_filtered = []\<rparr>"

end
