(* ===== verification/Atomic_Normal.thy ===== *)
theory Atomic_Normal
  imports Atomic_Transition
begin

text \<open>
  The consistency check of a complete Atomic token state
  (\<open>validate_normalized\<close> and its helpers in \<open>atomic_state.rs\<close>), run when a state is
  imported: nonces and anchor counts are normalised, the balances of an asset add
  up to its supply, assets and pools respect their limits, and the vault index lists
  exactly the vaults. Each message of the source is a constructor of
  \<open>normal_error\<close>. The abstract invariant \<open>wf_state\<close> says the same over the lookups;
  for a state held in memory the check decides it.
\<close>

section \<open>Errors and limits\<close>

datatype (plugins only: code) normal_error =
    OwnerScopeNonZero | AssetScopeZero | InvalidScopeKind | NonceNotNormalized | ZeroAnchorCount
  | ZeroBalance | BalanceUnknownAsset | BalanceTotalOverflow
  | NormalTokenVersion | NormalDecimals | NormalNameLen | NormalSymbolLen | NormalMetadataLen
  | NormalNotUtf8 | PartialCreationMetadata | NormalTagLen | NormalTagNotUtf8
  | UncappedWithMax | CappedZeroMax | SupplyAboveMax | BalanceTotalMismatch
  | StandardWithLiquidity | LiquidityDecimalsNonZero | PoolMissing | PoolMintAuthority | PoolNotCapped
  | PoolNonceZero | NormalCurveVersion | NormalCurveMode | NormalIndividualCpayRange
  | NormalIndividualCpayStep | NormalIndividualMultiplierRange | NormalIndividualMultiplierStep
  | NormalNonIndividual | PoolLockDisabled | PoolUnlockTarget | PoolLockReached | PoolZeroCpay
  | PoolZeroToken | PoolZeroVirtual | PoolVaultOverflow | PoolVaultValue | PoolSupplyOverflow | PoolSupply
  | RecipientsWithoutFee | PoolRecipientCount | PoolFeeBps | PoolRecipientAddress | PoolRecipientOwner
  | PoolRecipientOrder | PoolRecipientOverflow | PoolFeeTotal | NormalSharedVault | VaultIndexNotNormalized

definition nonce_key_validate :: "nonce_key \<Rightarrow> normal_error + unit" where
  "nonce_key_validate key =
     (if nk_scope_kind key = ATOMIC_NONCE_SCOPE_OWNER then
        (if nk_scope_id key = replicate 32 0 then Inr () else Inl OwnerScopeNonZero)
      else if nk_scope_kind key = ATOMIC_NONCE_SCOPE_ASSET then
        (if nk_scope_id key \<noteq> replicate 32 0 then Inr () else Inl AssetScopeZero)
      else Inl InvalidScopeKind)"

definition state_token_version :: "u8 \<Rightarrow> normal_error + unit" where
  "state_token_version version =
     (if (1 \<le> version \<and> version \<le> ATOMIC_MAX_TOKEN_VERSION) \<and> version = ATOMIC_CURRENT_TOKEN_VERSION
      then Inr () else Inl NormalTokenVersion)"

definition state_curve_version :: "u8 \<Rightarrow> normal_error + unit" where
  "state_curve_version version =
     (if (1 \<le> version \<and> version \<le> ATOMIC_MAX_LIQUIDITY_CURVE_VERSION)
         \<and> version = ATOMIC_CURRENT_LIQUIDITY_CURVE_VERSION
      then Inr () else Inl NormalCurveVersion)"

definition state_curve_mode :: "u8 \<Rightarrow> normal_error + unit" where
  "state_curve_mode mode =
     (if mode = ATOMIC_LIQUIDITY_CURVE_MODE_BASIC \<or> mode = ATOMIC_LIQUIDITY_CURVE_MODE_AGGRESSIVE
         \<or> mode = ATOMIC_LIQUIDITY_CURVE_MODE_INDIVIDUAL
      then Inr () else Inl NormalCurveMode)"

definition state_individual_params :: "u64 \<Rightarrow> u16 \<Rightarrow> normal_error + unit" where
  "state_individual_params cpay bps =
     (if \<not> (ATOMIC_INDIVIDUAL_MIN_VIRTUAL_CPAY_RESERVES_SOMPI \<le> cpay
            \<and> cpay \<le> ATOMIC_INDIVIDUAL_MAX_VIRTUAL_CPAY_RESERVES_SOMPI) then Inl NormalIndividualCpayRange
      else if cpay mod ATOMIC_INDIVIDUAL_VIRTUAL_CPAY_STEP_SOMPI \<noteq> 0 then Inl NormalIndividualCpayStep
      else if \<not> (ATOMIC_INDIVIDUAL_MIN_VIRTUAL_TOKEN_MULTIPLIER_BPS \<le> bps
            \<and> bps \<le> ATOMIC_INDIVIDUAL_MAX_VIRTUAL_TOKEN_MULTIPLIER_BPS)
      then Inl NormalIndividualMultiplierRange
      else if bps mod ATOMIC_INDIVIDUAL_VIRTUAL_TOKEN_MULTIPLIER_STEP_BPS \<noteq> 0
      then Inl NormalIndividualMultiplierStep
      else Inr ())"

definition state_curve_parameters :: "u8 \<Rightarrow> u64 \<Rightarrow> u16 \<Rightarrow> normal_error + unit" where
  "state_curve_parameters mode cpay bps =
     (if mode = ATOMIC_LIQUIDITY_CURVE_MODE_BASIC \<or> mode = ATOMIC_LIQUIDITY_CURVE_MODE_AGGRESSIVE
      then (if cpay = 0 \<and> bps = 0 then Inr () else Inl NormalNonIndividual)
      else if mode = ATOMIC_LIQUIDITY_CURVE_MODE_INDIVIDUAL then state_individual_params cpay bps
      else Inl NormalCurveMode)"

text \<open>The owner identifier of this file, a copy of the one of the transaction validator.\<close>

definition state_owner_id :: "(bytes \<Rightarrow> hash32) \<Rightarrow> u8 \<Rightarrow> bytes \<Rightarrow> hash32 option" where
  "state_owner_id blake version p =
     Option.bind
       (if version = 0 \<and> length p = 32 then Some OWNER_AUTH_SCHEME_PUBKEY
        else if version = 1 \<and> length p = 33 then Some OWNER_AUTH_SCHEME_PUBKEY_ECDSA
        else if version = 8 \<and> length p = 32 then Some OWNER_AUTH_SCHEME_SCRIPT_HASH
        else None) (\<lambda>scheme.
     if length p > 65535 then None
     else Some (blake (ATOMIC_OWNER_DOMAIN @ [scheme] @ to_le_bytes (word_of_nat (length p) :: u16) @ p)))"

section \<open>Pools\<close>

fun check_recipients_normalized ::
    "(bytes \<Rightarrow> hash32) \<Rightarrow> fee_recipient list \<Rightarrow> (u8 \<times> bytes) option \<Rightarrow> u64 \<Rightarrow> normal_error + u64" where
  "check_recipients_normalized blake [] previous unclaimed_sum = Inr unclaimed_sum"
| "check_recipients_normalized blake (r # rs) previous unclaimed_sum =
     try_bind (ok_or (state_owner_id blake (fr_address_version r) (fr_address_payload r)) PoolRecipientAddress) (\<lambda>owner_id.
     if owner_id \<noteq> fr_owner_id r then Inl PoolRecipientOwner
     else
       let order_key = (fr_address_version r, fr_address_payload r)
       in if (case previous of Some p \<Rightarrow> p \<ge> order_key | None \<Rightarrow> False) then Inl PoolRecipientOrder
          else
            try_bind (ok_or (checked_add unclaimed_sum (fr_unclaimed_sompi r)) PoolRecipientOverflow) (\<lambda>next_sum.
            check_recipients_normalized blake rs (Some order_key) next_sum))"

definition validate_fee_recipients_normalized :: "(bytes \<Rightarrow> hash32) \<Rightarrow> pool_state \<Rightarrow> normal_error + unit" where
  "validate_fee_recipients_normalized blake pool =
     try_bind
       (if pl_fee_bps pool = 0 then
          (if pl_fee_recipients pool \<noteq> [] then Inl RecipientsWithoutFee else Inr ())
        else if MIN_ATOMIC_LIQUIDITY_FEE_BPS \<le> pl_fee_bps pool \<and> pl_fee_bps pool \<le> MAX_ATOMIC_LIQUIDITY_FEE_BPS then
          (if pl_fee_recipients pool = [] \<or> length (pl_fee_recipients pool) > MAX_ATOMIC_LIQUIDITY_FEE_RECIPIENTS
           then Inl PoolRecipientCount else Inr ())
        else Inl PoolFeeBps) (\<lambda>_.
     try_bind (check_recipients_normalized blake (pl_fee_recipients pool) None 0) (\<lambda>unclaimed_sum.
     if unclaimed_sum \<noteq> pl_unclaimed_fee_total_sompi pool then Inl PoolFeeTotal else Inr ()))"

definition check_pool_normalized ::
    "(bytes \<Rightarrow> hash32) \<Rightarrow> asset_state \<Rightarrow> normal_error + outpoint" where
  "check_pool_normalized blake asset =
     try_bind (ok_or (as_liquidity asset) PoolMissing) (\<lambda>pool.
     if as_mint_authority_owner_id asset \<noteq> replicate 32 0 then Inl PoolMintAuthority
     else if as_supply_mode asset \<noteq> CappedSupply then Inl PoolNotCapped
     else if pl_pool_nonce pool = 0 then Inl PoolNonceZero
     else
       try_bind (state_curve_version (pl_curve_version pool)) (\<lambda>_.
       try_bind (state_curve_mode (pl_curve_mode pool)) (\<lambda>_.
       try_bind (state_curve_parameters (pl_curve_mode pool) (pl_individual_virtual_cpay_reserves_sompi pool)
                   (pl_individual_virtual_token_multiplier_bps pool)) (\<lambda>_.
       if pl_unlock_target_sompi pool = 0 \<and> \<not> pl_unlocked pool then Inl PoolLockDisabled
       else if pl_unlock_target_sompi pool > MAX_SOMPI then Inl PoolUnlockTarget
       else if pl_unlock_target_sompi pool > 0 \<and> \<not> pl_unlocked pool
               \<and> pl_real_cpay_reserves_sompi pool \<ge> pl_unlock_target_sompi pool then Inl PoolLockReached
       else if pl_real_cpay_reserves_sompi pool = 0 then Inl PoolZeroCpay
       else if pl_real_token_reserves pool = 0 then Inl PoolZeroToken
       else if pl_virtual_cpay_reserves_sompi pool = 0 \<or> pl_virtual_token_reserves pool = 0
       then Inl PoolZeroVirtual
       else
         try_bind (ok_or (checked_add (pl_real_cpay_reserves_sompi pool) (pl_unclaimed_fee_total_sompi pool))
                     PoolVaultOverflow) (\<lambda>expected_vault.
         if pl_vault_value_sompi pool \<noteq> expected_vault then Inl PoolVaultValue
         else
           try_bind (ok_or (checked_add (as_total_supply asset) (pl_real_token_reserves pool))
                       PoolSupplyOverflow) (\<lambda>expected_supply.
           if expected_supply \<noteq> as_max_supply asset then Inl PoolSupply
           else
             try_bind (validate_fee_recipients_normalized blake pool) (\<lambda>_.
             Inr (pl_vault_outpoint pool))))))))"

definition validate_liquidity_asset_normalized ::
    "(bytes \<Rightarrow> hash32) \<Rightarrow> hash32 \<Rightarrow> asset_state \<Rightarrow> (outpoint \<times> hash32) list \<Rightarrow> normal_error + (outpoint \<times> hash32) list" where
  "validate_liquidity_asset_normalized blake asset_id asset expected_vault_index =
     try_bind (check_pool_normalized blake asset) (\<lambda>vault.
     case map_of expected_vault_index vault of
       Some previous \<Rightarrow>
         if previous \<noteq> asset_id then Inl NormalSharedVault
         else Inr (AList.update vault asset_id expected_vault_index)
     | None \<Rightarrow> Inr (AList.update vault asset_id expected_vault_index))"

section \<open>The whole state\<close>

fun check_nonces_normalized :: "(nonce_key \<times> u64) list \<Rightarrow> normal_error + unit" where
  "check_nonces_normalized [] = Inr ()"
| "check_nonces_normalized ((key, nonce) # rest) =
     try_bind (nonce_key_validate key) (\<lambda>_.
     if nonce < 2 then Inl NonceNotNormalized else check_nonces_normalized rest)"

fun check_anchors_normalized :: "(hash32 \<times> u64) list \<Rightarrow> normal_error + unit" where
  "check_anchors_normalized [] = Inr ()"
| "check_anchors_normalized ((owner_id, n) # rest) =
     (if n = 0 then Inl ZeroAnchorCount else check_anchors_normalized rest)"

fun sum_balances ::
    "(hash32 \<times> asset_state) list \<Rightarrow> (balance_key \<times> u128) list \<Rightarrow> (hash32 \<times> u128) list
      \<Rightarrow> normal_error + (hash32 \<times> u128) list" where
  "sum_balances assets [] totals = Inr totals"
| "sum_balances assets ((key, amount) # rest) totals =
     (if amount = 0 then Inl ZeroBalance
      else if map_of assets (bk_asset_id key) = None then Inl BalanceUnknownAsset
      else
        try_bind (ok_or (checked_add (case map_of totals (bk_asset_id key) of Some t \<Rightarrow> t | None \<Rightarrow> 0) amount)
                    BalanceTotalOverflow) (\<lambda>total.
        sum_balances assets rest (AList.update (bk_asset_id key) total totals)))"

definition check_asset_fields :: "asset_state \<Rightarrow> normal_error + unit" where
  "check_asset_fields asset =
     try_bind (state_token_version (as_token_version asset)) (\<lambda>_.
     if as_decimals asset > MAX_ATOMIC_DECIMALS then Inl NormalDecimals
     else if length (as_name asset) > MAX_ATOMIC_NAME_LEN then Inl NormalNameLen
     else if length (as_symbol asset) > MAX_ATOMIC_SYMBOL_LEN then Inl NormalSymbolLen
     else if length (as_metadata asset) > MAX_ATOMIC_METADATA_LEN then Inl NormalMetadataLen
     else if \<not> is_utf8 (as_name asset) \<or> \<not> is_utf8 (as_symbol asset) then Inl NormalNotUtf8
     else if (as_created_block_hash asset \<noteq> None \<or> as_created_daa_score asset \<noteq> None \<or> as_created_at asset \<noteq> None)
             \<and> (as_created_block_hash asset = None \<or> as_created_daa_score asset = None \<or> as_created_at asset = None)
     then Inl PartialCreationMetadata
     else if length (as_platform_tag asset) > MAX_ATOMIC_PLATFORM_TAG_LEN then Inl NormalTagLen
     else if \<not> is_utf8 (as_platform_tag asset) then Inl NormalTagNotUtf8
     else if as_supply_mode asset = UncappedSupply \<and> as_max_supply asset \<noteq> 0 then Inl UncappedWithMax
     else if as_supply_mode asset = CappedSupply \<and> as_max_supply asset = 0 then Inl CappedZeroMax
     else if as_supply_mode asset = CappedSupply \<and> as_total_supply asset > as_max_supply asset
     then Inl SupplyAboveMax
     else Inr ())"

fun check_assets_normalized ::
    "(bytes \<Rightarrow> hash32) \<Rightarrow> (hash32 \<times> u128) list \<Rightarrow> (hash32 \<times> asset_state) list \<Rightarrow> (outpoint \<times> hash32) list
      \<Rightarrow> normal_error + (outpoint \<times> hash32) list" where
  "check_assets_normalized blake totals [] expected = Inr expected"
| "check_assets_normalized blake totals ((asset_id, asset) # rest) expected =
     try_bind (check_asset_fields asset) (\<lambda>_.
     if (case map_of totals asset_id of Some t \<Rightarrow> t | None \<Rightarrow> 0) \<noteq> as_total_supply asset
     then Inl BalanceTotalMismatch
     else
       try_bind
         (case as_asset_class asset of
            Standard \<Rightarrow> if as_liquidity asset \<noteq> None then Inl StandardWithLiquidity else Inr expected
          | Liquidity \<Rightarrow>
              if as_decimals asset \<noteq> 0 then Inl LiquidityDecimalsNonZero
              else validate_liquidity_asset_normalized blake asset_id asset expected) (\<lambda>expected1.
       check_assets_normalized blake totals rest expected1))"

definition hash_map_eq :: "('k \<times> 'v) list \<Rightarrow> ('k \<times> 'v) list \<Rightarrow> bool" where
  "hash_map_eq a b \<longleftrightarrow> length a = length b \<and> list_all (\<lambda>(k, v). map_of b k = Some v) a"

definition validate_normalized :: "(bytes \<Rightarrow> hash32) \<Rightarrow> atomic_state \<Rightarrow> normal_error + unit" where
  "validate_normalized blake st =
     try_bind (check_nonces_normalized (st_next_nonces st)) (\<lambda>_.
     try_bind (check_anchors_normalized (st_anchor_counts st)) (\<lambda>_.
     try_bind (sum_balances (st_assets st) (st_balances st) []) (\<lambda>totals.
     try_bind (check_assets_normalized blake totals (st_assets st) []) (\<lambda>expected_vault_index.
     if \<not> hash_map_eq (st_vault_outpoints st) expected_vault_index then Inl VaultIndexNotNormalized
     else Inr ()))))"

end
