(* ===== verification/Atomic_Invariant.thy ===== *)
theory Atomic_Invariant
  imports Atomic_Normal
begin

text \<open>
  The invariant of the Atomic token state, over its lookups: nonces and anchor counts
  are normalised, every balance is positive and belongs to an asset, the balances of an
  asset add up to its supply, assets and pools respect the rules of
  \<open>validate_normalized\<close>, and the vault index lists exactly the vaults. The setters keep
  it, and change the difference between balances and supply by the amount written.
\<close>


section \<open>The invariant over the lookups\<close>

definition some_or_zero :: "'a::len word option \<Rightarrow> 'a word" where
  "some_or_zero x = (case x of Some v \<Rightarrow> v | None \<Rightarrow> 0)"

definition holdings :: "atomic_state \<Rightarrow> hash32 \<Rightarrow> hash32 \<Rightarrow> u128 option" where
  "holdings st a = (\<lambda>owner. balance_option st \<lparr>bk_asset_id = a, bk_owner_id = owner\<rparr>)"

definition option_sum :: "('k \<Rightarrow> 'a::len word option) \<Rightarrow> nat" where
  "option_sum f = (\<Sum>k\<in>dom f. unat (some_or_zero (f k)))"

definition supply_of :: "atomic_state \<Rightarrow> hash32 \<Rightarrow> nat" where
  "supply_of st a = (case asset_option st a of Some asset \<Rightarrow> unat (as_total_supply asset) | None \<Rightarrow> 0)"

definition excess :: "atomic_state \<Rightarrow> hash32 \<Rightarrow> int" where
  "excess st a = int (option_sum (holdings st a)) - int (supply_of st a)"

definition vault_get :: "vault_index \<Rightarrow> (outpoint \<Rightarrow> hash32 option) \<Rightarrow> outpoint \<Rightarrow> hash32 option" where
  "vault_get p store o1 =
     (case map_of (fst p) o1 of Some a \<Rightarrow> Some a | None \<Rightarrow> if o1 \<in> snd p then None else store o1)"

definition vault_asset :: "atomic_state \<Rightarrow> outpoint \<Rightarrow> hash32 option" where
  "vault_asset st = vault_get (vault_pair st) (store_vault_asset st)"

definition asset_ok :: "(bytes \<Rightarrow> hash32) \<Rightarrow> asset_state \<Rightarrow> bool" where
  "asset_ok blake asset \<longleftrightarrow>
     check_asset_fields asset = Inr ()
     \<and> (case as_asset_class asset of
          Standard \<Rightarrow> as_liquidity asset = None
        | Liquidity \<Rightarrow> as_decimals asset = 0 \<and> (\<exists>v. check_pool_normalized blake asset = Inr v))"

definition wf_core :: "(bytes \<Rightarrow> hash32) \<Rightarrow> atomic_state \<Rightarrow> bool" where
  "wf_core blake st \<longleftrightarrow>
     (\<forall>k n. nonce_option st k = Some n \<longrightarrow> nonce_key_validate k = Inr () \<and> 2 \<le> n)
     \<and> (\<forall>owner n. anchor_count_option st owner = Some n \<longrightarrow> n \<noteq> 0)
     \<and> (\<forall>k v. balance_option st k = Some v \<longrightarrow> v \<noteq> 0 \<and> asset_option st (bk_asset_id k) \<noteq> None)
     \<and> (\<forall>a. finite (dom (holdings st a)))
     \<and> (\<forall>a asset. asset_option st a = Some asset \<longrightarrow> asset_ok blake asset)
     \<and> (\<forall>o1 a. vault_asset st o1 = Some a
          \<longleftrightarrow> (\<exists>asset. asset_option st a = Some asset \<and> asset_vault asset = Some o1))"

definition wf_state :: "(bytes \<Rightarrow> hash32) \<Rightarrow> atomic_state \<Rightarrow> bool" where
  "wf_state blake st \<longleftrightarrow> wf_core blake st \<and> (\<forall>a. excess st a = 0)"

definition vault_free :: "atomic_state \<Rightarrow> hash32 \<Rightarrow> asset_state \<Rightarrow> bool" where
  "vault_free st a asset \<longleftrightarrow> (\<forall>v b. asset_vault asset = Some v \<longrightarrow> vault_asset st v = Some b \<longrightarrow> b = a)"

section \<open>Sums of holdings\<close>

lemma option_sum_update:
  assumes "finite (dom f)"
  shows "option_sum (f(k := w)) + unat (some_or_zero (f k)) = option_sum f + unat (some_or_zero w)"
proof -
  have split: "option_sum g = (\<Sum>k\<in>dom g - {k}. unat (some_or_zero (g k))) + unat (some_or_zero (g k))"
    if "finite (dom g)" for g
  proof (cases "k \<in> dom g")
    case True
    then show ?thesis using that by (simp add: option_sum_def sum.remove)
  next
    case False
    then show ?thesis by (simp add: option_sum_def some_or_zero_def domIff)
  qed
  have "(\<Sum>x\<in>dom (f(k := w)) - {k}. unat (some_or_zero ((f(k := w)) x)))
      = (\<Sum>x\<in>dom f - {k}. unat (some_or_zero (f x)))"
    by (intro sum.cong) auto
  then show ?thesis using split [of f] split [of "f(k := w)"] assms by simp
qed

lemma balance_some_or_zero: "balance st k = some_or_zero (balance_option st k)"
  by (simp add: balance_def some_or_zero_def)

lemma holdings_update:
  assumes "balance_option st' = (balance_option st)(\<lparr>bk_asset_id = a, bk_owner_id = owner\<rparr> := w)"
  shows "holdings st' b = (if b = a then (holdings st a)(owner := w) else holdings st b)"
  using assms by (auto simp: holdings_def fun_eq_iff)

lemma excess_set_balance:
  assumes "finite (dom (holdings st a))"
  shows "excess (set_balance blake \<lparr>bk_asset_id = a, bk_owner_id = owner\<rparr> v st) b =
    (if b = a then excess st a + uint v - uint (balance st \<lparr>bk_asset_id = a, bk_owner_id = owner\<rparr>)
     else excess st b)"
proof -
  let ?k = "\<lparr>bk_asset_id = a, bk_owner_id = owner\<rparr>" and ?w = "if v \<noteq> 0 then Some v else None"
  let ?st = "set_balance blake ?k v st"
  have h: "holdings ?st b = (if b = a then (holdings st a)(owner := ?w) else holdings st b)"
    by (rule holdings_update) (simp add: view_simps)
  have "unat (some_or_zero ?w) = unat v" by (simp add: some_or_zero_def)
  moreover have "some_or_zero (holdings st a owner) = balance st ?k"
    by (simp add: balance_some_or_zero holdings_def)
  ultimately have "int (option_sum ((holdings st a)(owner := ?w)))
      = int (option_sum (holdings st a)) + uint v - uint (balance st ?k)"
    using arg_cong [OF option_sum_update [OF assms, of owner ?w], of int] by simp
  then show ?thesis by (simp add: excess_def h supply_of_def view_simps)
qed


section \<open>The vault index\<close>

lemma vault_get_drop:
  assumes "disk \<or> store = (\<lambda>_. None)"
  shows "vault_get (drop_old_vault disk old p) store =
    (case Option.bind old asset_vault of Some v \<Rightarrow> (vault_get p store)(v := None) | None \<Rightarrow> vault_get p store)"
proof (cases "Option.bind old as_liquidity")
  case None
  then show ?thesis by (cases old) (simp_all add: drop_old_vault_def asset_vault_def)
next
  case (Some pool)
  then have "Option.bind old asset_vault = Some (pl_vault_outpoint pool)"
    by (cases old) (simp_all add: asset_vault_def)
  then show ?thesis
    using Some assms by (auto simp: drop_old_vault_def vault_get_def fun_eq_iff delete_conv' split: option.split)
qed

lemma vault_get_insert:
  "vault_get (AList.update v a (fst p), snd p - {v}) store = (vault_get p store)(v \<mapsto> a)"
  by (auto simp: vault_get_def fun_eq_iff update_conv' split: option.split)

lemma asset_ok_pool: "asset_ok blake asset \<Longrightarrow> as_asset_class asset = Liquidity \<longleftrightarrow> as_liquidity asset \<noteq> None"
  by (cases "as_asset_class asset"; cases "as_liquidity asset") (auto simp: asset_ok_def check_pool_normalized_def)

lemma vault_put_ok:
  assumes "as_asset_class asset = Liquidity \<longleftrightarrow> as_liquidity asset \<noteq> None"
    and "disk \<or> store = (\<lambda>_. None)"
    and "\<And>v b. asset_vault asset = Some v \<Longrightarrow> vault_get p store v = Some b \<Longrightarrow> b = a"
  shows "\<exists>p'. vault_put disk a old (Some asset) p = (Inr (), p')
    \<and> vault_get p' store =
       (let f = (case Option.bind old asset_vault of Some v \<Rightarrow> (vault_get p store)(v := None) | None \<Rightarrow> vault_get p store)
        in case asset_vault asset of Some v \<Rightarrow> f(v \<mapsto> a) | None \<Rightarrow> f)"
proof (cases "as_liquidity asset")
  case None
  then show ?thesis
    using assms(1,2) by (simp add: vault_put_def asset_vault_def vault_get_drop)
next
  case (Some pool)
  let ?v = "pl_vault_outpoint pool" and ?p1 = "drop_old_vault disk old p"
  have "b = a" if "map_of (fst ?p1) ?v = Some b" for b
  proof -
    have "vault_get ?p1 store ?v = Some b" using that by (simp add: vault_get_def)
    then have "vault_get p store ?v = Some b"
      using vault_get_drop [OF assms(2), of old p] by (auto split: option.splits if_splits)
    then show ?thesis using assms(3) Some by (simp add: asset_vault_def)
  qed
  then have "map_of (fst ?p1) ?v \<in> {None, Some a}" by (cases "map_of (fst ?p1) ?v") auto
  then show ?thesis
    using Some assms(1,2) by (simp add: vault_put_def asset_vault_def vault_get_drop vault_get_insert Let_def)
qed

lemma set_asset_ok:
  assumes "as_asset_class asset = Liquidity \<longleftrightarrow> as_liquidity asset \<noteq> None" "vault_free st a asset"
  shows "\<exists>st'. set_asset blake a asset st = (Inr (), st')
    \<and> (\<forall>o1. vault_asset st' o1 =
         (if asset_vault asset = Some o1 then Some a
          else if Option.bind (asset_option st a) asset_vault = Some o1 then None else vault_asset st o1))"
proof -
  obtain r st' where set: "set_asset blake a asset st = (r, st')" by fastforce
  have disk: "is_disk_backed st \<or> store_vault_asset st = (\<lambda>_. None)"
    using store_lookup_absent(5) by blast
  have "\<exists>p'. vault_put (is_disk_backed st) a (asset_option st a) (Some asset) (vault_pair st) = (Inr (), p')
    \<and> vault_get p' (store_vault_asset st) =
       (let f = (case Option.bind (asset_option st a) asset_vault of
                   Some v \<Rightarrow> (vault_get (vault_pair st) (store_vault_asset st))(v := None)
                 | None \<Rightarrow> vault_get (vault_pair st) (store_vault_asset st))
        in case asset_vault asset of Some v \<Rightarrow> f(v \<mapsto> a) | None \<Rightarrow> f)"
    by (rule vault_put_ok [OF assms(1) disk]) (use assms(2) in \<open>simp add: vault_asset_def vault_free_def\<close>)
  moreover have "store_vault_asset st' = store_vault_asset st"
    by (rule read_store_cong(5)) (rule set_asset_views(6) [OF set])
  ultimately show ?thesis
    using set set_asset_views(5) [OF set] unfolding vault_asset_def by (auto simp: Let_def split: option.splits)
qed

section \<open>Setters keep the invariant\<close>

lemma vault_asset_views [view_simps]:
  "vault_asset (set_next_nonce blake k n st) = vault_asset st"
  "vault_asset (set_balance blake b v st) = vault_asset st"
  "vault_asset (set_anchor_count blake owner n st) = vault_asset st"
  using read_store_cong(5) [of "set_next_nonce blake k n st" st]
    read_store_cong(5) [of "set_balance blake b v st" st]
    read_store_cong(5) [of "set_anchor_count blake owner n st" st]
  by (simp_all add: vault_asset_def view_simps)

lemma holdings_views [view_simps]:
  "holdings (set_next_nonce blake k n st) = holdings st"
  "holdings (set_anchor_count blake owner n' st) = holdings st"
  by (simp_all add: holdings_def fun_eq_iff view_simps)

lemma excess_views [view_simps]:
  "excess (set_next_nonce blake k n st) = excess st"
  "excess (set_anchor_count blake owner n' st) = excess st"
  by (simp_all add: excess_def supply_of_def fun_eq_iff view_simps)

lemma wf_core_set_next_nonce:
  "wf_core blake st \<Longrightarrow> nonce_key_validate k = Inr () \<Longrightarrow> 2 \<le> n \<Longrightarrow> wf_core blake (set_next_nonce blake k n st)"
  by (simp add: wf_core_def view_simps)

lemma wf_core_set_anchor_count: "wf_core blake st \<Longrightarrow> wf_core blake (set_anchor_count blake owner n st)"
  by (simp add: wf_core_def view_simps)

lemma wf_core_set_balance:
  assumes "wf_core blake st" "asset_option st a \<noteq> None"
  shows "wf_core blake (set_balance blake \<lparr>bk_asset_id = a, bk_owner_id = owner\<rparr> v st)"
proof -
  let ?st = "set_balance blake \<lparr>bk_asset_id = a, bk_owner_id = owner\<rparr> v st"
  have "holdings ?st b = (if b = a then (holdings st a)(owner := if v \<noteq> 0 then Some v else None) else holdings st b)" for b
    by (rule holdings_update) (simp add: view_simps)
  then have "finite (dom (holdings ?st b))" for b
    using assms(1) by (simp add: wf_core_def)
  then show ?thesis
    using assms by (auto simp: wf_core_def view_simps split: if_splits)
qed

lemma wf_core_set_asset:
  assumes "wf_core blake st" "asset_ok blake asset" "vault_free st a asset"
  shows "\<exists>st'. set_asset blake a asset st = (Inr (), st') \<and> wf_core blake st'
    \<and> asset_option st' = (asset_option st)(a \<mapsto> asset) \<and> balance_option st' = balance_option st
    \<and> (\<forall>b. excess st' b = (if b = a then excess st a + int (supply_of st a) - uint (as_total_supply asset)
                            else excess st b))"
proof -
  obtain st' where set: "set_asset blake a asset st = (Inr (), st')"
    and vaults: "\<And>o1. vault_asset st' o1 =
         (if asset_vault asset = Some o1 then Some a
          else if Option.bind (asset_option st a) asset_vault = Some o1 then None else vault_asset st o1)"
    using set_asset_ok [OF asset_ok_pool [OF assms(2)] assms(3)] by blast
  have views: "asset_option st' = (asset_option st)(a \<mapsto> asset)" "balance_option st' = balance_option st"
    "nonce_option st' = nonce_option st" "anchor_count_option st' = anchor_count_option st"
    using set_asset_views [OF set] by simp_all
  have index: "vault_asset st o1 = Some b \<longleftrightarrow> (\<exists>x. asset_option st b = Some x \<and> asset_vault x = Some o1)" for o1 b
    using assms(1) by (simp add: wf_core_def)
  have "vault_asset st' o1 = Some b \<longleftrightarrow> (\<exists>x. asset_option st' b = Some x \<and> asset_vault x = Some o1)" for o1 b
  proof (cases "b = a")
    case True
    then show ?thesis
      using index [of o1 a] by (cases "asset_option st a") (auto simp: vaults views)
  next
    case False
    then show ?thesis
      using index [of o1 b] index [of o1 a] assms(3)
      by (cases "asset_option st a") (auto simp: vaults views vault_free_def)
  qed
  moreover have "holdings st' = holdings st" by (simp add: holdings_def fun_eq_iff views)
  ultimately have "wf_core blake st'"
    using assms(1,2) unfolding wf_core_def by (auto simp: views)
  moreover have "excess st' b = (if b = a then excess st a + int (supply_of st a) - uint (as_total_supply asset)
      else excess st b)" for b
    by (simp add: excess_def supply_of_def views \<open>holdings st' = holdings st\<close>)
  ultimately show ?thesis using set views by blast
qed

end
