(* ===== verification/Atomic_Plan.thy ===== *)
theory Atomic_Plan
  imports Atomic_Invariant
begin

text \<open>
  What each token operation is about to write. A successful plan of mint, burn, buy, sell,
  claim or of a creation gives an asset that satisfies the rules of the invariant, a vault
  outpoint that no other asset holds, and a balance whose change equals the change of the
  supply. The fee split keeps the recipients and adds exactly the fee.
\<close>

section \<open>Notions\<close>

abbreviation recipient_address_of :: "fee_recipient \<Rightarrow> hash32 \<times> u8 \<times> bytes" where
  "recipient_address_of r \<equiv> (fr_owner_id r, fr_address_version r, fr_address_payload r)"

fun recipients_canonical :: "(bytes \<Rightarrow> hash32) \<Rightarrow> (hash32 \<times> u8 \<times> bytes) list \<Rightarrow> (u8 \<times> bytes) option \<Rightarrow> bool" where
  "recipients_canonical blake [] previous \<longleftrightarrow> True"
| "recipients_canonical blake ((owner, key) # rest) previous \<longleftrightarrow>
     state_owner_id blake (fst key) (snd key) = Some owner
     \<and> (case previous of Some p \<Rightarrow> p < key | None \<Rightarrow> True)
     \<and> recipients_canonical blake rest (Some key)"

definition unclaimed_sum :: "fee_recipient list \<Rightarrow> nat" where
  "unclaimed_sum rs = (\<Sum>r\<leftarrow>rs. unat (fr_unclaimed_sompi r))"

definition fresh_tx :: "atomic_state \<Rightarrow> hash32 \<Rightarrow> bool" where
  "fresh_tx st t \<longleftrightarrow> (\<forall>o1 a. vault_asset st o1 = Some a \<longrightarrow> outpoint_tx o1 \<noteq> t)"

definition vault_from :: "hash32 \<Rightarrow> asset_state \<Rightarrow> bool" where
  "vault_from t asset \<longleftrightarrow> (\<forall>v. asset_vault asset = Some v \<longrightarrow> outpoint_tx v = t)"

definition plan_ok ::
    "(bytes \<Rightarrow> hash32) \<Rightarrow> atomic_state \<Rightarrow> hash32 \<Rightarrow> hash32 \<Rightarrow> asset_state \<Rightarrow> (balance_key \<times> u128) option \<Rightarrow> bool" where
  "plan_ok blake st t a asset pending \<longleftrightarrow>
     asset_ok blake asset \<and> vault_from t asset
     \<and> (case pending of
          None \<Rightarrow> unat (as_total_supply asset) = supply_of st a
        | Some (key, amount) \<Rightarrow>
            bk_asset_id key = a \<and> unat amount + supply_of st a = unat (balance st key) + unat (as_total_supply asset))"

section \<open>Fee recipients\<close>

lemma unclaimed_sum_simps [simp]:
  "unclaimed_sum [] = 0" "unclaimed_sum (r # rs) = unat (fr_unclaimed_sompi r) + unclaimed_sum rs"
  by (simp_all add: unclaimed_sum_def)

lemma check_recipients_normalized_iff:
  "check_recipients_normalized blake rs previous s = Inr t
   \<longleftrightarrow> recipients_canonical blake (map recipient_address_of rs) previous \<and> unat t = unat s + unclaimed_sum rs"
proof (induction rs arbitrary: previous s)
  case Nil
  then show ?case by (auto simp: word_as_nat)
next
  case (Cons r rs)
  have "(\<exists>x. checked_add s (fr_unclaimed_sompi r) = Some x \<and> unat t = unat x + unclaimed_sum rs)
      \<longleftrightarrow> unat t = unat s + (unat (fr_unclaimed_sompi r) + unclaimed_sum rs)"
  proof (cases "checked_add s (fr_unclaimed_sompi r)")
    case None
    then show ?thesis using unat_bound [of t] by (simp add: checked_iff)
  next
    case (Some x)
    then have "unat x = unat s + unat (fr_unclaimed_sompi r)" by (simp add: checked_iff)
    with Some show ?thesis by (simp add: add.assoc)
  qed
  then show ?case
    by (auto simp: Cons.IH Let_def result_simps not_le split: option.splits)
qed

lemma apply_fee_to_pool_exact:
  assumes "apply_fee_to_pool rs tot fee = Inr (rs', tot')"
  shows "map recipient_address_of rs' = map recipient_address_of rs
    \<and> unclaimed_sum rs' = unclaimed_sum rs + unat fee \<and> unat tot' = unat tot + unat fee"
proof -
  have half: "unat (fee div 2) + unat (fee - fee div 2) = unat fee"
    by (simp add: unat_div unat_sub word_le_nat_alt)
  consider "rs = []" | r0 where "rs = [r0]" | r0 r1 where "rs = [r0, r1]"
    | r0 r1 r2 rest where "rs = r0 # r1 # r2 # rest"
    by (metis list.exhaust)
  then show ?thesis
    using assms half
    by cases (auto simp: apply_fee_to_pool_def Let_def result_simps checked_iff split: if_splits)
qed

lemma state_owner_id_eq: "state_owner_id = atomic_owner_id_from_address_components"
  by (simp add: fun_eq_iff state_owner_id_def atomic_owner_id_from_address_components_def owner_preimage_def
      CAT_OWNER_DOMAIN_def ATOMIC_OWNER_DOMAIN_def)

lemma build_fee_recipient_state_Inr:
  assumes "build_fee_recipient_state blake rs = Inr out"
  shows "map (\<lambda>r. (fr_address_version r, fr_address_payload r)) out = map recipient_order_key rs"
    "unclaimed_sum out = 0" "length out = length rs"
    "\<forall>r\<in>set out. state_owner_id blake (fr_address_version r) (fr_address_payload r) = Some (fr_owner_id r)"
  using assms
proof (induction rs arbitrary: out)
  case (Cons r rs)
  { case 1 then show ?case using Cons by (auto simp: result_simps recipient_order_key_def) }
  { case 2 then show ?case using Cons by (auto simp: result_simps) }
  { case 3 then show ?case using Cons by (auto simp: result_simps) }
  { case 4 then show ?case using Cons(4)
     by (auto simp: result_simps state_owner_id_eq) }
qed simp_all

lemma recipients_canonical_sorted:
  assumes "sorted (map (\<lambda>r. (fr_address_version r, fr_address_payload r)) rs)"
    "distinct (map (\<lambda>r. (fr_address_version r, fr_address_payload r)) rs)"
    "\<forall>r\<in>set rs. state_owner_id blake (fr_address_version r) (fr_address_payload r) = Some (fr_owner_id r)"
    "case previous of Some p \<Rightarrow> \<forall>r\<in>set rs. p < (fr_address_version r, fr_address_payload r) | None \<Rightarrow> True"
  shows "recipients_canonical blake (map recipient_address_of rs) previous"
  using assms
proof (induction rs arbitrary: previous)
  case (Cons r rs)
  have "recipients_canonical blake (map recipient_address_of rs) (Some (fr_address_version r, fr_address_payload r))"
    by (rule Cons.IH) (use Cons.prems in \<open>auto simp: order.strict_iff_order image_iff\<close>)
  then show ?case using Cons.prems by (auto split: option.splits)
qed simp

section \<open>Pools after an operation\<close>

lemma validate_liquidity_curve_parameters_state:
  assumes "validate_liquidity_curve_mode mode = Inr ()" "validate_liquidity_curve_parameters mode cpay bps = Inr ()"
  shows "state_curve_mode mode = Inr () \<and> state_curve_parameters mode cpay bps = Inr ()"
  using assms
  by (auto simp: validate_liquidity_curve_mode_def validate_liquidity_curve_parameters_def
      validate_individual_liquidity_curve_params_def state_curve_mode_def state_curve_parameters_def
      state_individual_params_def LIQUIDITY_CURVE_MODE_BASIC_def LIQUIDITY_CURVE_MODE_AGGRESSIVE_def
      LIQUIDITY_CURVE_MODE_INDIVIDUAL_def ATOMIC_LIQUIDITY_CURVE_MODE_BASIC_def
      ATOMIC_LIQUIDITY_CURVE_MODE_AGGRESSIVE_def ATOMIC_LIQUIDITY_CURVE_MODE_INDIVIDUAL_def
      INDIVIDUAL_MIN_VIRTUAL_CPAY_RESERVES_SOMPI_def ATOMIC_INDIVIDUAL_MIN_VIRTUAL_CPAY_RESERVES_SOMPI_def
      INDIVIDUAL_MAX_VIRTUAL_CPAY_RESERVES_SOMPI_def ATOMIC_INDIVIDUAL_MAX_VIRTUAL_CPAY_RESERVES_SOMPI_def
      INDIVIDUAL_VIRTUAL_CPAY_STEP_SOMPI_def ATOMIC_INDIVIDUAL_VIRTUAL_CPAY_STEP_SOMPI_def
      INDIVIDUAL_MIN_VIRTUAL_TOKEN_MULTIPLIER_BPS_def ATOMIC_INDIVIDUAL_MIN_VIRTUAL_TOKEN_MULTIPLIER_BPS_def
      INDIVIDUAL_MAX_VIRTUAL_TOKEN_MULTIPLIER_BPS_def ATOMIC_INDIVIDUAL_MAX_VIRTUAL_TOKEN_MULTIPLIER_BPS_def
      INDIVIDUAL_VIRTUAL_TOKEN_MULTIPLIER_STEP_BPS_def ATOMIC_INDIVIDUAL_VIRTUAL_TOKEN_MULTIPLIER_STEP_BPS_def
      split: if_splits)

lemma validate_liquidity_invariantsD:
  assumes "validate_liquidity_invariants asset = Inr ()" "as_asset_class asset = Liquidity"
    "as_liquidity asset = Some pool"
  shows "as_supply_mode asset = CappedSupply" "validate_liquidity_curve_mode (pl_curve_mode pool) = Inr ()"
    "validate_liquidity_curve_parameters (pl_curve_mode pool) (pl_individual_virtual_cpay_reserves_sompi pool)
        (pl_individual_virtual_token_multiplier_bps pool) = Inr ()"
    "\<not> pl_unlock_target_sompi pool > MAX_SOMPI"
    "\<not> (pl_unlock_target_sompi pool = 0 \<and> \<not> pl_unlocked pool)"
    "\<not> (pl_unlock_target_sompi pool > 0 \<and> \<not> pl_unlocked pool
        \<and> pl_real_cpay_reserves_sompi pool \<ge> pl_unlock_target_sompi pool)"
    "\<not> pl_real_cpay_reserves_sompi pool < MIN_CPAY_RESERVE_SOMPI"
    "\<not> pl_real_token_reserves pool < MIN_REAL_TOKEN_RESERVE"
    "\<not> (pl_virtual_cpay_reserves_sompi pool = 0 \<or> pl_virtual_token_reserves pool = 0)"
    "checked_add (pl_real_cpay_reserves_sompi pool) (pl_unclaimed_fee_total_sompi pool) = Some (pl_vault_value_sompi pool)"
    "checked_add (as_total_supply asset) (pl_real_token_reserves pool) = Some (as_max_supply asset)"
  using assms unfolding validate_liquidity_invariants_def validate_liquidity_unlock_target_def
  by (simp_all only: result_simps not_True_eq_False if_False not_not simp_thms option.inject) auto

lemma check_pool_of_invariants:
  assumes "validate_liquidity_invariants asset = Inr ()" "as_asset_class asset = Liquidity"
    "as_liquidity asset = Some pool" "as_mint_authority_owner_id asset = replicate 32 0"
    "pl_pool_nonce pool \<noteq> 0" "state_curve_version (pl_curve_version pool) = Inr ()"
    "validate_fee_recipients_normalized blake pool = Inr ()"
  shows "check_pool_normalized blake asset = Inr (pl_vault_outpoint pool)"
proof -
  note inv = validate_liquidity_invariantsD [OF assms(1-3)]
  have "pl_real_cpay_reserves_sompi pool \<noteq> 0" "pl_real_token_reserves pool \<noteq> 0"
    using inv(7,8) by (auto simp: MIN_CPAY_RESERVE_SOMPI_def MIN_REAL_TOKEN_RESERVE_def)
  then show ?thesis
    using validate_liquidity_curve_parameters_state [OF inv(2,3)] inv assms(3-7)
    unfolding check_pool_normalized_def
    by (simp only: ok_or_simps try_bind_simps if_False simp_thms not_not) 
qed

lemma validate_fee_recipients_normalized_iff:
  "validate_fee_recipients_normalized blake pool = Inr () \<longleftrightarrow>
     (if pl_fee_bps pool = 0 then pl_fee_recipients pool = []
      else MIN_ATOMIC_LIQUIDITY_FEE_BPS \<le> pl_fee_bps pool \<and> pl_fee_bps pool \<le> MAX_ATOMIC_LIQUIDITY_FEE_BPS
        \<and> pl_fee_recipients pool \<noteq> [] \<and> length (pl_fee_recipients pool) \<le> MAX_ATOMIC_LIQUIDITY_FEE_RECIPIENTS)
     \<and> recipients_canonical blake (map recipient_address_of (pl_fee_recipients pool)) None
     \<and> unat (pl_unclaimed_fee_total_sompi pool) = unclaimed_sum (pl_fee_recipients pool)"
  unfolding validate_fee_recipients_normalized_def
  by (auto simp: result_simps check_recipients_normalized_iff not_le split: if_splits)

lemma check_asset_fields_liquidity [simp]:
  "check_asset_fields (asset\<lparr>as_liquidity := p\<rparr>) = check_asset_fields asset"
  by (simp add: check_asset_fields_def)

lemma check_asset_fields_supply:
  assumes "check_asset_fields asset = Inr ()" "as_supply_mode asset = CappedSupply \<Longrightarrow> s \<le> as_max_supply asset"
  shows "check_asset_fields (asset\<lparr>as_total_supply := s\<rparr>) = Inr ()"
  using assms by (auto simp: check_asset_fields_def result_simps)

lemma asset_ok_next:
  assumes "asset_ok blake asset" "as_asset_class asset = Liquidity" "as_liquidity asset = Some pool"
    "validate_liquidity_invariants (asset\<lparr>as_total_supply := s, as_liquidity := Some pool'\<rparr>) = Inr ()"
    "pl_pool_nonce pool' \<noteq> 0" "pl_curve_version pool' = pl_curve_version pool" "pl_fee_bps pool' = pl_fee_bps pool"
    "map recipient_address_of (pl_fee_recipients pool') = map recipient_address_of (pl_fee_recipients pool)"
    "unat (pl_unclaimed_fee_total_sompi pool') = unclaimed_sum (pl_fee_recipients pool')"
  shows "asset_ok blake (asset\<lparr>as_total_supply := s, as_liquidity := Some pool'\<rparr>)"
proof -
  let ?asset = "asset\<lparr>as_total_supply := s, as_liquidity := Some pool'\<rparr>"
  from assms(1-3) have old: "check_asset_fields asset = Inr ()" "as_decimals asset = 0"
    "as_mint_authority_owner_id asset = replicate 32 0" "state_curve_version (pl_curve_version pool) = Inr ()"
    "validate_fee_recipients_normalized blake pool = Inr ()"
    by (auto simp: asset_ok_def check_pool_normalized_def result_simps)
  have len: "length (pl_fee_recipients pool') = length (pl_fee_recipients pool)"
    using arg_cong [OF assms(8), of length] by simp
  then have "validate_fee_recipients_normalized blake pool' = Inr ()"
    using old(5) assms(7-9) by (auto simp: validate_fee_recipients_normalized_iff)
  then have "check_pool_normalized blake ?asset = Inr (pl_vault_outpoint pool')"
    by (intro check_pool_of_invariants) (use assms old in simp_all)
  moreover have "s \<le> as_max_supply asset"
    using validate_liquidity_invariantsD(11) [OF assms(4)] assms(2) by (simp add: checked_iff word_le_nat_alt)
  then have "check_asset_fields ?asset = Inr ()"
    using check_asset_fields_supply [OF old(1), of s] by simp
  ultimately show ?thesis using assms(2) old(2) by (auto simp: asset_ok_def)
qed

section \<open>What an operation writes\<close>

lemma vault_free_fresh: "fresh_tx st t \<Longrightarrow> vault_from t asset \<Longrightarrow> vault_free st a asset"
  by (auto simp: vault_free_def fresh_tx_def vault_from_def)

lemma vault_from_pool: "as_liquidity asset = Some pool \<Longrightarrow> outpoint_tx (pl_vault_outpoint pool) = t \<Longrightarrow> vault_from t asset"
  by (simp add: vault_from_def asset_vault_def)

lemma supply_of_Some: "asset_option st a = Some asset \<Longrightarrow> supply_of st a = unat (as_total_supply asset)"
  by (simp add: supply_of_def)

lemma wf_core_asset: "wf_core blake st \<Longrightarrow> asset_option st a = Some asset \<Longrightarrow> asset_ok blake asset"
  by (simp add: wf_core_def)

lemma standard_supply_ok:
  assumes "asset_ok blake asset" "as_asset_class asset \<noteq> Liquidity"
    "as_supply_mode asset = CappedSupply \<Longrightarrow> s \<le> as_max_supply asset"
  shows "asset_ok blake (asset\<lparr>as_total_supply := s\<rparr>) \<and> vault_from t (asset\<lparr>as_total_supply := s\<rparr>)"
proof -
  have std: "as_asset_class asset = Standard" using assms(2) by (cases "as_asset_class asset") simp_all
  then show ?thesis
    using assms(1) check_asset_fields_supply [OF _ assms(3)]
    by (simp add: vault_from_def asset_ok_def asset_vault_def)
qed

lemma capped_supply: "asset_ok blake asset \<Longrightarrow> as_supply_mode asset = CappedSupply \<Longrightarrow> as_total_supply asset \<le> as_max_supply asset"
  by (auto simp: asset_ok_def check_asset_fields_def result_simps not_less)

lemma mint_plan_ok:
  assumes "wf_core blake st" "mint_plan owner_id a to_owner amount st = Inr (asset, key, after)"
  shows "plan_ok blake st t a asset (Some (key, after))"
proof -
  obtain old s where old: "asset_option st a = Some old" "as_asset_class old \<noteq> Liquidity"
    "checked_add (as_total_supply old) amount = Some s"
    "as_supply_mode old = CappedSupply \<Longrightarrow> s \<le> as_max_supply old"
    and new: "asset = old\<lparr>as_total_supply := s\<rparr>" "key = \<lparr>bk_asset_id = a, bk_owner_id = to_owner\<rparr>"
    "checked_add (balance st key) amount = Some after"
    using assms(2) by (auto simp: mint_plan_def cloned_asset_def result_simps Let_def not_less)
  show ?thesis
    using standard_supply_ok [OF wf_core_asset [OF assms(1) old(1)] old(2,4)] old(3) new(3)
    by (simp add: plan_ok_def new(1,2) supply_of_Some [OF old(1)] checked_iff)
qed

lemma burn_plan_ok:
  assumes "wf_core blake st" "burn_plan owner_id a amount st = Inr (asset, key, after)"
  shows "plan_ok blake st t a asset (Some (key, after))"
proof -
  obtain old s where old: "asset_option st a = Some old" "as_asset_class old \<noteq> Liquidity"
    "checked_sub (as_total_supply old) amount = Some s"
    and new: "asset = old\<lparr>as_total_supply := s\<rparr>" "key = \<lparr>bk_asset_id = a, bk_owner_id = owner_id\<rparr>"
    "checked_sub (balance st key) amount = Some after"
    using assms(2) by (auto simp: burn_plan_def cloned_asset_def result_simps Let_def)
  have ok: "asset_ok blake old" by (rule wf_core_asset [OF assms(1) old(1)])
  have "s \<le> as_total_supply old" using old(3) by (auto simp: checked_iff word_le_nat_alt)
  then show ?thesis
    using standard_supply_ok [OF ok old(2), of s t] capped_supply [OF ok] old(3) new(3)
    by (auto simp: plan_ok_def new(1,2) supply_of_Some [OF old(1)] checked_iff intro: order_trans)
qed

lemma liquidity_pool_of_Inr:
  "liquidity_pool_of st a nonce = Inr (asset, pool) \<longleftrightarrow>
     asset_option st a = Some asset \<and> as_asset_class asset = Liquidity \<and> as_liquidity asset = Some pool
     \<and> pl_pool_nonce pool = nonce"
  by (auto simp: liquidity_pool_of_def cloned_asset_def result_simps)

lemma pool_unclaimed:
  assumes "asset_ok blake asset" "as_asset_class asset = Liquidity" "as_liquidity asset = Some pool"
  shows "unat (pl_unclaimed_fee_total_sompi pool) = unclaimed_sum (pl_fee_recipients pool)"
  using assms
  by (auto simp: asset_ok_def check_pool_normalized_def result_simps validate_fee_recipients_normalized_iff)

lemma pool_step_ok:
  assumes "wf_core blake st" "liquidity_pool_of st a n = Inr (old, pool)"
    "checked_add (pl_pool_nonce pool) 1 = Some (pl_pool_nonce pool')" "outpoint_tx (pl_vault_outpoint pool') = t"
    "pl_curve_version pool' = pl_curve_version pool" "pl_fee_bps pool' = pl_fee_bps pool"
    "map recipient_address_of (pl_fee_recipients pool') = map recipient_address_of (pl_fee_recipients pool)"
    "unat (pl_unclaimed_fee_total_sompi pool') = unclaimed_sum (pl_fee_recipients pool')"
    "validate_liquidity_invariants (old\<lparr>as_total_supply := s, as_liquidity := Some pool'\<rparr>) = Inr ()"
  shows "asset_ok blake (old\<lparr>as_total_supply := s, as_liquidity := Some pool'\<rparr>)
    \<and> vault_from t (old\<lparr>as_total_supply := s, as_liquidity := Some pool'\<rparr>)
    \<and> supply_of st a = unat (as_total_supply old)"
proof -
  from assms(2) have old: "asset_option st a = Some old" "as_asset_class old = Liquidity" "as_liquidity old = Some pool"
    by (simp_all add: liquidity_pool_of_Inr)
  have "pl_pool_nonce pool' \<noteq> 0" using assms(3) by (auto simp: checked_iff)
  then show ?thesis
    using asset_ok_next [OF wf_core_asset [OF assms(1) old(1)] old(2,3) assms(9) _ assms(5-8)]
      vault_from_pool [OF _ assms(4)] supply_of_Some [OF old(1)] by simp
qed

lemma fee_step_ok:
  assumes "wf_core blake st" "liquidity_pool_of st a n = Inr (old, pool)"
    "apply_fee_to_pool (pl_fee_recipients pool) (pl_unclaimed_fee_total_sompi pool) fee
       = Inr (pl_fee_recipients pool', pl_unclaimed_fee_total_sompi pool')"
  shows "map recipient_address_of (pl_fee_recipients pool') = map recipient_address_of (pl_fee_recipients pool)"
    "unat (pl_unclaimed_fee_total_sompi pool') = unclaimed_sum (pl_fee_recipients pool')"
  using apply_fee_to_pool_exact [OF assms(3)] assms(2) pool_unclaimed [OF wf_core_asset [OF assms(1)], of a old pool]
  by (simp_all add: liquidity_pool_of_Inr)

lemma buy_plan_ok:
  assumes "wf_core blake st" "buy_plan tx owner_id a nonce cpay_in min_out st = Inr (asset, key, after)"
  shows "plan_ok blake st (tx_id (ptx tx)) a asset (Some (key, after))"
proof -
  from assms(2) obtain old pool fee out s pool' where
    new: "asset = old\<lparr>as_total_supply := s, as_liquidity := Some pool'\<rparr>" "key = \<lparr>bk_asset_id = a, bk_owner_id = owner_id\<rparr>"
    and old: "liquidity_pool_of st a nonce = Inr (old, pool)"
    and fees: "apply_fee_to_pool (pl_fee_recipients pool) (pl_unclaimed_fee_total_sompi pool) fee
       = Inr (pl_fee_recipients pool', pl_unclaimed_fee_total_sompi pool')"
    and pool': "checked_add (pl_pool_nonce pool) 1 = Some (pl_pool_nonce pool')"
      "outpoint_tx (pl_vault_outpoint pool') = tx_id (ptx tx)"
      "pl_curve_version pool' = pl_curve_version pool" "pl_fee_bps pool' = pl_fee_bps pool"
    and s: "checked_add (as_total_supply old) out = Some s" "checked_add (balance st key) out = Some after"
    and inv: "validate_liquidity_invariants (old\<lparr>as_total_supply := s, as_liquidity := Some pool'\<rparr>) = Inr ()"
    by (simp only: buy_plan_def Let_def result_simps split_paired_Ex prod.case sum.inject prod.inject)
      (elim exE conjE, rule that, rule sym, assumption, rule sym, assumption, assumption, simp_all)
  show ?thesis
    using pool_step_ok [OF assms(1) old pool' fee_step_ok [OF assms(1) old fees] inv] s
    by (simp add: plan_ok_def new checked_iff)
qed

lemma sell_plan_ok:
  assumes "wf_core blake st" "sell_plan blake tx owner_id a nonce token_in min_out index st = Inr (asset, key, after)"
  shows "plan_ok blake st (tx_id (ptx tx)) a asset (Some (key, after))"
proof -
  from assms(2) obtain old pool fee s pool' where
    new: "asset = old\<lparr>as_total_supply := s, as_liquidity := Some pool'\<rparr>" "key = \<lparr>bk_asset_id = a, bk_owner_id = owner_id\<rparr>"
    and old: "liquidity_pool_of st a nonce = Inr (old, pool)"
    and fees: "apply_fee_to_pool (pl_fee_recipients pool) (pl_unclaimed_fee_total_sompi pool) fee
       = Inr (pl_fee_recipients pool', pl_unclaimed_fee_total_sompi pool')"
    and pool': "checked_add (pl_pool_nonce pool) 1 = Some (pl_pool_nonce pool')"
      "outpoint_tx (pl_vault_outpoint pool') = tx_id (ptx tx)"
      "pl_curve_version pool' = pl_curve_version pool" "pl_fee_bps pool' = pl_fee_bps pool"
    and s: "checked_sub (as_total_supply old) token_in = Some s" "checked_sub (balance st key) token_in = Some after"
    and inv: "validate_liquidity_invariants (old\<lparr>as_total_supply := s, as_liquidity := Some pool'\<rparr>) = Inr ()"
    by (simp only: sell_plan_def Let_def result_simps split_paired_Ex prod.case sum.inject prod.inject)
      (elim exE conjE, rule that, rule sym, assumption, rule sym, assumption, assumption, simp_all)
  show ?thesis
    using pool_step_ok [OF assms(1) old pool' fee_step_ok [OF assms(1) old fees] inv] s
    by (simp add: plan_ok_def new checked_iff)
qed

lemma unclaimed_sum_update:
  "i < length rs \<Longrightarrow> unclaimed_sum (rs[i := r]) + unat (fr_unclaimed_sompi (rs ! i)) = unclaimed_sum rs + unat (fr_unclaimed_sompi r)"
proof (induction rs arbitrary: i)
  case (Cons x xs)
  then show ?case by (cases i) (auto simp: add.assoc add.left_commute)
qed simp

lemma claim_plan_ok:
  assumes "wf_core blake st" "claim_plan blake tx owner_id a nonce index claim_amount receive st = Inr asset"
  shows "plan_ok blake st (tx_id (ptx tx)) a asset None"
proof -
  from assms(2) obtain old pool pool' where
    new: "asset = old\<lparr>as_liquidity := Some pool'\<rparr>"
    and old: "liquidity_pool_of st a nonce = Inr (old, pool)"
    and pool': "checked_add (pl_pool_nonce pool) 1 = Some (pl_pool_nonce pool')"
      "outpoint_tx (pl_vault_outpoint pool') = tx_id (ptx tx)"
      "pl_curve_version pool' = pl_curve_version pool" "pl_fee_bps pool' = pl_fee_bps pool"
    and claim: "unat index < length (pl_fee_recipients pool)"
      "claim_amount \<le> fr_unclaimed_sompi (pl_fee_recipients pool ! unat index)"
      "pl_fee_recipients pool' = (pl_fee_recipients pool)[unat index := (pl_fee_recipients pool ! unat index)
         \<lparr>fr_unclaimed_sompi := fr_unclaimed_sompi (pl_fee_recipients pool ! unat index) - claim_amount\<rparr>]"
      "checked_sub (pl_unclaimed_fee_total_sompi pool) claim_amount = Some (pl_unclaimed_fee_total_sompi pool')"
    and inv: "validate_liquidity_invariants (old\<lparr>as_liquidity := Some pool'\<rparr>) = Inr ()"
    by (simp only: claim_plan_def Let_def result_simps split_paired_Ex prod.case sum.inject prod.inject)
      (elim exE conjE, rule that, rule sym, assumption, assumption, simp_all add: not_less not_le)
  have map: "map recipient_address_of (pl_fee_recipients pool') = map recipient_address_of (pl_fee_recipients pool)"
    unfolding claim(3) map_update by (rule list_update_same_conv [THEN iffD2]) (simp_all add: claim(1))
  have "unat (pl_unclaimed_fee_total_sompi pool) = unclaimed_sum (pl_fee_recipients pool)"
    using pool_unclaimed [OF wf_core_asset [OF assms(1)], of a old pool] old by (simp add: liquidity_pool_of_Inr)
  then have sum: "unat (pl_unclaimed_fee_total_sompi pool') = unclaimed_sum (pl_fee_recipients pool')"
    using claim(2,4) unclaimed_sum_update [OF claim(1), of "(pl_fee_recipients pool ! unat index)
         \<lparr>fr_unclaimed_sompi := fr_unclaimed_sompi (pl_fee_recipients pool ! unat index) - claim_amount\<rparr>"]
    by (simp add: claim(3) checked_iff unat_sub word_le_nat_alt)
  have same: "old\<lparr>as_total_supply := as_total_supply old, as_liquidity := Some pool'\<rparr> = old\<lparr>as_liquidity := Some pool'\<rparr>"
    by simp
  show ?thesis
    using pool_step_ok [OF assms(1) old pool' map sum, of "as_total_supply old"] inv
    by (simp add: plan_ok_def new same)
qed

section \<open>Creating assets\<close>

lemma standard_asset_ok:
  assumes "wf_asset version dec mode cap authority name symbol metadata" "wf_tag tag"
    "mode = Capped \<Longrightarrow> s \<le> cap"
  shows "asset_ok blake (standard_asset ctx owner version dec mode cap authority name symbol metadata tag s)
    \<and> vault_from t (standard_asset ctx owner version dec mode cap authority name symbol metadata tag s)"
  using assms
  by (cases mode)
    (auto simp: asset_ok_def standard_asset_def check_asset_fields_def state_token_version_def wf_asset_def wf_strings_def
      wf_tag_def supply_mode_of_def vault_from_def asset_vault_def not_less ATOMIC_MAX_TOKEN_VERSION_def
      ATOMIC_CURRENT_TOKEN_VERSION_def MAX_ATOMIC_DECIMALS_def MAX_ATOMIC_NAME_LEN_def MAX_ATOMIC_SYMBOL_LEN_def
      MAX_ATOMIC_METADATA_LEN_def MAX_ATOMIC_PLATFORM_TAG_LEN_def)

lemma supply_of_None: "asset_option st a = None \<Longrightarrow> supply_of st a = 0"
  by (simp add: supply_of_def)

lemma initial_mint_ok:
  assumes "initial_mint a mode cap amount owner st = Inr (s, pending)" "asset_option st a = None"
    "asset_ok blake (asset s)" "vault_from t (asset s)" "as_total_supply (asset s) = s"
  shows "plan_ok blake st t a (asset s) pending"
  using assms(1,3-5)
  by (auto simp: plan_ok_def initial_mint_def supply_of_None [OF assms(2)] Let_def result_simps checked_iff split: if_splits)

lemma initial_mint_cap: "initial_mint a mode cap amount owner st = Inr (s, pending) \<Longrightarrow> mode = Capped \<Longrightarrow> s \<le> cap"
  by (auto simp: initial_mint_def supply_mode_of_def Let_def result_simps not_less split: if_splits)

lemma launch_buy_ok:
  assumes "launch_buy a owner fee_bps buy min_out st ls = Inr ls'"
    "ls_total_supply ls = 0" "ls_receiver_after ls = None"
  shows "map recipient_address_of (ls_fee_recipients ls') = map recipient_address_of (ls_fee_recipients ls)
    \<and> unclaimed_sum (ls_fee_recipients ls') + unat (ls_unclaimed_fee_total_sompi ls)
       = unclaimed_sum (ls_fee_recipients ls) + unat (ls_unclaimed_fee_total_sompi ls')
    \<and> (case ls_receiver_after ls' of
         None \<Rightarrow> ls_total_supply ls' = 0
       | Some (key, amount) \<Rightarrow> bk_asset_id key = a
           \<and> unat amount = unat (balance st key) + unat (ls_total_supply ls'))"
proof (cases "buy > 0")
  case False
  then show ?thesis using assms by (simp add: launch_buy_def)
next
  case True
  with assms(1) obtain fee recipients unclaimed out after where
    "apply_fee_to_pool (ls_fee_recipients ls) (ls_unclaimed_fee_total_sompi ls) fee = Inr (recipients, unclaimed)"
    "checked_add (balance st \<lparr>bk_asset_id = a, bk_owner_id = owner\<rparr>) out = Some after"
    "ls_fee_recipients ls' = recipients" "ls_unclaimed_fee_total_sompi ls' = unclaimed" "ls_total_supply ls' = out"
    "ls_receiver_after ls' = Some (\<lparr>bk_asset_id = a, bk_owner_id = owner\<rparr>, after)"
    by (simp only: launch_buy_def Let_def result_simps split_paired_Ex prod.case if_True sum.inject)
      (elim exE conjE, rule that, assumption, assumption, auto)
  then show ?thesis using apply_fee_to_pool_exact by (fastforce simp: checked_iff)
qed

lemma create_liquidity_plan_ok:
  assumes "create_liquidity_plan blake ctx tx a owner st version curve mode cpay bps dec cap name symbol metadata
      seed fee rs buy buy_min tag unlock = Inr (asset, pending)"
    "wf_op (CreateLiquidityAsset version curve mode cpay bps dec cap name symbol metadata seed fee rs buy buy_min tag unlock)"
    "asset_option st a = None"
  shows "plan_ok blake st (tx_id (ptx tx)) a asset pending"
proof -
  from assms(1) obtain recipients ls ls' pool u where
    pool_of: "as_liquidity asset = Some pool"
    and build: "build_fee_recipient_state blake rs = Inr recipients"
    and ls: "launch_buy a owner fee buy buy_min st ls = Inr ls'" "ls_total_supply ls = 0" "ls_receiver_after ls = None"
      "ls_fee_recipients ls = recipients" "ls_unclaimed_fee_total_sompi ls = 0"
    and pool: "pl_pool_nonce pool = 1" "pl_curve_version pool = curve" "pl_fee_bps pool = fee"
      "pl_fee_recipients pool = ls_fee_recipients ls'" "pl_unclaimed_fee_total_sompi pool = ls_unclaimed_fee_total_sompi ls'"
      "outpoint_tx (pl_vault_outpoint pool) = tx_id (ptx tx)"
    and asset: "as_asset_class asset = Liquidity" "as_token_version asset = version"
      "as_mint_authority_owner_id asset = replicate 32 0" "as_decimals asset = dec" "as_total_supply asset = ls_total_supply ls'"
      "as_name asset = name" "as_symbol asset = symbol" "as_metadata asset = metadata" "as_platform_tag asset = tag"
      "as_max_supply asset = cap" "as_supply_mode asset = CappedSupply"
      "as_created_block_hash asset \<noteq> None" "as_created_daa_score asset \<noteq> None" "as_created_at asset \<noteq> None"
    and unit_inv: "validate_liquidity_invariants asset = Inr u" and pending: "pending = ls_receiver_after ls'"
    by (simp only: create_liquidity_plan_def Let_def result_simps split_paired_Ex prod.case sum.inject prod.inject)
      (elim exE conjE, rule that, hypsubst, rule asset_state.select_convs, assumption, assumption, (hypsubst, (assumption | simp (no_asm)))+)
  have inv: "validate_liquidity_invariants asset = Inr ()" using unit_inv by simp
  note ls_ok = launch_buy_ok [OF ls(1-3)] and recipients = build_fee_recipient_state_Inr [OF build]
  from assms(2) have wf: "wf_recipients fee rs" "fee = 0 \<or> 10 \<le> fee \<and> fee \<le> 1000" "curve = 1" by auto
  have "recipients_canonical blake (map recipient_address_of recipients) None"
    by (rule recipients_canonical_sorted)
      (use wf(1) recipients in \<open>auto simp: wf_recipients_def distinct_map inj_on_def recipient_order_key_def\<close>)
  moreover have "length (ls_fee_recipients ls') = length rs"
    using arg_cong [OF conjunct1 [OF ls_ok], of length] by (simp add: ls(4) recipients(3))
  ultimately have "validate_fee_recipients_normalized blake pool = Inr ()"
    using ls_ok ls(4,5) recipients(2) wf
    by (auto simp: validate_fee_recipients_normalized_iff pool wf_recipients_def MIN_ATOMIC_LIQUIDITY_FEE_BPS_def
        MAX_ATOMIC_LIQUIDITY_FEE_BPS_def MAX_ATOMIC_LIQUIDITY_FEE_RECIPIENTS_def)
  then have "check_pool_normalized blake asset = Inr (pl_vault_outpoint pool)"
    by (intro check_pool_of_invariants [OF inv])
      (use asset pool pool_of wf(3) in \<open>simp_all add: state_curve_version_def ATOMIC_MAX_LIQUIDITY_CURVE_VERSION_def
        ATOMIC_CURRENT_LIQUIDITY_CURVE_VERSION_def\<close>)
  moreover have "as_total_supply asset \<le> cap"
    using validate_liquidity_invariantsD(11) [OF inv asset(1) pool_of] asset
    by (simp add: checked_iff word_le_nat_alt)
  ultimately have "asset_ok blake asset"
    using assms(2) asset
    by (auto simp: asset_ok_def check_asset_fields_def state_token_version_def wf_strings_def wf_tag_def not_less
        ATOMIC_MAX_TOKEN_VERSION_def ATOMIC_CURRENT_TOKEN_VERSION_def MAX_ATOMIC_DECIMALS_def MAX_ATOMIC_NAME_LEN_def
        MAX_ATOMIC_SYMBOL_LEN_def MAX_ATOMIC_METADATA_LEN_def MAX_ATOMIC_PLATFORM_TAG_LEN_def)
  moreover have "vault_from (tx_id (ptx tx)) asset" by (rule vault_from_pool [OF pool_of pool(6)])
  ultimately show ?thesis
    using ls_ok asset(5) by (auto simp: plan_ok_def pending supply_of_None [OF assms(3)] split: option.splits)
qed

end
