(* ===== verification/Atomic_Ledger.thy ===== *)
theory Atomic_Ledger
  imports Atomic_Plan
begin

text \<open>
  Every token operation, and with it the transition of a transaction, either fails and
  leaves the state as it was or keeps the invariant of the ledger. A handler first computes
  its plan and writes afterwards; the writes cannot fail because no vault of the state comes
  from a transaction with the same identifier.
\<close>

section \<open>What a handler keeps\<close>

definition keeps_state ::
    "(bytes \<Rightarrow> hash32) \<Rightarrow> atomic_state \<Rightarrow> hash32 \<Rightarrow> ('e + unit) \<times> atomic_state \<Rightarrow> bool" where
  "keeps_state blake st t p \<longleftrightarrow>
     (case p of
        (Inl _, st') \<Rightarrow> st' = st
      | (Inr _, st') \<Rightarrow>
          wf_core blake st' \<and> excess st' = excess st
          \<and> nonce_option st' = nonce_option st \<and> anchor_count_option st' = anchor_count_option st
          \<and> dom (asset_option st') \<subseteq> insert t (dom (asset_option st))
          \<and> dom (asset_option st) \<subseteq> dom (asset_option st')
          \<and> (\<forall>o1 a. vault_asset st' o1 = Some a \<longrightarrow> vault_asset st o1 = Some a \<or> outpoint_tx o1 = t))"

definition ledger_ok :: "(bytes \<Rightarrow> hash32) \<Rightarrow> atomic_state \<Rightarrow> bool" where
  "ledger_ok blake st \<longleftrightarrow> wf_state blake st \<and> asset_option st (replicate 32 0) = None"

definition keeps_ledger :: "(bytes \<Rightarrow> hash32) \<Rightarrow> atomic_state \<Rightarrow> hash32 \<Rightarrow> ('e + unit) \<times> atomic_state \<Rightarrow> bool" where
  "keeps_ledger blake st t p \<longleftrightarrow>
     (case p of
        (Inl _, st') \<Rightarrow> st' = st
      | (Inr _, st') \<Rightarrow> ledger_ok blake st'
          \<and> (\<forall>o1 a. vault_asset st' o1 = Some a \<longrightarrow> vault_asset st o1 = Some a \<or> outpoint_tx o1 = t))"

section \<open>Writing a plan\<close>

lemma write_plan:
  assumes "wf_core blake st" "fresh_tx st t" "plan_ok blake st t a asset pending"
    and a: "asset_option st a \<noteq> None \<or> a = t"
  shows "keeps_state blake st t
    (then_in (insert_atomic_asset_state blake a asset st) (\<lambda>_ st1. (Inr (), set_balance_opt blake pending st1)))"
proof -
  from assms(3) have ok: "asset_ok blake asset" and from_t: "vault_from t asset" by (simp_all add: plan_ok_def)
  obtain st1 where set: "set_asset blake a asset st = (Inr (), st1)" and wf1: "wf_core blake st1"
    and views: "asset_option st1 = (asset_option st)(a \<mapsto> asset)" "balance_option st1 = balance_option st"
    and excess1: "\<And>b. excess st1 b =
      (if b = a then excess st a + int (supply_of st a) - uint (as_total_supply asset) else excess st b)"
    using wf_core_set_asset [OF assms(1) ok vault_free_fresh [OF assms(2) from_t]] by blast
  note other = set_asset_views [OF set]
  define st2 where "st2 = set_balance_opt blake pending st1"
  have wf2: "wf_core blake st2"
    using wf1 assms(3) wf_core_set_balance [OF wf1, of a]
    by (auto simp: st2_def set_balance_opt_def plan_ok_def views split: option.splits) (metis balance_key.surjective old.unit.exhaust)
  have "excess st2 b = excess st b" for b
  proof (cases pending)
    case None
    then have "supply_of st a = unat (as_total_supply asset)" using assms(3) by (simp add: plan_ok_def)
    then show ?thesis by (simp add: None st2_def set_balance_opt_def excess1)
  next
    case (Some w)
    obtain owner v where w: "w = (\<lparr>bk_asset_id = a, bk_owner_id = owner\<rparr>, v)"
      using assms(3) Some by (cases w; cases "fst w") (auto simp: plan_ok_def)
    have "finite (dom (holdings st1 a))" using wf1 by (simp add: wf_core_def)
    moreover have "balance st1 = balance st" by (simp add: fun_eq_iff balance_def views)
    moreover
    have "unat v + supply_of st a
        = unat (balance st \<lparr>bk_asset_id = a, bk_owner_id = owner\<rparr>) + unat (as_total_supply asset)"
      using assms(3) by (simp add: plan_ok_def Some w)
    from arg_cong [OF this, of int] have "uint v + int (supply_of st a)
        = uint (balance st \<lparr>bk_asset_id = a, bk_owner_id = owner\<rparr>) + uint (as_total_supply asset)"
      by simp
    ultimately show ?thesis
      using excess_set_balance [of st1 a blake owner v b]
      by (simp add: st2_def set_balance_opt_def Some w excess1)
  qed
  moreover have assets2: "asset_option st2 = (asset_option st)(a \<mapsto> asset)" "nonce_option st2 = nonce_option st"
    "anchor_count_option st2 = anchor_count_option st"
    using other by (simp_all add: st2_def set_balance_opt_def views view_simps split: option.splits)
  moreover have "vault_asset st2 o1 = Some b \<Longrightarrow> vault_asset st o1 = Some b \<or> outpoint_tx o1 = t" for o1 b
    using assms(1) wf2 from_t by (cases "b = a") (auto simp: wf_core_def assets2 vault_from_def)
  ultimately show ?thesis
    using a wf2 by (auto simp: keeps_state_def insert_atomic_asset_state_def set then_in_def st2_def [symmetric])
qed

lemma keeps_state_Inl [simp]: "keeps_state blake st t (Inl e, st)"
  by (simp add: keeps_state_def)

lemma keeps_state_refl: "wf_core blake st \<Longrightarrow> keeps_state blake st t (Inr u, st)"
  by (auto simp: keeps_state_def)

lemma keeps_state_try_in: "(\<And>x. r = Inr x \<Longrightarrow> keeps_state blake st t (f x)) \<Longrightarrow> keeps_state blake st t (try_in st r f)"
  by (cases r) (simp_all add: try_in_def)

lemma insert_as_write:
  "insert_atomic_asset_state blake a asset st =
     then_in (insert_atomic_asset_state blake a asset st) (\<lambda>_ st1. (Inr (), set_balance_opt blake None st1))"
  by (simp add: then_in_def set_balance_opt_def split: prod.splits sum.splits)

lemma set_balance_opt_Some: "set_balance blake key v st = set_balance_opt blake (Some (key, v)) st"
  by (simp add: set_balance_opt_def)

lemma set_balance_zero: "(if v = 0 then set_balance blake key 0 st else set_balance blake key v st) = set_balance blake key v st"
  by simp

lemma checked_uint:
  "checked_add a b = Some c \<Longrightarrow> uint c = uint a + uint b"
  "checked_sub a b = Some c \<Longrightarrow> uint a = uint b + uint c"
  by (simp_all only: checked_iff uint_nat flip: of_nat_add)

lemma asset_known:
  "mint_plan owner a to_owner amount st = Inr r \<Longrightarrow> asset_option st a \<noteq> None"
  "burn_plan owner a amount st = Inr r \<Longrightarrow> asset_option st a \<noteq> None"
  "buy_plan tx owner a nonce cpay_in min_out st = Inr r \<Longrightarrow> asset_option st a \<noteq> None"
  "sell_plan blake tx owner a nonce token_in min_out' i st = Inr r \<Longrightarrow> asset_option st a \<noteq> None"
  "claim_plan blake tx owner a nonce ri claim_amount i st = Inr r' \<Longrightarrow> asset_option st a \<noteq> None"
  by (auto simp: mint_plan_def burn_plan_def buy_plan_def sell_plan_def claim_plan_def liquidity_pool_of_def
      cloned_asset_def try_bind_Inr_iff ok_or_Inr_iff)

section \<open>The operations\<close>

lemma apply_mint_keeps:
  "wf_core blake st \<Longrightarrow> fresh_tx st t \<Longrightarrow> keeps_state blake st t (apply_mint blake owner a to_owner amount st)"
  unfolding apply_mint_def set_balance_opt_Some
  by (auto intro!: keeps_state_try_in write_plan mint_plan_ok dest: asset_known)

lemma apply_burn_keeps:
  "wf_core blake st \<Longrightarrow> fresh_tx st t \<Longrightarrow> keeps_state blake st t (apply_burn blake owner a amount st)"
  unfolding apply_burn_def set_balance_zero unfolding set_balance_opt_Some
  by (auto intro!: keeps_state_try_in write_plan burn_plan_ok dest: asset_known)

lemma apply_buy_keeps:
  "wf_core blake st \<Longrightarrow> fresh_tx st (tx_id (ptx tx))
    \<Longrightarrow> keeps_state blake st (tx_id (ptx tx)) (apply_buy blake tx owner a nonce cpay_in min_out st)"
  unfolding apply_buy_def set_balance_opt_Some
  by (auto intro!: keeps_state_try_in write_plan buy_plan_ok dest: asset_known)

lemma apply_sell_keeps:
  "wf_core blake st \<Longrightarrow> fresh_tx st (tx_id (ptx tx))
    \<Longrightarrow> keeps_state blake st (tx_id (ptx tx)) (apply_sell blake tx owner a nonce token_in min_out i st)"
  unfolding apply_sell_def set_balance_zero unfolding set_balance_opt_Some
  by (auto intro!: keeps_state_try_in write_plan sell_plan_ok dest: asset_known)

lemma apply_claim_keeps:
  "wf_core blake st \<Longrightarrow> fresh_tx st (tx_id (ptx tx))
    \<Longrightarrow> keeps_state blake st (tx_id (ptx tx)) (apply_claim blake tx owner a nonce ri amount i st)"
  unfolding apply_claim_def
  by (subst insert_as_write) (auto intro!: keeps_state_try_in write_plan claim_plan_ok dest: asset_known)

lemma apply_create_asset_keeps:
  assumes "wf_core blake st" "fresh_tx st t" "asset_ok blake asset" "vault_from t asset" "as_total_supply asset = 0"
  shows "keeps_state blake st t (apply_create_asset blake t asset st)"
proof (cases "has_asset st t")
  case False
  then have "plan_ok blake st t t asset None"
    using assms(3-5) by (simp add: plan_ok_def supply_of_def has_asset_def)
  then show ?thesis
    using False write_plan [OF assms(1,2), of t asset None] by (simp add: apply_create_asset_def insert_as_write [symmetric])
qed (simp add: apply_create_asset_def)

lemma apply_create_asset_with_mint_keeps:
  assumes "wf_core blake st" "fresh_tx st t"
    "\<And>s. (mode = Capped \<Longrightarrow> s \<le> cap) \<Longrightarrow> asset_ok blake (asset s) \<and> vault_from t (asset s)"
    "\<And>s. as_total_supply (asset s) = s"
  shows "keeps_state blake st t (apply_create_asset_with_mint blake t mode cap amount owner asset st)"
proof (cases "has_asset st t")
  case False
  then have none: "asset_option st t = None" by (simp add: has_asset_def)
  show ?thesis
    using False assms(3,4) none
    by (auto simp: apply_create_asset_with_mint_def dest: initial_mint_cap
        intro!: keeps_state_try_in write_plan [OF assms(1,2)] initial_mint_ok)
qed (simp add: apply_create_asset_with_mint_def)

lemma apply_create_liquidity_asset_keeps:
  assumes "wf_core blake st" "fresh_tx st t"
    "\<And>asset pending. plan st = Inr (asset, pending) \<Longrightarrow> asset_option st t = None \<Longrightarrow> plan_ok blake st t t asset pending"
  shows "keeps_state blake st t (apply_create_liquidity_asset blake t plan st)"
proof (cases "has_asset st t")
  case False
  then have none: "asset_option st t = None" by (simp add: has_asset_def)
  show ?thesis
    using False assms(3) none
    by (auto simp: apply_create_liquidity_asset_def intro!: keeps_state_try_in write_plan [OF assms(1,2)])
qed (simp add: apply_create_liquidity_asset_def)

lemma apply_transfer_keeps:
  assumes "wf_core blake st"
  shows "keeps_state blake st t (apply_transfer blake owner a to_owner amount st)"
proof -
  let ?from = "\<lparr>bk_asset_id = a, bk_owner_id = owner\<rparr>" and ?to = "\<lparr>bk_asset_id = a, bk_owner_id = to_owner\<rparr>"
  have step: "keeps_state blake st t (Inr (), set_balance blake ?to v' (set_balance blake ?from v st))"
    if "asset_option st a \<noteq> None" "owner \<noteq> to_owner" "checked_sub (balance st ?from) amount = Some v"
      "checked_add (balance st ?to) amount = Some v'" for v v'
  proof -
    let ?st1 = "set_balance blake ?from v st" and ?st2 = "set_balance blake ?to v' (set_balance blake ?from v st)"
    have wf1: "wf_core blake ?st1" by (rule wf_core_set_balance [OF assms that(1)])
    have wf2: "wf_core blake ?st2" by (rule wf_core_set_balance [OF wf1]) (simp add: that(1) view_simps)
    have fin: "finite (dom (holdings st a))" "finite (dom (holdings ?st1 a))"
      using assms wf1 by (simp_all add: wf_core_def)
    have "balance ?st1 ?to = balance st ?to" using that(2) by (simp add: balance_def view_simps)
    moreover have "uint v' = uint (balance st ?to) + uint amount" "uint (balance st ?from) = uint amount + uint v"
      by (rule checked_uint(1) [OF that(4)], rule checked_uint(2) [OF that(3)])
    ultimately have "excess ?st2 = excess st"
      using excess_set_balance [OF fin(1), of blake owner v] excess_set_balance [OF fin(2), of blake to_owner v']
      by (simp add: fun_eq_iff)
    then show ?thesis using wf2 by (auto simp: keeps_state_def view_simps)
  qed
  show ?thesis
    unfolding apply_transfer_def set_balance_zero Let_def
    by (auto simp: has_asset_def result_simps intro!: keeps_state_try_in step keeps_state_refl [OF assms])
qed

lemma standard_asset_supply [simp]:
  "as_total_supply (standard_asset ctx owner version dec mode cap authority name symbol metadata tag s) = s"
  by (simp add: standard_asset_def)

lemma apply_atomic_op_keeps:
  assumes "wf_core blake st" "fresh_tx st (tx_id (ptx tx))" "wf_op op"
  shows "keeps_state blake st (tx_id (ptx tx)) (apply_atomic_op_to_state blake tx (tx_id (ptx tx)) owner op ctx st)"
  using assms(3)
proof (cases op)
  case (CreateAsset)
  then show ?thesis
    using assms standard_asset_ok by (auto simp: apply_atomic_op_to_state_def intro!: apply_create_asset_keeps)
next
  case (CreateAssetWithMint version dec mode cap authority name symbol metadata n to_owner tag)
  then have "wf_asset version dec mode cap authority name symbol metadata" "wf_tag tag" using assms(3) by simp_all
  then show ?thesis
    unfolding CreateAssetWithMint apply_atomic_op_to_state_def atomic_payload_op.case
    by (intro apply_create_asset_with_mint_keeps assms(1,2) standard_asset_ok standard_asset_supply)
next
  case CreateLiquidityAsset
  then show ?thesis
    using assms
    by (auto simp: apply_atomic_op_to_state_def simp del: wf_op.simps
        intro!: apply_create_liquidity_asset_keeps intro: create_liquidity_plan_ok)
qed (use assms in \<open>simp_all add: apply_atomic_op_to_state_def apply_transfer_keeps apply_mint_keeps apply_burn_keeps
      apply_buy_keeps apply_sell_keeps apply_claim_keeps\<close>)

section \<open>The transition\<close>

lemma ledger_ok_core: "ledger_ok blake st \<Longrightarrow> wf_core blake st"
  by (simp add: ledger_ok_def wf_state_def)

lemma anchor_deltas_views [view_simps]:
  "asset_option (apply_anchor_deltas_to_atomic_state blake tx st) = asset_option st"
  "nonce_option (apply_anchor_deltas_to_atomic_state blake tx st) = nonce_option st"
  "balance_option (apply_anchor_deltas_to_atomic_state blake tx st) = balance_option st"
  "vault_asset (apply_anchor_deltas_to_atomic_state blake tx st) = vault_asset st"
  "excess (apply_anchor_deltas_to_atomic_state blake tx st) = excess st"
proof -
  let ?same = "\<lambda>st'. asset_option st' = asset_option st \<and> nonce_option st' = nonce_option st
    \<and> balance_option st' = balance_option st \<and> vault_asset st' = vault_asset st \<and> excess st' = excess st"
  have "?same s \<Longrightarrow> ?same (fold (\<lambda>owner st. set_anchor_count blake owner (f owner st) st) owners s)" for f owners s
    by (induction owners arbitrary: s) (simp_all add: view_simps)
  from this [of st] have "?same (apply_anchor_deltas_to_atomic_state blake tx st)"
    by (simp add: apply_anchor_deltas_to_atomic_state_def Let_def)
  then show "asset_option (apply_anchor_deltas_to_atomic_state blake tx st) = asset_option st"
    "nonce_option (apply_anchor_deltas_to_atomic_state blake tx st) = nonce_option st"
    "balance_option (apply_anchor_deltas_to_atomic_state blake tx st) = balance_option st"
    "vault_asset (apply_anchor_deltas_to_atomic_state blake tx st) = vault_asset st"
    "excess (apply_anchor_deltas_to_atomic_state blake tx st) = excess st"
    by simp_all
qed

lemma wf_core_anchor_deltas: "wf_core blake st \<Longrightarrow> wf_core blake (apply_anchor_deltas_to_atomic_state blake tx st)"
proof -
  have "wf_core blake s \<Longrightarrow> wf_core blake (fold (\<lambda>owner st. set_anchor_count blake owner (f owner st) st) owners s)" for f owners s
    by (induction owners arbitrary: s) (simp_all add: wf_core_set_anchor_count)
  then show "wf_core blake st \<Longrightarrow> ?thesis" by (simp add: apply_anchor_deltas_to_atomic_state_def Let_def)
qed

lemma then_in_Inr: "then_in p f = (Inr u, s) \<longleftrightarrow> (\<exists>x s'. p = (Inr x, s') \<and> f x s' = (Inr u, s))"
  by (cases p; cases "fst p") (auto simp: then_in_def)

lemma try_in_Inr: "try_in s0 r f = (Inr u, s) \<longleftrightarrow> (\<exists>x. r = Inr x \<and> f x = (Inr u, s))"
  by (cases r) (auto simp: try_in_def)

lemma op_nonce_key_valid:
  assumes "asset_option st (replicate 32 0) = None"
    "apply_atomic_op_to_state blake tx t owner op ctx st = (Inr u, st')"
  shows "nonce_key_validate (atomic_nonce_key_for_op owner op) = Inr ()"
proof -
  have owner: "nonce_key_validate (nonce_key_owner owner) = Inr ()"
    by (simp add: nonce_key_validate_def nonce_key_owner_def)
  have asset: "nonce_key_validate (nonce_key_asset owner a) = Inr ()" if "asset_option st a \<noteq> None" for a
    using that assms(1)
    by (auto simp: nonce_key_validate_def nonce_key_asset_def ATOMIC_NONCE_SCOPE_OWNER_def ATOMIC_NONCE_SCOPE_ASSET_def)
  show ?thesis
    using assms(2) asset asset_known
    by (cases op)
      (auto simp: apply_atomic_op_to_state_def atomic_nonce_key_for_op_def owner apply_transfer_def apply_mint_def
        apply_burn_def apply_buy_def apply_sell_def apply_claim_def try_in_Inr has_asset_def split: if_splits)
qed

lemma wf_core_nonce: "wf_core blake st \<Longrightarrow> nonce_option st k = Some n \<Longrightarrow> 2 \<le> n"
  by (auto simp: wf_core_def)

lemma next_nonce_pos: "wf_core blake st \<Longrightarrow> checked_add (next_nonce st k) 1 = Some n \<Longrightarrow> 2 \<le> n"
  using wf_core_nonce [of blake st k]
  by (cases "nonce_option st k") (auto simp: next_nonce_def checked_iff word_le_nat_alt)

lemma keeps_ledger_try_in: "(\<And>x. r = Inr x \<Longrightarrow> keeps_ledger blake st t (f x)) \<Longrightarrow> keeps_ledger blake st t (try_in st r f)"
  by (cases r) (simp_all add: try_in_def keeps_ledger_def)

lemma without_payload_keeps: "ledger_ok blake st \<Longrightarrow> keeps_ledger blake st t (without_payload blake tx spent st)"
  by (auto simp: without_payload_def keeps_ledger_def ledger_ok_def wf_state_def view_simps wf_core_anchor_deltas)

lemma transition_keeps:
  assumes "ledger_ok blake st" "fresh_tx st (tx_id (ptx tx))" "tx_id (ptx tx) \<noteq> replicate 32 0"
  shows "keeps_ledger blake st (tx_id (ptx tx)) (validate_and_apply_atomic_state_transition blake env tx score ctx st)"
proof -
  have wf: "wf_core blake st" by (rule ledger_ok_core [OF assms(1)])
  have step: "keeps_ledger blake st (tx_id (ptx tx))
      (then_in (apply_atomic_op_to_state blake tx (tx_id (ptx tx)) owner op ctx st) (\<lambda>_ st1.
         (Inr (), apply_anchor_deltas_to_atomic_state blake tx
            (set_next_nonce blake (atomic_nonce_key_for_op owner op) n st1))))"
    if "wf_op op" "checked_add (next_nonce st (atomic_nonce_key_for_op owner op)) 1 = Some n" for owner op n
  proof (cases "apply_atomic_op_to_state blake tx (tx_id (ptx tx)) owner op ctx st")
    case (Pair r st1)
    have keep: "keeps_state blake st (tx_id (ptx tx)) (r, st1)"
      using apply_atomic_op_keeps [OF wf assms(2) that(1), of owner ctx] by (simp add: Pair)
    show ?thesis
    proof (cases r)
      case Inl
      then show ?thesis using keep by (simp add: Pair then_in_def keeps_state_def keeps_ledger_def)
    next
      case (Inr u)
      have key: "nonce_key_validate (atomic_nonce_key_for_op owner op) = Inr ()"
        by (rule op_nonce_key_valid) (use assms(1) Pair Inr in \<open>simp_all add: ledger_ok_def\<close>)
      show ?thesis
        using keep assms(1,3) next_nonce_pos [OF wf that(2)] key
        by (auto simp: Pair Inr then_in_def keeps_state_def keeps_ledger_def ledger_ok_def wf_state_def view_simps
            intro!: wf_core_anchor_deltas wf_core_set_next_nonce)
    qed
  qed
  show ?thesis
    unfolding validate_and_apply_atomic_state_transition_def
    by (auto simp: check_transition_def Let_def result_simps split: option.splits
        intro!: keeps_ledger_try_in without_payload_keeps [OF assms(1)] step dest!: parse_atomic_payload_Some)
qed

end
