(* ===== verification/Atomic_Check.thy ===== *)
theory Atomic_Check
  imports Atomic_Ledger
begin

text \<open>
  The consistency check \<open>validate_normalized\<close> decides the invariant: on a state that is held
  in memory, with every key listed once, it succeeds exactly when the lookups satisfy
  \<open>wf_state\<close>. The loops of the check are characterised one by one.
\<close>

section \<open>A state held in memory\<close>

definition in_memory :: "atomic_state \<Rightarrow> bool" where
  "in_memory st \<longleftrightarrow>
     st_current_store st = None \<and> st_deleted_nonces st = {} \<and> st_deleted_assets st = {}
     \<and> st_deleted_balances st = {} \<and> st_deleted_anchor_counts st = {} \<and> st_deleted_vault_outpoints st = {}
     \<and> distinct (map fst (st_next_nonces st)) \<and> distinct (map fst (st_assets st))
     \<and> distinct (map fst (st_balances st)) \<and> distinct (map fst (st_anchor_counts st))
     \<and> distinct (map fst (st_vault_outpoints st))"

abbreviation total_of :: "(hash32 \<times> u128) list \<Rightarrow> hash32 \<Rightarrow> u128" where
  "total_of totals a \<equiv> case map_of totals a of Some t \<Rightarrow> t | None \<Rightarrow> 0"

definition listed_sum :: "hash32 \<Rightarrow> (balance_key \<times> u128) list \<Rightarrow> nat" where
  "listed_sum a bs = (\<Sum>(k, v)\<leftarrow>bs. if bk_asset_id k = a then unat v else 0)"

definition index_asset :: "hash32 \<Rightarrow> asset_state \<Rightarrow> (outpoint \<times> hash32) list \<Rightarrow> (outpoint \<times> hash32) list" where
  "index_asset a asset m = (case asset_vault asset of None \<Rightarrow> m | Some v \<Rightarrow> AList.update v a m)"

definition lists_vault :: "(outpoint \<times> hash32) list \<Rightarrow> (hash32 \<times> asset_state) list \<Rightarrow> outpoint \<Rightarrow> hash32 \<Rightarrow> bool" where
  "lists_vault m assets o1 a \<longleftrightarrow> map_of m o1 = Some a \<or> (\<exists>x. (a, x) \<in> set assets \<and> asset_vault x = Some o1)"

lemma in_memory_lookups:
  assumes "in_memory st"
  shows "nonce_option st = map_of (st_next_nonces st)" "asset_option st = map_of (st_assets st)"
    "balance_option st = map_of (st_balances st)" "anchor_count_option st = map_of (st_anchor_counts st)"
    "vault_asset st = map_of (st_vault_outpoints st)"
  using assms
  by (auto simp: in_memory_def fun_eq_iff nonce_option_def asset_option_def balance_option_def anchor_count_option_def
      vault_asset_def vault_get_def vault_pair_def read_store_nonce_def read_store_asset_def read_store_balance_def
      read_store_anchor_count_def store_vault_asset_def split: option.splits)

section \<open>The loops of the check\<close>

lemma check_nonces_iff:
  "check_nonces_normalized xs = Inr () \<longleftrightarrow> (\<forall>(k, n)\<in>set xs. nonce_key_validate k = Inr () \<and> 2 \<le> n)"
  by (induction xs rule: check_nonces_normalized.induct) (auto simp: result_simps not_less)

lemma check_anchors_iff: "check_anchors_normalized xs = Inr () \<longleftrightarrow> (\<forall>(k, n)\<in>set xs. n \<noteq> 0)"
  by (induction xs rule: check_anchors_normalized.induct) (auto simp: result_simps)

lemma listed_sum_simps [simp]:
  "listed_sum a [] = 0"
  "listed_sum a ((k, v) # bs) = (if bk_asset_id k = a then unat v else 0) + listed_sum a bs"
  by (simp_all add: listed_sum_def)

lemma sum_balances_Inr:
  assumes "sum_balances assets bs totals = Inr totals'"
  shows "(\<forall>(k, v)\<in>set bs. v \<noteq> 0 \<and> map_of assets (bk_asset_id k) \<noteq> None)
    \<and> unat (total_of totals' a) = unat (total_of totals a) + listed_sum a bs"
  using assms
proof (induction assets bs totals rule: sum_balances.induct)
  case (2 assets key amount rest totals)
  from 2(2) obtain tot where tot: "checked_add (total_of totals (bk_asset_id key)) amount = Some tot"
    and rest: "sum_balances assets rest (AList.update (bk_asset_id key) tot totals) = Inr totals'"
    and ok: "amount \<noteq> 0" "map_of assets (bk_asset_id key) \<noteq> None"
    by (auto simp: result_simps)
  have "unat (total_of (AList.update (bk_asset_id key) tot totals) a)
      = unat (total_of totals a) + (if bk_asset_id key = a then unat amount else 0)"
    using tot by (auto simp: update_conv' checked_iff)
  then show ?case using 2(1) [OF ok(1) ok(2) _ rest] tot ok by (auto simp: result_simps)
qed simp

lemma sum_balances_ok:
  assumes "\<forall>(k, v)\<in>set bs. v \<noteq> 0 \<and> map_of assets (bk_asset_id k) \<noteq> None"
    "\<forall>a. unat (total_of totals a) + listed_sum a bs < 2 ^ 128"
  shows "\<exists>totals'. sum_balances assets bs totals = Inr totals'"
  using assms
proof (induction assets bs totals rule: sum_balances.induct)
  case (2 assets key amount rest totals)
  have "unat (total_of totals (bk_asset_id key)) + unat amount < 2 ^ 128"
    using 2(3) [rule_format, of "bk_asset_id key"] by simp
  then obtain tot where tot: "checked_add (total_of totals (bk_asset_id key)) amount = Some tot"
    by (cases "checked_add (total_of totals (bk_asset_id key)) amount") (auto simp: checked_iff)
  have "unat (total_of (AList.update (bk_asset_id key) tot totals) a) + listed_sum a rest < 2 ^ 128" for a
    using 2(3) [rule_format, of a] tot by (auto simp: update_conv' checked_iff add.assoc)
  then show ?case using 2(1) [OF _ _ _ _, of tot] 2(2) tot by auto
qed simp

lemma listed_sum_holdings:
  "distinct (map fst bs) \<Longrightarrow>
     listed_sum a bs = option_sum (\<lambda>owner. map_of bs \<lparr>bk_asset_id = a, bk_owner_id = owner\<rparr>)
     \<and> finite (dom (\<lambda>owner. map_of bs \<lparr>bk_asset_id = a, bk_owner_id = owner\<rparr>))"
proof (induction bs)
  case (Cons p bs)
  obtain k v where p: "p = (k, v)" by fastforce
  let ?f = "\<lambda>owner. map_of bs \<lparr>bk_asset_id = a, bk_owner_id = owner\<rparr>"
  have f: "(\<lambda>owner. map_of (p # bs) \<lparr>bk_asset_id = a, bk_owner_id = owner\<rparr>)
      = (if bk_asset_id k = a then ?f(bk_owner_id k \<mapsto> v) else ?f)"
    by (cases k) (auto simp: p fun_eq_iff)
  have "?f (bk_owner_id k) = None" if "bk_asset_id k = a"
    using Cons.prems that by (cases k) (auto simp: p map_of_eq_None_iff)
  then show ?case
    using Cons option_sum_update [of ?f "bk_owner_id k" "Some v"] unfolding f
    by (auto simp: p some_or_zero_def)
qed (simp add: option_sum_def)

lemma check_pool_vault: "check_pool_normalized blake asset = Inr v \<Longrightarrow> asset_vault asset = Some v"
  by (auto simp: check_pool_normalized_def asset_vault_def result_simps)

lemma check_assets_Cons:
  "check_assets_normalized blake totals ((a, asset) # rest) expected = Inr expected' \<longleftrightarrow>
     asset_ok blake asset \<and> total_of totals a = as_total_supply asset
     \<and> (\<forall>v b. asset_vault asset = Some v \<longrightarrow> map_of expected v = Some b \<longrightarrow> b = a)
     \<and> check_assets_normalized blake totals rest (index_asset a asset expected) = Inr expected'"
proof (cases "as_asset_class asset")
  case Standard
  then show ?thesis by (auto simp: result_simps asset_ok_def index_asset_def asset_vault_def)
next
  case Liquidity
  show ?thesis
  proof (cases "check_pool_normalized blake asset")
    case Inl
    then show ?thesis
      using Liquidity by (auto simp: result_simps asset_ok_def validate_liquidity_asset_normalized_def)
  next
    case (Inr v)
    then show ?thesis
      using Liquidity check_pool_vault [OF Inr]
      by (auto simp: result_simps asset_ok_def validate_liquidity_asset_normalized_def index_asset_def split: option.splits)
  qed
qed

lemma map_of_index_asset:
  "map_of (index_asset a asset m) o1 = (if asset_vault asset = Some o1 then Some a else map_of m o1)"
  by (auto simp: index_asset_def update_conv' split: option.splits)

lemma distinct_index_asset: "distinct (map fst m) \<Longrightarrow> distinct (map fst (index_asset a asset m))"
  by (auto simp: index_asset_def distinct_update split: option.splits)

lemma check_assets_Inr:
  assumes "check_assets_normalized blake totals assets expected = Inr expected'" "distinct (map fst expected)"
  shows "(\<forall>(a, x)\<in>set assets. asset_ok blake x \<and> total_of totals a = as_total_supply x)
    \<and> distinct (map fst expected') \<and> (\<forall>o1 a. map_of expected' o1 = Some a \<longleftrightarrow> lists_vault expected assets o1 a)"
  using assms
proof (induction assets arbitrary: expected)
  case Nil
  then show ?case by (auto simp: lists_vault_def)
next
  case (Cons p rest)
  obtain a asset where p: "p = (a, asset)" by fastforce
  from Cons.prems(1) have ok: "asset_ok blake asset" "total_of totals a = as_total_supply asset"
    and keep: "\<And>v b. asset_vault asset = Some v \<Longrightarrow> map_of expected v = Some b \<Longrightarrow> b = a"
    and rest: "check_assets_normalized blake totals rest (index_asset a asset expected) = Inr expected'"
    unfolding p check_assets_Cons by blast+
  have "lists_vault (index_asset a asset expected) rest o1 b \<longleftrightarrow> lists_vault expected (p # rest) o1 b" for o1 b
    using keep by (auto simp: lists_vault_def map_of_index_asset p)
  then show ?case
    using Cons.IH [OF rest distinct_index_asset [OF Cons.prems(2)]] ok by (simp add: p)
qed

lemma check_assets_ok:
  assumes "\<forall>(a, x)\<in>set assets. asset_ok blake x \<and> total_of totals a = as_total_supply x"
    "\<forall>o1 a b. lists_vault expected assets o1 a \<longrightarrow> lists_vault expected assets o1 b \<longrightarrow> a = b"
  shows "\<exists>expected'. check_assets_normalized blake totals assets expected = Inr expected'"
  using assms
proof (induction assets arbitrary: expected)
  case (Cons p rest)
  obtain a asset where p: "p = (a, asset)" by fastforce
  have sub: "lists_vault (index_asset a asset expected) rest o1 b \<Longrightarrow> lists_vault expected (p # rest) o1 b" for o1 b
    by (auto simp: lists_vault_def map_of_index_asset p split: if_splits)
  have "\<exists>expected'. check_assets_normalized blake totals rest (index_asset a asset expected) = Inr expected'"
  proof (rule Cons.IH)
    show "\<forall>o1 b c. lists_vault (index_asset a asset expected) rest o1 b
        \<longrightarrow> lists_vault (index_asset a asset expected) rest o1 c \<longrightarrow> b = c"
      using Cons.prems(2) sub by blast
  qed (use Cons.prems(1) in \<open>simp add: p\<close>)
  moreover have "b = a" if "asset_vault asset = Some v" "map_of expected v = Some b" for v b
    using Cons.prems(2) [rule_format, of v b a] that by (auto simp: p lists_vault_def)
  ultimately show ?case
    using Cons.prems(1) unfolding p check_assets_Cons by auto
qed simp

lemma hash_map_eq_iff:
  assumes "distinct (map fst a)" "distinct (map fst b)"
  shows "hash_map_eq a b \<longleftrightarrow> map_of a = map_of b"
proof
  assume eq: "hash_map_eq a b"
  have sub: "map_of a k = Some v \<Longrightarrow> map_of b k = Some v" for k v
    using eq by (auto simp: hash_map_eq_def list_all_iff dest!: map_of_SomeD)
  have "fst ` set a = fst ` set b"
  proof (rule card_subset_eq)
    show "fst ` set a \<subseteq> fst ` set b"
      using eq by (force simp: hash_map_eq_def list_all_iff dest: map_of_SomeD)
    show "card (fst ` set a) = card (fst ` set b)"
      using eq assms distinct_card [of "map fst a"] distinct_card [of "map fst b"] by (simp add: hash_map_eq_def)
  qed simp
  then have "map_of a k = None \<longleftrightarrow> map_of b k = None" for k by (simp add: map_of_eq_None_iff)
  then show "map_of a = map_of b" using sub by (metis not_None_eq ext)
next
  assume eq: "map_of a = map_of b"
  then have "fst ` set a = fst ` set b" by (metis dom_map_of_conv_image_fst)
  then have "length a = length b"
    using assms distinct_card [of "map fst a"] distinct_card [of "map fst b"] by simp
  moreover have "map_of b k = Some v" if "(k, v) \<in> set a" for k v
    using that assms(1) eq by (metis map_of_is_SomeI)
  ultimately show "hash_map_eq a b" by (auto simp: hash_map_eq_def list_all_iff)
qed

section \<open>The check decides the invariant\<close>

lemma all_listed: "\<forall>(k, v)\<in>set xs. P k v \<Longrightarrow> map_of xs k = Some v \<Longrightarrow> P k v"
  by (auto dest: map_of_SomeD)

lemma validate_normalized_wf_state:
  assumes mem: "in_memory st" and ok: "validate_normalized blake st = Inr ()"
  shows "wf_state blake st"
proof -
  from mem have dist: "distinct (map fst (st_assets st))" "distinct (map fst (st_balances st))"
    "distinct (map fst (st_vault_outpoints st))" by (simp_all add: in_memory_def)
  note look = in_memory_lookups [OF mem]
  from ok obtain totals expected where parts: "check_nonces_normalized (st_next_nonces st) = Inr ()"
    "check_anchors_normalized (st_anchor_counts st) = Inr ()" "sum_balances (st_assets st) (st_balances st) [] = Inr totals"
    "check_assets_normalized blake totals (st_assets st) [] = Inr expected" "hash_map_eq (st_vault_outpoints st) expected"
    by (auto simp: validate_normalized_def result_simps)
  note assets = check_assets_Inr [OF parts(4), simplified] and bals = sum_balances_Inr [OF parts(3)]
  have nonces: "nonce_key_validate k = Inr () \<and> 2 \<le> n" if "nonce_option st k = Some n" for k n
    by (rule all_listed [OF parts(1) [unfolded check_nonces_iff]]) (use that in \<open>simp add: look\<close>)
  have anchors: "n \<noteq> 0" if "anchor_count_option st k = Some n" for k n
    by (rule all_listed [OF parts(2) [unfolded check_anchors_iff]]) (use that in \<open>simp add: look\<close>)
  have balances: "v \<noteq> 0 \<and> asset_option st (bk_asset_id k) \<noteq> None" if "balance_option st k = Some v" for k v
    using all_listed [OF conjunct1 [OF bals], of k v] that by (simp add: look)
  have assets_ok: "asset_ok blake x \<and> total_of totals a = as_total_supply x" if "asset_option st a = Some x" for a x
    using all_listed [OF conjunct1 [OF assets], of a x] that by (simp add: look)
  have sum: "option_sum (holdings st a) = unat (total_of totals a)" "finite (dom (holdings st a))" for a
    using bals [of a] listed_sum_holdings [OF dist(2), of a] by (simp_all add: holdings_def look)
  have vaults: "vault_asset st o1 = Some a \<longleftrightarrow> (\<exists>x. asset_option st a = Some x \<and> asset_vault x = Some o1)" for o1 a
    using assets hash_map_eq_iff [OF dist(3), of expected] parts(5)
    by (simp add: look lists_vault_def map_of_eq_Some_iff [OF dist(1)])
  have "excess st a = 0" for a
  proof (cases "asset_option st a")
    case None
    then have "balance_option st \<lparr>bk_asset_id = a, bk_owner_id = owner\<rparr> = None" for owner
      using balances [of "\<lparr>bk_asset_id = a, bk_owner_id = owner\<rparr>"]
      by (cases "balance_option st \<lparr>bk_asset_id = a, bk_owner_id = owner\<rparr>") simp_all
    then have "holdings st a = (\<lambda>_. None)" by (simp add: holdings_def)
    then show ?thesis by (simp add: excess_def supply_of_def None option_sum_def)
  next
    case (Some x)
    then show ?thesis using assets_ok [OF Some] by (simp add: excess_def supply_of_def sum(1))
  qed
  then show ?thesis
    unfolding wf_state_def wf_core_def
    by (intro conjI allI impI) (blast dest: nonces anchors balances assets_ok intro: sum(2) | simp add: vaults)+
qed

lemma wf_state_validate_normalized:
  assumes mem: "in_memory st" and wf: "wf_state blake st"
  shows "validate_normalized blake st = Inr ()"
proof -
  from mem have dist: "distinct (map fst (st_next_nonces st))" "distinct (map fst (st_assets st))"
    "distinct (map fst (st_balances st))" "distinct (map fst (st_anchor_counts st))" "distinct (map fst (st_vault_outpoints st))"
    by (simp_all add: in_memory_def)
  note look = in_memory_lookups [OF mem]
  from wf have core: "wf_core blake st" and excess: "\<And>a. excess st a = 0" by (simp_all add: wf_state_def)
  have sums: "listed_sum a (st_balances st) = supply_of st a" for a
    using excess [of a] listed_sum_holdings [OF dist(3), of a] by (simp add: excess_def holdings_def look)
  have "supply_of st a < 2 ^ 128" for a by (auto simp: supply_of_def intro: unat_bound [where 'a = 128, simplified] split: option.splits)
  moreover have "\<forall>(k, v)\<in>set (st_balances st). v \<noteq> 0 \<and> map_of (st_assets st) (bk_asset_id k) \<noteq> None"
    using core by (auto simp: wf_core_def look map_of_eq_Some_iff [OF dist(3)])
  ultimately obtain totals where totals: "sum_balances (st_assets st) (st_balances st) [] = Inr totals"
    using sum_balances_ok [of "st_balances st" "st_assets st" "[]"] by (auto simp: sums)
  have tot: "total_of totals a = as_total_supply x" if "(a, x) \<in> set (st_assets st)" for a x
    using sum_balances_Inr [OF totals, of a] that
    by (simp add: sums supply_of_def look map_of_is_SomeI [OF dist(2)] word_unat_eq_iff)
  have index: "vault_asset st o1 = Some a \<longleftrightarrow> lists_vault [] (st_assets st) o1 a" for o1 a
    using core by (simp add: wf_core_def look lists_vault_def map_of_eq_Some_iff [OF dist(2)])
  have "\<exists>expected. check_assets_normalized blake totals (st_assets st) [] = Inr expected"
  proof (rule check_assets_ok)
    show "\<forall>o1 a b. lists_vault [] (st_assets st) o1 a \<longrightarrow> lists_vault [] (st_assets st) o1 b \<longrightarrow> a = b"
      by (simp flip: index)
    show "\<forall>(a, x)\<in>set (st_assets st). asset_ok blake x \<and> total_of totals a = as_total_supply x"
      using core tot by (auto simp: wf_core_def look map_of_eq_Some_iff [OF dist(2)])
  qed
  then obtain expected where expected: "check_assets_normalized blake totals (st_assets st) [] = Inr expected" ..
  note expected_index = check_assets_Inr [OF expected, simplified]
  have "map_of (st_vault_outpoints st) o1 = Some a \<longleftrightarrow> map_of expected o1 = Some a" for o1 a
    using expected_index index [of o1 a] by (simp add: look)
  then have "map_of (st_vault_outpoints st) o1 = map_of expected o1" for o1 by (metis option.exhaust)
  then have "hash_map_eq (st_vault_outpoints st) expected"
    using hash_map_eq_iff [OF dist(5), of expected] expected_index by (simp add: fun_eq_iff)
  moreover have "nonce_key_validate k = Inr () \<and> 2 \<le> n" if "(k, n) \<in> set (st_next_nonces st)" for k n
    using core map_of_is_SomeI [OF dist(1) that] by (simp add: wf_core_def look)
  then have "check_nonces_normalized (st_next_nonces st) = Inr ()" by (auto simp: check_nonces_iff)
  moreover have "n \<noteq> 0" if "(k, n) \<in> set (st_anchor_counts st)" for k n
    using core map_of_is_SomeI [OF dist(4) that] by (simp add: wf_core_def look)
  then have "check_anchors_normalized (st_anchor_counts st) = Inr ()" by (auto simp: check_anchors_iff)
  ultimately show ?thesis using totals expected by (simp add: validate_normalized_def)
qed

end
