(* ===== verification/Token_Spec.thy ===== *)
theory Token_Spec
  imports Atomic_Check
begin

text \<open>
  What the token layer promises, without its machinery. A ledger is a family of assets and of balances over
  the natural numbers; every operation of a payload is one rule of the relation \<open>token_step\<close>, with the owner
  who signs it and the exact change of balances, supply and pool. There is no arithmetic that wraps, no
  encoding, no disk and no error value: an operation that is refused has no step.
\<close>

section \<open>The abstract ledger\<close>

record token_view =
  tv_asset :: "hash32 \<Rightarrow> asset_state option"
  tv_balance :: "hash32 \<Rightarrow> hash32 \<Rightarrow> nat"

definition credit :: "hash32 \<Rightarrow> hash32 \<Rightarrow> nat \<Rightarrow> token_view \<Rightarrow> token_view" where
  "credit a owner n s =
     s\<lparr>tv_balance := (tv_balance s)(a := (tv_balance s a)(owner := tv_balance s a owner + n))\<rparr>"

definition debit :: "hash32 \<Rightarrow> hash32 \<Rightarrow> nat \<Rightarrow> token_view \<Rightarrow> token_view" where
  "debit a owner n s =
     s\<lparr>tv_balance := (tv_balance s)(a := (tv_balance s a)(owner := tv_balance s a owner - n))\<rparr>"

definition put_asset :: "hash32 \<Rightarrow> asset_state \<Rightarrow> token_view \<Rightarrow> token_view" where
  "put_asset a x s = s\<lparr>tv_asset := (tv_asset s)(a \<mapsto> x)\<rparr>"

definition token_view_of :: "atomic_state \<Rightarrow> token_view" where
  "token_view_of st =
     \<lparr>tv_asset = asset_option st,
      tv_balance = (\<lambda>a owner. unat (balance st \<lparr>bk_asset_id = a, bk_owner_id = owner\<rparr>))\<rparr>"

definition pool_buy :: "pool_state \<Rightarrow> nat \<Rightarrow> nat \<Rightarrow> nat \<Rightarrow> pool_state \<Rightarrow> bool" where
  "pool_buy p net fee out p' \<longleftrightarrow>
     unat (pl_real_token_reserves p') + out = unat (pl_real_token_reserves p)
     \<and> unat (pl_real_cpay_reserves_sompi p') = unat (pl_real_cpay_reserves_sompi p) + net
     \<and> unat (pl_virtual_cpay_reserves_sompi p') = unat (pl_virtual_cpay_reserves_sompi p) + net
     \<and> unat (pl_virtual_token_reserves p')
         = ceil_div (unat (pl_virtual_cpay_reserves_sompi p) * unat (pl_virtual_token_reserves p))
             (unat (pl_virtual_cpay_reserves_sompi p'))
     \<and> unat (pl_virtual_token_reserves p') + out = unat (pl_virtual_token_reserves p)
     \<and> unat (pl_unclaimed_fee_total_sompi p') = unat (pl_unclaimed_fee_total_sompi p) + fee
     \<and> unat (pl_vault_value_sompi p') = unat (pl_vault_value_sompi p) + net + fee
     \<and> unat (pl_pool_nonce p') = unat (pl_pool_nonce p) + 1"

definition pool_sell :: "pool_state \<Rightarrow> nat \<Rightarrow> nat \<Rightarrow> nat \<Rightarrow> pool_state \<Rightarrow> bool" where
  "pool_sell p tokens gross fee p' \<longleftrightarrow>
     unat (pl_real_token_reserves p') = unat (pl_real_token_reserves p) + tokens
     \<and> unat (pl_real_cpay_reserves_sompi p') + gross = unat (pl_real_cpay_reserves_sompi p)
     \<and> unat (pl_virtual_cpay_reserves_sompi p') + gross = unat (pl_virtual_cpay_reserves_sompi p)
     \<and> unat (pl_virtual_cpay_reserves_sompi p')
         = ceil_div (unat (pl_virtual_cpay_reserves_sompi p) * unat (pl_virtual_token_reserves p))
             (unat (pl_virtual_token_reserves p'))
     \<and> unat (pl_virtual_token_reserves p') = unat (pl_virtual_token_reserves p) + tokens
     \<and> unat (pl_unclaimed_fee_total_sompi p') = unat (pl_unclaimed_fee_total_sompi p) + fee
     \<and> unat (pl_vault_value_sompi p') + gross = unat (pl_vault_value_sompi p) + fee
     \<and> unat (pl_pool_nonce p') = unat (pl_pool_nonce p) + 1"

definition pool_claim :: "pool_state \<Rightarrow> nat \<Rightarrow> nat \<Rightarrow> pool_state \<Rightarrow> bool" where
  "pool_claim p i n p' \<longleftrightarrow>
     i < length (pl_fee_recipients p)
     \<and> unat (fr_unclaimed_sompi (pl_fee_recipients p' ! i)) + n = unat (fr_unclaimed_sompi (pl_fee_recipients p ! i))
     \<and> (\<forall>j < length (pl_fee_recipients p). j \<noteq> i \<longrightarrow> pl_fee_recipients p' ! j = pl_fee_recipients p ! j)
     \<and> pl_real_cpay_reserves_sompi p' = pl_real_cpay_reserves_sompi p
     \<and> pl_real_token_reserves p' = pl_real_token_reserves p
     \<and> unat (pl_unclaimed_fee_total_sompi p') + n = unat (pl_unclaimed_fee_total_sompi p)
     \<and> unat (pl_vault_value_sompi p') + n = unat (pl_vault_value_sompi p)
     \<and> unat (pl_pool_nonce p') = unat (pl_pool_nonce p) + 1"

definition vault_exact :: "pool_state \<Rightarrow> bool" where
  "vault_exact p \<longleftrightarrow>
     unat (pl_vault_value_sompi p) = unat (pl_real_cpay_reserves_sompi p) + unat (pl_unclaimed_fee_total_sompi p)"

inductive token_step ::
    "hash32 \<Rightarrow> hash32 \<Rightarrow> creation_context \<Rightarrow> atomic_payload_op \<Rightarrow> token_view \<Rightarrow> token_view \<Rightarrow> bool"
  for t owner ctx where
  create:
    "tv_asset s t = None \<Longrightarrow>
     token_step t owner ctx (CreateAsset version dec mode cap authority name symbol metadata tag) s
       (put_asset t (standard_asset ctx owner version dec mode cap authority name symbol metadata tag 0) s)"
| create_with_mint:
    "tv_asset s t = None \<Longrightarrow> mode = Capped \<longrightarrow> amount \<le> cap \<Longrightarrow>
     token_step t owner ctx
       (CreateAssetWithMint version dec mode cap authority name symbol metadata amount to_owner tag) s
       (credit t to_owner (unat amount)
         (put_asset t (standard_asset ctx owner version dec mode cap authority name symbol metadata tag amount) s))"
| create_liquidity:
    "tv_asset s t = None \<Longrightarrow> as_asset_class x = Liquidity \<Longrightarrow> as_liquidity x = Some p \<Longrightarrow>
     as_creator_owner_id x = owner \<Longrightarrow> as_max_supply x = cap \<Longrightarrow>
     unat (as_total_supply x) + unat (pl_real_token_reserves p) = unat cap \<Longrightarrow>
     launch = 0 \<longrightarrow> as_total_supply x = 0 \<Longrightarrow>
     token_step t owner ctx
       (CreateLiquidityAsset version curve mode cpay bps dec cap name symbol metadata seed fee rs launch
          launch_min tag unlock) s
       (credit t owner (unat (as_total_supply x)) (put_asset t x s))"
| transfer:
    "tv_asset s a \<noteq> None \<Longrightarrow> unat amount \<le> tv_balance s a owner \<Longrightarrow>
     token_step t owner ctx (Transfer a to_owner amount) s
       (credit a to_owner (unat amount) (debit a owner (unat amount) s))"
| mint:
    "tv_asset s a = Some x \<Longrightarrow> as_asset_class x = Standard \<Longrightarrow> as_mint_authority_owner_id x = owner \<Longrightarrow>
     unat supply' = unat (as_total_supply x) + unat amount \<Longrightarrow>
     as_supply_mode x = CappedSupply \<longrightarrow> supply' \<le> as_max_supply x \<Longrightarrow>
     token_step t owner ctx (Mint a to_owner amount) s
       (credit a to_owner (unat amount) (put_asset a (x\<lparr>as_total_supply := supply'\<rparr>) s))"
| burn:
    "tv_asset s a = Some x \<Longrightarrow> as_asset_class x = Standard \<Longrightarrow> unat amount \<le> tv_balance s a owner \<Longrightarrow>
     unat supply' + unat amount = unat (as_total_supply x) \<Longrightarrow>
     token_step t owner ctx (Burn a amount) s
       (debit a owner (unat amount) (put_asset a (x\<lparr>as_total_supply := supply'\<rparr>) s))"
| buy:
    "tv_asset s a = Some x \<Longrightarrow> as_asset_class x = Liquidity \<Longrightarrow> as_liquidity x = Some p \<Longrightarrow> pl_pool_nonce p = nonce \<Longrightarrow>
     net + fee = unat cpay_in \<Longrightarrow> fee = unat cpay_in * unat (pl_fee_bps p) div 10000 \<Longrightarrow>
     unat min_out \<le> out \<Longrightarrow> 0 < out \<Longrightarrow> pool_buy p net fee out p' \<Longrightarrow>
     unat supply' = unat (as_total_supply x) + out \<Longrightarrow>
     token_step t owner ctx (BuyLiquidityExactIn a nonce cpay_in min_out) s
       (credit a owner out (put_asset a (x\<lparr>as_total_supply := supply', as_liquidity := Some p'\<rparr>) s))"
| sell:
    "tv_asset s a = Some x \<Longrightarrow> as_asset_class x = Liquidity \<Longrightarrow> as_liquidity x = Some p \<Longrightarrow> pl_pool_nonce p = nonce \<Longrightarrow>
     \<not> liquidity_sell_locked p \<Longrightarrow> unat token_in \<le> tv_balance s a owner \<Longrightarrow>
     fee = gross * unat (pl_fee_bps p) div 10000 \<Longrightarrow> unat min_out + fee \<le> gross \<Longrightarrow>
     pool_sell p (unat token_in) gross fee p' \<Longrightarrow>
     unat supply' + unat token_in = unat (as_total_supply x) \<Longrightarrow>
     token_step t owner ctx (SellLiquidityExactIn a nonce token_in min_out i) s
       (debit a owner (unat token_in) (put_asset a (x\<lparr>as_total_supply := supply', as_liquidity := Some p'\<rparr>) s))"
| claim:
    "tv_asset s a = Some x \<Longrightarrow> as_asset_class x = Liquidity \<Longrightarrow> as_liquidity x = Some p \<Longrightarrow> pl_pool_nonce p = nonce \<Longrightarrow>
     \<not> liquidity_sell_locked p \<Longrightarrow> fr_owner_id (pl_fee_recipients p ! unat r) = owner \<Longrightarrow>
     pool_claim p (unat r) (unat amount) p' \<Longrightarrow>
     token_step t owner ctx (ClaimLiquidityFees a nonce r amount i) s
       (put_asset a (x\<lparr>as_liquidity := Some p'\<rparr>) s)"

inductive_cases burn_stepE: "token_step t owner ctx (Burn a amount) s s'"

section \<open>Consequences\<close>

lemmas ledger_views = credit_def debit_def put_asset_def

lemma token_step_holder:
  assumes "token_step t owner ctx op s s'" "holder \<noteq> owner"
  shows "tv_balance s a holder \<le> tv_balance s' a holder"
  using assms(1) by cases (use assms(2) in \<open>simp_all add: ledger_views\<close>)

lemma token_step_supply:
  assumes "token_step t owner ctx op s s'" "tv_asset s a = Some x" "as_asset_class x = Standard"
  shows "\<exists>x'. tv_asset s' a = Some x' \<and> x' = x\<lparr>as_total_supply := as_total_supply x'\<rparr>
    \<and> (as_total_supply x < as_total_supply x' \<longrightarrow>
        as_mint_authority_owner_id x = owner
        \<and> (\<exists>to_owner amount. op = Mint a to_owner amount \<and> unat (as_total_supply x') = unat (as_total_supply x) + unat amount))"
  using assms(1) by cases (use assms(2,3) in \<open>auto simp: ledger_views word_less_nat_alt\<close>)

end
