(* ===== verification/Token_Refine.thy ===== *)
theory Token_Refine
  imports Token_Spec
begin

text \<open>
  Every operation the consensus code accepts is a step of the abstract ledger. The plans of the operations are
  inverted once, into the facts the step rules ask for; writing a plan then updates the view of the state.
\<close>

section \<open>Writing the state\<close>

lemma write_views:
  assumes "then_in (insert_atomic_asset_state blake a x st) (\<lambda>_ st1. (Inr (), set_balance_opt blake w st1)) = (Inr u, st')"
  shows "asset_option st' = (asset_option st)(a \<mapsto> x)"
    "balance_option st' = (case w of None \<Rightarrow> balance_option st
       | Some (k, v) \<Rightarrow> (balance_option st)(k := if v \<noteq> 0 then Some v else None))"
  using assms set_asset_views
  by (auto simp: then_in_def insert_atomic_asset_state_def set_balance_opt_def view_simps result_simps
      split: prod.splits sum.splits option.splits)

lemma balance_of_option: "balance_option st' = (balance_option st)(k := if v \<noteq> 0 then Some v else None)
    \<Longrightarrow> balance st' = (balance st)(k := v)"
  by (auto simp: balance_def fun_eq_iff)

lemma view_write:
  assumes "then_in (insert_atomic_asset_state blake a x st) (\<lambda>_ st1. (Inr (), set_balance_opt blake (Some (k, v)) st1)) = (Inr u, st')"
    and "k = \<lparr>bk_asset_id = b, bk_owner_id = owner\<rparr>"
  shows "unat v = unat (balance st k) + n \<Longrightarrow> token_view_of st' = credit b owner n (put_asset a x (token_view_of st))"
    "unat v + n = unat (balance st k) \<Longrightarrow> token_view_of st' = debit b owner n (put_asset a x (token_view_of st))"
  using write_views [OF assms(1)] balance_of_option [of st' st k v] assms(2)
  by (auto simp: token_view_of_def credit_def debit_def put_asset_def fun_eq_iff)

lemma view_write_asset:
  assumes "then_in (insert_atomic_asset_state blake a x st) (\<lambda>_ st1. (Inr (), set_balance_opt blake None st1)) = (Inr u, st')"
  shows "token_view_of st' = put_asset a x (token_view_of st)"
  using write_views [OF assms] by (simp add: token_view_of_def put_asset_def balance_def)

section \<open>The plans on the abstract ledger\<close>

lemma pool_vault_value:
  assumes "asset_ok blake asset" "as_asset_class asset = Liquidity" "as_liquidity asset = Some pool"
  shows "unat (pl_vault_value_sompi pool) = unat (pl_real_cpay_reserves_sompi pool) + unat (pl_unclaimed_fee_total_sompi pool)"
  using assms by (auto simp: asset_ok_def check_pool_normalized_def result_simps checked_iff)

lemma plan_vault_value:
  assumes "validate_liquidity_invariants (x\<lparr>as_total_supply := s, as_liquidity := Some p\<rparr>) = Inr ()" "as_asset_class x = Liquidity"
  shows "unat (pl_vault_value_sompi p) = unat (pl_real_cpay_reserves_sompi p) + unat (pl_unclaimed_fee_total_sompi p)"
  using validate_liquidity_invariantsD(10) [OF assms(1), of p] assms(2) by (simp add: checked_iff)

lemma pool_buyI:
  assumes "cpmm_buy (pl_real_token_reserves p) (pl_virtual_cpay_reserves_sompi p) (pl_virtual_token_reserves p) net
       = Inr (out, pl_real_token_reserves p', pl_virtual_cpay_reserves_sompi p', pl_virtual_token_reserves p')"
    "checked_add (pl_real_cpay_reserves_sompi p) net = Some (pl_real_cpay_reserves_sompi p')"
    "checked_add (pl_pool_nonce p) 1 = Some (pl_pool_nonce p')"
    "unat (pl_unclaimed_fee_total_sompi p') = unat (pl_unclaimed_fee_total_sompi p) + fee" "vault_exact p" "vault_exact p'"
  shows "pool_buy p (unat net) fee (unat out) p'"
proof -
  have "unat (pl_real_cpay_reserves_sompi p') = unat (pl_real_cpay_reserves_sompi p) + unat net"
    using assms(2) by (simp add: checked_iff)
  moreover have "unat (pl_pool_nonce p') = unat (pl_pool_nonce p) + 1" using assms(3) by (simp add: checked_iff)
  ultimately show ?thesis
    unfolding pool_buy_def using consensus_curve.buyD [OF assms(1)] assms(4-6)
    by (intro conjI) (assumption | simp only: vault_exact_def add_ac)+
qed

lemma pool_sellI:
  assumes "cpmm_sell (pl_real_cpay_reserves_sompi p) (pl_virtual_cpay_reserves_sompi p) (pl_virtual_token_reserves p) token_in
       = Inr (gross, pl_real_cpay_reserves_sompi p', pl_virtual_cpay_reserves_sompi p', pl_virtual_token_reserves p')"
    "checked_add (pl_real_token_reserves p) token_in = Some (pl_real_token_reserves p')"
    "checked_add (pl_pool_nonce p) 1 = Some (pl_pool_nonce p')"
    "unat (pl_unclaimed_fee_total_sompi p') = unat (pl_unclaimed_fee_total_sompi p) + fee" "vault_exact p" "vault_exact p'"
  shows "pool_sell p (unat token_in) (unat gross) fee p'"
proof -
  have "unat (pl_real_token_reserves p') = unat (pl_real_token_reserves p) + unat token_in"
    using assms(2) by (simp add: checked_iff)
  moreover have "unat (pl_pool_nonce p') = unat (pl_pool_nonce p) + 1" using assms(3) by (simp add: checked_iff)
  moreover have "unat (pl_vault_value_sompi p') + unat gross = unat (pl_vault_value_sompi p) + fee"
    using consensus_curve.sellD(6) [OF assms(1)] assms(4-6) unfolding vault_exact_def by linarith
  ultimately show ?thesis
    unfolding pool_sell_def using consensus_curve.sellD [OF assms(1)] assms(4)
    by (intro conjI) assumption+
qed

lemma pool_claimI:
  assumes "i < length (pl_fee_recipients p)" "amount \<le> fr_unclaimed_sompi (pl_fee_recipients p ! i)"
    "pl_fee_recipients p' = (pl_fee_recipients p)[i := (pl_fee_recipients p ! i)
         \<lparr>fr_unclaimed_sompi := fr_unclaimed_sompi (pl_fee_recipients p ! i) - amount\<rparr>]"
    "checked_sub (pl_unclaimed_fee_total_sompi p) amount = Some (pl_unclaimed_fee_total_sompi p')"
    "checked_add (pl_pool_nonce p) 1 = Some (pl_pool_nonce p')"
    "pl_real_cpay_reserves_sompi p' = pl_real_cpay_reserves_sompi p" "pl_real_token_reserves p' = pl_real_token_reserves p"
    "vault_exact p" "vault_exact p'"
  shows "pool_claim p i (unat amount) p'"
proof -
  have sub: "unat (pl_unclaimed_fee_total_sompi p') + unat amount = unat (pl_unclaimed_fee_total_sompi p)"
    using assms(4) by (simp add: checked_iff)
  then have "unat (pl_vault_value_sompi p') + unat amount = unat (pl_vault_value_sompi p)"
    using assms(6,8,9) by (simp add: vault_exact_def)
  moreover have "unat (pl_pool_nonce p') = unat (pl_pool_nonce p) + 1" using assms(5) by (simp add: checked_iff)
  ultimately show ?thesis
    unfolding pool_claim_def using sub assms(1,2,6,7)
    by (simp add: assms(3) unat_sub word_le_nat_alt)
qed

lemma buy_plan_step:
  assumes "wf_core blake st" "buy_plan tx owner a nonce cpay_in min_out st = Inr (asset, key, after)"
  obtains x p p' s' net fee out where "asset_option st a = Some x" "as_asset_class x = Liquidity" "as_liquidity x = Some p"
    "pl_pool_nonce p = nonce" "net + fee = unat cpay_in" "fee = unat cpay_in * unat (pl_fee_bps p) div 10000"
    "unat min_out \<le> out" "0 < out" "pool_buy p net fee out p'" "unat s' = unat (as_total_supply x) + out"
    "asset = x\<lparr>as_total_supply := s', as_liquidity := Some p'\<rparr>" "key = \<lparr>bk_asset_id = a, bk_owner_id = owner\<rparr>"
    "unat after = unat (balance st key) + out"
proof -
  from assms(2) obtain x p fee net out s' p' u where
    new: "asset = x\<lparr>as_total_supply := s', as_liquidity := Some p'\<rparr>" "key = \<lparr>bk_asset_id = a, bk_owner_id = owner\<rparr>"
    and old: "liquidity_pool_of st a nonce = Inr (x, p)"
    and fee: "calculate_trade_fee cpay_in (pl_fee_bps p) = Inr fee" "checked_sub cpay_in fee = Some net"
    and curve: "cpmm_buy (pl_real_token_reserves p) (pl_virtual_cpay_reserves_sompi p) (pl_virtual_token_reserves p) net
       = Inr (out, pl_real_token_reserves p', pl_virtual_cpay_reserves_sompi p', pl_virtual_token_reserves p')"
    and fees: "apply_fee_to_pool (pl_fee_recipients p) (pl_unclaimed_fee_total_sompi p) fee
       = Inr (pl_fee_recipients p', pl_unclaimed_fee_total_sompi p')"
    and reserve: "checked_add (pl_real_cpay_reserves_sompi p) net = Some (pl_real_cpay_reserves_sompi p')"
      "checked_add (pl_pool_nonce p) 1 = Some (pl_pool_nonce p')" "\<not> out < min_out"
    and s: "checked_add (as_total_supply x) out = Some s'" "checked_add (balance st key) out = Some after"
    and inv: "validate_liquidity_invariants (x\<lparr>as_total_supply := s', as_liquidity := Some p'\<rparr>) = Inr u"
    by (simp only: buy_plan_def Let_def result_simps split_paired_Ex prod.case sum.inject prod.inject)
      (elim exE conjE, rule that, rule sym, assumption, rule sym, assumption, assumption, assumption, assumption,
        (hypsubst, (assumption | simp (no_asm)))+)
  from old have x: "asset_option st a = Some x" "as_asset_class x = Liquidity" "as_liquidity x = Some p" "pl_pool_nonce p = nonce"
    by (simp_all add: liquidity_pool_of_Inr)
  have "unat fee = unat cpay_in * unat (pl_fee_bps p) div 10000" "unat net + unat fee = unat cpay_in"
    using fee by (simp_all add: calculate_trade_fee_Inr_iff checked_iff)
  moreover have "pool_buy p (unat net) (unat fee) (unat out) p'"
    using apply_fee_to_pool_exact [OF fees] pool_vault_value [OF wf_core_asset [OF assms(1) x(1)] x(2,3)]
      plan_vault_value [where x = x and s = s' and p = p'] inv x(2)
    by (intro pool_buyI [OF curve reserve(1,2)]) (simp_all add: vault_exact_def)
  moreover have "0 < unat out" by (rule consensus_curve.buyD(6) [OF curve])
  ultimately show thesis
    using reserve(3) s by (intro that [OF x _ _ _ _ _ _ new]) (simp_all add: checked_iff word_le_nat_alt not_less)
qed

lemma sell_plan_step:
  assumes "wf_core blake st" "sell_plan blake tx owner a nonce token_in min_out i st = Inr (asset, key, after)"
  obtains x p p' s' gross fee where "asset_option st a = Some x" "as_asset_class x = Liquidity" "as_liquidity x = Some p"
    "pl_pool_nonce p = nonce" "\<not> liquidity_sell_locked p" "unat token_in \<le> unat (balance st key)"
    "fee = gross * unat (pl_fee_bps p) div 10000" "unat min_out + fee \<le> gross"
    "pool_sell p (unat token_in) gross fee p'" "unat s' + unat token_in = unat (as_total_supply x)"
    "asset = x\<lparr>as_total_supply := s', as_liquidity := Some p'\<rparr>" "key = \<lparr>bk_asset_id = a, bk_owner_id = owner\<rparr>"
    "unat after + unat token_in = unat (balance st key)"
proof -
  from assms(2) obtain x p fee gross out s' p' u where
    new: "asset = x\<lparr>as_total_supply := s', as_liquidity := Some p'\<rparr>" "key = \<lparr>bk_asset_id = a, bk_owner_id = owner\<rparr>"
    and old: "liquidity_pool_of st a nonce = Inr (x, p)"
    and fee: "calculate_trade_fee gross (pl_fee_bps p) = Inr fee" "checked_sub gross fee = Some out"
    and curve: "cpmm_sell (pl_real_cpay_reserves_sompi p) (pl_virtual_cpay_reserves_sompi p) (pl_virtual_token_reserves p) token_in
       = Inr (gross, pl_real_cpay_reserves_sompi p', pl_virtual_cpay_reserves_sompi p', pl_virtual_token_reserves p')"
    and fees: "apply_fee_to_pool (pl_fee_recipients p) (pl_unclaimed_fee_total_sompi p) fee
       = Inr (pl_fee_recipients p', pl_unclaimed_fee_total_sompi p')"
    and reserve: "checked_add (pl_real_token_reserves p) token_in = Some (pl_real_token_reserves p')"
      "checked_add (pl_pool_nonce p) 1 = Some (pl_pool_nonce p')" "\<not> out < min_out" "\<not> liquidity_sell_locked p"
    and s: "checked_sub (as_total_supply x) token_in = Some s'" "checked_sub (balance st key) token_in = Some after"
    and inv: "validate_liquidity_invariants (x\<lparr>as_total_supply := s', as_liquidity := Some p'\<rparr>) = Inr u"
    by (simp only: sell_plan_def Let_def result_simps split_paired_Ex prod.case sum.inject prod.inject)
      (elim exE conjE, rule that, rule sym, assumption, rule sym, assumption, assumption, assumption, assumption,
        (hypsubst, (assumption | simp (no_asm)))+)
  from old have x: "asset_option st a = Some x" "as_asset_class x = Liquidity" "as_liquidity x = Some p" "pl_pool_nonce p = nonce"
    by (simp_all add: liquidity_pool_of_Inr)
  have fee': "unat fee = unat gross * unat (pl_fee_bps p) div 10000" "unat out + unat fee = unat gross"
    using fee by (simp_all add: calculate_trade_fee_Inr_iff checked_iff)
  moreover have "pool_sell p (unat token_in) (unat gross) (unat fee) p'"
    using apply_fee_to_pool_exact [OF fees] pool_vault_value [OF wf_core_asset [OF assms(1) x(1)] x(2,3)]
      plan_vault_value [where x = x and s = s' and p = p'] inv x(2)
    by (intro pool_sellI [OF curve reserve(1,2)]) (simp_all add: vault_exact_def)
  ultimately show thesis
    using reserve(3) s by (intro that [OF x reserve(4) _ _ _ _ _ new]) (simp_all add: checked_iff word_le_nat_alt not_less)
qed

lemma claim_plan_step:
  assumes "wf_core blake st" "claim_plan blake tx owner a nonce r amount i st = Inr asset"
  obtains x p p' where "asset_option st a = Some x" "as_asset_class x = Liquidity" "as_liquidity x = Some p"
    "pl_pool_nonce p = nonce" "\<not> liquidity_sell_locked p" "fr_owner_id (pl_fee_recipients p ! unat r) = owner"
    "pool_claim p (unat r) (unat amount) p'" "asset = x\<lparr>as_liquidity := Some p'\<rparr>"
proof -
  from assms(2) obtain x p p' u v where
    new: "asset = x\<lparr>as_liquidity := Some p'\<rparr>"
    and old: "liquidity_pool_of st a nonce = Inr (x, p)"
    and auth: "validate_liquidity_claim_authorization owner (fr_owner_id (pl_fee_recipients p ! unat r)) = Inr v"
    and inv: "validate_liquidity_invariants (x\<lparr>as_liquidity := Some p'\<rparr>) = Inr u"
    and claim: "\<not> unat r \<ge> length (pl_fee_recipients p)" "\<not> fr_unclaimed_sompi (pl_fee_recipients p ! unat r) < amount"
      "pl_fee_recipients p' = (pl_fee_recipients p)[unat r := (pl_fee_recipients p ! unat r)
         \<lparr>fr_unclaimed_sompi := fr_unclaimed_sompi (pl_fee_recipients p ! unat r) - amount\<rparr>]"
      "checked_sub (pl_unclaimed_fee_total_sompi p) amount = Some (pl_unclaimed_fee_total_sompi p')"
      "checked_add (pl_pool_nonce p) 1 = Some (pl_pool_nonce p')" "\<not> liquidity_sell_locked p"
    and same: "pl_real_cpay_reserves_sompi p' = pl_real_cpay_reserves_sompi p" "pl_real_token_reserves p' = pl_real_token_reserves p"
    by (simp only: claim_plan_def Let_def result_simps split_paired_Ex prod.case sum.inject prod.inject)
      (elim exE conjE, rule that, rule sym, assumption, assumption, assumption, assumption,
        (hypsubst, (assumption | simp (no_asm)))+)
  from old have x: "asset_option st a = Some x" "as_asset_class x = Liquidity" "as_liquidity x = Some p" "pl_pool_nonce p = nonce"
    by (simp_all add: liquidity_pool_of_Inr)
  have "pool_claim p (unat r) (unat amount) p'"
    using claim(1,2) pool_vault_value [OF wf_core_asset [OF assms(1) x(1)] x(2,3)]
      plan_vault_value [where x = x and s = "as_total_supply x" and p = p'] inv x(2)
    by (intro pool_claimI [OF _ _ claim(3-5) same]) (simp_all add: vault_exact_def)
  moreover have "fr_owner_id (pl_fee_recipients p ! unat r) = owner"
    using auth by (simp add: validate_liquidity_claim_authorization_def split: if_splits)
  ultimately show thesis using claim(6) new by (intro that [OF x]) simp_all
qed

lemma mint_plan_step:
  assumes "mint_plan owner a to_owner amount st = Inr (asset, key, after)"
  obtains x s' where "asset_option st a = Some x" "as_asset_class x = Standard" "as_mint_authority_owner_id x = owner"
    "unat s' = unat (as_total_supply x) + unat amount" "as_supply_mode x = CappedSupply \<longrightarrow> s' \<le> as_max_supply x"
    "asset = x\<lparr>as_total_supply := s'\<rparr>" "key = \<lparr>bk_asset_id = a, bk_owner_id = to_owner\<rparr>"
    "unat after = unat (balance st key) + unat amount"
proof -
  from assms obtain x s' where x: "asset_option st a = Some x" "as_asset_class x \<noteq> Liquidity" "as_mint_authority_owner_id x = owner"
    and s: "checked_add (as_total_supply x) amount = Some s'" "as_supply_mode x = CappedSupply \<longrightarrow> s' \<le> as_max_supply x"
    and new: "asset = x\<lparr>as_total_supply := s'\<rparr>" "key = \<lparr>bk_asset_id = a, bk_owner_id = to_owner\<rparr>"
      "checked_add (balance st key) amount = Some after"
    by (auto simp: mint_plan_def cloned_asset_def result_simps Let_def not_less)
  have std: "as_asset_class x = Standard" using x(2) by (cases "as_asset_class x") simp_all
  show thesis using x s new by (intro that [OF x(1) std]) (simp_all add: checked_iff)
qed

lemma burn_plan_step:
  assumes "burn_plan owner a amount st = Inr (asset, key, after)"
  obtains x s' where "asset_option st a = Some x" "as_asset_class x = Standard"
    "unat s' + unat amount = unat (as_total_supply x)"
    "asset = x\<lparr>as_total_supply := s'\<rparr>" "key = \<lparr>bk_asset_id = a, bk_owner_id = owner\<rparr>"
    "unat after + unat amount = unat (balance st key)"
proof -
  from assms obtain x s' where x: "asset_option st a = Some x" "as_asset_class x \<noteq> Liquidity"
    and s: "checked_sub (as_total_supply x) amount = Some s'"
    and new: "asset = x\<lparr>as_total_supply := s'\<rparr>" "key = \<lparr>bk_asset_id = a, bk_owner_id = owner\<rparr>"
      "checked_sub (balance st key) amount = Some after"
    by (auto simp: burn_plan_def cloned_asset_def result_simps Let_def)
  have std: "as_asset_class x = Standard" using x(2) by (cases "as_asset_class x") simp_all
  show thesis using x s new by (intro that [OF x(1) std]) (simp_all add: checked_iff)
qed

lemma launch_buy_receiver:
  assumes "launch_buy a owner fee_bps buy min_out st ls = Inr ls'" "ls_total_supply ls = 0" "ls_receiver_after ls = None"
  shows "case ls_receiver_after ls' of
      None \<Rightarrow> ls_total_supply ls' = 0
    | Some (key, after) \<Rightarrow> key = \<lparr>bk_asset_id = a, bk_owner_id = owner\<rparr>
        \<and> unat after = unat (balance st key) + unat (ls_total_supply ls')"
    "buy = 0 \<Longrightarrow> ls' = ls"
proof -
  show "buy = 0 \<Longrightarrow> ls' = ls" using assms(1) by (simp add: launch_buy_def)
  show "case ls_receiver_after ls' of
      None \<Rightarrow> ls_total_supply ls' = 0
    | Some (key, after) \<Rightarrow> key = \<lparr>bk_asset_id = a, bk_owner_id = owner\<rparr>
        \<and> unat after = unat (balance st key) + unat (ls_total_supply ls')"
  proof (cases "buy > 0")
    case True
    with assms(1) obtain out after where
      "checked_add (balance st \<lparr>bk_asset_id = a, bk_owner_id = owner\<rparr>) out = Some after" "ls_total_supply ls' = out"
      "ls_receiver_after ls' = Some (\<lparr>bk_asset_id = a, bk_owner_id = owner\<rparr>, after)"
      by (simp only: launch_buy_def Let_def result_simps split_paired_Ex prod.case if_True sum.inject)
        (elim exE conjE, rule that, assumption, auto)
    then show ?thesis by (simp add: checked_iff)
  qed (use assms in \<open>simp add: launch_buy_def\<close>)
qed

lemma create_liquidity_plan_step:
  assumes "create_liquidity_plan blake ctx tx a owner st version curve mode cpay bps dec cap name symbol metadata
      seed fee rs launch launch_min tag unlock = Inr (x, pending)"
  obtains p where "as_asset_class x = Liquidity" "as_liquidity x = Some p" "as_creator_owner_id x = owner" "as_max_supply x = cap"
    "unat (as_total_supply x) + unat (pl_real_token_reserves p) = unat cap" "launch = 0 \<longrightarrow> as_total_supply x = 0"
    "case pending of
       None \<Rightarrow> as_total_supply x = 0
     | Some (key, after) \<Rightarrow> key = \<lparr>bk_asset_id = a, bk_owner_id = owner\<rparr>
         \<and> unat after = unat (balance st key) + unat (as_total_supply x)"
proof -
  from assms obtain ls ls' p u where
    pool_of: "as_liquidity x = Some p"
    and ls: "launch_buy a owner fee launch launch_min st ls = Inr ls'" "ls_total_supply ls = 0" "ls_receiver_after ls = None"
    and x: "as_asset_class x = Liquidity" "as_total_supply x = ls_total_supply ls'" "as_max_supply x = cap"
      "as_creator_owner_id x = owner"
    and inv: "validate_liquidity_invariants x = Inr u" and pending: "pending = ls_receiver_after ls'"
    by (simp only: create_liquidity_plan_def Let_def result_simps split_paired_Ex prod.case sum.inject prod.inject)
      (elim exE conjE, rule that, hypsubst, rule asset_state.select_convs, assumption, (hypsubst, (assumption | simp (no_asm)))+)
  have "unat (as_total_supply x) + unat (pl_real_token_reserves p) = unat cap"
    using validate_liquidity_invariantsD(11) [of x, OF _ x(1) pool_of] inv x(3) by (simp add: checked_iff)
  then show thesis
    using launch_buy_receiver [OF ls] ls(2) by (intro that [OF x(1) pool_of x(4,3)]) (auto simp: x(2) pending split: option.splits)
qed

lemma credit_zero: "credit a owner 0 s = s"
  by (simp add: credit_def)

lemma apply_transfer_refines:
  assumes "apply_transfer blake owner a to_owner amount st = (Inr u, st')"
  shows "token_step t owner ctx (Transfer a to_owner amount) (token_view_of st) (token_view_of st')"
proof -
  let ?from = "\<lparr>bk_asset_id = a, bk_owner_id = owner\<rparr>" and ?to = "\<lparr>bk_asset_id = a, bk_owner_id = to_owner\<rparr>"
  have known: "asset_option st a \<noteq> None" using assms by (cases "has_asset st a") (auto simp: apply_transfer_def has_asset_def)
  have run: "(if owner = to_owner then \<exists>v. checked_sub (balance st ?from) amount = Some v \<and> st' = st
     else \<exists>v v'. checked_sub (balance st ?from) amount = Some v \<and> checked_add (balance st ?to) amount = Some v'
       \<and> st' = set_balance blake ?to v' (set_balance blake ?from v st))"
    using assms known unfolding apply_transfer_def set_balance_zero Let_def
    by (cases "owner = to_owner") (simp_all add: has_asset_def result_simps try_in_Inr eq_commute [of st'], auto)
  have views: "balance (set_balance blake k w s) = (balance s)(k := w)" for k w s
    by (rule balance_of_option) (simp add: view_simps)
  have "token_view_of st' = credit a to_owner (unat amount) (debit a owner (unat amount) (token_view_of st))
      \<and> unat amount \<le> unat (balance st ?from)"
  proof (cases "owner = to_owner")
    case True
    then show ?thesis
      using run by (auto simp: token_view_of_def credit_def debit_def checked_iff fun_eq_iff)
  next
    case False
    then obtain v v' where v: "checked_sub (balance st ?from) amount = Some v" "checked_add (balance st ?to) amount = Some v'"
      and st': "st' = set_balance blake ?to v' (set_balance blake ?from v st)" using run by auto
    show ?thesis
      using v False unfolding st' by (auto simp: token_view_of_def credit_def debit_def views view_simps checked_iff fun_eq_iff)
  qed
  moreover have "tv_asset (token_view_of st) a \<noteq> None" using known by (simp add: token_view_of_def)
  ultimately show ?thesis using token_step.transfer [of "token_view_of st" a amount owner t ctx to_owner]
    by (simp add: token_view_of_def)
qed

lemma view_fields [simp]:
  "tv_asset (token_view_of st) = asset_option st"
  "tv_balance (token_view_of st) a owner = unat (balance st \<lparr>bk_asset_id = a, bk_owner_id = owner\<rparr>)"
  by (simp_all add: token_view_of_def)

lemma apply_mint_refines:
  assumes "apply_mint blake owner a to_owner amount st = (Inr u, st')"
  shows "token_step t owner ctx (Mint a to_owner amount) (token_view_of st) (token_view_of st')"
proof -
  from assms obtain asset key after where plan: "mint_plan owner a to_owner amount st = Inr (asset, key, after)"
    and run: "then_in (insert_atomic_asset_state blake a asset st) (\<lambda>_ st1. (Inr (), set_balance_opt blake (Some (key, after)) st1))
      = (Inr u, st')"
    by (auto simp: apply_mint_def try_in_Inr set_balance_opt_Some)
  from plan show ?thesis
  proof (rule mint_plan_step)
    fix x s' assume *: "asset_option st a = Some x" "as_asset_class x = Standard" "as_mint_authority_owner_id x = owner"
      "unat s' = unat (as_total_supply x) + unat amount" "as_supply_mode x = CappedSupply \<longrightarrow> s' \<le> as_max_supply x"
      "asset = x\<lparr>as_total_supply := s'\<rparr>" "key = \<lparr>bk_asset_id = a, bk_owner_id = to_owner\<rparr>"
      "unat after = unat (balance st key) + unat amount"
    show ?thesis
      unfolding view_write(1) [OF run *(7,8)] *(6)
      by (rule token_step.mint) (use * in simp_all)
  qed
qed

lemma apply_burn_refines:
  assumes "apply_burn blake owner a amount st = (Inr u, st')"
  shows "token_step t owner ctx (Burn a amount) (token_view_of st) (token_view_of st')"
proof -
  from assms obtain asset key after where plan: "burn_plan owner a amount st = Inr (asset, key, after)"
    and run: "then_in (insert_atomic_asset_state blake a asset st) (\<lambda>_ st1. (Inr (), set_balance_opt blake (Some (key, after)) st1))
      = (Inr u, st')"
    unfolding apply_burn_def set_balance_zero unfolding set_balance_opt_Some by (auto simp: try_in_Inr)
  from plan show ?thesis
  proof (rule burn_plan_step)
    fix x s' assume *: "asset_option st a = Some x" "as_asset_class x = Standard"
      "unat s' + unat amount = unat (as_total_supply x)"
      "asset = x\<lparr>as_total_supply := s'\<rparr>" "key = \<lparr>bk_asset_id = a, bk_owner_id = owner\<rparr>"
      "unat after + unat amount = unat (balance st key)"
    show ?thesis
      unfolding view_write(2) [OF run *(5,6)] *(4)
      by (rule token_step.burn) (use * in \<open>simp_all add: *(6) [symmetric] flip: *(5)\<close>)
  qed
qed

lemma apply_buy_refines:
  assumes "wf_core blake st" "apply_buy blake tx owner a nonce cpay_in min_out st = (Inr u, st')"
  shows "token_step t owner ctx (BuyLiquidityExactIn a nonce cpay_in min_out) (token_view_of st) (token_view_of st')"
proof -
  from assms(2) obtain asset key after where plan: "buy_plan tx owner a nonce cpay_in min_out st = Inr (asset, key, after)"
    and run: "then_in (insert_atomic_asset_state blake a asset st) (\<lambda>_ st1. (Inr (), set_balance_opt blake (Some (key, after)) st1))
      = (Inr u, st')"
    by (auto simp: apply_buy_def try_in_Inr set_balance_opt_Some)
  from assms(1) plan show ?thesis
  proof (rule buy_plan_step)
    fix x p p' s' net fee out
    assume *: "asset_option st a = Some x" "as_asset_class x = Liquidity" "as_liquidity x = Some p"
      "pl_pool_nonce p = nonce" "net + fee = unat cpay_in" "fee = unat cpay_in * unat (pl_fee_bps p) div 10000"
      "unat min_out \<le> out" "0 < out" "pool_buy p net fee out p'" "unat s' = unat (as_total_supply x) + out"
      "asset = x\<lparr>as_total_supply := s', as_liquidity := Some p'\<rparr>" "key = \<lparr>bk_asset_id = a, bk_owner_id = owner\<rparr>"
      "unat after = unat (balance st key) + out"
    show ?thesis
      unfolding view_write(1) [OF run *(12,13)] *(11)
      by (rule token_step.buy [OF _ *(2-10)]) (simp add: *(1))
  qed
qed

lemma apply_sell_refines:
  assumes "wf_core blake st" "apply_sell blake tx owner a nonce token_in min_out i st = (Inr u, st')"
  shows "token_step t owner ctx (SellLiquidityExactIn a nonce token_in min_out i) (token_view_of st) (token_view_of st')"
proof -
  from assms(2) obtain asset key after where plan: "sell_plan blake tx owner a nonce token_in min_out i st = Inr (asset, key, after)"
    and run: "then_in (insert_atomic_asset_state blake a asset st) (\<lambda>_ st1. (Inr (), set_balance_opt blake (Some (key, after)) st1))
      = (Inr u, st')"
    unfolding apply_sell_def set_balance_zero unfolding set_balance_opt_Some by (auto simp: try_in_Inr)
  from assms(1) plan show ?thesis
  proof (rule sell_plan_step)
    fix x p p' s' gross fee
    assume *: "asset_option st a = Some x" "as_asset_class x = Liquidity" "as_liquidity x = Some p"
      "pl_pool_nonce p = nonce" "\<not> liquidity_sell_locked p" "unat token_in \<le> unat (balance st key)"
      "fee = gross * unat (pl_fee_bps p) div 10000" "unat min_out + fee \<le> gross"
      "pool_sell p (unat token_in) gross fee p'" "unat s' + unat token_in = unat (as_total_supply x)"
      "asset = x\<lparr>as_total_supply := s', as_liquidity := Some p'\<rparr>" "key = \<lparr>bk_asset_id = a, bk_owner_id = owner\<rparr>"
      "unat after + unat token_in = unat (balance st key)"
    show ?thesis
      unfolding view_write(2) [OF run *(12,13)] *(11)
      by (rule token_step.sell [OF _ *(2-5) _ *(7-10)]) (use *(1,6,12) in simp_all)
  qed
qed

lemma apply_claim_refines:
  assumes "wf_core blake st" "apply_claim blake tx owner a nonce r amount i st = (Inr u, st')"
  shows "token_step t owner ctx (ClaimLiquidityFees a nonce r amount i) (token_view_of st) (token_view_of st')"
proof -
  from assms(2) obtain asset where plan: "claim_plan blake tx owner a nonce r amount i st = Inr asset"
    and run: "then_in (insert_atomic_asset_state blake a asset st) (\<lambda>_ st1. (Inr (), set_balance_opt blake None st1)) = (Inr u, st')"
    using insert_as_write [of blake a] by (auto simp: apply_claim_def try_in_Inr)
  from assms(1) plan show ?thesis
  proof (rule claim_plan_step)
    fix x p p'
    assume *: "asset_option st a = Some x" "as_asset_class x = Liquidity" "as_liquidity x = Some p"
      "pl_pool_nonce p = nonce" "\<not> liquidity_sell_locked p" "fr_owner_id (pl_fee_recipients p ! unat r) = owner"
      "pool_claim p (unat r) (unat amount) p'" "asset = x\<lparr>as_liquidity := Some p'\<rparr>"
    show ?thesis
      unfolding view_write_asset [OF run] *(8)
      by (rule token_step.claim [OF _ *(2-7)]) (simp add: *(1))
  qed
qed

lemma has_asset_None: "\<not> has_asset st a \<longleftrightarrow> asset_option st a = None"
  by (simp add: has_asset_def)

lemma apply_create_refines:
  assumes "apply_create_asset blake t (standard_asset ctx owner version dec mode cap authority name symbol metadata tag 0) st
      = (Inr u, st')"
  shows "token_step t owner ctx (CreateAsset version dec mode cap authority name symbol metadata tag)
    (token_view_of st) (token_view_of st')"
proof -
  let ?x = "standard_asset ctx owner version dec mode cap authority name symbol metadata tag 0"
  have new: "asset_option st t = None"
    and run: "then_in (insert_atomic_asset_state blake t ?x st) (\<lambda>_ st1. (Inr (), set_balance_opt blake None st1)) = (Inr u, st')"
    using assms insert_as_write [of blake t]
    by (auto simp: apply_create_asset_def has_asset_None [symmetric] split: if_splits)
  show ?thesis
    unfolding view_write_asset [OF run] by (rule token_step.create) (simp add: new)
qed

lemma apply_create_with_mint_refines:
  assumes "apply_create_asset_with_mint blake t mode cap amount to_owner
      (standard_asset ctx owner version dec mode cap authority name symbol metadata tag) st = (Inr u, st')"
  shows "token_step t owner ctx (CreateAssetWithMint version dec mode cap authority name symbol metadata amount to_owner tag)
    (token_view_of st) (token_view_of st')"
proof -
  let ?x = "standard_asset ctx owner version dec mode cap authority name symbol metadata tag"
  from assms obtain s pending where new: "asset_option st t = None" and mint: "initial_mint t mode cap amount to_owner st = Inr (s, pending)"
    and run: "then_in (insert_atomic_asset_state blake t (?x s) st) (\<lambda>_ st1. (Inr (), set_balance_opt blake pending st1)) = (Inr u, st')"
    by (auto simp: apply_create_asset_with_mint_def has_asset_None [symmetric] try_in_Inr split: if_splits)
  have s: "s = amount" "mode = Capped \<longrightarrow> amount \<le> cap"
    using mint initial_mint_cap [OF mint] by (auto simp: initial_mint_def Let_def result_simps word_gt_0 split: if_splits)
  have "token_view_of st' = credit t to_owner (unat amount) (put_asset t (?x amount) (token_view_of st))"
  proof (cases pending)
    case None
    then have "amount = 0" using mint by (auto simp: initial_mint_def Let_def result_simps word_gt_0 split: if_splits)
    then show ?thesis using view_write_asset [OF run [unfolded None]] by (simp add: s credit_zero)
  next
    case (Some w)
    obtain key after where w: "w = (key, after)" by fastforce
    have "key = \<lparr>bk_asset_id = t, bk_owner_id = to_owner\<rparr>" "unat after = unat (balance st key) + unat amount"
      using mint Some w by (auto simp: initial_mint_def Let_def result_simps checked_iff split: if_splits)
    from view_write(1) [OF run [unfolded Some w] this] show ?thesis by (simp add: s)
  qed
  then show ?thesis using token_step.create_with_mint [of "token_view_of st" t mode amount cap] new s(2) by simp
qed

lemma apply_create_liquidity_refines:
  assumes "apply_create_liquidity_asset blake t
      (\<lambda>st. create_liquidity_plan blake ctx tx t owner st version curve mode cpay bps dec cap name symbol metadata
        seed fee rs launch launch_min tag unlock) st = (Inr u, st')"
  shows "token_step t owner ctx (CreateLiquidityAsset version curve mode cpay bps dec cap name symbol metadata seed fee rs
    launch launch_min tag unlock) (token_view_of st) (token_view_of st')"
proof -
  from assms obtain x pending where new: "asset_option st t = None"
    and plan: "create_liquidity_plan blake ctx tx t owner st version curve mode cpay bps dec cap name symbol metadata
        seed fee rs launch launch_min tag unlock = Inr (x, pending)"
    and run: "then_in (insert_atomic_asset_state blake t x st) (\<lambda>_ st1. (Inr (), set_balance_opt blake pending st1)) = (Inr u, st')"
    by (auto simp: apply_create_liquidity_asset_def has_asset_None [symmetric] try_in_Inr split: if_splits)
  from plan show ?thesis
  proof (rule create_liquidity_plan_step)
    fix p
    assume *: "as_asset_class x = Liquidity" "as_liquidity x = Some p" "as_creator_owner_id x = owner" "as_max_supply x = cap"
      "unat (as_total_supply x) + unat (pl_real_token_reserves p) = unat cap" "launch = 0 \<longrightarrow> as_total_supply x = 0"
      and pending: "case pending of None \<Rightarrow> as_total_supply x = 0
       | Some (key, after) \<Rightarrow> key = \<lparr>bk_asset_id = t, bk_owner_id = owner\<rparr>
         \<and> unat after = unat (balance st key) + unat (as_total_supply x)"
    have "token_view_of st' = credit t owner (unat (as_total_supply x)) (put_asset t x (token_view_of st))"
    proof (cases pending)
      case None
      then show ?thesis using pending view_write_asset [OF run [unfolded None]] by (simp add: credit_zero)
    next
      case (Some w)
      obtain key after where w: "w = (key, after)" by fastforce
      have key: "key = \<lparr>bk_asset_id = t, bk_owner_id = owner\<rparr>" "unat after = unat (balance st key) + unat (as_total_supply x)"
        using pending by (auto simp: Some w)
      show ?thesis by (rule view_write(1) [OF run [unfolded Some w] key])
    qed
    then show ?thesis using token_step.create_liquidity [OF _ *, of "token_view_of st" t] new by simp
  qed
qed

lemma apply_atomic_op_refines:
  assumes "wf_core blake st" "apply_atomic_op_to_state blake tx t owner op ctx st = (Inr u, st')"
  shows "token_step t owner ctx op (token_view_of st) (token_view_of st')"
  using assms(2) unfolding apply_atomic_op_to_state_def
  by (cases op)
    (simp_all add: apply_create_refines apply_create_with_mint_refines apply_create_liquidity_refines apply_transfer_refines
      apply_mint_refines apply_burn_refines apply_buy_refines [OF assms(1)] apply_sell_refines [OF assms(1)]
      apply_claim_refines [OF assms(1)])

end
