(* ===== verification/Atomic_Example.thy ===== *)
theory Atomic_Example
  imports Atomic_Check
begin

text \<open>
  A concrete ledger and a concrete transaction. The ledger holds one standard asset with a supply
  of 20 units, all owned by one owner; the transaction burns 9 of them. The hash is a constant
  function, which is enough for the hypotheses of the theorems: none of them asks the hash for more
  than a length of 32 bytes. The lemmas evaluate the consensus code on them piece by piece and are
  what the witnesses of the later theories stand on.
\<close>

section \<open>Definitions\<close>

definition example_hash :: "bytes \<Rightarrow> hash32" where
  "example_hash _ = replicate 32 5"

definition example_script :: script_public_key where
  "example_script = \<lparr>spk_version = 0, spk_script = [0x20] @ replicate 32 9 @ [0xac]\<rparr>"

definition example_token :: asset_state where
  "example_token =
     \<lparr>as_creator_owner_id = replicate 32 5, as_asset_class = Standard, as_token_version = 1,
      as_mint_authority_owner_id = replicate 32 5, as_decimals = 8, as_supply_mode = UncappedSupply,
      as_max_supply = 0, as_total_supply = 20, as_name = [84], as_symbol = [84], as_metadata = [],
      as_platform_tag = [], as_created_block_hash = None, as_created_daa_score = None,
      as_created_at = None, as_liquidity = None\<rparr>"

definition example_ledger :: atomic_state where
  "example_ledger = atomic_state_default
     \<lparr>st_assets := [(replicate 32 7, example_token)],
      st_balances := [(\<lparr>bk_asset_id = replicate 32 7, bk_owner_id = replicate 32 5\<rparr>, 20)],
      st_anchor_counts := [(replicate 32 5, 1)]\<rparr>"

definition example_burn_payload :: bytes where
  "example_burn_payload =
     [0x43, 0x41, 0x54, 1, 3, 0, 0, 0, 1, 0, 0, 0, 0, 0, 0, 0] @ replicate 32 7 @ [9] @ replicate 15 0"

definition example_burn_tx :: populated_tx where
  "example_burn_tx =
     \<lparr>ptx = \<lparr>tx_version = 0,
        tx_inputs = [\<lparr>previous_outpoint = \<lparr>outpoint_tx = replicate 32 1, outpoint_index = 0\<rparr>,
          signature_script = [], sequence = 0, sig_op_count = 1\<rparr>],
        tx_outputs = [\<lparr>output_value = 900, output_spk = example_script\<rparr>], lock_time = 0,
        subnetwork_id = SUBNETWORK_ID_PAYLOAD, gas = 0, tx_payload = example_burn_payload, tx_mass = 0,
        tx_id = replicate 32 3\<rparr>,
      ptx_entries = [\<lparr>entry_amount = 1000, entry_spk = example_script, entry_daa_score = 0, entry_is_coinbase = False\<rparr>]\<rparr>"

definition example_env :: atomic_env where
  "example_env = \<lparr>env_payload_hf_activation_daa_score = 0,
     env_growth_limits = \<lparr>gl_max_new_assets = 4, gl_max_new_balance_keys = 4, gl_max_new_nonce_keys = 4,
       gl_max_new_pools = 4, gl_max_new_anchor_owner_keys = 4\<rparr>\<rparr>"

definition example_full_env :: atomic_env where
  "example_full_env = \<lparr>env_payload_hf_activation_daa_score = 0,
     env_growth_limits = \<lparr>gl_max_new_assets = 0, gl_max_new_balance_keys = 0, gl_max_new_nonce_keys = 0,
       gl_max_new_pools = 0, gl_max_new_anchor_owner_keys = 0\<rparr>\<rparr>"

definition example_context :: creation_context where
  "example_context = \<lparr>cc_source_block_hash = replicate 32 0, cc_source_block_daa_score = 0, cc_source_block_time = 0\<rparr>"

section \<open>Evaluation\<close>

lemma example_ledger_checked: "in_memory example_ledger" "validate_normalized example_hash example_ledger = Inr ()"
proof -
  show "in_memory example_ledger" by (simp add: in_memory_def example_ledger_def atomic_state_default_def)
  show "validate_normalized example_hash example_ledger = Inr ()" by code_simp
qed

lemma example_lookups:
  "asset_option example_ledger = [replicate 32 7 \<mapsto> example_token]"
  "balance_option example_ledger = [\<lparr>bk_asset_id = replicate 32 7, bk_owner_id = replicate 32 5\<rparr> \<mapsto> 20]"
  "nonce_option example_ledger = (\<lambda>_. None)"
  "anchor_count_option example_ledger = [replicate 32 5 \<mapsto> 1]"
  "vault_asset example_ledger = (\<lambda>_. None)"
  by (simp_all add: in_memory_lookups [OF example_ledger_checked(1)])
    (simp_all add: example_ledger_def atomic_state_default_def)

lemma example_burn_parsed:
  "parse_atomic_payload example_burn_payload
     = Inr (Some \<lparr>auth_input_index = 0, payload_nonce = 1, payload_op = Burn (replicate 32 7) 9\<rparr>)"
  by code_simp

lemma example_owner: "atomic_owner_id_from_script example_hash example_script = Some (replicate 32 5)"
proof -
  have "from_script example_script = PubKey" by code_simp
  then show ?thesis
    by (simp add: atomic_owner_id_from_script_def canonical_atomic_owner_identity_def)
      (simp add: example_script_def example_hash_def)
qed

lemma example_burn_inputs:
  "populated_inputs example_burn_tx = [(\<lparr>previous_outpoint = \<lparr>outpoint_tx = replicate 32 1, outpoint_index = 0\<rparr>,
          signature_script = [], sequence = 0, sig_op_count = 1\<rparr>,
      \<lparr>entry_amount = 1000, entry_spk = example_script, entry_daa_score = 0, entry_is_coinbase = False\<rparr>)]"
  by (simp add: populated_inputs_def example_burn_tx_def)

lemma example_burn_outputs: "tx_outputs (ptx example_burn_tx) = [\<lparr>output_value = 900, output_spk = example_script\<rparr>]"
  by (simp add: example_burn_tx_def)

lemma example_burn_checked:
  "collect_spent_liquidity_vault_inputs example_burn_tx example_ledger = Inr []"
  "burn_plan (replicate 32 5) (replicate 32 7) 9 example_ledger
     = Inr (example_token\<lparr>as_total_supply := 11\<rparr>, \<lparr>bk_asset_id = replicate 32 7, bk_owner_id = replicate 32 5\<rparr>, 11)"
  by code_simp+

lemma example_burn_transition:
  "check_transition example_hash example_burn_tx []
     \<lparr>auth_input_index = 0, payload_nonce = 1, payload_op = Burn (replicate 32 7) 9\<rparr> example_ledger
     = Inr (replicate 32 5, nonce_key_asset (replicate 32 5) (replicate 32 7), 2)"
proof -
  have outs: "tx_outputs (ptx example_burn_tx) = [\<lparr>output_value = 900, output_spk = example_script\<rparr>]"
    by (simp add: example_burn_tx_def)
  have vault: "vault_output_count (ptx example_burn_tx) = 0" by code_simp
  have nonce: "next_nonce example_ledger k = 1" for k by (simp add: next_nonce_def example_lookups)
  have two: "checked_add (1 :: u64) 1 = Some 2" by (simp add: checked_iff)
  show ?thesis
    by (simp add: check_transition_def resolve_atomic_owner_from_populated_tx_def example_burn_inputs example_owner
        Let_def nonce two vault validate_replacement_anchor_def outs atomic_nonce_key_for_op_def op_creates_liquidity_def)
qed

lemma example_ledger_ok: "ledger_ok example_hash example_ledger"
  using validate_normalized_wf_state [OF example_ledger_checked] by (simp add: ledger_ok_def example_lookups)

lemma example_fresh: "fresh_tx example_ledger t"
  by (simp add: fresh_tx_def example_lookups)

lemma example_burn_id: "tx_id (ptx example_burn_tx) = replicate 32 3"
  by (simp add: example_burn_tx_def)

lemma example_burn_accepted:
  "\<exists>st. validate_and_apply_atomic_state_transition example_hash example_env example_burn_tx 0 example_context example_ledger
     = (Inr (), st)"
proof -
  have "vault_free example_ledger (replicate 32 7) (example_token\<lparr>as_total_supply := 11\<rparr>)"
    by (simp add: vault_free_def example_lookups)
  then obtain st1 where set: "set_asset example_hash (replicate 32 7) (example_token\<lparr>as_total_supply := 11\<rparr>) example_ledger
      = (Inr (), st1)"
    using set_asset_ok [of "example_token\<lparr>as_total_supply := 11\<rparr>"] by (force simp: example_token_def)
  have flags: "is_payload_hf_active example_env 0" "is_payload (subnetwork_id (ptx example_burn_tx))"
    "tx_payload (ptx example_burn_tx) = example_burn_payload" "example_burn_payload \<noteq> []"
    by (simp_all add: is_payload_hf_active_def is_payload_def example_env_def example_burn_tx_def example_burn_payload_def)
  show ?thesis
    by (simp add: validate_and_apply_atomic_state_transition_def try_in_def flags example_burn_checked
        example_burn_parsed example_burn_transition apply_atomic_op_to_state_def apply_burn_def insert_atomic_asset_state_def
        set then_in_def)
qed

lemma example_burn_growth:
  assumes "env_payload_hf_activation_daa_score env = 0"
  shows "estimate_atomic_state_growth_for_tx example_hash env example_burn_tx 0 example_ledger
     = Inr (growth_default\<lparr>gr_new_nonce_keys := 1\<rparr>)"
proof -
  have flags: "is_payload_hf_active env 0" "is_payload (subnetwork_id (ptx example_burn_tx))"
    "tx_payload (ptx example_burn_tx) = example_burn_payload" "example_burn_payload \<noteq> []"
    "tx_outputs (ptx example_burn_tx) = [\<lparr>output_value = 900, output_spk = example_script\<rparr>]"
    by (simp_all add: assms is_payload_hf_active_def is_payload_def example_burn_tx_def example_burn_payload_def)
  have "new_anchor_owners example_hash (ptx example_burn_tx) example_ledger = []"
    by (simp add: new_anchor_owners_def flags List.map_filter_simps example_owner has_anchor_count_def example_lookups)
  then show ?thesis
    by (simp add: estimate_atomic_state_growth_for_tx_def flags example_burn_parsed Let_def
        resolve_atomic_owner_from_populated_tx_def example_burn_inputs example_owner growth_of_op_def has_nonce_def
        example_lookups growth_default_def)
qed

lemma example_burn_kept:
  "\<exists>st. validate_and_apply_atomic_state_transition_with_growth example_hash example_env example_burn_tx 0 example_context
     example_ledger growth_default = (Inr (), st, growth_default\<lparr>gr_new_nonce_keys := 1\<rparr>)"
proof -
  have estimate: "estimate_atomic_state_growth_for_tx example_hash example_env example_burn_tx 0 example_ledger
     = Inr (growth_default\<lparr>gr_new_nonce_keys := 1\<rparr>)" by (rule example_burn_growth) (simp add: example_env_def)
  have room: "ensure_can_add growth_default (growth_default\<lparr>gr_new_nonce_keys := 1\<rparr>) (env_growth_limits example_env) = Inr ()"
    by code_simp
  have commit: "commit_growth (growth_default\<lparr>gr_new_nonce_keys := 1\<rparr>) growth_default = growth_default\<lparr>gr_new_nonce_keys := 1\<rparr>"
    by code_simp
  obtain st where "validate_and_apply_atomic_state_transition example_hash example_env example_burn_tx 0 example_context
      example_ledger = (Inr (), st)" using example_burn_accepted by blast
  then show ?thesis
    by (simp add: validate_and_apply_atomic_state_transition_with_growth_def estimate room commit)
qed

lemma example_burn_refused:
  "\<exists>e. validate_and_apply_atomic_state_transition_with_growth example_hash example_full_env example_burn_tx 0 example_context
     example_ledger growth_default = (Inl e, example_ledger, growth_default)"
proof -
  have estimate: "estimate_atomic_state_growth_for_tx example_hash example_full_env example_burn_tx 0 example_ledger
     = Inr (growth_default\<lparr>gr_new_nonce_keys := 1\<rparr>)" by (rule example_burn_growth) (simp add: example_full_env_def)
  have "res_ok (ensure_can_add growth_default (growth_default\<lparr>gr_new_nonce_keys := 1\<rparr>) (env_growth_limits example_full_env)) = None"
    by code_simp
  then show ?thesis
    by (cases "ensure_can_add growth_default (growth_default\<lparr>gr_new_nonce_keys := 1\<rparr>) (env_growth_limits example_full_env)")
      (simp_all add: validate_and_apply_atomic_state_transition_with_growth_def estimate)
qed

section \<open>The consistency check of imported states\<close>

text \<open>C15. The consistency check a node runs on a token state it receives from a peer accepts exactly the
  states that satisfy the ledger invariant: for a state held in memory, \<open>validate_normalized\<close> succeeds if and
  only if every asset, pool, balance, nonce and anchor entry is well formed, the balances of every asset sum
  to its total supply and the vault index lists exactly the vaults of the pools.\<close>

theorem validate_normalized_iff:
  assumes "in_memory st"
  shows "validate_normalized blake st = Inr () \<longleftrightarrow> wf_state blake st"
  using validate_normalized_wf_state [OF assms] wf_state_validate_normalized [OF assms] by blast

theorem validate_normalized_iff_witness:
  "in_memory example_ledger \<and> wf_state example_hash example_ledger"
  using validate_normalized_iff [of example_ledger example_hash] example_ledger_checked by simp

end
