(* ===== verification/Token_Safety.thy ===== *)
theory Token_Safety
  imports Token_Refine Atomic_Example
begin

text \<open>
  What an owner can rely on. A transaction is related to the abstract ledger through the operation its payload
  carries and the owner whose output it spends; runs of accepted transactions are an inductive relation. The
  properties are about who can lose tokens, who can mint, replays of a payload and the supply of every asset.
\<close>

section \<open>Payloads and runs\<close>

definition token_payload :: "atomic_env \<Rightarrow> populated_tx \<Rightarrow> u64 \<Rightarrow> parsed_atomic_payload option" where
  "token_payload env tx score =
     (if \<not> is_payload_hf_active env score \<or> \<not> is_payload (subnetwork_id (ptx tx)) \<or> tx_payload (ptx tx) = [] then None
      else case parse_atomic_payload (tx_payload (ptx tx)) of Inr p \<Rightarrow> p | Inl _ \<Rightarrow> None)"

inductive ledger_run :: "(bytes \<Rightarrow> hash32) \<Rightarrow> atomic_state \<Rightarrow> atomic_state \<Rightarrow> bool" for blake where
  start: "ledger_run blake st st"
| step: "ledger_run blake st st1 \<Longrightarrow> fresh_tx st1 (tx_id (ptx tx)) \<Longrightarrow> tx_id (ptx tx) \<noteq> replicate 32 0 \<Longrightarrow>
    validate_and_apply_atomic_state_transition blake env tx score ctx st1 = (Inr (), st2) \<Longrightarrow> ledger_run blake st st2"

section \<open>Transactions on the abstract ledger\<close>

lemma set_balance_opt_views [view_simps]:
  "nonce_option (set_balance_opt blake w st) = nonce_option st"
  "anchor_count_option (set_balance_opt blake w st) = anchor_count_option st"
  by (auto simp: set_balance_opt_def view_simps split: option.splits)

lemma op_keeps_nonces:
  assumes "apply_atomic_op_to_state blake tx t owner op ctx st = (Inr u, st')"
  shows "nonce_option st' = nonce_option st" "anchor_count_option st' = anchor_count_option st"
proof -
  have both: "nonce_option s' = nonce_option s \<and> anchor_count_option s' = anchor_count_option s"
    if "then_in (insert_atomic_asset_state blake a x s) (\<lambda>_ st1. (Inr (), set_balance_opt blake w st1)) = (Inr u, s')"
    for a x w s s' u
    using that set_asset_views
    by (auto simp: then_in_def insert_atomic_asset_state_def set_balance_opt_def view_simps result_simps
        split: prod.splits sum.splits option.splits)
  have insert: "nonce_option s' = nonce_option s \<and> anchor_count_option s' = anchor_count_option s"
    if "insert_atomic_asset_state blake a x s = (Inr u, s')" for a x s s' u
    using both [of a x s None u s'] insert_as_write [of blake a x s] that by simp
  have "nonce_option st' = nonce_option st \<and> anchor_count_option st' = anchor_count_option st"
    using assms unfolding apply_atomic_op_to_state_def
    by (cases op)
      (auto simp: apply_create_asset_def apply_create_asset_with_mint_def apply_create_liquidity_asset_def apply_transfer_def
        apply_mint_def apply_burn_def apply_buy_def apply_sell_def apply_claim_def set_balance_zero Let_def try_in_Inr view_simps
        set_balance_opt_Some dest: both insert split: if_splits)
  then show "nonce_option st' = nonce_option st" "anchor_count_option st' = anchor_count_option st" by simp_all
qed

lemma token_payload_None:
  assumes "token_payload env tx score = None"
    "validate_and_apply_atomic_state_transition blake env tx score ctx st = (Inr u, st')"
  shows "st' = apply_anchor_deltas_to_atomic_state blake tx st"
  using assms
  by (auto simp: token_payload_def validate_and_apply_atomic_state_transition_def try_in_Inr without_payload_def map_err_Inr_iff
      split: if_splits sum.splits)

lemma token_payload_Some:
  assumes "token_payload env tx score = Some p"
    "validate_and_apply_atomic_state_transition blake env tx score ctx st = (Inr u, st')"
  obtains owner n st1 where "resolve_atomic_owner_from_populated_tx blake tx (auth_input_index p) = Inr owner"
    "payload_nonce p = next_nonce st (atomic_nonce_key_for_op owner (payload_op p))" "checked_add (payload_nonce p) 1 = Some n"
    "validate_replacement_anchor blake tx owner st = Inr ()"
    "apply_atomic_op_to_state blake tx (tx_id (ptx tx)) owner (payload_op p) ctx st = (Inr (), st1)"
    "st' = apply_anchor_deltas_to_atomic_state blake tx (set_next_nonce blake (atomic_nonce_key_for_op owner (payload_op p)) n st1)"
proof -
  have parsed: "parse_atomic_payload (tx_payload (ptx tx)) = Inr (Some p)"
    and on: "\<not> (\<not> is_payload_hf_active env score \<or> \<not> is_payload (subnetwork_id (ptx tx)) \<or> tx_payload (ptx tx) = [])"
    using assms(1) by (auto simp: token_payload_def split: if_splits sum.splits)
  show thesis
    using assms(2) that on parsed
    by (auto simp: validate_and_apply_atomic_state_transition_def try_in_Inr then_in_Inr check_transition_def Let_def result_simps
        split: prod.splits)
qed

lemma anchor_deltas_token_view: "token_view_of (apply_anchor_deltas_to_atomic_state blake tx st) = token_view_of st"
  by (simp add: token_view_of_def view_simps balance_def)

lemma set_next_nonce_token_view: "token_view_of (set_next_nonce blake k n st) = token_view_of st"
  by (simp add: token_view_of_def view_simps balance_def)

lemma transition_steps:
  assumes "wf_core blake st" "token_payload env tx score = Some p"
    "validate_and_apply_atomic_state_transition blake env tx score ctx st = (Inr u, st')"
  obtains owner where "resolve_atomic_owner_from_populated_tx blake tx (auth_input_index p) = Inr owner"
    "payload_nonce p = next_nonce st (atomic_nonce_key_for_op owner (payload_op p))"
    "next_nonce st' = (next_nonce st)(atomic_nonce_key_for_op owner (payload_op p) := payload_nonce p + 1)"
    "unat (payload_nonce p + 1) = unat (payload_nonce p) + 1"
    "token_step (tx_id (ptx tx)) owner ctx (payload_op p) (token_view_of st) (token_view_of st')"
  using assms(2,3)
proof (rule token_payload_Some)
  fix owner n st1
  let ?k = "atomic_nonce_key_for_op owner (payload_op p)"
  assume owner: "resolve_atomic_owner_from_populated_tx blake tx (auth_input_index p) = Inr owner"
    and nonce: "payload_nonce p = next_nonce st ?k" "checked_add (payload_nonce p) 1 = Some n"
    and run: "apply_atomic_op_to_state blake tx (tx_id (ptx tx)) owner (payload_op p) ctx st = (Inr (), st1)"
    and st': "st' = apply_anchor_deltas_to_atomic_state blake tx (set_next_nonce blake ?k n st1)"
  have n: "unat n = unat (payload_nonce p) + 1" using nonce(2) by (simp add: checked_iff)
  have plus: "n = payload_nonce p + 1" using nonce(2) by (simp add: checked_add_def split: if_splits)
  have "2 \<le> n" using next_nonce_pos [OF assms(1)] nonce by simp
  then have "next_nonce st' = (next_nonce st)(?k := n)"
    using op_keeps_nonces(1) [OF run] by (auto simp: st' next_nonce_def view_simps fun_eq_iff)
  moreover have "token_step (tx_id (ptx tx)) owner ctx (payload_op p) (token_view_of st) (token_view_of st')"
    using apply_atomic_op_refines [OF assms(1) run] by (simp add: st' anchor_deltas_token_view set_next_nonce_token_view)
  ultimately show thesis using that [OF owner nonce(1)] n unfolding plus by blast
qed

lemma transition_idle:
  assumes "token_payload env tx score = None" "validate_and_apply_atomic_state_transition blake env tx score ctx st = (Inr u, st')"
  shows "token_view_of st' = token_view_of st" "next_nonce st' = next_nonce st"
  unfolding token_payload_None [OF assms] by (simp_all add: anchor_deltas_token_view next_nonce_def view_simps fun_eq_iff)

lemma transition_nonces_grow:
  assumes "wf_core blake st" "validate_and_apply_atomic_state_transition blake env tx score ctx st = (Inr u, st')"
  shows "next_nonce st k \<le> next_nonce st' k"
proof (cases "token_payload env tx score")
  case None
  then show ?thesis using transition_idle(2) assms(2) by simp
next
  case (Some p)
  from assms(1) Some assms(2) show ?thesis
  proof (rule transition_steps)
    fix owner
    assume "payload_nonce p = next_nonce st (atomic_nonce_key_for_op owner (payload_op p))"
      "next_nonce st' = (next_nonce st)(atomic_nonce_key_for_op owner (payload_op p) := payload_nonce p + 1)"
      "unat (payload_nonce p + 1) = unat (payload_nonce p) + 1"
    then show ?thesis by (simp add: word_le_nat_alt)
  qed
qed

lemma run_ledger_ok: "ledger_run blake st st' \<Longrightarrow> ledger_ok blake st \<Longrightarrow> ledger_ok blake st'"
proof (induction rule: ledger_run.induct)
  case (step st st1 tx env score ctx st2)
  then show ?case using transition_keeps [of blake st1 tx env score ctx] by (simp add: keeps_ledger_def)
qed

lemma run_nonces_grow: "ledger_run blake st st' \<Longrightarrow> ledger_ok blake st \<Longrightarrow> next_nonce st k \<le> next_nonce st' k"
proof (induction rule: ledger_run.induct)
  case (step st st1 tx env score ctx st2)
  have "next_nonce st1 k \<le> next_nonce st2 k"
    by (rule transition_nonces_grow [OF ledger_ok_core [OF run_ledger_ok] step(4)]) (use step in simp_all)
  then show ?case using step by (simp add: order_trans)
qed simp

lemma stale_nonce_refused:
  assumes "token_payload env tx score = Some p" "resolve_atomic_owner_from_populated_tx blake tx (auth_input_index p) = Inr owner"
    "payload_nonce p < next_nonce st (atomic_nonce_key_for_op owner (payload_op p))"
  shows "\<exists>e. validate_and_apply_atomic_state_transition blake env tx score ctx st = (Inl e, st)"
proof -
  have parsed: "parse_atomic_payload (tx_payload (ptx tx)) = Inr (Some p)"
    and on: "\<not> (\<not> is_payload_hf_active env score \<or> \<not> is_payload (subnetwork_id (ptx tx)) \<or> tx_payload (ptx tx) = [])"
    using assms(1) by (auto simp: token_payload_def split: if_splits sum.splits)
  have "check_transition blake tx vaults p st = Inl (op_err NonceBaselineViolation)" for vaults
    using assms(2,3) by (auto simp: check_transition_def Let_def)
  then show ?thesis
    using on parsed
    by (cases "collect_spent_liquidity_vault_inputs tx st")
      (simp_all add: validate_and_apply_atomic_state_transition_def try_in_def)
qed

section \<open>The example\<close>

lemma example_payload:
  "token_payload example_env example_burn_tx 0
     = Some \<lparr>auth_input_index = 0, payload_nonce = 1, payload_op = Burn (replicate 32 7) 9\<rparr>"
proof -
  have "is_payload_hf_active example_env 0" "is_payload (subnetwork_id (ptx example_burn_tx))"
    "tx_payload (ptx example_burn_tx) = example_burn_payload" "example_burn_payload \<noteq> []"
    by (simp_all add: is_payload_hf_active_def is_payload_def example_env_def example_burn_tx_def example_burn_payload_def)
  then show ?thesis by (simp add: token_payload_def example_burn_parsed)
qed

lemma example_resolved: "resolve_atomic_owner_from_populated_tx example_hash example_burn_tx 0 = Inr (replicate 32 5)"
  by (simp add: resolve_atomic_owner_from_populated_tx_def example_burn_inputs example_owner)

lemma example_burn_effect:
  assumes "validate_and_apply_atomic_state_transition example_hash example_env example_burn_tx 0 example_context example_ledger
     = (Inr (), st)"
  shows "balance st \<lparr>bk_asset_id = replicate 32 7, bk_owner_id = replicate 32 5\<rparr> = 11"
    "asset_option st (replicate 32 7) \<noteq> None"
proof -
  from ledger_ok_core [OF example_ledger_ok] example_payload assms
  have step: "token_step (tx_id (ptx example_burn_tx)) (replicate 32 5) example_context (Burn (replicate 32 7) 9)
      (token_view_of example_ledger) (token_view_of st)"
    by (rule transition_steps) (simp add: example_resolved)
  have "tv_balance (token_view_of st) (replicate 32 7) (replicate 32 5)
      = unat (balance example_ledger \<lparr>bk_asset_id = replicate 32 7, bk_owner_id = replicate 32 5\<rparr>) - 9"
    using step by (rule burn_stepE) (simp add: ledger_views)
  then show "balance st \<lparr>bk_asset_id = replicate 32 7, bk_owner_id = replicate 32 5\<rparr> = 11"
    by (simp add: balance_def [of example_ledger] example_lookups word_as_nat)
  have "tv_asset (token_view_of st) (replicate 32 7) \<noteq> None"
    using step by (rule burn_stepE) (simp add: ledger_views)
  then show "asset_option st (replicate 32 7) \<noteq> None" by simp
qed

section \<open>Properties\<close>

text \<open>C1. The consensus code implements the abstract ledger: on a well-formed ledger, an accepted transaction
  without a token payload leaves assets, balances and nonces alone, and one with a payload makes exactly the step
  of its operation, signed by the owner of the output it spends, with the nonce that was due, which then advances
  by one.\<close>

theorem accepted_transition_refines_token_spec:
  assumes "ledger_ok blake st" "validate_and_apply_atomic_state_transition blake env tx score ctx st = (Inr (), st')"
  shows "case token_payload env tx score of
      None \<Rightarrow> token_view_of st' = token_view_of st \<and> next_nonce st' = next_nonce st
    | Some p \<Rightarrow> \<exists>owner key.
        resolve_atomic_owner_from_populated_tx blake tx (auth_input_index p) = Inr owner
        \<and> key = atomic_nonce_key_for_op owner (payload_op p) \<and> next_nonce st key = payload_nonce p
        \<and> next_nonce st' = (next_nonce st)(key := payload_nonce p + 1)
        \<and> token_step (tx_id (ptx tx)) owner ctx (payload_op p) (token_view_of st) (token_view_of st')"
proof (cases "token_payload env tx score")
  case None
  then show ?thesis using transition_idle assms(2) by simp
next
  case (Some p)
  from ledger_ok_core [OF assms(1)] Some assms(2) show ?thesis
    by (rule transition_steps) (simp add: Some)
qed

theorem accepted_transition_refines_token_spec_witness:
  "\<exists>st. validate_and_apply_atomic_state_transition example_hash example_env example_burn_tx 0 example_context example_ledger
      = (Inr (), st)
    \<and> token_step (replicate 32 3) (replicate 32 5) example_context (Burn (replicate 32 7) 9) (token_view_of example_ledger)
        (token_view_of st)"
proof -
  obtain st where "validate_and_apply_atomic_state_transition example_hash example_env example_burn_tx 0 example_context
      example_ledger = (Inr (), st)" using example_burn_accepted by blast
  with accepted_transition_refines_token_spec [OF example_ledger_ok this] show ?thesis
    by (simp add: example_payload example_resolved example_burn_id)
qed

text \<open>C3. Nobody loses tokens without signing: if an accepted transaction lowers the balance of a holder in any
  asset, then the transaction carries a token payload and the input the payload names spends an output whose
  script belongs to that holder.\<close>

theorem only_signer_loses_tokens:
  assumes "ledger_ok blake st" "validate_and_apply_atomic_state_transition blake env tx score ctx st = (Inr (), st')"
    "balance st' \<lparr>bk_asset_id = a, bk_owner_id = holder\<rparr> < balance st \<lparr>bk_asset_id = a, bk_owner_id = holder\<rparr>"
  shows "\<exists>p. token_payload env tx score = Some p \<and> unat (auth_input_index p) < length (populated_inputs tx)
    \<and> atomic_owner_id_from_script blake (entry_spk (snd (populated_inputs tx ! unat (auth_input_index p)))) = Some holder"
proof (cases "token_payload env tx score")
  case None
  have "tv_balance (token_view_of st') a holder = tv_balance (token_view_of st) a holder"
    by (simp only: transition_idle(1) [OF None assms(2)])
  then show ?thesis using assms(3) by (simp add: word_less_nat_alt)
next
  case (Some p)
  from ledger_ok_core [OF assms(1)] Some assms(2) show ?thesis
  proof (rule transition_steps)
    fix owner
    assume owner: "resolve_atomic_owner_from_populated_tx blake tx (auth_input_index p) = Inr owner"
      and step: "token_step (tx_id (ptx tx)) owner ctx (payload_op p) (token_view_of st) (token_view_of st')"
    have "holder = owner"
      using token_step_holder [OF step, of holder a] assms(3) by (auto simp: word_less_nat_alt)
    then show ?thesis
      using owner by (auto simp: Some resolve_atomic_owner_from_populated_tx_def result_simps split: if_splits)
  qed
qed

theorem only_signer_loses_tokens_witness:
  "\<exists>st. validate_and_apply_atomic_state_transition example_hash example_env example_burn_tx 0 example_context example_ledger
      = (Inr (), st)
    \<and> balance st \<lparr>bk_asset_id = replicate 32 7, bk_owner_id = replicate 32 5\<rparr>
      < balance example_ledger \<lparr>bk_asset_id = replicate 32 7, bk_owner_id = replicate 32 5\<rparr>
    \<and> atomic_owner_id_from_script example_hash (entry_spk (snd (populated_inputs example_burn_tx ! 0))) = Some (replicate 32 5)"
proof -
  obtain st where run: "validate_and_apply_atomic_state_transition example_hash example_env example_burn_tx 0 example_context
      example_ledger = (Inr (), st)" using example_burn_accepted by blast
  have "balance st \<lparr>bk_asset_id = replicate 32 7, bk_owner_id = replicate 32 5\<rparr>
      < balance example_ledger \<lparr>bk_asset_id = replicate 32 7, bk_owner_id = replicate 32 5\<rparr>"
    by (simp add: example_burn_effect(1) [OF run] balance_def [of example_ledger] example_lookups)
  with only_signer_loses_tokens [OF example_ledger_ok run this] run show ?thesis
    by (simp add: example_payload)
qed

text \<open>C8. Only the mint authority creates tokens of a standard asset: across an accepted transaction a standard
  asset stays and keeps every field but its supply, and the supply grows only by a mint operation of this asset
  that is signed by its mint authority, by exactly the minted amount.\<close>

theorem only_authority_mints:
  assumes "ledger_ok blake st" "validate_and_apply_atomic_state_transition blake env tx score ctx st = (Inr (), st')"
    "asset_option st a = Some x" "as_asset_class x = Standard"
  shows "\<exists>x'. asset_option st' a = Some x' \<and> x' = x\<lparr>as_total_supply := as_total_supply x'\<rparr>
    \<and> (as_total_supply x < as_total_supply x' \<longrightarrow>
        (\<exists>p to_owner amount. token_payload env tx score = Some p \<and> payload_op p = Mint a to_owner amount
          \<and> resolve_atomic_owner_from_populated_tx blake tx (auth_input_index p) = Inr (as_mint_authority_owner_id x)
          \<and> unat (as_total_supply x') = unat (as_total_supply x) + unat amount))"
proof (cases "token_payload env tx score")
  case None
  have "tv_asset (token_view_of st') = tv_asset (token_view_of st)"
    by (simp only: transition_idle(1) [OF None assms(2)])
  then show ?thesis using assms(3) by simp
next
  case (Some p)
  from ledger_ok_core [OF assms(1)] Some assms(2) show ?thesis
  proof (rule transition_steps)
    fix owner
    assume owner: "resolve_atomic_owner_from_populated_tx blake tx (auth_input_index p) = Inr owner"
      and step: "token_step (tx_id (ptx tx)) owner ctx (payload_op p) (token_view_of st) (token_view_of st')"
    show ?thesis
      using token_step_supply [OF step, of a x] assms(3,4) owner Some by auto
  qed
qed

theorem only_authority_mints_witness:
  "\<exists>st x'. validate_and_apply_atomic_state_transition example_hash example_env example_burn_tx 0 example_context example_ledger
      = (Inr (), st)
    \<and> asset_option st (replicate 32 7) = Some x' \<and> x' = example_token\<lparr>as_total_supply := as_total_supply x'\<rparr>"
proof -
  obtain st where run: "validate_and_apply_atomic_state_transition example_hash example_env example_burn_tx 0 example_context
      example_ledger = (Inr (), st)" using example_burn_accepted by blast
  with only_authority_mints [OF example_ledger_ok run, of "replicate 32 7" example_token] show ?thesis
    by (auto simp: example_lookups example_token_def)
qed

text \<open>C4. A payload cannot be replayed: once a transaction was accepted, no transaction with a nonce at or below
  its nonce in the same nonce scope is accepted at any later point of any run, in whatever transaction, block or
  environment it is wrapped.\<close>

theorem spent_nonce_never_accepted_again:
  assumes "ledger_ok blake st" "fresh_tx st (tx_id (ptx tx))" "tx_id (ptx tx) \<noteq> replicate 32 0"
    "validate_and_apply_atomic_state_transition blake env tx score ctx st = (Inr (), st')"
    "token_payload env tx score = Some p" "resolve_atomic_owner_from_populated_tx blake tx (auth_input_index p) = Inr owner"
    "ledger_run blake st' st2"
    "token_payload env2 tx2 score2 = Some p2" "resolve_atomic_owner_from_populated_tx blake tx2 (auth_input_index p2) = Inr owner2"
    "atomic_nonce_key_for_op owner2 (payload_op p2) = atomic_nonce_key_for_op owner (payload_op p)"
    "payload_nonce p2 \<le> payload_nonce p"
  shows "\<exists>e. validate_and_apply_atomic_state_transition blake env2 tx2 score2 ctx2 st2 = (Inl e, st2)"
proof -
  let ?k = "atomic_nonce_key_for_op owner (payload_op p)"
  have st': "ledger_ok blake st'" using transition_keeps [OF assms(1-3), of env score ctx] assms(4) by (simp add: keeps_ledger_def)
  from ledger_ok_core [OF assms(1)] assms(5,4) have "unat (next_nonce st' ?k) = unat (payload_nonce p) + 1"
    by (rule transition_steps) (use assms(6) in simp)
  then have "payload_nonce p2 < next_nonce st2 ?k"
    using run_nonces_grow [OF assms(7) st', of ?k] assms(11) by (simp add: word_le_nat_alt word_less_nat_alt)
  then show ?thesis using stale_nonce_refused [OF assms(8,9)] assms(10) by simp
qed

theorem spent_nonce_never_accepted_again_witness:
  "\<exists>st e. validate_and_apply_atomic_state_transition example_hash example_env example_burn_tx 0 example_context example_ledger
      = (Inr (), st)
    \<and> validate_and_apply_atomic_state_transition example_hash example_env example_burn_tx 0 example_context st = (Inl e, st)"
proof -
  obtain st where run: "validate_and_apply_atomic_state_transition example_hash example_env example_burn_tx 0 example_context
      example_ledger = (Inr (), st)" using example_burn_accepted by blast
  with spent_nonce_never_accepted_again [OF example_ledger_ok example_fresh _ run example_payload _ ledger_run.start example_payload]
  show ?thesis by (simp add: example_burn_id example_resolved)
qed

text \<open>C2. In every ledger that runs reach from a state that passed the import check, the balances of an asset
  are finitely many and sum to its total supply, a capped supply is within its cap, and the vault of a pool holds
  exactly its reserve and the fees its recipients have not claimed.\<close>

theorem supplies_match_on_every_run:
  assumes "in_memory st0" "validate_normalized blake st0 = Inr ()" "asset_option st0 (replicate 32 0) = None"
    "ledger_run blake st0 st" "asset_option st a = Some x"
  shows "finite (dom (holdings st a)) \<and> option_sum (holdings st a) = unat (as_total_supply x)
    \<and> (as_supply_mode x = CappedSupply \<longrightarrow> as_total_supply x \<le> as_max_supply x)
    \<and> (\<forall>p. as_liquidity x = Some p \<longrightarrow>
        unat (pl_vault_value_sompi p) = unat (pl_real_cpay_reserves_sompi p) + unclaimed_sum (pl_fee_recipients p))"
proof -
  have "ledger_ok blake st0" using validate_normalized_wf_state [OF assms(1,2)] assms(3) by (simp add: ledger_ok_def)
  then have ok: "ledger_ok blake st" by (rule run_ledger_ok [OF assms(4)])
  have x: "asset_ok blake x" by (rule wf_core_asset [OF ledger_ok_core [OF ok] assms(5)])
  have "excess st a = 0" "finite (dom (holdings st a))"
    using ok by (simp_all add: ledger_ok_def wf_state_def wf_core_def)
  then have "option_sum (holdings st a) = supply_of st a" "finite (dom (holdings st a))"
    by (simp_all add: excess_def)
  moreover have "unat (pl_vault_value_sompi p) = unat (pl_real_cpay_reserves_sompi p) + unclaimed_sum (pl_fee_recipients p)"
    if "as_liquidity x = Some p" for p
    using pool_vault_value [OF x _ that] pool_unclaimed [OF x _ that] asset_ok_pool [OF x] that by simp
  ultimately show ?thesis
    using capped_supply [OF x] by (simp add: supply_of_Some [OF assms(5)])
qed

theorem supplies_match_on_every_run_witness:
  "\<exists>st x. ledger_run example_hash example_ledger st \<and> st \<noteq> example_ledger \<and> asset_option st (replicate 32 7) = Some x
     \<and> option_sum (holdings st (replicate 32 7)) = unat (as_total_supply x)"
proof -
  obtain st where run: "validate_and_apply_atomic_state_transition example_hash example_env example_burn_tx 0 example_context
      example_ledger = (Inr (), st)" using example_burn_accepted by blast
  have ledger: "ledger_run example_hash example_ledger st"
    by (rule ledger_run.step [OF ledger_run.start example_fresh _ run]) (simp add: example_burn_id)
  have new: "st \<noteq> example_ledger"
    using example_burn_effect(1) [OF run] by (auto simp: balance_def example_lookups)
  obtain x where x: "asset_option st (replicate 32 7) = Some x"
    using example_burn_effect(2) [OF run] by blast
  show ?thesis
    using supplies_match_on_every_run [OF example_ledger_checked _ ledger x] ledger new x by (auto simp: example_lookups)
qed

end
