(* ===== verification/Atomic_Anchor.thy ===== *)
theory Atomic_Anchor
  imports Token_Safety
begin

text \<open>
  Anchors. The state counts, for every owner, the unspent outputs that belong to the owner's script; a token
  operation is refused when it would leave the signing owner without one. The counters are machine words that
  saturate; the lemmas relate them to the number of inputs and outputs of a transaction.
\<close>

section \<open>Counting the outputs of an owner\<close>

definition owner_outputs :: "(bytes \<Rightarrow> hash32) \<Rightarrow> hash32 \<Rightarrow> script_public_key list \<Rightarrow> nat" where
  "owner_outputs blake owner spks = length (filter (\<lambda>spk. atomic_owner_id_from_script blake spk = Some owner) spks)"

abbreviation spent_scripts :: "populated_tx \<Rightarrow> script_public_key list" where
  "spent_scripts tx \<equiv> map (\<lambda>(_, entry). entry_spk entry) (populated_inputs tx)"

abbreviation created_scripts :: "populated_tx \<Rightarrow> script_public_key list" where
  "created_scripts tx \<equiv> map output_spk (tx_outputs (ptx tx))"

lemma owner_counts_get:
  "(case map_of (owner_counts blake spks) owner of Some n \<Rightarrow> n | None \<Rightarrow> 0) = word_of_nat (owner_outputs blake owner spks)"
proof -
  let ?get = "\<lambda>m. case map_of m owner of Some n \<Rightarrow> n | None \<Rightarrow> 0"
  have "?get (fold (\<lambda>spk m. case atomic_owner_id_from_script blake spk of
                     None \<Rightarrow> m
                   | Some owner_id \<Rightarrow>
                       AList.update owner_id ((case map_of m owner_id of Some n \<Rightarrow> n | None \<Rightarrow> 0) + 1) m) spks m)
      = ?get m + word_of_nat (owner_outputs blake owner spks)" for m :: "(hash32 \<times> u64) list"
    by (induction spks arbitrary: m) (auto simp: owner_outputs_def update_conv' split: option.splits)
  from this [of "[]"] show ?thesis by (simp add: owner_counts_def)
qed

lemma owner_counts_known: "owner \<in> set (map fst (owner_counts blake spks)) \<longleftrightarrow> owner_outputs blake owner spks \<noteq> 0"
proof -
  have "owner \<in> fst ` set (fold (\<lambda>spk m. case atomic_owner_id_from_script blake spk of
                     None \<Rightarrow> m
                   | Some owner_id \<Rightarrow>
                       AList.update owner_id ((case map_of m owner_id of Some n \<Rightarrow> n | None \<Rightarrow> 0) + 1) m) spks m)
      \<longleftrightarrow> owner \<in> fst ` set m \<or> owner_outputs blake owner spks \<noteq> 0" for m :: "(hash32 \<times> u64) list"
    by (induction spks arbitrary: m) (auto simp: owner_outputs_def dom_update filter_empty_conv split: option.splits)
  from this [of "[]"] show ?thesis by (simp add: owner_counts_def)
qed


lemma owner_outputs_word:
  "length spks < 2 ^ 64 \<Longrightarrow> unat (word_of_nat (owner_outputs blake owner spks) :: u64) = owner_outputs blake owner spks"
  using le_less_trans [OF length_filter_le, of spks "2 ^ 64"]
  by (simp add: owner_outputs_def unat_of_nat)

lemma anchor_count_set: "anchor_count (set_anchor_count blake k n st) = (anchor_count st)(k := n)"
  by (auto simp: anchor_count_def view_simps fun_eq_iff)

lemma anchor_count_fold:
  "distinct owners \<Longrightarrow>
   anchor_count (fold (\<lambda>owner st. set_anchor_count blake owner (f owner (anchor_count st owner)) st) owners st) k
     = (if k \<in> set owners then f k (anchor_count st k) else anchor_count st k)"
  by (induction owners arbitrary: st) (auto simp: anchor_count_set)

lemma anchor_deltas_count:
  assumes "length (spent_scripts tx) < 2 ^ 64" "length (created_scripts tx) < 2 ^ 64"
  shows "unat (anchor_count (apply_anchor_deltas_to_atomic_state blake tx st) owner)
    = min (unat (anchor_count st owner) - owner_outputs blake owner (spent_scripts tx)
        + owner_outputs blake owner (created_scripts tx)) (2 ^ 64 - 1)"
proof -
  let ?owners = "remdups (map fst (owner_counts blake (spent_scripts tx)) @ map fst (owner_counts blake (created_scripts tx)))"
  have known: "owner \<in> set ?owners \<longleftrightarrow>
      owner_outputs blake owner (spent_scripts tx) \<noteq> 0 \<or> owner_outputs blake owner (created_scripts tx) \<noteq> 0"
    using owner_counts_known by simp
  show ?thesis
    unfolding apply_anchor_deltas_to_atomic_state_def Let_def owner_counts_get
      anchor_count_fold [OF distinct_remdups, where f = "\<lambda>k n. saturating_add (saturating_sub n
        (word_of_nat (owner_outputs blake k (spent_scripts tx)))) (word_of_nat (owner_outputs blake k (created_scripts tx)))"]
      known
    using unat_bound [of "anchor_count st owner"]
    by (simp add: unat_saturating_add owner_outputs_word [OF assms(1)] owner_outputs_word [OF assms(2)])
qed

lemma spent_fold:
  "unat (fold (\<lambda>(_, entry) n. if atomic_owner_id_from_script blake (entry_spk entry) = Some owner then saturating_add n 1 else n)
      ps (n :: u64))
    = min (unat n + owner_outputs blake owner (map (\<lambda>(_, entry). entry_spk entry) ps)) (2 ^ 64 - 1)"
  using unat_bound [of n]
  by (induction ps arbitrary: n) (auto simp: owner_outputs_def unat_saturating_add)

lemma replacement_anchor_kept:
  assumes "validate_replacement_anchor blake tx owner st = Inr u"
  shows "0 < unat (anchor_count st owner) - owner_outputs blake owner (spent_scripts tx)
      + owner_outputs blake owner (created_scripts tx)"
proof -
  have "owner_outputs blake owner (created_scripts tx) \<noteq> 0"
    if "\<exists>out \<in> set (tx_outputs (ptx tx)). atomic_owner_id_from_script blake (output_spk out) = Some owner"
    using that by (auto simp: owner_outputs_def filter_empty_conv)
  moreover have "0 < unat (anchor_count st owner) - owner_outputs blake owner (spent_scripts tx)"
    if "saturating_sub (anchor_count st owner) (fold (\<lambda>(_, entry) n. if atomic_owner_id_from_script blake (entry_spk entry) = Some owner
          then saturating_add n 1 else n) (populated_inputs tx) 0) > 0"
    using that unat_bound [of "anchor_count st owner"] by (simp add: word_less_nat_alt spent_fold)
  ultimately show ?thesis
    using assms by (auto simp: validate_replacement_anchor_def Let_def split: if_splits)
qed

lemma transition_anchors:
  assumes "validate_and_apply_atomic_state_transition blake env tx score ctx st = (Inr u, st')"
  obtains st1 where "st' = apply_anchor_deltas_to_atomic_state blake tx st1" "anchor_count st1 = anchor_count st"
proof (cases "token_payload env tx score")
  case None
  show thesis using that [OF token_payload_None [OF None assms]] by simp
next
  case (Some p)
  obtain owner n st1 where "apply_atomic_op_to_state blake tx (tx_id (ptx tx)) owner (payload_op p) ctx st = (Inr (), st1)"
    "st' = apply_anchor_deltas_to_atomic_state blake tx (set_next_nonce blake (atomic_nonce_key_for_op owner (payload_op p)) n st1)"
    using token_payload_Some [OF Some assms] by metis
  then show thesis
    using that by (simp add: fun_eq_iff anchor_count_def view_simps op_keeps_nonces(2))
qed

section \<open>Properties\<close>

text \<open>C19. The anchor counter of an owner follows the outputs: an accepted transaction, with or without a token
  payload, subtracts the number of inputs that spend the owner's outputs, not below zero, and adds the number of
  outputs it creates for the owner, up to the largest machine word. Owners the transaction does not touch keep
  their counter.\<close>

theorem anchor_counts_follow_outputs:
  assumes "validate_and_apply_atomic_state_transition blake env tx score ctx st = (Inr (), st')"
    "length (populated_inputs tx) < 2 ^ 64" "length (tx_outputs (ptx tx)) < 2 ^ 64"
  shows "unat (anchor_count st' owner)
    = min (unat (anchor_count st owner) - owner_outputs blake owner (spent_scripts tx)
        + owner_outputs blake owner (created_scripts tx)) (2 ^ 64 - 1)"
  using assms(1)
  by (rule transition_anchors) (use assms(2,3) in \<open>simp add: anchor_deltas_count\<close>)

theorem anchor_counts_follow_outputs_witness:
  "\<exists>st. validate_and_apply_atomic_state_transition example_hash example_env example_burn_tx 0 example_context example_ledger
      = (Inr (), st) \<and> anchor_count st (replicate 32 5) = 1"
proof -
  obtain st where run: "validate_and_apply_atomic_state_transition example_hash example_env example_burn_tx 0 example_context
      example_ledger = (Inr (), st)" using example_burn_accepted by blast
  have "unat (anchor_count st (replicate 32 5)) = 1"
    using anchor_counts_follow_outputs [OF run, of "replicate 32 5"]
    by (simp add: owner_outputs_def example_owner example_burn_inputs example_burn_outputs anchor_count_def [of example_ledger]
        example_lookups)
  then show ?thesis using run by (simp add: word_as_nat)
qed

text \<open>C17. The owner who signs a token operation never loses the last anchor: after an accepted transaction with a
  token payload, the counter of its owner is positive.\<close>

theorem signer_keeps_an_anchor:
  assumes "validate_and_apply_atomic_state_transition blake env tx score ctx st = (Inr (), st')"
    "length (populated_inputs tx) < 2 ^ 64" "length (tx_outputs (ptx tx)) < 2 ^ 64"
    "token_payload env tx score = Some p" "resolve_atomic_owner_from_populated_tx blake tx (auth_input_index p) = Inr owner"
  shows "0 < anchor_count st' owner"
proof -
  from assms(4,1) have "validate_replacement_anchor blake tx owner st = Inr ()"
    by (rule token_payload_Some) (use assms(5) in simp)
  note kept = replacement_anchor_kept [OF this]
  from assms(1) show ?thesis
    by (rule transition_anchors) (use kept assms(2,3) in \<open>simp add: word_less_nat_alt anchor_deltas_count\<close>)
qed

theorem signer_keeps_an_anchor_witness:
  "\<exists>st. validate_and_apply_atomic_state_transition example_hash example_env example_burn_tx 0 example_context example_ledger
      = (Inr (), st) \<and> 0 < anchor_count st (replicate 32 5)"
proof -
  obtain st where run: "validate_and_apply_atomic_state_transition example_hash example_env example_burn_tx 0 example_context
      example_ledger = (Inr (), st)" using example_burn_accepted by blast
  then show ?thesis
    using signer_keeps_an_anchor [OF run _ _ example_payload]
    by (simp add: example_resolved example_burn_inputs example_burn_outputs)
qed

end
