(* ===== verification/Atomic_Block.thy ===== *)
theory Atomic_Block
  imports Atomic_Example
begin

text \<open>
  The token state across the transactions of a block: the filter of the virtual processor drops every
  transaction whose token part is refused and goes on with the state the accepted ones leave. The invariant
  \<open>block_inv\<close> relates the state of the loop to a replay of the accepted transactions alone.
\<close>

section \<open>Specifications\<close>

fun replay_accepted ::
    "(bytes \<Rightarrow> hash32) \<Rightarrow> atomic_env \<Rightarrow> u64 \<Rightarrow> creation_context \<Rightarrow> (populated_tx \<times> u32) list
      \<Rightarrow> atomic_state \<times> state_growth \<Rightarrow> (atomic_state \<times> state_growth) option" where
  "replay_accepted blake env score ctx [] s = Some s"
| "replay_accepted blake env score ctx (p # ps) s =
     (case validate_and_apply_atomic_state_transition_with_growth blake env (fst p) score ctx (fst s) (snd s) of
        (Inr _, s') \<Rightarrow> replay_accepted blake env score ctx ps s'
      | (Inl _, s') \<Rightarrow> None)"

abbreviation block_tx_id :: "populated_tx \<times> u32 \<Rightarrow> hash32" where
  "block_tx_id p \<equiv> tx_id (ptx (fst p))"

abbreviation block_outpoints :: "populated_tx \<times> u32 \<Rightarrow> outpoint set" where
  "block_outpoints p \<equiv> previous_outpoint ` set (tx_inputs (ptx (fst p)))"

definition block_fresh :: "atomic_state \<Rightarrow> (populated_tx \<times> u32) list \<Rightarrow> bool" where
  "block_fresh st txs \<longleftrightarrow> (\<forall>p\<in>set txs. fresh_tx st (block_tx_id p) \<and> block_tx_id p \<noteq> replicate 32 0)"

definition block_inv ::
    "(bytes \<Rightarrow> hash32) \<Rightarrow> atomic_env \<Rightarrow> u64 \<Rightarrow> creation_context \<Rightarrow> atomic_state \<Rightarrow> filter_state \<Rightarrow> bool" where
  "block_inv blake env score ctx st fs \<longleftrightarrow>
     ledger_ok blake (fs_atomic_state fs)
     \<and> (\<forall>o1 a. vault_asset (fs_atomic_state fs) o1 = Some a
          \<longrightarrow> vault_asset st o1 = Some a \<or> outpoint_tx o1 \<in> fs_seen_txids fs)
     \<and> replay_accepted blake env score ctx (fs_filtered fs) (st, growth_default) = Some (fs_atomic_state fs, fs_growth fs)
     \<and> block_tx_id ` set (fs_filtered fs) \<subseteq> fs_seen_txids fs
     \<and> \<Union> (block_outpoints ` set (fs_filtered fs)) \<subseteq> fs_spent_outpoints fs
     \<and> sorted_wrt (\<lambda>p q. block_tx_id p \<noteq> block_tx_id q \<and> block_outpoints p \<inter> block_outpoints q = {}) (fs_filtered fs)"

section \<open>One transaction with the growth limits\<close>

lemma with_growth_keeps:
  assumes "ledger_ok blake st" "fresh_tx st (tx_id (ptx tx))" "tx_id (ptx tx) \<noteq> replicate 32 0"
    "validate_and_apply_atomic_state_transition_with_growth blake env tx score ctx st g = (r, st', g')"
  shows "case r of
      Inl _ \<Rightarrow> st' = st \<and> g' = g
    | Inr _ \<Rightarrow> ledger_ok blake st'
        \<and> (\<forall>o1 a. vault_asset st' o1 = Some a \<longrightarrow> vault_asset st o1 = Some a \<or> outpoint_tx o1 = tx_id (ptx tx))"
  using transition_keeps [OF assms(1-3), of env score ctx] assms(4)
  by (auto simp: validate_and_apply_atomic_state_transition_with_growth_def keeps_ledger_def split: sum.splits prod.splits)

lemma replay_append:
  "replay_accepted blake env score ctx (ps @ qs) s =
     Option.bind (replay_accepted blake env score ctx ps s) (replay_accepted blake env score ctx qs)"
  by (induction ps arbitrary: s) (auto split: sum.splits prod.splits)

section \<open>The filter\<close>

lemma block_invD:
  assumes "block_inv blake env score ctx st fs"
  shows "ledger_ok blake (fs_atomic_state fs)"
    "vault_asset (fs_atomic_state fs) o1 = Some a \<Longrightarrow> vault_asset st o1 = Some a \<or> outpoint_tx o1 \<in> fs_seen_txids fs"
    "replay_accepted blake env score ctx (fs_filtered fs) (st, growth_default) = Some (fs_atomic_state fs, fs_growth fs)"
    "block_tx_id ` set (fs_filtered fs) \<subseteq> fs_seen_txids fs"
    "\<Union> (block_outpoints ` set (fs_filtered fs)) \<subseteq> fs_spent_outpoints fs"
    "sorted_wrt (\<lambda>p q. block_tx_id p \<noteq> block_tx_id q \<and> block_outpoints p \<inter> block_outpoints q = {}) (fs_filtered fs)"
  using assms unfolding block_inv_def by simp_all

lemma block_inv_fresh:
  assumes "block_inv blake env score ctx st fs" "fresh_tx st t" "t \<notin> fs_seen_txids fs"
  shows "fresh_tx (fs_atomic_state fs) t"
  unfolding fresh_tx_def
proof (intro allI impI)
  fix o1 a
  assume "vault_asset (fs_atomic_state fs) o1 = Some a"
  from block_invD(2) [OF assms(1) this] show "outpoint_tx o1 \<noteq> t" using assms(2,3) by (auto simp: fresh_tx_def)
qed

lemma block_inv_seen:
  assumes "block_inv blake env score ctx st fs"
  shows "block_inv blake env score ctx st (fs\<lparr>fs_seen_txids := insert t (fs_seen_txids fs)\<rparr>)"
  unfolding block_inv_def
proof (intro conjI allI impI)
  fix o1 a
  assume "vault_asset (fs_atomic_state (fs\<lparr>fs_seen_txids := insert t (fs_seen_txids fs)\<rparr>)) o1 = Some a"
  then show "vault_asset st o1 = Some a \<or> outpoint_tx o1 \<in> fs_seen_txids (fs\<lparr>fs_seen_txids := insert t (fs_seen_txids fs)\<rparr>)"
    using block_invD(2) [OF assms] by auto
qed (simp_all add: block_invD(1,3-6) [OF assms] subset_insertI2)

lemma filter_step_cases:
  obtains (skip) "filter_step blake env score ctx p fs = fs"
  | (reject) "filter_step blake env score ctx p fs = fs\<lparr>fs_seen_txids := insert (block_tx_id p) (fs_seen_txids fs)\<rparr>"
  | (run) r st' g' where "block_tx_id p \<notin> fs_seen_txids fs" "block_outpoints p \<inter> fs_spent_outpoints fs = {}"
      "validate_and_apply_atomic_state_transition_with_growth blake env (fst p) score ctx (fs_atomic_state fs) (fs_growth fs)
        = (r, st', g')"
      "filter_step blake env score ctx p fs =
         (case r of
            Inl _ \<Rightarrow> fs\<lparr>fs_seen_txids := insert (block_tx_id p) (fs_seen_txids fs), fs_atomic_state := st', fs_growth := g'\<rparr>
          | Inr _ \<Rightarrow> fs\<lparr>fs_seen_txids := insert (block_tx_id p) (fs_seen_txids fs), fs_atomic_state := st', fs_growth := g',
              fs_spent_outpoints := fs_spent_outpoints fs \<union> block_outpoints p, fs_filtered := fs_filtered fs @ [p]\<rparr>)"
proof -
  obtain r st' g' where exec: "validate_and_apply_atomic_state_transition_with_growth blake env (fst p) score ctx
      (fs_atomic_state fs) (fs_growth fs) = (r, st', g')" by (metis prod.exhaust)
  show thesis
  proof (cases "block_tx_id p \<in> fs_seen_txids fs")
    case True
    then show thesis by (intro skip) (simp add: filter_step_def)
  next
    case new: False
    show thesis
    proof (cases "block_outpoints p \<inter> fs_spent_outpoints fs = {}")
      case False
      then have "\<exists>o1\<in>block_outpoints p. o1 \<in> fs_spent_outpoints fs" by blast
      then show thesis by (intro reject) (simp add: filter_step_def Let_def new)
    next
      case True
      then have "\<not> (\<exists>o1\<in>block_outpoints p. o1 \<in> fs_spent_outpoints fs)" by blast
      then show thesis
        by (intro run [OF new True exec]) (cases r, simp_all add: filter_step_def Let_def new exec)
    qed
  qed
qed

lemma filter_step_inv:
  assumes inv: "block_inv blake env score ctx st fs" and fresh: "fresh_tx st (block_tx_id p)" "block_tx_id p \<noteq> replicate 32 0"
  shows "block_inv blake env score ctx st (filter_step blake env score ctx p fs)"
proof (cases rule: filter_step_cases [of blake env score ctx p fs])
  case (run r st' g')
  note D = block_invD [OF inv]
  note keep = with_growth_keeps [OF D(1) block_inv_fresh [OF inv fresh(1) run(1)] fresh(2) run(3)]
  show ?thesis
  proof (cases r)
    case Inl
    then have "filter_step blake env score ctx p fs = fs\<lparr>fs_seen_txids := insert (block_tx_id p) (fs_seen_txids fs)\<rparr>"
      using keep by (simp add: run(4))
    then show ?thesis using block_inv_seen [OF inv] by simp
  next
    case (Inr u)
    have ledger: "ledger_ok blake st'"
      and vaults: "vault_asset st' o1 = Some a \<Longrightarrow> vault_asset (fs_atomic_state fs) o1 = Some a \<or> outpoint_tx o1 = block_tx_id p"
      for o1 a using keep by (simp_all add: Inr)
    have "replay_accepted blake env score ctx (fs_filtered fs @ [p]) (st, growth_default) = Some (st', g')"
      using run(3) by (simp add: D(3) replay_append Inr)
    moreover have "block_tx_id q \<noteq> block_tx_id p \<and> block_outpoints q \<inter> block_outpoints p = {}"
      if "q \<in> set (fs_filtered fs)" for q
    proof -
      have "block_tx_id q \<in> fs_seen_txids fs" "block_outpoints q \<subseteq> fs_spent_outpoints fs"
        using D(4,5) that by (simp_all add: image_subset_iff UN_subset_iff)
      then show ?thesis using run(1,2) by auto
    qed
    moreover have "\<forall>o1 a. vault_asset st' o1 = Some a
        \<longrightarrow> vault_asset st o1 = Some a \<or> outpoint_tx o1 \<in> insert (block_tx_id p) (fs_seen_txids fs)"
      using vaults D(2) by blast
    ultimately show ?thesis
      using ledger D(4-6) unfolding block_inv_def run(4) Inr sum.case
      by (simp add: sorted_wrt_append subset_insertI2 le_supI1)
  qed
qed (simp_all add: inv block_inv_seen)

lemma filter_inv:
  assumes "ledger_ok blake st" "block_fresh st txs"
  shows "block_inv blake env score ctx st (filter_validated_transactions_by_atomic_state blake env score ctx txs st)"
proof -
  have "block_inv blake env score ctx st (fold (filter_step blake env score ctx) ps fs)"
    if "block_inv blake env score ctx st fs" "set ps \<subseteq> set txs" for ps fs
    using that assms(2)
    by (induction ps arbitrary: fs) (auto simp: block_fresh_def intro!: filter_step_inv)
  then show ?thesis
    using assms(1) unfolding filter_validated_transactions_by_atomic_state_def
    by (auto simp: block_inv_def)
qed

section \<open>A block of one transaction\<close>

lemma example_block_fresh: "block_fresh example_ledger [(example_burn_tx, 0)]"
  by (simp add: block_fresh_def example_fresh example_burn_id)

lemma example_block_filtered:
  "fs_filtered (filter_validated_transactions_by_atomic_state example_hash example_env 0 example_context
     [(example_burn_tx, 0)] example_ledger) = [(example_burn_tx, 0)]"
  "fs_growth (filter_validated_transactions_by_atomic_state example_hash example_env 0 example_context
     [(example_burn_tx, 0)] example_ledger) = growth_default\<lparr>gr_new_nonce_keys := 1\<rparr>"
proof -
  obtain st where "validate_and_apply_atomic_state_transition_with_growth example_hash example_env example_burn_tx 0
      example_context example_ledger growth_default = (Inr (), st, growth_default\<lparr>gr_new_nonce_keys := 1\<rparr>)"
    using example_burn_kept by blast
  then show
    "fs_filtered (filter_validated_transactions_by_atomic_state example_hash example_env 0 example_context
       [(example_burn_tx, 0)] example_ledger) = [(example_burn_tx, 0)]"
    "fs_growth (filter_validated_transactions_by_atomic_state example_hash example_env 0 example_context
       [(example_burn_tx, 0)] example_ledger) = growth_default\<lparr>gr_new_nonce_keys := 1\<rparr>"
    by (simp_all add: filter_validated_transactions_by_atomic_state_def filter_step_def)
qed

section \<open>Properties\<close>

text \<open>C9. A transaction keeps the ledger invariant: on a well-formed ledger, with a transaction id under which
  no pool has its vault yet, an accepted transaction leaves a ledger in which again the balances of every asset
  sum to its total supply, every pool satisfies its reserve and vault equations, no balance is zero and the
  vault index is exact.\<close>

theorem transition_keeps_ledger:
  assumes "ledger_ok blake st" "fresh_tx st (tx_id (ptx tx))" "tx_id (ptx tx) \<noteq> replicate 32 0"
    "validate_and_apply_atomic_state_transition blake env tx score ctx st = (Inr (), st')"
  shows "ledger_ok blake st'"
  using transition_keeps [OF assms(1-3), of env score ctx] assms(4) by (simp add: keeps_ledger_def)

theorem transition_keeps_ledger_witness:
  "\<exists>st. validate_and_apply_atomic_state_transition example_hash example_env example_burn_tx 0 example_context example_ledger
      = (Inr (), st) \<and> ledger_ok example_hash st"
proof -
  obtain st where "validate_and_apply_atomic_state_transition example_hash example_env example_burn_tx 0 example_context
      example_ledger = (Inr (), st)" using example_burn_accepted by blast
  then show ?thesis
    using transition_keeps_ledger [OF example_ledger_ok example_fresh, of example_burn_tx]
    by (simp add: example_burn_id)
qed

text \<open>C14. A refused transaction leaves no trace: whatever error the token checks of a transaction end with, the
  ledger and the growth counters of the block are those from before the transaction. The code mutates the state
  in place and takes no copy, so the theorem says that no check which can still refuse a transaction comes after
  a write.\<close>

theorem rejected_transaction_changes_nothing:
  assumes "ledger_ok blake st" "fresh_tx st (tx_id (ptx tx))" "tx_id (ptx tx) \<noteq> replicate 32 0"
    "validate_and_apply_atomic_state_transition_with_growth blake env tx score ctx st g = (Inl e, st', g')"
  shows "st' = st \<and> g' = g"
  using with_growth_keeps [OF assms] by simp

theorem rejected_transaction_changes_nothing_witness:
  "\<exists>e st g. validate_and_apply_atomic_state_transition_with_growth example_hash example_full_env example_burn_tx 0
      example_context example_ledger growth_default = (Inl e, st, g) \<and> st = example_ledger \<and> g = growth_default"
proof -
  obtain e st g where "validate_and_apply_atomic_state_transition_with_growth example_hash example_full_env example_burn_tx 0
      example_context example_ledger growth_default = (Inl e, st, g)" using example_burn_refused by blast
  then show ?thesis
    using rejected_transaction_changes_nothing [OF example_ledger_ok example_fresh, of example_burn_tx]
    by (simp add: example_burn_id)
qed

text \<open>C6. The state after a block is the state of the accepted transactions alone: applying just the transactions
  the filter returns, in their order, from the same start succeeds for every one of them and gives the same ledger
  and growth counters. The accepted transactions have distinct ids and spend disjoint outpoints.\<close>

theorem block_is_replay_of_accepted:
  assumes "ledger_ok blake st" "block_fresh st txs"
    "fs = filter_validated_transactions_by_atomic_state blake env score ctx txs st"
  shows "replay_accepted blake env score ctx (fs_filtered fs) (st, growth_default) = Some (fs_atomic_state fs, fs_growth fs)
    \<and> sorted_wrt (\<lambda>p q. block_tx_id p \<noteq> block_tx_id q \<and> block_outpoints p \<inter> block_outpoints q = {}) (fs_filtered fs)"
  using block_invD(3,6) [OF filter_inv [OF assms(1,2)]] by (simp add: assms(3))

theorem block_is_replay_of_accepted_witness:
  "\<exists>st. replay_accepted example_hash example_env 0 example_context [(example_burn_tx, 0)] (example_ledger, growth_default)
      = Some (st, growth_default\<lparr>gr_new_nonce_keys := 1\<rparr>)"
  using block_is_replay_of_accepted [OF example_ledger_ok example_block_fresh refl, of example_env 0 example_context]
    example_block_filtered by simp

end
