(* ===== verification/Atomic_Growth.thy ===== *)
theory Atomic_Growth
  imports Atomic_Anchor Atomic_Block
begin

text \<open>
  How much a block can grow the token state. Before a transaction runs, the code estimates the number of new
  keys it can add to every map and compares the running sums with the limits of the node. The estimate is an
  upper bound of what the transaction adds, so the maps of the state grow by no more than the limits.
\<close>

section \<open>Growth of the maps\<close>

definition grew_by :: "'k set \<Rightarrow> 'k set \<Rightarrow> u64 \<Rightarrow> bool" where
  "grew_by A B n \<longleftrightarrow> finite (B - A) \<and> card (B - A) \<le> unat n"

definition pool_ids :: "(hash32 \<Rightarrow> asset_state option) \<Rightarrow> hash32 set" where
  "pool_ids f = {a. \<exists>x. f a = Some x \<and> as_liquidity x \<noteq> None}"

definition positive_keys :: "token_view \<Rightarrow> balance_key set" where
  "positive_keys s = {k. tv_balance s (bk_asset_id k) (bk_owner_id k) \<noteq> 0}"

definition within_growth :: "atomic_state \<Rightarrow> atomic_state \<Rightarrow> state_growth \<Rightarrow> bool" where
  "within_growth st st' g \<longleftrightarrow>
     grew_by (dom (asset_option st)) (dom (asset_option st')) (gr_new_assets g)
     \<and> grew_by (dom (balance_option st)) (dom (balance_option st')) (gr_new_balance_keys g)
     \<and> grew_by (dom (nonce_option st)) (dom (nonce_option st')) (gr_new_nonce_keys g)
     \<and> grew_by (pool_ids (asset_option st)) (pool_ids (asset_option st')) (gr_new_pools g)
     \<and> grew_by (dom (anchor_count_option st)) (dom (anchor_count_option st')) (gr_new_anchor_owner_keys g)"

definition block_sizes_ok :: "(populated_tx \<times> u32) list \<Rightarrow> bool" where
  "block_sizes_ok txs \<longleftrightarrow>
     (\<forall>p\<in>set txs. length (populated_inputs (fst p)) < 2 ^ 64 \<and> length (tx_outputs (ptx (fst p))) < 2 ^ 64)"

definition below_limits :: "state_growth \<Rightarrow> growth_limits \<Rightarrow> bool" where
  "below_limits g l \<longleftrightarrow>
     gr_new_assets g \<le> gl_max_new_assets l \<and> gr_new_balance_keys g \<le> gl_max_new_balance_keys l
     \<and> gr_new_nonce_keys g \<le> gl_max_new_nonce_keys l \<and> gr_new_pools g \<le> gl_max_new_pools l
     \<and> gr_new_anchor_owner_keys g \<le> gl_max_new_anchor_owner_keys l"

definition finite_limits :: "growth_limits \<Rightarrow> bool" where
  "finite_limits l \<longleftrightarrow>
     gl_max_new_assets l \<noteq> - 1 \<and> gl_max_new_balance_keys l \<noteq> - 1 \<and> gl_max_new_nonce_keys l \<noteq> - 1
     \<and> gl_max_new_pools l \<noteq> - 1 \<and> gl_max_new_anchor_owner_keys l \<noteq> - 1"

section \<open>Sums of growth\<close>

lemma grew_by_refl [simp]: "grew_by A A n"
  by (simp add: grew_by_def)

lemma grew_by_same: "B \<subseteq> A \<Longrightarrow> grew_by A B n"
  by (simp add: grew_by_def Diff_eq_empty_iff [THEN iffD2])

lemma grew_by_one: "B \<subseteq> insert k A \<Longrightarrow> grew_by A B 1"
proof -
  assume "B \<subseteq> insert k A"
  then have "B - A \<subseteq> {k}" by blast
  then show ?thesis using card_mono [of "{k}" "B - A"] finite_subset [of "B - A" "{k}"] by (simp add: grew_by_def)
qed

lemma grew_by_add:
  assumes "grew_by A B m" "grew_by B C n" "saturating_add m n \<le> l" "l \<noteq> - 1"
  shows "grew_by A C (saturating_add m n)"
proof -
  have "unat l < 2 ^ 64 - 1"
    using assms(4) by (simp add: word_order.not_eq_extremum word_less_nat_alt unsigned_minus_1_eq_mask mask_eq_exp_minus_1)
  then have "unat (saturating_add m n) = unat m + unat n"
    using assms(3) by (simp add: word_le_nat_alt unat_saturating_add)
  moreover have "C - A \<subseteq> (C - B) \<union> (B - A)" by blast
  then have "finite (C - A)" "card (C - A) \<le> card (C - B) + card (B - A)"
    using assms(1,2) card_mono [of "(C - B) \<union> (B - A)" "C - A"] card_Un_le [of "C - B" "B - A"]
    by (auto simp: grew_by_def intro: finite_subset)
  ultimately show ?thesis using assms(1,2) by (simp add: grew_by_def)
qed

lemma within_growth_commit:
  assumes "within_growth st st1 g" "within_growth st1 st2 d" "ensure_can_add g d l = Inr u" "finite_limits l"
  shows "within_growth st st2 (commit_growth d g) \<and> below_limits (commit_growth d g) l"
proof -
  from assms(3) have *: "saturating_add (gr_new_assets g) (gr_new_assets d) \<le> gl_max_new_assets l"
    "saturating_add (gr_new_balance_keys g) (gr_new_balance_keys d) \<le> gl_max_new_balance_keys l"
    "saturating_add (gr_new_nonce_keys g) (gr_new_nonce_keys d) \<le> gl_max_new_nonce_keys l"
    "saturating_add (gr_new_pools g) (gr_new_pools d) \<le> gl_max_new_pools l"
    "saturating_add (gr_new_anchor_owner_keys g) (gr_new_anchor_owner_keys d) \<le> gl_max_new_anchor_owner_keys l"
    by (simp_all add: ensure_can_add_def ensure_limit_def result_simps not_less split: if_splits)
  note g = within_growth_def [THEN iffD1, OF assms(1)] and d = within_growth_def [THEN iffD1, OF assms(2)]
    and l = finite_limits_def [THEN iffD1, OF assms(4)]
  show ?thesis
    unfolding within_growth_def commit_growth_def below_limits_def state_growth.select_convs
    by (intro conjI *)
      (rule grew_by_add [OF _ _ *(1)] grew_by_add [OF _ _ *(2)] grew_by_add [OF _ _ *(3)] grew_by_add [OF _ _ *(4)]
        grew_by_add [OF _ _ *(5)]; use g d l in blast)+
qed

section \<open>One operation\<close>

lemma positive_keys_views:
  "positive_keys (put_asset a x s) = positive_keys s"
  "positive_keys (debit a owner n s) \<subseteq> positive_keys s"
  "positive_keys (credit a owner n s) \<subseteq> insert \<lparr>bk_asset_id = a, bk_owner_id = owner\<rparr> (positive_keys s)"
  "positive_keys (credit a owner 0 s) = positive_keys s"
  by (auto simp: positive_keys_def ledger_views split: if_splits)

lemma balance_key_eta [simp]: "\<lparr>bk_asset_id = bk_asset_id k, bk_owner_id = bk_owner_id k\<rparr> = k"
  by (cases k) simp

lemma saturating_add_0_1 [simp]: "saturating_add 0 (1 :: u64) = 1"
  by (simp add: saturating_add_def)

lemma positive_keys_of:
  "wf_core blake st \<Longrightarrow> positive_keys (token_view_of st) = dom (balance_option st)"
  by (auto simp: positive_keys_def balance_def wf_core_def unat_eq_0 split: option.splits)

lemma has_balance_positive: "wf_core blake st \<Longrightarrow> has_balance st k \<longleftrightarrow> k \<in> positive_keys (token_view_of st)"
  by (simp add: positive_keys_of has_balance_def domIff)

lemma grew_credit:
  assumes "n \<noteq> 0 \<Longrightarrow> \<lparr>bk_asset_id = a, bk_owner_id = owner\<rparr> \<notin> positive_keys s \<Longrightarrow> w = 1"
  shows "grew_by (positive_keys s) (positive_keys (credit a owner n s)) w"
proof (cases "n = 0 \<or> \<lparr>bk_asset_id = a, bk_owner_id = owner\<rparr> \<in> positive_keys s")
  case True
  then have "positive_keys (credit a owner n s) \<subseteq> positive_keys s"
    using positive_keys_views(3) [of a owner n s] by (auto simp: positive_keys_views(4) insert_absorb)
  then show ?thesis by (rule grew_by_same)
next
  case False
  then show ?thesis using assms grew_by_one [OF positive_keys_views(3)] by simp
qed

lemma grew_transfer:
  assumes "n \<le> tv_balance s a owner" "n \<noteq> 0 \<Longrightarrow> to_owner \<noteq> owner \<Longrightarrow> \<lparr>bk_asset_id = a, bk_owner_id = to_owner\<rparr> \<notin> positive_keys s \<Longrightarrow> w = 1"
  shows "grew_by (positive_keys s) (positive_keys (credit a to_owner n (debit a owner n s))) w"
proof (cases "to_owner = owner")
  case True
  then have "positive_keys (credit a to_owner n (debit a owner n s)) = positive_keys s"
    using assms(1) by (auto simp: positive_keys_def ledger_views split: if_splits)
  then show ?thesis by simp
next
  case False
  have "\<lparr>bk_asset_id = a, bk_owner_id = to_owner\<rparr> \<in> positive_keys (debit a owner n s)
      \<longleftrightarrow> \<lparr>bk_asset_id = a, bk_owner_id = to_owner\<rparr> \<in> positive_keys s"
    using False by (simp add: positive_keys_def ledger_views)
  with assms(2) False have "positive_keys (credit a to_owner n (debit a owner n s)) \<subseteq> positive_keys s
      \<or> w = 1 \<and> positive_keys (credit a to_owner n (debit a owner n s)) \<subseteq> insert \<lparr>bk_asset_id = a, bk_owner_id = to_owner\<rparr> (positive_keys s)"
    using positive_keys_views(2) [of a owner n s] positive_keys_views(3) [of a to_owner n "debit a owner n s"]
      positive_keys_views(4) [of a to_owner "debit a owner n s"]
    by (cases "n = 0") (auto simp: insert_absorb)
  then show ?thesis using grew_by_one grew_by_same by metis
qed

lemma grew_debit: "grew_by (positive_keys s) (positive_keys (debit a owner n s)) w"
  by (rule grew_by_same) (rule positive_keys_views(2))

lemma grew_put_credit:
  assumes "n \<noteq> 0 \<Longrightarrow> \<lparr>bk_asset_id = a, bk_owner_id = owner\<rparr> \<notin> positive_keys s \<Longrightarrow> w = 1"
  shows "grew_by (positive_keys s) (positive_keys (credit a owner n (put_asset b x s))) w"
  using grew_credit [of n a owner "put_asset b x s" w] assms by (simp add: positive_keys_views(1))

lemma grew_put_debit: "grew_by (positive_keys s) (positive_keys (debit a owner n (put_asset b x s))) w"
  using grew_debit [of "put_asset b x s"] by (simp add: positive_keys_views(1))

lemma step_balances:
  assumes "token_step t owner ctx op (token_view_of st) s'" "wf_core blake st" "gr_new_balance_keys g = 0"
  shows "grew_by (positive_keys (token_view_of st)) (positive_keys s') (gr_new_balance_keys (growth_of_op t owner op st g))"
  using assms(1)
  by cases
    (simp_all only:, auto simp: growth_of_op_def Let_def has_balance_positive [OF assms(2)] positive_keys_views(1) assms(3) word_gt_0
      intro!: grew_put_debit grew_put_credit grew_transfer)

lemma growth_of_op_other [simp]:
  "gr_new_nonce_keys (growth_of_op t owner op st g) = gr_new_nonce_keys g"
  "gr_new_anchor_owner_keys (growth_of_op t owner op st g) = gr_new_anchor_owner_keys g"
  by (auto simp: growth_of_op_def Let_def split: atomic_payload_op.splits)

lemma tv_asset_views [simp]:
  "tv_asset (put_asset a x s) = (tv_asset s)(a \<mapsto> x)"
  "tv_asset (credit b owner n s) = tv_asset s" "tv_asset (debit b owner n s) = tv_asset s"
  by (simp_all add: ledger_views)

lemma step_assets:
  assumes "token_step t owner ctx op (token_view_of st) s'" "gr_new_assets g = 0"
  shows "grew_by (dom (asset_option st)) (dom (tv_asset s')) (gr_new_assets (growth_of_op t owner op st g))"
  using assms(1)
  by cases
    (simp_all only:, auto simp: growth_of_op_def Let_def has_asset_def assms(2) insert_absorb domI intro: grew_by_one)

lemma pool_ids_update:
  "pool_ids (f(a \<mapsto> x)) \<subseteq> insert a (pool_ids f)"
  "as_liquidity x = None \<Longrightarrow> pool_ids (f(a \<mapsto> x)) \<subseteq> pool_ids f"
  "f a = Some y \<Longrightarrow> as_liquidity y = as_liquidity x \<or> as_liquidity y \<noteq> None \<Longrightarrow> pool_ids (f(a \<mapsto> x)) \<subseteq> pool_ids f"
  by (auto simp: pool_ids_def split: if_splits)

lemma step_pools:
  assumes "token_step t owner ctx op (token_view_of st) s'" "gr_new_pools g = 0"
  shows "grew_by (pool_ids (asset_option st)) (pool_ids (tv_asset s')) (gr_new_pools (growth_of_op t owner op st g))"
  using assms(1)
  by cases
    (simp_all only:, auto simp: growth_of_op_def Let_def has_asset_def standard_asset_def assms(2)
      intro: grew_by_one [OF pool_ids_update(1)] grew_by_same [OF pool_ids_update(2)] grew_by_same [OF pool_ids_update(3)])

lemma anchors_of: "wf_core blake st \<Longrightarrow> anchor_count_option st owner \<noteq> None \<longleftrightarrow> anchor_count st owner \<noteq> 0"
  by (auto simp: wf_core_def anchor_count_def split: option.splits)

lemma step_anchors:
  assumes "validate_and_apply_atomic_state_transition blake env tx score ctx st = (Inr (), st')"
    "wf_core blake st" "wf_core blake st'" "length (populated_inputs tx) < 2 ^ 64" "length (tx_outputs (ptx tx)) < 2 ^ 64"
  shows "grew_by (dom (anchor_count_option st)) (dom (anchor_count_option st')) (word_of_nat (length (new_anchor_owners blake (ptx tx) st)))"
proof -
  let ?new = "new_anchor_owners blake (ptx tx) st"
  have count: "unat (anchor_count st' owner)
    = min (unat (anchor_count st owner) - owner_outputs blake owner (spent_scripts tx)
        + owner_outputs blake owner (created_scripts tx)) (2 ^ 64 - 1)" for owner
    using assms(1) by (rule transition_anchors) (use assms(4,5) in \<open>simp add: anchor_deltas_count\<close>)
  have "owner \<in> set ?new" if "owner \<in> dom (anchor_count_option st') - dom (anchor_count_option st)" for owner
  proof -
    have "anchor_count st' owner \<noteq> 0" "anchor_count st owner = 0"
      using that anchors_of [OF assms(2), of owner] anchors_of [OF assms(3), of owner] by auto
    then have "owner_outputs blake owner (created_scripts tx) \<noteq> 0"
      using count [of owner] by (cases "owner_outputs blake owner (created_scripts tx) = 0") (auto simp: unat_eq_0)
    then show ?thesis
      using that by (auto simp: owner_outputs_def new_anchor_owners_def has_anchor_count_def List.map_filter_def filter_empty_conv image_iff)
  qed
  then have sub: "dom (anchor_count_option st') - dom (anchor_count_option st) \<subseteq> set ?new" by blast
  have len: "length ?new \<le> length (tx_outputs (ptx tx))"
    unfolding new_anchor_owners_def
    by (rule order_trans [OF length_remdups_leq], rule order_trans [OF length_filter_le])
      (simp add: List.map_filter_def)
  then have "unat (word_of_nat (length ?new) :: u64) = length ?new" using assms(5) by (simp add: unat_of_nat)
  moreover have "card (set ?new) \<le> length ?new" by (rule card_length)
  ultimately show ?thesis
    using finite_subset [OF sub] card_mono [OF _ sub] by (simp add: grew_by_def)
qed


lemma transition_growth:
  assumes "ledger_ok blake st" "fresh_tx st (tx_id (ptx tx))" "tx_id (ptx tx) \<noteq> replicate 32 0"
    "validate_and_apply_atomic_state_transition blake env tx score ctx st = (Inr (), st')"
    "estimate_atomic_state_growth_for_tx blake env tx score st = Inr d"
    "length (populated_inputs tx) < 2 ^ 64" "length (tx_outputs (ptx tx)) < 2 ^ 64"
  shows "within_growth st st' d"
proof -
  have wf: "wf_core blake st" "wf_core blake st'"
    using ledger_ok_core transition_keeps [OF assms(1-3), of env score ctx] assms(1,4) by (auto simp: keeps_ledger_def)
  note anchors = step_anchors [OF assms(4) wf assms(6,7)]
  show ?thesis
  proof (cases "token_payload env tx score")
    case None
    have "st' = apply_anchor_deltas_to_atomic_state blake tx st" by (rule token_payload_None [OF None assms(4)])
    moreover have "gr_new_anchor_owner_keys d = word_of_nat (length (new_anchor_owners blake (ptx tx) st))"
      using assms(5) None
      by (auto simp: estimate_atomic_state_growth_for_tx_def token_payload_def Let_def result_simps split: if_splits sum.splits)
    ultimately show ?thesis using anchors by (simp add: within_growth_def view_simps)
  next
    case (Some p)
    obtain owner n st1 where owner: "resolve_atomic_owner_from_populated_tx blake tx (auth_input_index p) = Inr owner"
      and run: "apply_atomic_op_to_state blake tx (tx_id (ptx tx)) owner (payload_op p) ctx st = (Inr (), st1)"
      and st': "st' = apply_anchor_deltas_to_atomic_state blake tx (set_next_nonce blake (atomic_nonce_key_for_op owner (payload_op p)) n st1)"
      using token_payload_Some [OF Some assms(4)] by metis
    let ?k = "atomic_nonce_key_for_op owner (payload_op p)"
    let ?g = "growth_default\<lparr>gr_new_anchor_owner_keys := word_of_nat (length (new_anchor_owners blake (ptx tx) st))\<rparr>"
    let ?g1 = "if \<not> has_nonce st ?k then ?g\<lparr>gr_new_nonce_keys := 1\<rparr> else ?g"
    have "parse_atomic_payload (tx_payload (ptx tx)) = Inr (Some p)"
      "\<not> (\<not> is_payload_hf_active env score \<or> \<not> is_payload (subnetwork_id (ptx tx)) \<or> tx_payload (ptx tx) = [])"
      using Some by (auto simp: token_payload_def split: if_splits sum.splits)
    then have d: "d = growth_of_op (tx_id (ptx tx)) owner (payload_op p) st ?g1"
      using assms(5) owner by (simp add: estimate_atomic_state_growth_for_tx_def Let_def)
    have zero: "gr_new_assets ?g1 = 0" "gr_new_pools ?g1 = 0" "gr_new_balance_keys ?g1 = 0" by (simp_all add: growth_default_def)
    have step: "token_step (tx_id (ptx tx)) owner ctx (payload_op p) (token_view_of st) (token_view_of st')"
      using apply_atomic_op_refines [OF wf(1) run] by (simp add: st' anchor_deltas_token_view set_next_nonce_token_view)
    have "dom (nonce_option st') \<subseteq> insert ?k (dom (nonce_option st))"
      using op_keeps_nonces(1) [OF run] by (auto simp: st' view_simps)
    then have "grew_by (dom (nonce_option st)) (dom (nonce_option st')) (gr_new_nonce_keys d)"
      by (auto simp: d has_nonce_def insert_absorb domIff intro: grew_by_one grew_by_same)
    moreover have "gr_new_anchor_owner_keys d = word_of_nat (length (new_anchor_owners blake (ptx tx) st))" by (simp add: d)
    ultimately show ?thesis
      using step_assets [OF step zero(1)] step_pools [OF step zero(2)] step_balances [OF step wf(1) zero(3)] anchors
      unfolding within_growth_def positive_keys_of [OF wf(1)] positive_keys_of [OF wf(2)] d by simp
  qed
qed

section \<open>A block\<close>

lemma filter_step_growth:
  assumes inv: "block_inv blake env score ctx st fs" and fresh: "fresh_tx st (block_tx_id p)" "block_tx_id p \<noteq> replicate 32 0"
    and sizes: "length (populated_inputs (fst p)) < 2 ^ 64" "length (tx_outputs (ptx (fst p))) < 2 ^ 64"
    and limits: "finite_limits (env_growth_limits env)"
    and growth: "within_growth st (fs_atomic_state fs) (fs_growth fs)" "below_limits (fs_growth fs) (env_growth_limits env)"
  shows "within_growth st (fs_atomic_state (filter_step blake env score ctx p fs)) (fs_growth (filter_step blake env score ctx p fs))
    \<and> below_limits (fs_growth (filter_step blake env score ctx p fs)) (env_growth_limits env)"
proof (cases rule: filter_step_cases [of blake env score ctx p fs])
  case (run r st' g')
  note now = block_invD(1) [OF inv] block_inv_fresh [OF inv fresh(1) run(1)] fresh(2)
  show ?thesis
  proof (cases r)
    case Inl
    then have "st' = fs_atomic_state fs" "g' = fs_growth fs" using with_growth_keeps [OF now run(3)] by simp_all
    then show ?thesis using growth by (simp add: run(4) Inl)
  next
    case (Inr u)
    obtain d where d: "estimate_atomic_state_growth_for_tx blake env (fst p) score (fs_atomic_state fs) = Inr d"
      "ensure_can_add (fs_growth fs) d (env_growth_limits env) = Inr ()"
      "validate_and_apply_atomic_state_transition blake env (fst p) score ctx (fs_atomic_state fs) = (Inr (), st')"
      "g' = commit_growth d (fs_growth fs)"
      using run(3) Inr
      by (auto simp: validate_and_apply_atomic_state_transition_with_growth_def split: sum.splits prod.splits)
    from within_growth_commit [OF growth(1) transition_growth [OF now d(3,1) sizes] d(2) limits]
    show ?thesis by (simp add: run(4) Inr d(4))
  qed
qed (simp_all add: growth)

lemma filter_growth:
  assumes "ledger_ok blake st" "block_fresh st txs" "block_sizes_ok txs" "finite_limits (env_growth_limits env)"
    and fs: "fs = filter_validated_transactions_by_atomic_state blake env score ctx txs st"
  shows "within_growth st (fs_atomic_state fs) (fs_growth fs) \<and> below_limits (fs_growth fs) (env_growth_limits env)"
proof -
  have "within_growth st (fs_atomic_state (fold (filter_step blake env score ctx) ps fs)) (fs_growth (fold (filter_step blake env score ctx) ps fs))
      \<and> below_limits (fs_growth (fold (filter_step blake env score ctx) ps fs)) (env_growth_limits env)"
    if "block_inv blake env score ctx st fs" "set ps \<subseteq> set txs"
      "within_growth st (fs_atomic_state fs) (fs_growth fs)" "below_limits (fs_growth fs) (env_growth_limits env)" for ps fs
    using that
  proof (induction ps arbitrary: fs)
    case (Cons p ps)
    then have p: "fresh_tx st (block_tx_id p)" "block_tx_id p \<noteq> replicate 32 0"
      "length (populated_inputs (fst p)) < 2 ^ 64" "length (tx_outputs (ptx (fst p))) < 2 ^ 64"
      using assms(2,3) by (simp_all add: block_fresh_def block_sizes_ok_def)
    show ?case
      using Cons.IH [OF filter_step_inv [OF Cons.prems(1) p(1,2)]] Cons.prems(2)
        filter_step_growth [OF Cons.prems(1) p assms(4) Cons.prems(3,4)] by simp
  qed simp
  from this [of _ "sort_key snd txs"] show ?thesis
    using assms(1) unfolding fs filter_validated_transactions_by_atomic_state_def
    by (simp add: block_inv_def within_growth_def below_limits_def growth_default_def)
qed

section \<open>Properties\<close>

text \<open>C10. A block cannot grow the token state beyond the limits of the node: whatever transactions a block offers,
  the number of assets, balance keys, nonce keys, pools and anchor owners in the state after the block that were
  not there before is at most the limit for each.\<close>

theorem block_growth_within_limits:
  assumes "ledger_ok blake st" "block_fresh st txs" "block_sizes_ok txs" "finite_limits (env_growth_limits env)"
    "st' = fs_atomic_state (filter_validated_transactions_by_atomic_state blake env score ctx txs st)"
  shows "card (dom (asset_option st') - dom (asset_option st)) \<le> unat (gl_max_new_assets (env_growth_limits env))
    \<and> card (dom (balance_option st') - dom (balance_option st)) \<le> unat (gl_max_new_balance_keys (env_growth_limits env))
    \<and> card (dom (nonce_option st') - dom (nonce_option st)) \<le> unat (gl_max_new_nonce_keys (env_growth_limits env))
    \<and> card (pool_ids (asset_option st') - pool_ids (asset_option st)) \<le> unat (gl_max_new_pools (env_growth_limits env))
    \<and> card (dom (anchor_count_option st') - dom (anchor_count_option st))
        \<le> unat (gl_max_new_anchor_owner_keys (env_growth_limits env))"
  using filter_growth [OF assms(1-4) refl, of score ctx]
  unfolding assms(5) within_growth_def grew_by_def below_limits_def word_le_nat_alt by linarith

theorem block_growth_within_limits_witness:
  "card (dom (nonce_option (fs_atomic_state (filter_validated_transactions_by_atomic_state example_hash example_env 0
      example_context [(example_burn_tx, 0)] example_ledger))) - dom (nonce_option example_ledger)) \<le> 4"
  using block_growth_within_limits [OF example_ledger_ok example_block_fresh _ _ refl, of example_env 0 example_context]
  by (simp add: block_sizes_ok_def example_burn_inputs example_burn_outputs finite_limits_def example_env_def)

end
