(* ===== verification/Atomic_Reorg.thy ===== *)
theory Atomic_Reorg
  imports Atomic_Block Token_Safety
begin

text \<open>
  Undoing and redoing a block. The state records, while the transactions of a block run, the first old and the
  last new value of every key; the virtual processor rolls the delta back when a block leaves the selected chain
  and applies it forward when it returns. On a well-formed ledger both always succeed.
\<close>

section \<open>Recording through the transactions\<close>

lemma tracks_set_balance_opt: "tracks st0 st \<Longrightarrow> tracks st0 (set_balance_opt blake w st)"
  by (auto simp: set_balance_opt_def tracks_set_balance split: option.splits)

lemma tracks_plan:
  "tracks st0 st \<Longrightarrow>
   then_in (insert_atomic_asset_state blake a x st) (\<lambda>_ st1. (Inr (), set_balance_opt blake w st1)) = (Inr u, st') \<Longrightarrow> tracks st0 st'"
  by (auto simp: then_in_def insert_atomic_asset_state_def map_err_Inr_iff tracks_set_balance_opt dest: tracks_set_asset
      split: prod.splits sum.splits)

lemma tracks_insert: "tracks st0 st \<Longrightarrow> insert_atomic_asset_state blake a x st = (Inr u, st') \<Longrightarrow> tracks st0 st'"
  using tracks_plan [of st0 st blake a x None u st'] insert_as_write [of blake a x st] by simp

lemma tracks_op:
  assumes "tracks st0 st" "apply_atomic_op_to_state blake tx t owner op ctx st = (Inr u, st')"
  shows "tracks st0 st'"
  using assms unfolding apply_atomic_op_to_state_def
  by (cases op)
    (auto simp: apply_create_asset_def apply_create_asset_with_mint_def apply_create_liquidity_asset_def apply_transfer_def
      apply_mint_def apply_burn_def apply_buy_def apply_sell_def apply_claim_def set_balance_zero Let_def try_in_Inr
      set_balance_opt_Some tracks_set_balance_opt dest: tracks_plan tracks_insert split: if_splits)

lemma tracks_anchor_deltas: "tracks st0 st \<Longrightarrow> tracks st0 (apply_anchor_deltas_to_atomic_state blake tx st)"
proof -
  have "tracks st0 s \<Longrightarrow> tracks st0 (fold (\<lambda>owner st. set_anchor_count blake owner (f owner st) st) owners s)" for f owners s
    by (induction owners arbitrary: s) (simp_all add: tracks_set_anchor_count)
  then show "tracks st0 st \<Longrightarrow> ?thesis" by (simp add: apply_anchor_deltas_to_atomic_state_def Let_def)
qed

lemma tracks_transition:
  assumes "tracks st0 st" "validate_and_apply_atomic_state_transition blake env tx score ctx st = (Inr u, st')"
  shows "tracks st0 st'"
proof (cases "token_payload env tx score")
  case None
  show ?thesis unfolding token_payload_None [OF None assms(2)] by (rule tracks_anchor_deltas [OF assms(1)])
next
  case (Some p)
  from this assms(2) show ?thesis
    by (rule token_payload_Some) (auto intro!: tracks_anchor_deltas tracks_set_next_nonce intro: tracks_op [OF assms(1)])
qed

lemma tracks_filter_step:
  assumes "block_inv blake env score ctx st fs" "fresh_tx st (block_tx_id p)" "block_tx_id p \<noteq> replicate 32 0"
    "tracks st0 (fs_atomic_state fs)"
  shows "tracks st0 (fs_atomic_state (filter_step blake env score ctx p fs))"
proof (cases rule: filter_step_cases [of blake env score ctx p fs])
  case (run r st' g')
  show ?thesis
  proof (cases r)
    case Inl
    then show ?thesis
      using with_growth_keeps [OF block_invD(1) [OF assms(1)] block_inv_fresh [OF assms(1,2) run(1)] assms(3) run(3)] assms(4)
      by (simp add: run(4))
  next
    case (Inr u)
    then have "validate_and_apply_atomic_state_transition blake env (fst p) score ctx (fs_atomic_state fs) = (Inr (), st')"
      using run(3) by (auto simp: validate_and_apply_atomic_state_transition_with_growth_def split: sum.splits prod.splits)
    from tracks_transition [OF assms(4) this] show ?thesis by (simp add: run(4) Inr)
  qed
qed (simp_all add: assms(4))

lemma tracks_filter:
  assumes "ledger_ok blake st" "block_fresh st txs" "tracks st0 st"
  shows "tracks st0 (fs_atomic_state (filter_validated_transactions_by_atomic_state blake env score ctx txs st))"
proof -
  have "tracks st0 (fs_atomic_state (fold (filter_step blake env score ctx) ps fs))"
    if "block_inv blake env score ctx st fs" "tracks st0 (fs_atomic_state fs)" "set ps \<subseteq> set txs" for ps fs
    using that
  proof (induction ps arbitrary: fs)
    case (Cons p ps)
    then have p: "fresh_tx st (block_tx_id p)" "block_tx_id p \<noteq> replicate 32 0"
      using assms(2) by (simp_all add: block_fresh_def)
    show ?case
      using Cons.IH [OF filter_step_inv [OF Cons.prems(1) p] tracks_filter_step [OF Cons.prems(1) p Cons.prems(2)]] Cons.prems(3)
      by simp
  qed simp
  from this [of _ "sort_key snd txs"] show ?thesis
    using assms(1,3) unfolding filter_validated_transactions_by_atomic_state_def by (simp add: block_inv_def)
qed

section \<open>Vaults across a block\<close>

lemma filter_seen:
  "fs_seen_txids (filter_validated_transactions_by_atomic_state blake env score ctx txs st) \<subseteq> block_tx_id ` set txs"
proof -
  have "fs_seen_txids (fold (filter_step blake env score ctx) ps fs) \<subseteq> fs_seen_txids fs \<union> block_tx_id ` set ps" for ps fs
  proof (induction ps arbitrary: fs)
    case (Cons p ps)
    have "fs_seen_txids (filter_step blake env score ctx p fs) \<subseteq> insert (block_tx_id p) (fs_seen_txids fs)"
      by (cases rule: filter_step_cases [of blake env score ctx p fs]) (auto split: sum.splits)
    then show ?case using Cons.IH [of "filter_step blake env score ctx p fs"] by auto
  qed simp
  from this [of "sort_key snd txs"] show ?thesis
    unfolding filter_validated_transactions_by_atomic_state_def by fastforce
qed

lemma ledger_vault:
  "ledger_ok blake st \<Longrightarrow> vault_asset st o1 = Some a \<longleftrightarrow> (\<exists>x. asset_option st a = Some x \<and> asset_vault x = Some o1)"
  by (simp add: ledger_ok_def wf_state_def wf_core_def)

lemma ledger_pools: "ledger_ok blake st \<Longrightarrow> pools_ok (asset_option st)"
  using asset_ok_pool by (auto simp: pools_ok_def dest: wf_core_asset [OF ledger_ok_core])

lemma ledger_vaults_apart:
  assumes "ledger_ok blake st" "ledger_ok blake st'"
    "\<And>o1 a b. vault_asset st o1 = Some a \<Longrightarrow> vault_asset st' o1 = Some b \<Longrightarrow> a = b"
  shows "vaults_apart (asset_option st) (asset_option st')"
  unfolding vaults_apart_def
proof (intro allI impI, elim conjE)
  fix a b x y o1
  assume "asset_option st a = Some x" "asset_option st' b = Some y" "asset_vault x = Some o1" "asset_vault y = Some o1"
  then show "a = b" using assms(3) [of o1 a b] ledger_vault [OF assms(1)] ledger_vault [OF assms(2)] by simp
qed

lemma ledger_index:
  assumes "ledger_ok blake st"
  shows "index_within (st_vault_outpoints st) (asset_option st) g"
  unfolding index_within_def
proof (intro allI impI)
  fix o1 a
  assume "map_of (st_vault_outpoints st) o1 = Some a"
  then have "vault_asset st o1 = Some a" by (simp add: vault_asset_def vault_get_def vault_pair_def)
  then show "\<exists>x. (asset_option st a = Some x \<or> g a = Some x) \<and> asset_vault x = Some o1"
    using ledger_vault [OF assms] by auto
qed

lemma begin_tracking_ledger: "ledger_ok blake (begin_delta_tracking st) = ledger_ok blake st"
  "vault_asset (begin_delta_tracking st) = vault_asset st"
proof -
  have store: "store_vault_asset (begin_delta_tracking st) = store_vault_asset st"
    by (simp add: begin_delta_tracking_def store_vault_asset_def fun_eq_iff)
  then show vault: "vault_asset (begin_delta_tracking st) = vault_asset st" by (simp add: vault_asset_def view_simps)
  show "ledger_ok blake (begin_delta_tracking st) = ledger_ok blake st"
    by (simp add: ledger_ok_def wf_state_def wf_core_def vault excess_def supply_of_def holdings_def view_simps)
qed

lemma block_vaults_agree:
  assumes "ledger_ok blake st" "block_fresh st txs" "fs = filter_validated_transactions_by_atomic_state blake env score ctx txs st"
    "vault_asset st o1 = Some a" "vault_asset (fs_atomic_state fs) o1 = Some b"
  shows "a = b"
proof -
  have "vault_asset st o1 = Some b \<or> outpoint_tx o1 \<in> fs_seen_txids fs"
    using block_invD(2) [OF filter_inv [OF assms(1,2)]] assms(3,5) by simp
  moreover have "outpoint_tx o1 \<notin> block_tx_id ` set txs"
    using assms(2,4) by (auto simp: block_fresh_def fresh_tx_def)
  then have "outpoint_tx o1 \<notin> fs_seen_txids fs" using filter_seen assms(3) by blast
  ultimately show ?thesis using assms(4) by simp
qed

text \<open>What recording gives between two well-formed ledgers whose vaults do not change hands.\<close>

lemma tracked_round_trip:
  assumes "ledger_ok blake st" "ledger_ok blake after"
    and agree: "\<And>o1 a b. vault_asset st o1 = Some a \<Longrightarrow> vault_asset after o1 = Some b \<Longrightarrow> a = b"
    and tracks: "tracks st after"
  shows "(\<exists>st'. apply_delta_rollback blake (fst (take_delta after)) (snd (take_delta after)) = (Inr (), st') \<and> same_view st' st)
    \<and> (\<exists>st'. apply_delta_forward blake (fst (take_delta after)) st = (Inr (), st') \<and> same_view st' after)"
proof -
  note match = take_delta_match [OF tracks refl]
  have self: "vaults_apart (asset_option s) (asset_option s)" if "ledger_ok blake s" for s
    by (rule ledger_vaults_apart [OF that that]) simp
  have apart: "vaults_apart (asset_option st) (asset_option after)" "vaults_apart (asset_option after) (asset_option st)"
    using ledger_vaults_apart [OF assms(1,2)] ledger_vaults_apart [OF assms(2,1)] agree by metis+
  have "\<exists>st'. apply_delta blake (fst (take_delta after)) False (snd (take_delta after)) = (Inr (), st')
    \<and> nonce_option st' = nonce_option st \<and> asset_option st' = asset_option st \<and> balance_option st' = balance_option st
    \<and> anchor_count_option st' = anchor_count_option st"
    by (rule apply_delta_correct [where st = "snd (take_delta after)", unfolded snd_take_delta_views,
          OF match(5-8) ledger_pools [OF assms(1)] self [OF assms(1)] apart(1) ledger_index [OF assms(2)]])
  moreover have "\<exists>st'. apply_delta blake (fst (take_delta after)) True st = (Inr (), st')
    \<and> nonce_option st' = nonce_option after \<and> asset_option st' = asset_option after \<and> balance_option st' = balance_option after
    \<and> anchor_count_option st' = anchor_count_option after"
    by (rule apply_delta_correct [OF match(1-4) ledger_pools [OF assms(2)] self [OF assms(2)] apart(2) ledger_index [OF assms(1)]])
  ultimately show ?thesis
    unfolding apply_delta_rollback_def apply_delta_forward_def same_view_def by blast
qed

section \<open>Properties\<close>

text \<open>C5. A block can be undone and redone. Let a block run on a well-formed ledger with recording switched on. Then
  rolling the recorded delta back on the state after the block succeeds and restores every nonce, asset, balance
  and anchor count of the state before it, and applying the delta forward to the state before the block succeeds
  and gives every lookup of the state after it.\<close>

theorem block_delta_round_trip:
  assumes "ledger_ok blake st" "block_fresh st txs"
    "after = fs_atomic_state (filter_validated_transactions_by_atomic_state blake env score ctx txs (begin_delta_tracking st))"
  shows "(\<exists>st'. apply_delta_rollback blake (fst (take_delta after)) (snd (take_delta after)) = (Inr (), st') \<and> same_view st' st)
    \<and> (\<exists>st'. apply_delta_forward blake (fst (take_delta after)) st = (Inr (), st') \<and> same_view st' after)"
proof -
  let ?st = "begin_delta_tracking st"
  have st: "ledger_ok blake ?st" using assms(1) by (simp add: begin_tracking_ledger)
  have fresh: "block_fresh ?st txs" using assms(2) by (simp add: block_fresh_def fresh_tx_def begin_tracking_ledger)
  have after: "ledger_ok blake after" unfolding assms(3) by (rule block_invD(1) [OF filter_inv [OF st fresh]])
  have agree: "vault_asset st o1 = Some a \<Longrightarrow> vault_asset after o1 = Some b \<Longrightarrow> a = b" for o1 a b
    using block_vaults_agree [OF st fresh refl] assms(3) by (simp add: begin_tracking_ledger)
  show ?thesis
    by (rule tracked_round_trip [OF assms(1) after agree tracks_filter [OF st fresh tracks_begin, of env score ctx, folded assms(3)]])
qed

theorem block_delta_round_trip_witness:
  "\<exists>after st'. after = fs_atomic_state (filter_validated_transactions_by_atomic_state example_hash example_env 0 example_context
      [(example_burn_tx, 0)] (begin_delta_tracking example_ledger))
    \<and> apply_delta_rollback example_hash (fst (take_delta after)) (snd (take_delta after)) = (Inr (), st')
    \<and> balance st' \<lparr>bk_asset_id = replicate 32 7, bk_owner_id = replicate 32 5\<rparr> = 20"
  using block_delta_round_trip [OF example_ledger_ok example_block_fresh refl, of example_env 0 example_context]
  by (auto simp: same_view_def balance_def example_lookups)

end
