(* ===== verification/Atomic_Mergeset.thy ===== *)
theory Atomic_Mergeset
  imports Atomic_Reorg
begin

text \<open>
  The token state across the blocks a chain block merges (\<open>calculate_utxo_state\<close> and
  \<open>UtxoProcessingContext::new\<close> in \<open>utxo_validation.rs\<close>): the selected parent first, then the rest of
  the mergeset in consensus order, each with its own growth budget and creation context, with recording switched
  on. Which transactions of a block are valid against the UTXO set so far is an argument, any function of the block
  and of the transactions accepted before, in order. The coinbase of the selected parent opens the UTXO diff of every
  mergeset; it is known to that argument and does not appear in \<open>ms_mergeset_diff\<close>. Fees, rewards, the UTXO multiset
  and the loading of blocks from the stores are left out.
\<close>

section \<open>Definitions\<close>

record mergeset_state =
  ms_atomic_state :: atomic_state
  ms_accepted_tx_ids :: "hash32 list"
  ms_accepted_txids :: "hash32 set"
  ms_accepted_spent_outpoints :: "outpoint set"
  ms_mergeset_diff :: "populated_tx list"
  ms_acceptance_data :: "(hash32 \<times> (hash32 \<times> u32) list) list"

definition merge_tx ::
    "(bytes \<Rightarrow> hash32) \<Rightarrow> atomic_env \<Rightarrow> u64 \<Rightarrow> creation_context \<Rightarrow> populated_tx \<times> u32
      \<Rightarrow> mergeset_state \<times> state_growth \<times> (hash32 \<times> u32) list \<Rightarrow> mergeset_state \<times> state_growth \<times> (hash32 \<times> u32) list" where
  "merge_tx blake env pov_daa_score ctx p s =
     (let tx = fst p; txid = tx_id (ptx tx); (ms, growth, accepted) = s;
          outpoints = map previous_outpoint (tx_inputs (ptx tx))
      in if txid \<in> ms_accepted_txids ms then s
         else if \<exists>o1 \<in> set outpoints. o1 \<in> ms_accepted_spent_outpoints ms then s
         else case validate_and_apply_atomic_state_transition_with_growth blake env tx pov_daa_score ctx
                     (ms_atomic_state ms) growth of
                (Inl _, st1, growth1) \<Rightarrow> (ms\<lparr>ms_atomic_state := st1\<rparr>, growth1, accepted)
              | (Inr _, st1, growth1) \<Rightarrow>
                  (ms\<lparr>ms_atomic_state := st1, ms_accepted_tx_ids := ms_accepted_tx_ids ms @ [txid],
                      ms_accepted_txids := insert txid (ms_accepted_txids ms),
                      ms_accepted_spent_outpoints := ms_accepted_spent_outpoints ms \<union> set outpoints,
                      ms_mergeset_diff := ms_mergeset_diff ms @ [tx]\<rparr>, growth1, accepted @ [(txid, snd p)]))"

definition merge_block ::
    "(bytes \<Rightarrow> hash32) \<Rightarrow> atomic_env \<Rightarrow> u64 \<Rightarrow> (bool \<Rightarrow> creation_context \<Rightarrow> populated_tx list \<Rightarrow> (populated_tx \<times> u32) list)
      \<Rightarrow> hash32 \<Rightarrow> bool \<Rightarrow> creation_context \<Rightarrow> mergeset_state \<Rightarrow> mergeset_state" where
  "merge_block blake env pov_daa_score validate coinbase_id is_selected_parent ctx ms =
     (let validated_transactions = sort_key snd (validate is_selected_parent ctx (ms_mergeset_diff ms));
          (ms1, _, accepted_transactions) =
            fold (merge_tx blake env pov_daa_score ctx) validated_transactions (ms, growth_default, [])
      in ms1\<lparr>ms_acceptance_data := ms_acceptance_data ms1
           @ [(cc_source_block_hash ctx,
               if is_selected_parent then (coinbase_id, 0) # accepted_transactions else accepted_transactions)]\<rparr>)"

definition calculate_utxo_state ::
    "(bytes \<Rightarrow> hash32) \<Rightarrow> atomic_env \<Rightarrow> u64 \<Rightarrow> (bool \<Rightarrow> creation_context \<Rightarrow> populated_tx list \<Rightarrow> (populated_tx \<times> u32) list)
      \<Rightarrow> hash32 \<Rightarrow> creation_context \<Rightarrow> creation_context list \<Rightarrow> atomic_state \<Rightarrow> mergeset_state" where
  "calculate_utxo_state blake env pov_daa_score validate coinbase_id selected_parent mergeset selected_parent_atomic_state =
     (let ms0 = \<lparr>ms_atomic_state = begin_delta_tracking selected_parent_atomic_state,
                 ms_accepted_tx_ids = [coinbase_id], ms_accepted_txids = {coinbase_id},
                 ms_accepted_spent_outpoints = {}, ms_mergeset_diff = [], ms_acceptance_data = []\<rparr>;
          ms1 = merge_block blake env pov_daa_score validate coinbase_id True selected_parent ms0;
          ms2 = fold (merge_block blake env pov_daa_score validate coinbase_id False) mergeset ms1
      in ms2\<lparr>ms_accepted_tx_ids := sort (ms_accepted_tx_ids ms2)\<rparr>)"

abbreviation pop_tx_id :: "populated_tx \<Rightarrow> hash32" where
  "pop_tx_id tx \<equiv> tx_id (ptx tx)"

abbreviation pop_outpoints :: "populated_tx \<Rightarrow> outpoint set" where
  "pop_outpoints tx \<equiv> previous_outpoint ` set (tx_inputs (ptx tx))"

definition fresh_id :: "atomic_state \<Rightarrow> hash32 \<Rightarrow> bool" where
  "fresh_id st t \<longleftrightarrow> fresh_tx st t \<and> t \<noteq> replicate 32 0"

definition merge_inv :: "(bytes \<Rightarrow> hash32) \<Rightarrow> atomic_state \<Rightarrow> hash32 \<Rightarrow> mergeset_state \<Rightarrow> bool" where
  "merge_inv blake st coinbase_id ms \<longleftrightarrow>
     ledger_ok blake (ms_atomic_state ms) \<and> tracks st (ms_atomic_state ms)
     \<and> (\<forall>o1 a. vault_asset (ms_atomic_state ms) o1 = Some a
          \<longrightarrow> vault_asset st o1 = Some a \<or> outpoint_tx o1 \<in> pop_tx_id ` set (ms_mergeset_diff ms))
     \<and> (\<forall>tx\<in>set (ms_mergeset_diff ms). fresh_id st (pop_tx_id tx))
     \<and> ms_accepted_tx_ids ms = coinbase_id # map pop_tx_id (ms_mergeset_diff ms)
     \<and> ms_accepted_txids ms = set (ms_accepted_tx_ids ms) \<and> distinct (ms_accepted_tx_ids ms)
     \<and> ms_accepted_spent_outpoints ms = \<Union> (pop_outpoints ` set (ms_mergeset_diff ms))
     \<and> sorted_wrt (\<lambda>s t. pop_outpoints s \<inter> pop_outpoints t = {}) (ms_mergeset_diff ms)"

section \<open>One transaction\<close>

lemma merge_invD:
  assumes "merge_inv blake st coinbase_id ms"
  shows "ledger_ok blake (ms_atomic_state ms)" "tracks st (ms_atomic_state ms)"
    "vault_asset (ms_atomic_state ms) o1 = Some a
      \<Longrightarrow> vault_asset st o1 = Some a \<or> outpoint_tx o1 \<in> pop_tx_id ` set (ms_mergeset_diff ms)"
    "tx \<in> set (ms_mergeset_diff ms) \<Longrightarrow> fresh_id st (pop_tx_id tx)"
    "ms_accepted_tx_ids ms = coinbase_id # map pop_tx_id (ms_mergeset_diff ms)"
    "ms_accepted_txids ms = set (ms_accepted_tx_ids ms)" "distinct (ms_accepted_tx_ids ms)"
    "ms_accepted_spent_outpoints ms = \<Union> (pop_outpoints ` set (ms_mergeset_diff ms))"
    "sorted_wrt (\<lambda>s t. pop_outpoints s \<inter> pop_outpoints t = {}) (ms_mergeset_diff ms)"
  using assms unfolding merge_inv_def by blast+

lemma merge_tx_cases:
  obtains (skip) "merge_tx blake env score ctx p (ms, g, acc) = (ms, g, acc)"
  | (run) r st' g' where "pop_tx_id (fst p) \<notin> ms_accepted_txids ms"
      "pop_outpoints (fst p) \<inter> ms_accepted_spent_outpoints ms = {}"
      "validate_and_apply_atomic_state_transition_with_growth blake env (fst p) score ctx (ms_atomic_state ms) g = (r, st', g')"
      "merge_tx blake env score ctx p (ms, g, acc) =
         (case r of
            Inl _ \<Rightarrow> (ms\<lparr>ms_atomic_state := st'\<rparr>, g', acc)
          | Inr _ \<Rightarrow>
              (ms\<lparr>ms_atomic_state := st', ms_accepted_tx_ids := ms_accepted_tx_ids ms @ [pop_tx_id (fst p)],
                  ms_accepted_txids := insert (pop_tx_id (fst p)) (ms_accepted_txids ms),
                  ms_accepted_spent_outpoints := ms_accepted_spent_outpoints ms \<union> pop_outpoints (fst p),
                  ms_mergeset_diff := ms_mergeset_diff ms @ [fst p]\<rparr>, g', acc @ [(pop_tx_id (fst p), snd p)]))"
proof -
  obtain r st' g' where exec: "validate_and_apply_atomic_state_transition_with_growth blake env (fst p) score ctx
      (ms_atomic_state ms) g = (r, st', g')" by (metis prod.exhaust)
  show thesis
  proof (cases "pop_tx_id (fst p) \<in> ms_accepted_txids ms \<or> (\<exists>o1\<in>pop_outpoints (fst p). o1 \<in> ms_accepted_spent_outpoints ms)")
    case True
    then show thesis by (intro skip) (auto simp: merge_tx_def Let_def)
  next
    case False
    then have no: "pop_tx_id (fst p) \<notin> ms_accepted_txids ms"
      "\<forall>i\<in>set (tx_inputs (ptx (fst p))). previous_outpoint i \<notin> ms_accepted_spent_outpoints ms" by auto
    then have "pop_outpoints (fst p) \<inter> ms_accepted_spent_outpoints ms = {}" by blast
    then show thesis
      by (rule run [OF no(1) _ exec]) (cases r, simp_all add: merge_tx_def Let_def exec no)
  qed
qed

lemma merge_tx_inv:
  assumes inv: "merge_inv blake st coinbase_id ms" and fresh: "fresh_id st (pop_tx_id (fst p))"
    and exec: "merge_tx blake env score ctx p (ms, g, acc) = (ms', g', acc')"
  shows "merge_inv blake st coinbase_id ms' \<and> ms_acceptance_data ms' = ms_acceptance_data ms
    \<and> (\<exists>new. ms_accepted_tx_ids ms' = ms_accepted_tx_ids ms @ new \<and> map fst acc' = map fst acc @ new)"
proof (cases rule: merge_tx_cases [of blake env score ctx p ms g acc])
  case skip
  then show ?thesis using exec inv by simp
next
  case (run r st1 g1)
  note D = merge_invD [OF inv]
  have new: "pop_tx_id (fst p) \<notin> set (ms_accepted_tx_ids ms)" using run(1) D(6) by simp
  have fresh1: "fresh_tx (ms_atomic_state ms) (pop_tx_id (fst p))"
    unfolding fresh_tx_def
  proof (intro allI impI notI)
    fix o1 a assume vault: "vault_asset (ms_atomic_state ms) o1 = Some a" and eq: "outpoint_tx o1 = pop_tx_id (fst p)"
    have "vault_asset st o1 \<noteq> Some a" using fresh eq by (auto simp: fresh_id_def fresh_tx_def)
    moreover have "pop_tx_id (fst p) \<notin> pop_tx_id ` set (ms_mergeset_diff ms)" using new D(5) by simp
    ultimately show False using D(3) [OF vault] unfolding eq by blast
  qed
  note keep = with_growth_keeps [OF D(1) fresh1 fresh [unfolded fresh_id_def, THEN conjunct2] run(3)]
  show ?thesis
  proof (cases r)
    case Inl
    then show ?thesis using keep exec inv by (simp add: run(4))
  next
    case (Inr u)
    have out: "ms' = ms\<lparr>ms_atomic_state := st1, ms_accepted_tx_ids := ms_accepted_tx_ids ms @ [pop_tx_id (fst p)],
        ms_accepted_txids := insert (pop_tx_id (fst p)) (ms_accepted_txids ms),
        ms_accepted_spent_outpoints := ms_accepted_spent_outpoints ms \<union> pop_outpoints (fst p),
        ms_mergeset_diff := ms_mergeset_diff ms @ [fst p]\<rparr>" "acc' = acc @ [(pop_tx_id (fst p), snd p)]"
      using exec by (simp_all add: run(4) Inr)
    have "validate_and_apply_atomic_state_transition blake env (fst p) score ctx (ms_atomic_state ms) = (Inr (), st1)"
      using run(3) Inr by (auto simp: validate_and_apply_atomic_state_transition_with_growth_def split: sum.splits prod.splits)
    then have tracks: "tracks st st1" by (rule tracks_transition [OF D(2)])
    have ledger: "ledger_ok blake st1"
      and vaults: "vault_asset st1 o1 = Some a \<Longrightarrow> vault_asset (ms_atomic_state ms) o1 = Some a \<or> outpoint_tx o1 = pop_tx_id (fst p)"
      for o1 a using keep by (simp_all add: Inr)
    have "merge_inv blake st coinbase_id ms'"
      unfolding merge_inv_def
    proof (intro conjI)
      show "\<forall>o1 a. vault_asset (ms_atomic_state ms') o1 = Some a
          \<longrightarrow> vault_asset st o1 = Some a \<or> outpoint_tx o1 \<in> pop_tx_id ` set (ms_mergeset_diff ms')"
        using vaults D(3) by (auto simp: out)
      show "sorted_wrt (\<lambda>s t. pop_outpoints s \<inter> pop_outpoints t = {}) (ms_mergeset_diff ms')"
        using D(9) run(2) by (auto simp: out sorted_wrt_append D(8))
    qed (use ledger tracks D(4-8) fresh new in \<open>auto simp: out\<close>)
    then show ?thesis by (simp add: out)
  qed
qed

section \<open>Blocks\<close>

lemma merge_inv_acceptance [simp]:
  "merge_inv blake st coinbase_id (ms\<lparr>ms_acceptance_data := x\<rparr>) = merge_inv blake st coinbase_id ms"
  by (simp add: merge_inv_def)

lemma merge_txs_inv:
  assumes "merge_inv blake st coinbase_id ms" "\<And>p. p \<in> set ps \<Longrightarrow> fresh_id st (pop_tx_id (fst p))"
    "fold (merge_tx blake env score ctx) ps (ms, g, acc) = (ms', g', acc')"
  shows "merge_inv blake st coinbase_id ms' \<and> ms_acceptance_data ms' = ms_acceptance_data ms
    \<and> (\<exists>new. ms_accepted_tx_ids ms' = ms_accepted_tx_ids ms @ new \<and> map fst acc' = map fst acc @ new)"
  using assms
proof (induction ps arbitrary: ms g acc)
  case (Cons p ps)
  obtain ms1 g1 acc1 where step: "merge_tx blake env score ctx p (ms, g, acc) = (ms1, g1, acc1)" by (metis prod.exhaust)
  have "fresh_id st (pop_tx_id (fst p))" by (rule Cons.prems(2)) simp
  note one = merge_tx_inv [OF Cons.prems(1) this step]
  have "merge_inv blake st coinbase_id ms' \<and> ms_acceptance_data ms' = ms_acceptance_data ms1
    \<and> (\<exists>new. ms_accepted_tx_ids ms' = ms_accepted_tx_ids ms1 @ new \<and> map fst acc' = map fst acc1 @ new)"
    by (rule Cons.IH [of ms1 g1 acc1]) (use one Cons.prems(2,3) step in auto)
  then show ?case using one by auto
qed simp

text \<open>The ids that the acceptance data of the merged blocks list, in their order.\<close>

abbreviation listed_ids :: "mergeset_state \<Rightarrow> hash32 list" where
  "listed_ids ms \<equiv> map fst (concat (map snd (ms_acceptance_data ms)))"

lemma merge_block_inv:
  assumes "merge_inv blake st coinbase_id ms" "\<And>b c d p. p \<in> set (validate b c d) \<Longrightarrow> fresh_id st (pop_tx_id (fst p))"
    "ms' = merge_block blake env score validate coinbase_id is_parent ctx ms"
    "if is_parent then ms_accepted_tx_ids ms = [coinbase_id] \<and> ms_acceptance_data ms = [] else listed_ids ms = ms_accepted_tx_ids ms"
  shows "merge_inv blake st coinbase_id ms' \<and> listed_ids ms' = ms_accepted_tx_ids ms'"
proof -
  obtain ms1 g1 acc1 where run: "fold (merge_tx blake env score ctx) (sort_key snd (validate is_parent ctx (ms_mergeset_diff ms)))
      (ms, growth_default, []) = (ms1, g1, acc1)" by (metis prod.exhaust)
  have "p \<in> set (sort_key snd (validate is_parent ctx (ms_mergeset_diff ms))) \<Longrightarrow> fresh_id st (pop_tx_id (fst p))" for p
    using assms(2) by simp
  note step = merge_txs_inv [OF assms(1) this run]
  have out: "ms' = ms1\<lparr>ms_acceptance_data := ms_acceptance_data ms1
      @ [(cc_source_block_hash ctx, if is_parent then (coinbase_id, 0) # acc1 else acc1)]\<rparr>"
    unfolding assms(3) merge_block_def Let_def run by simp
  have "merge_inv blake st coinbase_id ms'" using step by (simp add: out)
  moreover have "listed_ids ms' = ms_accepted_tx_ids ms'"
    using step assms(4) by (cases is_parent) (auto simp: out)
  ultimately show ?thesis ..
qed

lemma calculate_utxo_state_inv:
  assumes "ledger_ok blake st" "\<And>b c d p. p \<in> set (validate b c d) \<Longrightarrow> fresh_id st (pop_tx_id (fst p))"
  obtains ms where "merge_inv blake st coinbase_id ms" "listed_ids ms = ms_accepted_tx_ids ms"
    "calculate_utxo_state blake env score validate coinbase_id selected_parent mergeset st
       = ms\<lparr>ms_accepted_tx_ids := sort (ms_accepted_tx_ids ms)\<rparr>"
proof -
  define ms0 where "ms0 = \<lparr>ms_atomic_state = begin_delta_tracking st, ms_accepted_tx_ids = [coinbase_id],
    ms_accepted_txids = {coinbase_id}, ms_accepted_spent_outpoints = {}, ms_mergeset_diff = [], ms_acceptance_data = []\<rparr>"
  define ms1 where "ms1 = merge_block blake env score validate coinbase_id True selected_parent ms0"
  have "merge_inv blake st coinbase_id ms0"
    by (simp add: merge_inv_def ms0_def begin_tracking_ledger assms(1) tracks_begin)
  from merge_block_inv [OF this assms(2) ms1_def] have one: "merge_inv blake st coinbase_id ms1 \<and> listed_ids ms1 = ms_accepted_tx_ids ms1"
    by (simp add: ms0_def)
  have "merge_inv blake st coinbase_id (fold (merge_block blake env score validate coinbase_id False) bs ms)
      \<and> listed_ids (fold (merge_block blake env score validate coinbase_id False) bs ms)
        = ms_accepted_tx_ids (fold (merge_block blake env score validate coinbase_id False) bs ms)"
    if "merge_inv blake st coinbase_id ms \<and> listed_ids ms = ms_accepted_tx_ids ms" for bs ms
    using that
  proof (induction bs arbitrary: ms)
    case (Cons b bs)
    have "merge_inv blake st coinbase_id (merge_block blake env score validate coinbase_id False b ms)
        \<and> listed_ids (merge_block blake env score validate coinbase_id False b ms)
          = ms_accepted_tx_ids (merge_block blake env score validate coinbase_id False b ms)"
      by (rule merge_block_inv [OF _ assms(2) refl]) (use Cons.prems in auto)
    from Cons.IH [OF this] show ?case by simp
  qed simp
  from this [OF one, of mergeset] show thesis
    by (intro that [of "fold (merge_block blake env score validate coinbase_id False) mergeset ms1"])
      (simp_all add: calculate_utxo_state_def Let_def ms0_def ms1_def)
qed

section \<open>The example with recording switched on\<close>

lemma example_tracked_kept:
  "\<exists>st. validate_and_apply_atomic_state_transition_with_growth example_hash example_env example_burn_tx 0 example_context
     (begin_delta_tracking example_ledger) growth_default = (Inr (), st, growth_default\<lparr>gr_new_nonce_keys := 1\<rparr>)"
proof -
  let ?st = "begin_delta_tracking example_ledger" and ?token = "example_token\<lparr>as_total_supply := 11\<rparr>"
  have "vault_free ?st (replicate 32 7) ?token" by (simp add: vault_free_def begin_tracking_ledger example_lookups)
  then obtain st1 where set: "set_asset example_hash (replicate 32 7) ?token ?st = (Inr (), st1)"
    using set_asset_ok [of ?token] by (force simp: example_token_def)
  have flags: "is_payload_hf_active example_env 0" "is_payload (subnetwork_id (ptx example_burn_tx))"
    "tx_payload (ptx example_burn_tx) = example_burn_payload" "example_burn_payload \<noteq> []"
    by (simp_all add: is_payload_hf_active_def is_payload_def example_env_def example_burn_tx_def example_burn_payload_def)
  have checked: "collect_spent_liquidity_vault_inputs example_burn_tx ?st = Inr []"
    "burn_plan (replicate 32 5) (replicate 32 7) 9 ?st
       = Inr (?token, \<lparr>bk_asset_id = replicate 32 7, bk_owner_id = replicate 32 5\<rparr>, 11)" by code_simp+
  have same: "next_nonce ?st = next_nonce example_ledger" "has_anchor_count ?st = has_anchor_count example_ledger"
    "has_nonce ?st = has_nonce example_ledger" "anchor_count ?st = anchor_count example_ledger"
    by (simp_all add: fun_eq_iff next_nonce_def has_anchor_count_def has_nonce_def anchor_count_def view_simps)
  have transition: "check_transition example_hash example_burn_tx [] p ?st = check_transition example_hash example_burn_tx [] p example_ledger"
    for p unfolding check_transition_def validate_replacement_anchor_def same ..
  have "estimate_atomic_state_growth_for_tx example_hash example_env example_burn_tx 0 ?st
      = estimate_atomic_state_growth_for_tx example_hash example_env example_burn_tx 0 example_ledger"
    by (simp add: estimate_atomic_state_growth_for_tx_def flags example_burn_parsed new_anchor_owners_def growth_of_op_def same
        cong: sum.case_cong)
  then have estimate: "estimate_atomic_state_growth_for_tx example_hash example_env example_burn_tx 0 ?st
      = Inr (growth_default\<lparr>gr_new_nonce_keys := 1\<rparr>)" by (simp add: example_burn_growth example_env_def)
  have room: "ensure_can_add growth_default (growth_default\<lparr>gr_new_nonce_keys := 1\<rparr>) (env_growth_limits example_env) = Inr ()"
    "commit_growth (growth_default\<lparr>gr_new_nonce_keys := 1\<rparr>) growth_default = growth_default\<lparr>gr_new_nonce_keys := 1\<rparr>"
    by code_simp+
  have "\<exists>st. validate_and_apply_atomic_state_transition example_hash example_env example_burn_tx 0 example_context ?st = (Inr (), st)"
    by (simp add: validate_and_apply_atomic_state_transition_def try_in_def flags checked example_burn_parsed transition
        example_burn_transition apply_atomic_op_to_state_def apply_burn_def insert_atomic_asset_state_def set then_in_def)
  then show ?thesis
    by (auto simp: validate_and_apply_atomic_state_transition_with_growth_def estimate room)
qed

lemma example_mergeset_diff:
  "ms_mergeset_diff (calculate_utxo_state example_hash example_env 0 (\<lambda>_ _ _. [(example_burn_tx, 1)])
     (replicate 32 2) example_context [example_context] example_ledger) = [example_burn_tx]"
proof -
  obtain st where "validate_and_apply_atomic_state_transition_with_growth example_hash example_env example_burn_tx 0
      example_context (begin_delta_tracking example_ledger) growth_default
      = (Inr (), st, growth_default\<lparr>gr_new_nonce_keys := 1\<rparr>)" using example_tracked_kept by blast
  then show ?thesis
    by (simp add: calculate_utxo_state_def merge_block_def merge_tx_def Let_def example_burn_id)
qed

section \<open>Properties\<close>

text \<open>C7. The mergeset of a chain block, on a well-formed ledger and for any outcome of the UTXO checks whose transactions
  have ids that are not zero and under which no pool of the start has its vault. The ledger after the mergeset is
  well formed; no transaction is accepted twice and no two accepted ones spend the same outpoint; the acceptance data
  of the merged blocks list exactly the accepted ids; and the recorded delta rolls the ledger back to the lookups of
  the selected parent and replays it forward.\<close>

theorem mergeset_keeps_ledger_and_rolls_back:
  assumes "ledger_ok blake st" "\<And>b c d p. p \<in> set (validate b c d) \<Longrightarrow> fresh_id st (pop_tx_id (fst p))"
    "ms = calculate_utxo_state blake env score validate coinbase_id selected_parent mergeset st" "after = ms_atomic_state ms"
  shows "ledger_ok blake after
    \<and> distinct (ms_accepted_tx_ids ms) \<and> sorted_wrt (\<lambda>s t. pop_outpoints s \<inter> pop_outpoints t = {}) (ms_mergeset_diff ms)
    \<and> mset (listed_ids ms) = mset (ms_accepted_tx_ids ms)
    \<and> (\<exists>st'. apply_delta_rollback blake (fst (take_delta after)) (snd (take_delta after)) = (Inr (), st') \<and> same_view st' st)
    \<and> (\<exists>st'. apply_delta_forward blake (fst (take_delta after)) st = (Inr (), st') \<and> same_view st' after)"
proof -
  obtain ms1 where inv: "merge_inv blake st coinbase_id ms1" "listed_ids ms1 = ms_accepted_tx_ids ms1"
    and calc: "calculate_utxo_state blake env score validate coinbase_id selected_parent mergeset st
       = ms1\<lparr>ms_accepted_tx_ids := sort (ms_accepted_tx_ids ms1)\<rparr>"
    by (rule calculate_utxo_state_inv [OF assms(1,2)])
  note ms = assms(3) [unfolded calc] and D = merge_invD [OF inv(1)]
  have after: "after = ms_atomic_state ms1" by (simp add: assms(4) ms)
  have agree: "a = b" if "vault_asset st o1 = Some a" "vault_asset after o1 = Some b" for o1 a b
  proof -
    have "outpoint_tx o1 \<notin> pop_tx_id ` set (ms_mergeset_diff ms1)"
    proof
      assume "outpoint_tx o1 \<in> pop_tx_id ` set (ms_mergeset_diff ms1)"
      then obtain tx where "outpoint_tx o1 = pop_tx_id tx" "tx \<in> set (ms_mergeset_diff ms1)" by (rule imageE)
      then show False using D(4) [of tx] that(1) unfolding fresh_id_def fresh_tx_def by metis
    qed
    then show ?thesis using D(3) [of o1 b] that by (simp add: after)
  qed
  have ids: "distinct (ms_accepted_tx_ids ms)" "mset (listed_ids ms) = mset (ms_accepted_tx_ids ms)"
    using D(7) inv(2) by (simp_all add: ms)
  have disjoint: "sorted_wrt (\<lambda>s t. pop_outpoints s \<inter> pop_outpoints t = {}) (ms_mergeset_diff ms)"
    using D(9) by (simp add: ms)
  have ledger: "ledger_ok blake after" unfolding after by (rule D(1))
  have tracks: "tracks st after" unfolding after by (rule D(2))
  have "(\<exists>st'. apply_delta_rollback blake (fst (take_delta after)) (snd (take_delta after)) = (Inr (), st') \<and> same_view st' st)
    \<and> (\<exists>st'. apply_delta_forward blake (fst (take_delta after)) st = (Inr (), st') \<and> same_view st' after)"
    by (rule tracked_round_trip [OF assms(1) ledger _ tracks]) (rule agree)
  with ledger ids disjoint show ?thesis by blast
qed

theorem mergeset_keeps_ledger_and_rolls_back_witness:
  "\<exists>ms after st'. ms = calculate_utxo_state example_hash example_env 0 (\<lambda>_ _ _. [(example_burn_tx, 1)])
      (replicate 32 2) example_context [example_context] example_ledger
    \<and> ms_mergeset_diff ms = [example_burn_tx] \<and> after = ms_atomic_state ms \<and> ledger_ok example_hash after
    \<and> apply_delta_rollback example_hash (fst (take_delta after)) (snd (take_delta after)) = (Inr (), st')
    \<and> balance st' \<lparr>bk_asset_id = replicate 32 7, bk_owner_id = replicate 32 5\<rparr> = 20"
proof -
  have fresh: "fresh_id example_ledger (pop_tx_id (fst p))" if "p \<in> set [(example_burn_tx, 1)]" for p :: "populated_tx \<times> u32"
    using that by (simp add: fresh_id_def example_fresh example_burn_id)
  show ?thesis
    using mergeset_keeps_ledger_and_rolls_back [where validate = "\<lambda>_ _ _. [(example_burn_tx, 1)]", OF example_ledger_ok fresh refl refl,
        of example_env 0 "replicate 32 2" example_context "[example_context]"]
    by (auto simp: same_view_def balance_def example_lookups example_mergeset_diff)
qed

end
