(* ===== verification/Token_Liveness.thy ===== *)
theory Token_Liveness
  imports Token_Safety
begin

text \<open>
  When a transfer goes through. The checks of the code can refuse it for the balance of the sender and for an
  overflow at the receiver; on a well-formed ledger the second cannot happen, because all balances of an asset
  sum to a supply that fits its machine word.
\<close>

section \<open>An example\<close>

definition example_transfer_payload :: bytes where
  "example_transfer_payload =
     [0x43, 0x41, 0x54, 1, 1, 0, 0, 0, 1, 0, 0, 0, 0, 0, 0, 0] @ replicate 32 7 @ replicate 32 6 @ [4] @ replicate 15 0"

definition example_transfer_tx :: populated_tx where
  "example_transfer_tx =
     example_burn_tx\<lparr>ptx := (ptx example_burn_tx)\<lparr>tx_payload := example_transfer_payload\<rparr>\<rparr>"

section \<open>Acceptance of transfers\<close>

lemma two_holdings:
  assumes "ledger_ok blake st" "owner \<noteq> to_owner" "asset_option st a = Some x"
  shows "unat (balance st \<lparr>bk_asset_id = a, bk_owner_id = owner\<rparr>) + unat (balance st \<lparr>bk_asset_id = a, bk_owner_id = to_owner\<rparr>)
    \<le> unat (as_total_supply x)"
proof -
  let ?h = "holdings st a"
  have fin: "finite (dom ?h)" and "excess st a = 0"
    using assms(1) by (simp_all add: ledger_ok_def wf_state_def wf_core_def)
  then have total: "option_sum ?h = unat (as_total_supply x)" by (simp add: excess_def flip: supply_of_Some [OF assms(3)])
  have "(\<Sum>k\<in>{owner, to_owner}. unat (some_or_zero (?h k))) = (\<Sum>k\<in>{owner, to_owner} \<inter> dom ?h. unat (some_or_zero (?h k)))"
    by (rule sum.mono_neutral_right) (auto simp: some_or_zero_def split: option.splits)
  also have "\<dots> \<le> option_sum ?h" unfolding option_sum_def by (rule sum_mono2 [OF fin]) simp_all
  finally show ?thesis using assms(2) total by (simp add: balance_some_or_zero holdings_def)
qed

lemma apply_transfer_accepts:
  assumes "ledger_ok blake st"
  shows "(\<exists>st'. apply_transfer blake owner a to_owner amount st = (Inr (), st'))
    \<longleftrightarrow> asset_option st a \<noteq> None \<and> amount \<le> balance st \<lparr>bk_asset_id = a, bk_owner_id = owner\<rparr>"
proof (cases "asset_option st a")
  case None
  then show ?thesis by (simp add: apply_transfer_def has_asset_def)
next
  case (Some x)
  let ?from = "\<lparr>bk_asset_id = a, bk_owner_id = owner\<rparr>" and ?to = "\<lparr>bk_asset_id = a, bk_owner_id = to_owner\<rparr>"
  have sub: "(\<exists>v. checked_sub (balance st ?from) amount = Some v) \<longleftrightarrow> amount \<le> balance st ?from"
    by (auto simp: checked_sub_def)
  have add: "\<exists>v. checked_add (balance st ?to) amount = Some v" if "amount \<le> balance st ?from" "owner \<noteq> to_owner"
  proof -
    have "unat (balance st ?to) + unat amount \<le> unat (as_total_supply x)"
      using two_holdings [OF assms that(2) Some] that(1) by (simp add: word_le_nat_alt)
    then have "unat (balance st ?to) + unat amount < 2 ^ 128" using unat_bound [of "as_total_supply x"] by simp
    then have "checked_add (balance st ?to) amount \<noteq> None" by (simp only: checked_iff) simp
    then show ?thesis by blast
  qed
  show ?thesis
    using Some sub add unfolding apply_transfer_def set_balance_zero Let_def
    by (cases "owner = to_owner") (auto simp: has_asset_def try_in_Inr result_simps)
qed


section \<open>The example\<close>

lemma example_transfer_parsed:
  "parse_atomic_payload example_transfer_payload
     = Inr (Some \<lparr>auth_input_index = 0, payload_nonce = 1, payload_op = Transfer (replicate 32 7) (replicate 32 6) 4\<rparr>)"
  by code_simp

lemma example_transfer_fields:
  "tx_payload (ptx example_transfer_tx) = example_transfer_payload"
  "subnetwork_id (ptx example_transfer_tx) = SUBNETWORK_ID_PAYLOAD"
  "tx_outputs (ptx example_transfer_tx) = [\<lparr>output_value = 900, output_spk = example_script\<rparr>]"
  "populated_inputs example_transfer_tx = populated_inputs example_burn_tx"
  by (simp_all add: example_transfer_tx_def example_burn_tx_def populated_inputs_def)

lemma example_transfer_payload_of:
  "token_payload example_env example_transfer_tx 0
     = Some \<lparr>auth_input_index = 0, payload_nonce = 1, payload_op = Transfer (replicate 32 7) (replicate 32 6) 4\<rparr>"
  by (simp add: token_payload_def example_transfer_fields example_transfer_parsed is_payload_def is_payload_hf_active_def
      example_env_def) (simp add: example_transfer_payload_def)

lemma example_transfer_checked:
  "collect_spent_liquidity_vault_inputs example_transfer_tx example_ledger = Inr []"
  "check_transition example_hash example_transfer_tx []
     \<lparr>auth_input_index = 0, payload_nonce = 1, payload_op = Transfer (replicate 32 7) (replicate 32 6) 4\<rparr> example_ledger
     = Inr (replicate 32 5, nonce_key_asset (replicate 32 5) (replicate 32 7), 2)"
proof -
  show "collect_spent_liquidity_vault_inputs example_transfer_tx example_ledger = Inr []" by code_simp
  have vault: "vault_output_count (ptx example_transfer_tx) = 0" by code_simp
  have nonce: "next_nonce example_ledger k = 1" for k by (simp add: next_nonce_def example_lookups)
  have two: "checked_add (1 :: u64) 1 = Some 2" by (simp add: checked_iff)
  show "check_transition example_hash example_transfer_tx []
     \<lparr>auth_input_index = 0, payload_nonce = 1, payload_op = Transfer (replicate 32 7) (replicate 32 6) 4\<rparr> example_ledger
     = Inr (replicate 32 5, nonce_key_asset (replicate 32 5) (replicate 32 7), 2)"
    by (simp add: check_transition_def resolve_atomic_owner_from_populated_tx_def example_transfer_fields example_burn_inputs
        example_owner Let_def nonce two vault validate_replacement_anchor_def atomic_nonce_key_for_op_def op_creates_liquidity_def)
qed

section \<open>Properties\<close>

text \<open>C16. A transfer an owner can pay for is accepted: once the checks common to all operations pass, a transfer on
  a well-formed ledger succeeds exactly when the asset exists and the balance of the signing owner covers the
  amount. No balance of a receiver is too large to receive it.\<close>

theorem transfer_accepted_iff:
  assumes "ledger_ok blake st" "token_payload env tx score = Some p" "payload_op p = Transfer a to_owner amount"
    "collect_spent_liquidity_vault_inputs tx st = Inr vaults" "check_transition blake tx vaults p st = Inr (owner, key, n)"
  shows "(\<exists>st'. validate_and_apply_atomic_state_transition blake env tx score ctx st = (Inr (), st'))
    \<longleftrightarrow> asset_option st a \<noteq> None \<and> amount \<le> balance st \<lparr>bk_asset_id = a, bk_owner_id = owner\<rparr>"
proof -
  have parsed: "parse_atomic_payload (tx_payload (ptx tx)) = Inr (Some p)"
    and on: "\<not> (\<not> is_payload_hf_active env score \<or> \<not> is_payload (subnetwork_id (ptx tx)) \<or> tx_payload (ptx tx) = [])"
    using assms(2) by (auto simp: token_payload_def split: if_splits sum.splits)
  have "validate_and_apply_atomic_state_transition blake env tx score ctx st
      = then_in (apply_transfer blake owner a to_owner amount st) (\<lambda>_ st1.
          (Inr (), apply_anchor_deltas_to_atomic_state blake tx (set_next_nonce blake key n st1)))"
    using on parsed assms(3-5)
    by (simp add: validate_and_apply_atomic_state_transition_def try_in_def apply_atomic_op_to_state_def)
  then show ?thesis
    unfolding apply_transfer_accepts [OF assms(1), of owner a to_owner amount, symmetric] by (simp add: then_in_Inr)
qed

theorem transfer_accepted_iff_witness:
  "\<exists>st. validate_and_apply_atomic_state_transition example_hash example_env example_transfer_tx 0 example_context example_ledger
      = (Inr (), st)"
  using transfer_accepted_iff [OF example_ledger_ok example_transfer_payload_of _ example_transfer_checked,
      of "replicate 32 7" "replicate 32 6" 4 example_context]
  by (simp add: example_lookups balance_def)

end
