(* ===== verification/Atomic_Codec.thy ===== *)
theory Atomic_Codec
  imports Atomic_Check
begin

text \<open>
  The canonical byte string of a whole Atomic token state (\<open>canonical_bytes\<close>,
  \<open>try_from_canonical_bytes\<close> and \<open>AtomicStateReader\<close> in \<open>atomic_state.rs\<close>), which nodes
  exchange when they bootstrap. The maps are written in the order of their keys behind a
  count; assets carry their pool. The reader checks every field, refuses duplicate keys and
  trailing bytes, and ends with the consistency check of the state. Assets in the layout of
  an earlier release are read when the current layout does not fit. A length is read as a
  machine word of 64 bits, which is also the width of an index of the platform.
\<close>

section \<open>Errors\<close>

datatype (plugins only: code) codec_error =
    CodecTruncated | CodecMagic | CodecOptionalHashFlag u8 | CodecOptionalU64Flag u8
  | CodecAssetClass u8 | CodecSupplyMode u8 | CodecDecimals | CodecNameLen | CodecSymbolLen | CodecMetadataLen
  | CodecNotUtf8 | CodecTagLen | CodecTagNotUtf8 | CodecLiquidityFlag u8 | CodecRecipientCount | CodecUnlockedFlag u8
  | CodecTrailing | CodecDuplicateNonce | CodecDuplicateAsset | CodecDuplicateBalance | CodecDuplicateAnchor
  | CodecRootOnly | CodecNormal normal_error

definition ATOMIC_CONSENSUS_STATE_MAGIC :: bytes where
  "ATOMIC_CONSENSUS_STATE_MAGIC = [0x43, 0x41, 0x54, 0x43, 0x53, 0x47, 0x30, 0x32]"

definition ATOMIC_CONSENSUS_STATE_ROOT_ONLY_TAG :: bytes where
  "ATOMIC_CONSENSUS_STATE_ROOT_ONLY_TAG = [0x52, 0x4F, 0x4F, 0x54]"

section \<open>Writing\<close>

definition write_len :: "nat \<Rightarrow> bytes" where
  "write_len n = to_le_bytes (word_of_nat n :: u64)"

definition write_optional_hash :: "hash32 option \<Rightarrow> bytes" where
  "write_optional_hash v = (case v of Some h \<Rightarrow> [1] @ h | None \<Rightarrow> [0])"

definition write_optional_u64 :: "u64 option \<Rightarrow> bytes" where
  "write_optional_u64 v = (case v of Some n \<Rightarrow> [1] @ to_le_bytes n | None \<Rightarrow> [0])"

definition write_fee_recipient :: "fee_recipient \<Rightarrow> bytes" where
  "write_fee_recipient r =
     fr_owner_id r @ [fr_address_version r] @ write_len (length (fr_address_payload r)) @ fr_address_payload r
     @ to_le_bytes (fr_unclaimed_sompi r)"

definition write_liquidity_pool :: "pool_state \<Rightarrow> bytes" where
  "write_liquidity_pool pool =
     to_le_bytes (pl_pool_nonce pool) @ [pl_curve_version pool] @ [pl_curve_mode pool]
     @ to_le_bytes (pl_individual_virtual_cpay_reserves_sompi pool)
     @ to_le_bytes (pl_individual_virtual_token_multiplier_bps pool)
     @ to_le_bytes (pl_real_cpay_reserves_sompi pool) @ to_le_bytes (pl_real_token_reserves pool)
     @ to_le_bytes (pl_virtual_cpay_reserves_sompi pool) @ to_le_bytes (pl_virtual_token_reserves pool)
     @ to_le_bytes (pl_unclaimed_fee_total_sompi pool) @ to_le_bytes (pl_fee_bps pool)
     @ write_len (length (pl_fee_recipients pool)) @ concat (map write_fee_recipient (pl_fee_recipients pool))
     @ outpoint_tx (pl_vault_outpoint pool) @ to_le_bytes (outpoint_index (pl_vault_outpoint pool))
     @ to_le_bytes (pl_vault_value_sompi pool) @ to_le_bytes (pl_unlock_target_sompi pool)
     @ [if pl_unlocked pool then 1 else 0]"

definition write_atomic_asset :: "asset_state \<Rightarrow> bytes" where
  "write_atomic_asset asset =
     as_creator_owner_id asset
     @ [case as_asset_class asset of Standard \<Rightarrow> 0 | Liquidity \<Rightarrow> 1] @ [as_token_version asset]
     @ as_mint_authority_owner_id asset @ [as_decimals asset]
     @ [case as_supply_mode asset of UncappedSupply \<Rightarrow> 0 | CappedSupply \<Rightarrow> 1]
     @ to_le_bytes (as_max_supply asset) @ to_le_bytes (as_total_supply asset)
     @ write_len (length (as_name asset)) @ as_name asset
     @ write_len (length (as_symbol asset)) @ as_symbol asset
     @ write_len (length (as_metadata asset)) @ as_metadata asset
     @ write_len (length (as_platform_tag asset)) @ as_platform_tag asset
     @ write_optional_hash (as_created_block_hash asset) @ write_optional_u64 (as_created_daa_score asset)
     @ write_optional_u64 (as_created_at asset)
     @ (case as_liquidity asset of Some pool \<Rightarrow> [1] @ write_liquidity_pool pool | None \<Rightarrow> [0])"

definition canonical_nonces :: "(nonce_key \<times> u64) list \<Rightarrow> bytes" where
  "canonical_nonces m =
     (let nonce_keys = sort_key nonce_key_order (map fst m)
      in write_len (length nonce_keys)
         @ concat (map (\<lambda>key. nk_owner_id key @ [nk_scope_kind key] @ nk_scope_id key
                             @ to_le_bytes (the (map_of m key))) nonce_keys))"

definition canonical_assets :: "(hash32 \<times> asset_state) list \<Rightarrow> bytes" where
  "canonical_assets m =
     (let asset_ids = sort (map fst m)
      in write_len (length asset_ids)
         @ concat (map (\<lambda>asset_id. asset_id @ write_atomic_asset (the (map_of m asset_id))) asset_ids))"

definition canonical_balances :: "(balance_key \<times> u128) list \<Rightarrow> bytes" where
  "canonical_balances m =
     (let balance_keys = sort_key balance_key_order (map fst m)
      in write_len (length balance_keys)
         @ concat (map (\<lambda>key. bk_asset_id key @ bk_owner_id key @ to_le_bytes (the (map_of m key))) balance_keys))"

definition canonical_anchors :: "(hash32 \<times> u64) list \<Rightarrow> bytes" where
  "canonical_anchors m =
     (let anchor_owner_ids = sort (map fst m)
      in write_len (length anchor_owner_ids)
         @ concat (map (\<lambda>owner_id. owner_id @ to_le_bytes (the (map_of m owner_id))) anchor_owner_ids))"

definition canonical_bytes :: "atomic_state \<Rightarrow> bytes" where
  "canonical_bytes st =
     ATOMIC_CONSENSUS_STATE_MAGIC @ canonical_nonces (st_next_nonces st) @ canonical_assets (st_assets st)
     @ canonical_balances (st_balances st) @ canonical_anchors (st_anchor_counts st)"

definition root_only_canonical_bytes :: "hash32 \<Rightarrow> bytes" where
  "root_only_canonical_bytes state_hash =
     ATOMIC_CONSENSUS_STATE_MAGIC @ ATOMIC_CONSENSUS_STATE_ROOT_ONLY_TAG @ state_hash"

section \<open>Reading\<close>

definition read_bytes :: "nat \<Rightarrow> (codec_error, bytes) reader" where
  "read_bytes len payload cursor =
     (let end1 = cursor + len
      in if end1 > length payload then Inl CodecTruncated
         else Inr (take len (drop cursor payload), end1))"

definition read_exact_magic :: "bytes \<Rightarrow> (codec_error, unit) reader" where
  "read_exact_magic magic = r_bind (read_bytes (length magic)) (\<lambda>actual. r_reject (actual \<noteq> magic) CodecMagic)"

definition read_hash32 :: "(codec_error, hash32) reader" where
  "read_hash32 = read_bytes 32"

definition read_u8 :: "(codec_error, u8) reader" where
  "read_u8 = r_map hd (read_bytes 1)"

definition read_u16 :: "(codec_error, u16) reader" where
  "read_u16 = r_map from_le_bytes (read_bytes 2)"

definition read_u32 :: "(codec_error, u32) reader" where
  "read_u32 = r_map from_le_bytes (read_bytes 4)"

definition read_u64 :: "(codec_error, u64) reader" where
  "read_u64 = r_map from_le_bytes (read_bytes 8)"

definition read_u128 :: "(codec_error, u128) reader" where
  "read_u128 = r_map from_le_bytes (read_bytes 16)"

definition read_optional_hash32 :: "(codec_error, hash32 option) reader" where
  "read_optional_hash32 = r_bind read_u8 (\<lambda>raw.
     if raw = 0 then r_return None else if raw = 1 then r_map Some read_hash32
     else r_lift (Inl (CodecOptionalHashFlag raw)))"

definition read_optional_u64 :: "(codec_error, u64 option) reader" where
  "read_optional_u64 = r_bind read_u8 (\<lambda>raw.
     if raw = 0 then r_return None else if raw = 1 then r_map Some read_u64
     else r_lift (Inl (CodecOptionalU64Flag raw)))"

definition read_len :: "(codec_error, u64) reader" where
  "read_len = read_u64"

definition read_len_usize :: "(codec_error, nat) reader" where
  "read_len_usize = r_map unat read_len"

definition read_asset_class :: "(codec_error, asset_class) reader" where
  "read_asset_class = r_bind read_u8 (\<lambda>raw.
     if raw = 0 then r_return Standard else if raw = 1 then r_return Liquidity else r_lift (Inl (CodecAssetClass raw)))"

definition read_supply_mode :: "(codec_error, atomic_supply_mode) reader" where
  "read_supply_mode = r_bind read_u8 (\<lambda>raw.
     if raw = 0 then r_return UncappedSupply else if raw = 1 then r_return CappedSupply
     else r_lift (Inl (CodecSupplyMode raw)))"

definition read_short :: "nat \<Rightarrow> codec_error \<Rightarrow> (codec_error, bytes) reader" where
  "read_short cap e = r_bind read_len_usize (\<lambda>len. r_bind (r_reject (len > cap) e) (\<lambda>_. read_bytes len))"

definition read_fee_recipient :: "(codec_error, fee_recipient) reader" where
  "read_fee_recipient =
     r_bind read_hash32 (\<lambda>owner_id. r_bind read_u8 (\<lambda>address_version. r_bind read_len_usize (\<lambda>address_payload_len.
     r_bind (read_bytes address_payload_len) (\<lambda>address_payload. r_bind read_u64 (\<lambda>unclaimed_sompi.
     r_return \<lparr>fr_owner_id = owner_id, fr_address_version = address_version, fr_address_payload = address_payload,
               fr_unclaimed_sompi = unclaimed_sompi\<rparr>)))))"

definition read_unlocked :: "(codec_error, bool) reader" where
  "read_unlocked = r_bind read_u8 (\<lambda>raw.
     if raw = 0 then r_return False else if raw = 1 then r_return True else r_lift (Inl (CodecUnlockedFlag raw)))"

definition read_liquidity_pool :: "(codec_error, pool_state) reader" where
  "read_liquidity_pool =
     r_bind read_u64 (\<lambda>pool_nonce. r_bind read_u8 (\<lambda>curve_version.
     r_bind (r_lift (map_err CodecNormal (state_curve_version curve_version))) (\<lambda>_.
     r_bind read_u8 (\<lambda>curve_mode. r_bind (r_lift (map_err CodecNormal (state_curve_mode curve_mode))) (\<lambda>_.
     r_bind read_u64 (\<lambda>individual_cpay. r_bind read_u16 (\<lambda>individual_bps.
     r_bind (r_lift (map_err CodecNormal (state_curve_parameters curve_mode individual_cpay individual_bps))) (\<lambda>_.
     r_bind read_u64 (\<lambda>real_cpay. r_bind read_u128 (\<lambda>real_token. r_bind read_u64 (\<lambda>virtual_cpay.
     r_bind read_u128 (\<lambda>virtual_token. r_bind read_u64 (\<lambda>unclaimed. r_bind read_u16 (\<lambda>fee_bps.
     r_bind read_len_usize (\<lambda>recipient_count.
     r_bind (r_reject (recipient_count > MAX_ATOMIC_LIQUIDITY_FEE_RECIPIENTS) CodecRecipientCount) (\<lambda>_.
     r_bind (r_repeat recipient_count read_fee_recipient) (\<lambda>fee_recipients.
     r_bind read_hash32 (\<lambda>transaction_id. r_bind read_u32 (\<lambda>index. r_bind read_u64 (\<lambda>vault_value.
     r_bind read_u64 (\<lambda>unlock_target. r_bind read_unlocked (\<lambda>unlocked.
     r_return \<lparr>pl_pool_nonce = pool_nonce, pl_curve_version = curve_version, pl_curve_mode = curve_mode,
       pl_individual_virtual_cpay_reserves_sompi = individual_cpay,
       pl_individual_virtual_token_multiplier_bps = individual_bps,
       pl_real_cpay_reserves_sompi = real_cpay, pl_real_token_reserves = real_token,
       pl_virtual_cpay_reserves_sompi = virtual_cpay, pl_virtual_token_reserves = virtual_token,
       pl_unclaimed_fee_total_sompi = unclaimed, pl_fee_bps = fee_bps, pl_fee_recipients = fee_recipients,
       pl_vault_outpoint = \<lparr>outpoint_tx = transaction_id, outpoint_index = index\<rparr>,
       pl_vault_value_sompi = vault_value, pl_unlock_target_sompi = unlock_target,
       pl_unlocked = unlocked\<rparr>))))))))))))))))))))))"

definition read_liquidity :: "(codec_error, pool_state option) reader" where
  "read_liquidity = r_bind read_u8 (\<lambda>raw.
     if raw = 0 then r_return None else if raw = 1 then r_map Some read_liquidity_pool
     else r_lift (Inl (CodecLiquidityFlag raw)))"

definition read_current_atomic_asset :: "(codec_error, asset_state) reader" where
  "read_current_atomic_asset =
     r_bind read_hash32 (\<lambda>creator. r_bind read_asset_class (\<lambda>class. r_bind read_u8 (\<lambda>token_version.
     r_bind (r_lift (map_err CodecNormal (state_token_version token_version))) (\<lambda>_.
     r_bind read_hash32 (\<lambda>mint_authority. r_bind read_u8 (\<lambda>decimals.
     r_bind (r_reject (decimals > MAX_ATOMIC_DECIMALS) CodecDecimals) (\<lambda>_.
     r_bind read_supply_mode (\<lambda>mode. r_bind read_u128 (\<lambda>max_supply. r_bind read_u128 (\<lambda>total_supply.
     r_bind (read_short MAX_ATOMIC_NAME_LEN CodecNameLen) (\<lambda>name.
     r_bind (read_short MAX_ATOMIC_SYMBOL_LEN CodecSymbolLen) (\<lambda>symbol.
     r_bind (read_short MAX_ATOMIC_METADATA_LEN CodecMetadataLen) (\<lambda>metadata.
     r_bind (r_reject (\<not> is_utf8 name \<or> \<not> is_utf8 symbol) CodecNotUtf8) (\<lambda>_.
     r_bind (read_short MAX_ATOMIC_PLATFORM_TAG_LEN CodecTagLen) (\<lambda>platform_tag.
     r_bind (r_reject (\<not> is_utf8 platform_tag) CodecTagNotUtf8) (\<lambda>_.
     r_bind read_optional_hash32 (\<lambda>created_block_hash. r_bind read_optional_u64 (\<lambda>created_daa_score.
     r_bind read_optional_u64 (\<lambda>created_at. r_bind read_liquidity (\<lambda>liquidity.
     r_return \<lparr>as_creator_owner_id = creator, as_asset_class = class, as_token_version = token_version,
       as_mint_authority_owner_id = mint_authority, as_decimals = decimals, as_supply_mode = mode,
       as_max_supply = max_supply, as_total_supply = total_supply, as_name = name, as_symbol = symbol,
       as_metadata = metadata, as_platform_tag = platform_tag, as_created_block_hash = created_block_hash,
       as_created_daa_score = created_daa_score, as_created_at = created_at,
       as_liquidity = liquidity\<rparr>))))))))))))))))))))"

definition read_legacy_atomic_asset :: "(codec_error, asset_state) reader" where
  "read_legacy_atomic_asset =
     r_bind read_asset_class (\<lambda>class. r_bind read_u8 (\<lambda>token_version.
     r_bind (r_lift (map_err CodecNormal (state_token_version token_version))) (\<lambda>_.
     r_bind read_hash32 (\<lambda>mint_authority. r_bind read_supply_mode (\<lambda>mode.
     r_bind read_u128 (\<lambda>max_supply. r_bind read_u128 (\<lambda>total_supply.
     r_bind (read_short MAX_ATOMIC_PLATFORM_TAG_LEN CodecTagLen) (\<lambda>platform_tag.
     r_bind (r_reject (\<not> is_utf8 platform_tag) CodecTagNotUtf8) (\<lambda>_.
     r_bind read_liquidity (\<lambda>liquidity.
     r_return \<lparr>as_creator_owner_id = replicate 32 0, as_asset_class = class, as_token_version = token_version,
       as_mint_authority_owner_id = mint_authority, as_decimals = 0, as_supply_mode = mode,
       as_max_supply = max_supply, as_total_supply = total_supply, as_name = [], as_symbol = [],
       as_metadata = [], as_platform_tag = platform_tag, as_created_block_hash = None,
       as_created_daa_score = None, as_created_at = None, as_liquidity = liquidity\<rparr>))))))))))"

definition read_atomic_asset :: "(codec_error, asset_state) reader" where
  "read_atomic_asset payload cursor =
     (case read_current_atomic_asset payload cursor of
        Inr r \<Rightarrow> Inr r
      | Inl err \<Rightarrow> map_err (\<lambda>_. err) (read_legacy_atomic_asset payload cursor))"

text \<open>A counted loop that inserts what it reads into a hash map and refuses a key it already holds.\<close>

fun read_map :: "nat \<Rightarrow> (codec_error, 'k \<times> 'v) reader \<Rightarrow> codec_error \<Rightarrow> ('k \<times> 'v) list \<Rightarrow> (codec_error, ('k \<times> 'v) list) reader" where
  "read_map 0 r e m = r_return m"
| "read_map (Suc n) r e m = r_bind r (\<lambda>p.
     r_bind (r_reject (map_of m (fst p) \<noteq> None) e) (\<lambda>_. read_map n r e (AList.update (fst p) (snd p) m)))"

definition read_nonce_entry :: "(codec_error, nonce_key \<times> u64) reader" where
  "read_nonce_entry =
     r_bind read_hash32 (\<lambda>owner_id. r_bind read_u8 (\<lambda>scope_kind. r_bind read_hash32 (\<lambda>scope_id.
     let key = \<lparr>nk_owner_id = owner_id, nk_scope_kind = scope_kind, nk_scope_id = scope_id\<rparr>
     in r_bind (r_lift (map_err CodecNormal (nonce_key_validate key))) (\<lambda>_.
        r_bind read_u64 (\<lambda>value. r_return (key, value))))))"

definition read_asset_entry :: "(codec_error, hash32 \<times> asset_state) reader" where
  "read_asset_entry = r_bind read_hash32 (\<lambda>asset_id. r_bind read_atomic_asset (\<lambda>asset. r_return (asset_id, asset)))"

definition read_balance_entry :: "(codec_error, balance_key \<times> u128) reader" where
  "read_balance_entry =
     r_bind read_hash32 (\<lambda>asset_id. r_bind read_hash32 (\<lambda>owner_id. r_bind read_u128 (\<lambda>value.
     r_return (\<lparr>bk_asset_id = asset_id, bk_owner_id = owner_id\<rparr>, value))))"

definition read_anchor_entry :: "(codec_error, hash32 \<times> u64) reader" where
  "read_anchor_entry = r_bind read_hash32 (\<lambda>owner_id. r_bind read_u64 (\<lambda>value. r_return (owner_id, value)))"

definition reader_finish :: "(codec_error, unit) reader" where
  "reader_finish = r_bind r_at_end (\<lambda>done. r_reject (\<not> done) CodecTrailing)"

definition decode_root_only_canonical_bytes :: "bytes \<Rightarrow> codec_error + hash32 option" where
  "decode_root_only_canonical_bytes bytes =
     (if length bytes \<noteq> length ATOMIC_CONSENSUS_STATE_MAGIC + length ATOMIC_CONSENSUS_STATE_ROOT_ONLY_TAG + 32
      then Inr None
      else if take (length ATOMIC_CONSENSUS_STATE_MAGIC) bytes \<noteq> ATOMIC_CONSENSUS_STATE_MAGIC then Inl CodecMagic
      else
        let tag_start = length ATOMIC_CONSENSUS_STATE_MAGIC;
            tag_end = tag_start + length ATOMIC_CONSENSUS_STATE_ROOT_ONLY_TAG
        in if take (tag_end - tag_start) (drop tag_start bytes) \<noteq> ATOMIC_CONSENSUS_STATE_ROOT_ONLY_TAG then Inr None
           else Inr (Some (drop tag_end bytes)))"

definition read_state_maps :: "(codec_error, atomic_state) reader" where
  "read_state_maps =
     r_bind (read_exact_magic ATOMIC_CONSENSUS_STATE_MAGIC) (\<lambda>_.
     r_bind read_len (\<lambda>nonce_count. r_bind (read_map (unat nonce_count) read_nonce_entry CodecDuplicateNonce []) (\<lambda>nonces.
     r_bind read_len (\<lambda>asset_count. r_bind (read_map (unat asset_count) read_asset_entry CodecDuplicateAsset []) (\<lambda>assets.
     r_bind read_len (\<lambda>balance_count. r_bind (read_map (unat balance_count) read_balance_entry CodecDuplicateBalance []) (\<lambda>balances.
     r_bind read_len (\<lambda>anchor_count. r_bind (read_map (unat anchor_count) read_anchor_entry CodecDuplicateAnchor []) (\<lambda>anchors.
     r_bind reader_finish (\<lambda>_.
     r_return (atomic_state_default\<lparr>st_next_nonces := nonces, st_assets := assets, st_balances := balances,
       st_anchor_counts := anchors\<rparr>)))))))))))"

definition try_from_canonical_bytes :: "(bytes \<Rightarrow> hash32) \<Rightarrow> bytes \<Rightarrow> codec_error + atomic_state" where
  "try_from_canonical_bytes blake bytes =
     try_bind (decode_root_only_canonical_bytes bytes) (\<lambda>root.
     if root \<noteq> None then Inl CodecRootOnly
     else
       try_bind (read_state_maps bytes 0) (\<lambda>(state, _).
       let state1 = rebuild_liquidity_vault_outpoint_index state
       in try_bind (map_err CodecNormal (validate_normalized blake state1)) (\<lambda>_.
          Inr (state1\<lparr>st_root := from_state_maps blake state1\<rparr>))))"

definition canonical_hash_from_canonical_bytes :: "(bytes \<Rightarrow> hash32) \<Rightarrow> bytes \<Rightarrow> codec_error + hash32" where
  "canonical_hash_from_canonical_bytes blake bytes =
     try_bind (decode_root_only_canonical_bytes bytes) (\<lambda>root.
     case root of
       Some state_hash \<Rightarrow> Inr state_hash
     | None \<Rightarrow> try_bind (try_from_canonical_bytes blake bytes) (\<lambda>state. Inr (canonical_hash blake state)))"

end
