(* ===== verification/Codec_Roundtrip.thy ===== *)
theory Codec_Roundtrip
  imports Atomic_Codec Atomic_Example
begin

text \<open>
  The canonical byte string of a state and its reader are inverse to each other: every writer is
  paired with a \<open>reads\<close> lemma, a counted map is read back in the order of its keys, and the vault
  index the reader rebuilds is the one of the state. Neither the byte string nor the root depends
  on the order in which a hash map lists its entries. What the reader accepts is consistent.
\<close>

section \<open>Definitions\<close>

text \<open>
  \<open>sized_state\<close> says what the types of the source say: identifiers are arrays of 32 bytes and a map has
  fewer than \<open>2 ^ 64\<close> entries. \<open>sorted_state\<close> lists the entries in the order they are written.
\<close>

definition sized_asset :: "asset_state \<Rightarrow> bool" where
  "sized_asset x \<longleftrightarrow>
     length (as_creator_owner_id x) = 32 \<and> length (as_mint_authority_owner_id x) = 32
     \<and> (\<forall>h. as_created_block_hash x = Some h \<longrightarrow> length h = 32)
     \<and> (\<forall>p. as_liquidity x = Some p \<longrightarrow>
          length (outpoint_tx (pl_vault_outpoint p)) = 32 \<and> (\<forall>r\<in>set (pl_fee_recipients p). length (fr_owner_id r) = 32))"

definition sized_state :: "atomic_state \<Rightarrow> bool" where
  "sized_state st \<longleftrightarrow>
     (\<forall>k\<in>fst ` set (st_next_nonces st). length (nk_owner_id k) = 32 \<and> length (nk_scope_id k) = 32)
     \<and> (\<forall>(a, x)\<in>set (st_assets st). length a = 32 \<and> sized_asset x)
     \<and> (\<forall>k\<in>fst ` set (st_balances st). length (bk_asset_id k) = 32 \<and> length (bk_owner_id k) = 32)
     \<and> (\<forall>k\<in>fst ` set (st_anchor_counts st). length k = 32)
     \<and> length (st_next_nonces st) < 2 ^ 64 \<and> length (st_assets st) < 2 ^ 64
     \<and> length (st_balances st) < 2 ^ 64 \<and> length (st_anchor_counts st) < 2 ^ 64"

definition sorted_entries :: "('k \<Rightarrow> 'o::linorder) \<Rightarrow> ('k \<times> 'v) list \<Rightarrow> ('k \<times> 'v) list" where
  "sorted_entries order m = map (\<lambda>k. (k, the (map_of m k))) (sort_key order (map fst m))"

definition sorted_state :: "atomic_state \<Rightarrow> atomic_state" where
  "sorted_state st = atomic_state_default
     \<lparr>st_next_nonces := sorted_entries nonce_key_order (st_next_nonces st),
      st_assets := sorted_entries (\<lambda>a. a) (st_assets st),
      st_balances := sorted_entries balance_key_order (st_balances st),
      st_anchor_counts := sorted_entries (\<lambda>a. a) (st_anchor_counts st)\<rparr>"

abbreviation write_nonce_entry :: "nonce_key \<times> u64 \<Rightarrow> bytes" where
  "write_nonce_entry p \<equiv> nk_owner_id (fst p) @ [nk_scope_kind (fst p)] @ nk_scope_id (fst p) @ to_le_bytes (snd p)"

abbreviation write_asset_entry :: "hash32 \<times> asset_state \<Rightarrow> bytes" where
  "write_asset_entry p \<equiv> fst p @ write_atomic_asset (snd p)"

abbreviation write_balance_entry :: "balance_key \<times> u128 \<Rightarrow> bytes" where
  "write_balance_entry p \<equiv> bk_asset_id (fst p) @ bk_owner_id (fst p) @ to_le_bytes (snd p)"

abbreviation write_anchor_entry :: "hash32 \<times> u64 \<Rightarrow> bytes" where
  "write_anchor_entry p \<equiv> fst p @ to_le_bytes (snd p)"

definition nonce_entry_ok :: "nonce_key \<times> u64 \<Rightarrow> bool" where
  "nonce_entry_ok p \<longleftrightarrow>
     nonce_key_validate (fst p) = Inr () \<and> length (nk_owner_id (fst p)) = 32 \<and> length (nk_scope_id (fst p)) = 32"

definition asset_entry_ok :: "(bytes \<Rightarrow> hash32) \<Rightarrow> hash32 \<times> asset_state \<Rightarrow> bool" where
  "asset_entry_ok blake p \<longleftrightarrow> asset_ok blake (snd p) \<and> sized_asset (snd p) \<and> length (fst p) = 32"

definition balance_entry_ok :: "balance_key \<times> u128 \<Rightarrow> bool" where
  "balance_entry_ok p \<longleftrightarrow> length (bk_asset_id (fst p)) = 32 \<and> length (bk_owner_id (fst p)) = 32"

definition anchor_entry_ok :: "hash32 \<times> u64 \<Rightarrow> bool" where
  "anchor_entry_ok p \<longleftrightarrow> length (fst p) = 32"

definition index_step :: "hash32 \<times> asset_state \<Rightarrow> (outpoint \<times> hash32) list \<Rightarrow> (outpoint \<times> hash32) list" where
  "index_step p m =
     (case as_liquidity (snd p) of
        None \<Rightarrow> m
      | Some pool \<Rightarrow> if as_asset_class (snd p) = Liquidity then AList.update (pl_vault_outpoint pool) (fst p) m else m)"

section \<open>Reading what was written\<close>

lemma reads_read_bytes: "length bs = n \<Longrightarrow> reads (read_bytes n) bs bs"
  by (auto simp: reads_def read_bytes_def)

lemma reads_r_map: "reads r x bs \<Longrightarrow> reads (r_map f r) (f x) bs"
  unfolding r_map_def by (rule reads_field [OF _ reads_return])

lemma reads_primitives:
  "length h = 32 \<Longrightarrow> reads read_hash32 h h"
  "reads read_u8 b [b]"
  "reads read_u16 w16 (to_le_bytes w16)"
  "reads read_u32 w32 (to_le_bytes w32)"
  "reads read_u64 w64 (to_le_bytes w64)"
  "reads read_u128 w128 (to_le_bytes w128)"
  "reads read_len w64 (to_le_bytes w64)"
proof -
  have map: "reads (r_map f (read_bytes n)) x bs" if "length bs = n" "f bs = x" for f n x bs
    using reads_r_map [OF reads_read_bytes [OF that(1)], of f] that(2) by simp
  show "length h = 32 \<Longrightarrow> reads read_hash32 h h" by (simp add: read_hash32_def reads_read_bytes)
  show "reads read_u8 b [b]" unfolding read_u8_def by (rule map) simp_all
  show "reads read_u16 w16 (to_le_bytes w16)" unfolding read_u16_def by (rule map) (simp_all add: from_to_le_bytes)
  show "reads read_u32 w32 (to_le_bytes w32)" unfolding read_u32_def by (rule map) (simp_all add: from_to_le_bytes)
  show "reads read_u64 w64 (to_le_bytes w64)" unfolding read_u64_def by (rule map) (simp_all add: from_to_le_bytes)
  show "reads read_u128 w128 (to_le_bytes w128)" unfolding read_u128_def by (rule map) (simp_all add: from_to_le_bytes)
  show "reads read_len w64 (to_le_bytes w64)"
    unfolding read_len_def read_u64_def by (rule map) (simp_all add: from_to_le_bytes)
qed

lemma reads_len_usize: "n < 2 ^ 64 \<Longrightarrow> reads read_len_usize n (write_len n)"
  unfolding read_len_usize_def write_len_def
  using reads_r_map [OF reads_primitives(7), of unat "word_of_nat n"] by (simp add: unat_of_nat)

lemma reads_return_eq: "x = y \<Longrightarrow> reads (r_return x) y []"
  by (simp add: reads_return)

lemma reads_optional:
  "(\<And>h. v = Some h \<Longrightarrow> length h = 32) \<Longrightarrow> reads read_optional_hash32 v (write_optional_hash v)"
  "reads read_optional_u64 w (write_optional_u64 w)"
proof -
  show "reads read_optional_hash32 v (write_optional_hash v)" if "\<And>h. v = Some h \<Longrightarrow> length h = 32"
  proof (cases v)
    case None
    show ?thesis
      unfolding None read_optional_hash32_def write_optional_hash_def option.case
      by (rule reads_field [OF reads_primitives(2)]) (simp add: reads_return)
  next
    case (Some h)
    show ?thesis
      unfolding Some read_optional_hash32_def write_optional_hash_def option.case
      by (rule reads_bind [OF reads_primitives(2)]) (simp add: reads_r_map reads_primitives(1) that Some)
  qed
  show "reads read_optional_u64 w (write_optional_u64 w)"
  proof (cases w)
    case None
    show ?thesis
      unfolding None read_optional_u64_def write_optional_u64_def option.case
      by (rule reads_field [OF reads_primitives(2)]) (simp add: reads_return)
  next
    case (Some n)
    show ?thesis
      unfolding Some read_optional_u64_def write_optional_u64_def option.case
      by (rule reads_bind [OF reads_primitives(2)]) (simp add: reads_r_map reads_primitives(5))
  qed
qed

lemma reads_enums:
  "reads read_asset_class c [case c of Standard \<Rightarrow> 0 | Liquidity \<Rightarrow> 1]"
  "reads read_supply_mode m [case m of UncappedSupply \<Rightarrow> 0 | CappedSupply \<Rightarrow> 1]"
  "reads read_unlocked b [if b then 1 else 0]"
proof -
  show "reads read_asset_class c [case c of Standard \<Rightarrow> 0 | Liquidity \<Rightarrow> 1]"
    unfolding read_asset_class_def by (rule reads_field [OF reads_primitives(2)], cases c) (simp_all add: reads_return)
  show "reads read_supply_mode m [case m of UncappedSupply \<Rightarrow> 0 | CappedSupply \<Rightarrow> 1]"
    unfolding read_supply_mode_def by (rule reads_field [OF reads_primitives(2)], cases m) (simp_all add: reads_return)
  show "reads read_unlocked b [if b then 1 else 0]"
    unfolding read_unlocked_def by (rule reads_field [OF reads_primitives(2)]) (simp add: reads_return)
qed

lemma reads_short_bind:
  assumes "length xs \<le> cap" "cap < 2 ^ 64" "reads (k xs) y cs"
  shows "reads (r_bind (read_short cap e) k) y (write_len (length xs) @ xs @ cs)"
proof -
  have "reads (read_short cap e) xs (write_len (length xs) @ xs)"
    unfolding read_short_def
    using assms(1,2) by (intro reads_bind [OF reads_len_usize] reads_reject_bind reads_read_bytes) simp_all
  from reads_bind [where f = k, OF this assms(3)] show ?thesis by simp
qed

lemma reads_r_repeat: "(\<And>x. x \<in> set xs \<Longrightarrow> reads r x (w x)) \<Longrightarrow> reads (r_repeat (length xs) r) xs (concat (map w xs))"
proof (induction xs)
  case (Cons x xs)
  have "reads (r_repeat (length xs) r) xs (concat (map w xs))" by (rule Cons.IH) (simp add: Cons.prems)
  then show ?case
    using Cons.prems by (auto intro!: reads_bind [of r] reads_field [of "r_repeat (length xs) r"] reads_return)
qed (simp add: reads_return)

lemmas reads_binds =
  reads_reject_bind reads_bind [OF reads_primitives(1)] reads_bind [OF reads_primitives(2)] reads_bind [OF reads_primitives(3)]
  reads_bind [OF reads_primitives(4)] reads_bind [OF reads_primitives(5)] reads_bind [OF reads_primitives(6)]
  reads_bind [OF reads_primitives(7)] reads_bind [OF reads_len_usize] reads_bind [OF reads_optional(1)] reads_bind [OF reads_optional(2)]
  reads_bind [OF reads_enums(1)] reads_bind [OF reads_enums(2)] reads_bind [OF reads_read_bytes] reads_short_bind

lemma reads_fee_recipient:
  assumes "length (fr_owner_id r) = 32" "length (fr_address_payload r) < 2 ^ 64"
  shows "reads read_fee_recipient r (write_fee_recipient r)"
  unfolding read_fee_recipient_def write_fee_recipient_def
  by (intro reads_binds reads_field [OF reads_primitives(5)] reads_return_eq) (use assms in simp_all)

lemma reads_normal_bind: "r = Inr () \<Longrightarrow> reads (k ()) y cs \<Longrightarrow> reads (r_bind (r_lift (map_err CodecNormal r)) k) y cs"
  by (rule reads_lift_bind) simp_all

lemma reads_liquidity_pool:
  assumes "state_curve_version (pl_curve_version p) = Inr ()" "state_curve_mode (pl_curve_mode p) = Inr ()"
    "state_curve_parameters (pl_curve_mode p) (pl_individual_virtual_cpay_reserves_sompi p)
       (pl_individual_virtual_token_multiplier_bps p) = Inr ()"
    "length (pl_fee_recipients p) \<le> 2" "length (outpoint_tx (pl_vault_outpoint p)) = 32"
    "\<And>r. r \<in> set (pl_fee_recipients p) \<Longrightarrow> length (fr_owner_id r) = 32 \<and> length (fr_address_payload r) < 2 ^ 64"
  shows "reads read_liquidity_pool p (write_liquidity_pool p)"
  unfolding read_liquidity_pool_def write_liquidity_pool_def
  by (intro reads_normal_bind reads_binds reads_bind [OF reads_r_repeat] reads_field [OF reads_enums(3)] reads_fee_recipient reads_return_eq)
    (use assms in simp_all)

lemma check_recipients_lengths:
  "check_recipients_normalized blake rs previous s = Inr t \<Longrightarrow> r \<in> set rs \<Longrightarrow> length (fr_address_payload r) \<le> 33"
  by (induction blake rs previous s rule: check_recipients_normalized.induct)
    (auto simp: result_simps state_owner_id_def Let_def split: if_splits option.splits)

lemma check_pool_fields:
  assumes "check_pool_normalized blake x = Inr v" "as_liquidity x = Some p"
  shows "state_curve_version (pl_curve_version p) = Inr ()" "state_curve_mode (pl_curve_mode p) = Inr ()"
    "state_curve_parameters (pl_curve_mode p) (pl_individual_virtual_cpay_reserves_sompi p)
       (pl_individual_virtual_token_multiplier_bps p) = Inr ()"
    "length (pl_fee_recipients p) \<le> 2" "r \<in> set (pl_fee_recipients p) \<Longrightarrow> length (fr_address_payload r) \<le> 33"
  using assms
  by (auto simp: check_pool_normalized_def validate_fee_recipients_normalized_def MAX_ATOMIC_LIQUIDITY_FEE_RECIPIENTS_def
      result_simps split: if_splits dest: check_recipients_lengths)

lemma reads_liquidity:
  assumes "asset_ok blake x" "sized_asset x"
  shows "reads read_liquidity (as_liquidity x)
    (case as_liquidity x of Some pool \<Rightarrow> [1] @ write_liquidity_pool pool | None \<Rightarrow> [0])"
proof (cases "as_liquidity x")
  case None
  show ?thesis
    unfolding None read_liquidity_def option.case
    by (rule reads_field [OF reads_primitives(2)]) (simp add: reads_return)
next
  case (Some p)
  then obtain v where "check_pool_normalized blake x = Inr v"
    using assms(1) by (auto simp: asset_ok_def split: asset_class.splits)
  note fields = check_pool_fields [OF this Some]
  have "reads read_liquidity_pool p (write_liquidity_pool p)"
    by (rule reads_liquidity_pool [OF fields(1-4)])
      (use fields(5) assms(2) Some in \<open>force simp: sized_asset_def\<close>)+
  then show ?thesis
    unfolding Some read_liquidity_def option.case
    by (intro reads_bind [OF reads_primitives(2)]) (simp add: reads_r_map)
qed

lemma reads_current_asset:
  assumes "asset_ok blake x" "sized_asset x"
  shows "reads read_current_atomic_asset x (write_atomic_asset x)"
proof -
  from assms(1) have fields: "state_token_version (as_token_version x) = Inr ()" "\<not> MAX_ATOMIC_DECIMALS < as_decimals x"
    "length (as_name x) \<le> MAX_ATOMIC_NAME_LEN" "length (as_symbol x) \<le> MAX_ATOMIC_SYMBOL_LEN"
    "length (as_metadata x) \<le> MAX_ATOMIC_METADATA_LEN" "is_utf8 (as_name x)" "is_utf8 (as_symbol x)"
    "length (as_platform_tag x) \<le> MAX_ATOMIC_PLATFORM_TAG_LEN" "is_utf8 (as_platform_tag x)"
    by (auto simp: asset_ok_def check_asset_fields_def result_simps not_less)
  have caps: "MAX_ATOMIC_NAME_LEN < 2 ^ 64" "MAX_ATOMIC_SYMBOL_LEN < 2 ^ 64" "MAX_ATOMIC_METADATA_LEN < 2 ^ 64"
    "MAX_ATOMIC_PLATFORM_TAG_LEN < 2 ^ 64"
    by (simp_all add: MAX_ATOMIC_NAME_LEN_def MAX_ATOMIC_SYMBOL_LEN_def MAX_ATOMIC_METADATA_LEN_def
        MAX_ATOMIC_PLATFORM_TAG_LEN_def)
  show ?thesis
    unfolding read_current_atomic_asset_def write_atomic_asset_def
    by (intro reads_normal_bind reads_binds reads_field [OF reads_liquidity [OF assms]] reads_return_eq)
      (use assms(2) fields caps in \<open>simp_all add: sized_asset_def\<close>)
qed

lemma reads_asset: "asset_ok blake x \<Longrightarrow> sized_asset x \<Longrightarrow> reads read_atomic_asset x (write_atomic_asset x)"
  using reads_current_asset [of blake x] by (auto simp: reads_def read_atomic_asset_def)

section \<open>Maps\<close>

lemma sorted_entries_keys [simp]: "map fst (sorted_entries order m) = sort_key order (map fst m)"
  by (simp add: sorted_entries_def comp_def)

lemma length_sorted_entries [simp]: "length (sorted_entries order m) = length m"
  by (simp add: sorted_entries_def)

lemma map_of_sorted_entries [simp]: "map_of (sorted_entries order m) = map_of m"
proof
  fix k
  show "map_of (sorted_entries order m) k = map_of m k"
  proof (cases "map_of m k")
    case None
    then have "k \<notin> fst ` set m" by (simp add: map_of_eq_None_iff)
    then show ?thesis by (simp add: sorted_entries_def map_of_map_restrict restrict_map_def None)
  next
    case (Some v)
    then have "k \<in> fst ` set m" by (metis map_of_eq_None_iff option.distinct(1))
    then show ?thesis by (simp add: sorted_entries_def map_of_map_restrict restrict_map_def Some)
  qed
qed

lemma set_sorted_entries:
  assumes "distinct (map fst m)"
  shows "set (sorted_entries order m) = set m"
proof -
  have "distinct (map fst (sorted_entries order m))" by (simp add: assms)
  from map_of_inject_set [OF this assms] show ?thesis by simp
qed

lemma update_new_key: "k \<notin> fst ` set m \<Longrightarrow> AList.update k v m = m @ [(k, v)]"
  by (induction m) auto

lemma reads_map:
  assumes "\<And>p. p \<in> set ps \<Longrightarrow> reads r p (w p)" "distinct (map fst (m @ ps))"
  shows "reads (read_map (length ps) r e m) (m @ ps) (concat (map w ps))"
  using assms
proof (induction ps arbitrary: m)
  case (Cons p ps)
  have upd: "AList.update (fst p) (snd p) m = m @ [p]" "map_of m (fst p) = None"
    using Cons.prems(2) by (auto simp: map_of_eq_None_iff update_new_key)
  have "reads (read_map (length ps) r e (m @ [p])) ((m @ [p]) @ ps) (concat (map w ps))"
    by (rule Cons.IH) (use Cons.prems in auto)
  then show ?case
    unfolding list.map concat.simps list.size read_map.simps add_Suc_right add_0_right
    by (intro reads_bind [OF Cons.prems(1)] reads_reject_bind) (simp_all add: upd)
qed (simp add: reads_return)

lemma canonical_maps:
  "canonical_nonces m1 = to_le_bytes (word_of_nat (length m1) :: u64)
     @ concat (map write_nonce_entry (sorted_entries nonce_key_order m1))"
  "canonical_assets m2 = to_le_bytes (word_of_nat (length m2) :: u64)
     @ concat (map write_asset_entry (sorted_entries (\<lambda>a. a) m2))"
  "canonical_balances m3 = to_le_bytes (word_of_nat (length m3) :: u64)
     @ concat (map write_balance_entry (sorted_entries balance_key_order m3))"
  "canonical_anchors m4 = to_le_bytes (word_of_nat (length m4) :: u64)
     @ concat (map write_anchor_entry (sorted_entries (\<lambda>a. a) m4))"
  by (simp_all add: canonical_nonces_def canonical_assets_def canonical_balances_def canonical_anchors_def
      sorted_entries_def write_len_def comp_def Let_def)

section \<open>The codec of a map\<close>

text \<open>
  What the encoding of a map needs from the encoding of its entries: the reader of an entry accepts
  what was written for it, and an entry takes at least 40 bytes. The loop over a counted map
  is then read back, and its encoding is either empty or longer than a root-only export leaves room for.
\<close>

locale entry_codec =
  fixes read :: "(codec_error, 'k \<times> 'v) reader" and write_entry :: "'k \<times> 'v \<Rightarrow> bytes" and ok :: "'k \<times> 'v \<Rightarrow> bool"
  assumes reads_entry: "ok p \<Longrightarrow> reads read p (write_entry p)"
    and entry_size: "ok p \<Longrightarrow> 40 \<le> length (write_entry p)"
begin

lemma reads_counted_map:
  assumes "\<And>p. p \<in> set m \<Longrightarrow> ok p" "distinct (map fst m)" "length m < 2 ^ 64"
    "reads_last (k (sorted_entries order m)) y cs"
  shows "reads_last (r_bind read_len (\<lambda>n. r_bind (read_map (unat n) read e []) k)) y
     ((to_le_bytes (word_of_nat (length m) :: u64) @ concat (map write_entry (sorted_entries order m))) @ cs)"
proof -
  have n: "unat (word_of_nat (length m) :: u64) = length (sorted_entries order m)"
    using assms(3) by (simp add: unat_of_nat)
  have "reads (read_map (length (sorted_entries order m)) read e []) ([] @ sorted_entries order m)
      (concat (map write_entry (sorted_entries order m)))"
    by (rule reads_map) (use assms(1,2) reads_entry in \<open>simp_all add: set_sorted_entries\<close>)
  then show ?thesis
    unfolding append_assoc
    by (intro reads_last_bind [OF reads_primitives(7)] reads_last_bind [where x = "sorted_entries order m"] assms(4)) (simp add: n)
qed

lemma encoded_length_gap:
  assumes "\<And>p. p \<in> set m \<Longrightarrow> ok p" "distinct (map fst m)"
  shows "length (concat (map write_entry (sorted_entries order m))) = 0
    \<or> 40 \<le> length (concat (map write_entry (sorted_entries order m)))"
proof (cases "sorted_entries order m")
  case (Cons p ps)
  then have "p \<in> set m" using set_sorted_entries [OF assms(2), of order] by auto
  then have "40 \<le> length (write_entry p)" using assms(1) entry_size by blast
  then show ?thesis by (simp add: Cons)
qed simp

end

interpretation nonce_codec: entry_codec read_nonce_entry write_nonce_entry nonce_entry_ok
proof
  fix p assume ok: "nonce_entry_ok p"
  have key: "\<lparr>nk_owner_id = nk_owner_id (fst p), nk_scope_kind = nk_scope_kind (fst p), nk_scope_id = nk_scope_id (fst p)\<rparr> = fst p"
    by simp
  show "reads read_nonce_entry p (write_nonce_entry p)"
    unfolding read_nonce_entry_def Let_def
    by (intro reads_normal_bind reads_binds reads_field [OF reads_primitives(5)] reads_return_eq)
      (simp_all only: key prod.collapse ok [unfolded nonce_entry_ok_def])
  show "40 \<le> length (write_nonce_entry p)" using ok by (simp add: nonce_entry_ok_def)
qed

interpretation asset_codec: entry_codec read_asset_entry write_asset_entry "asset_entry_ok blake" for blake
proof
  fix p assume ok: "asset_entry_ok blake p"
  then have "reads read_atomic_asset (snd p) (write_atomic_asset (snd p))"
    by (intro reads_asset [of blake]) (simp_all add: asset_entry_ok_def)
  then show "reads read_asset_entry p (write_asset_entry p)"
    unfolding read_asset_entry_def
    by (intro reads_binds reads_field [of read_atomic_asset] reads_return_eq)
      (use ok in \<open>simp_all add: asset_entry_ok_def prod_eq_iff\<close>)
  show "40 \<le> length (write_asset_entry p)"
    using ok by (simp add: asset_entry_ok_def sized_asset_def write_atomic_asset_def)
qed

interpretation balance_codec: entry_codec read_balance_entry write_balance_entry balance_entry_ok
proof
  fix p assume ok: "balance_entry_ok p"
  then show "reads read_balance_entry p (write_balance_entry p)"
    unfolding read_balance_entry_def balance_entry_ok_def
    by (intro reads_binds reads_field [OF reads_primitives(6)] reads_return_eq) (simp_all add: prod_eq_iff)
  show "40 \<le> length (write_balance_entry p)" using ok by (simp add: balance_entry_ok_def)
qed

interpretation anchor_codec: entry_codec read_anchor_entry write_anchor_entry anchor_entry_ok
proof
  fix p assume ok: "anchor_entry_ok p"
  then show "reads read_anchor_entry p (write_anchor_entry p)"
    unfolding read_anchor_entry_def anchor_entry_ok_def
    by (intro reads_binds reads_field [OF reads_primitives(5)] reads_return_eq) simp_all
  show "40 \<le> length (write_anchor_entry p)" using ok by (simp add: anchor_entry_ok_def)
qed

section \<open>The codec of a state\<close>

lemma state_entries_ok:
  assumes mem: "in_memory st" and wf: "wf_state blake st" and sized: "sized_state st"
  shows "n \<in> set (st_next_nonces st) \<Longrightarrow> nonce_entry_ok n" "a \<in> set (st_assets st) \<Longrightarrow> asset_entry_ok blake a"
    "b \<in> set (st_balances st) \<Longrightarrow> balance_entry_ok b" "c \<in> set (st_anchor_counts st) \<Longrightarrow> anchor_entry_ok c"
proof -
  note look = in_memory_lookups [OF mem]
  have dist: "distinct (map fst (st_next_nonces st))" "distinct (map fst (st_assets st))"
    using mem by (simp_all add: in_memory_def)
  show "nonce_entry_ok n" if "n \<in> set (st_next_nonces st)"
    using wf sized that map_of_is_SomeI [OF dist(1), of "fst n" "snd n"]
    by (auto simp: nonce_entry_ok_def wf_state_def wf_core_def look sized_state_def)
  show "asset_entry_ok blake a" if "a \<in> set (st_assets st)"
    using wf sized that map_of_is_SomeI [OF dist(2), of "fst a" "snd a"]
    by (auto simp: asset_entry_ok_def wf_state_def wf_core_def look sized_state_def)
  show "balance_entry_ok b" if "b \<in> set (st_balances st)"
    using sized that by (auto simp: balance_entry_ok_def sized_state_def)
  show "anchor_entry_ok c" if "c \<in> set (st_anchor_counts st)"
    using sized that by (auto simp: anchor_entry_ok_def sized_state_def)
qed

lemma in_memory_distinct:
  "in_memory st \<Longrightarrow> distinct (map fst (st_next_nonces st))" "in_memory st \<Longrightarrow> distinct (map fst (st_assets st))"
  "in_memory st \<Longrightarrow> distinct (map fst (st_balances st))" "in_memory st \<Longrightarrow> distinct (map fst (st_anchor_counts st))"
  by (simp_all add: in_memory_def)

lemma reads_magic: "reads (read_exact_magic ATOMIC_CONSENSUS_STATE_MAGIC) () ATOMIC_CONSENSUS_STATE_MAGIC"
  unfolding read_exact_magic_def by (rule reads_field [OF reads_read_bytes]) (simp_all add: reads_reject)

lemma reads_last_finish_bind: "reads_last (k ()) y [] \<Longrightarrow> reads_last (r_bind reader_finish k) y []"
  by (simp add: reads_last_def r_bind_def r_at_end_def reader_finish_def r_reject_def)

lemma read_state_maps_canonical:
  assumes "in_memory st" "wf_state blake st" "sized_state st"
  shows "\<exists>n. read_state_maps (canonical_bytes st) 0 = Inr (sorted_state st, n)"
proof -
  note ok = state_entries_ok [OF assms] and dist = in_memory_distinct [OF assms(1)]
  have last: "canonical_anchors (st_anchor_counts st) = canonical_anchors (st_anchor_counts st) @ []" by simp
  have "reads_last read_state_maps (sorted_state st) (canonical_bytes st)"
    unfolding read_state_maps_def canonical_bytes_def sorted_state_def
    apply (subst last)
    unfolding canonical_maps
    by (intro reads_last_bind [OF reads_magic] nonce_codec.reads_counted_map asset_codec.reads_counted_map [where blake = blake]
        balance_codec.reads_counted_map anchor_codec.reads_counted_map ok dist reads_last_finish_bind reads_last_done)
      (use assms(3) in \<open>simp_all add: sized_state_def\<close>)
  then show ?thesis unfolding reads_last_def by (metis append_Nil list.size(3))
qed

lemma canonical_not_root_only:
  assumes "in_memory st" "wf_state blake st" "sized_state st"
  shows "decode_root_only_canonical_bytes (canonical_bytes st) = Inr None"
proof -
  note ok = state_entries_ok [OF assms] and dist = in_memory_distinct [OF assms(1)]
  have "a = 0 \<or> 40 \<le> a \<Longrightarrow> b = 0 \<or> 40 \<le> b \<Longrightarrow> c = 0 \<or> 40 \<le> c \<Longrightarrow> d = 0 \<or> 40 \<le> d \<Longrightarrow>
      8 + ((8 + a) + ((8 + b) + ((8 + c) + (8 + d)))) \<noteq> (44 :: nat)" for a b c d by linarith
  from this [OF nonce_codec.encoded_length_gap [OF ok(1) dist(1), of nonce_key_order]
      asset_codec.encoded_length_gap [OF ok(2) dist(2), of "\<lambda>a. a"]
      balance_codec.encoded_length_gap [OF ok(3) dist(3), of balance_key_order]
      anchor_codec.encoded_length_gap [OF ok(4) dist(4), of "\<lambda>a. a"]]
  have "length (canonical_bytes st) \<noteq> 44"
    unfolding canonical_bytes_def canonical_maps length_append by (simp add: ATOMIC_CONSENSUS_STATE_MAGIC_def)
  then show ?thesis
    by (simp add: decode_root_only_canonical_bytes_def ATOMIC_CONSENSUS_STATE_MAGIC_def ATOMIC_CONSENSUS_STATE_ROOT_ONLY_TAG_def)
qed

lemma rebuild_eq:
  "st_current_store st = None \<Longrightarrow>
     rebuild_liquidity_vault_outpoint_index st = st\<lparr>st_vault_outpoints := fold index_step (st_assets st) []\<rparr>"
  by (simp add: rebuild_liquidity_vault_outpoint_index_def is_disk_backed_def index_step_def [abs_def] case_prod_unfold)

lemma index_step_ok: "asset_ok blake x \<Longrightarrow> index_step (a, x) m = index_asset a x m"
  by (auto simp: index_step_def index_asset_def asset_vault_def asset_ok_def split: option.splits asset_class.splits)

lemma distinct_index_steps: "distinct (map fst m) \<Longrightarrow> distinct (map fst (fold index_step ps m))"
  by (induction ps arbitrary: m) (auto simp: index_step_def distinct_update split: option.splits)

lemma index_steps_iff:
  assumes "\<And>a x. (a, x) \<in> set ps \<Longrightarrow> asset_ok blake x"
    "\<And>o1 a b. lists_vault m ps o1 a \<Longrightarrow> lists_vault m ps o1 b \<Longrightarrow> a = b"
  shows "map_of (fold index_step ps m) o1 = Some a \<longleftrightarrow> lists_vault m ps o1 a"
  using assms
proof (induction ps arbitrary: m)
  case Nil
  then show ?case by (simp add: lists_vault_def)
next
  case (Cons p ps)
  obtain b x where p: "p = (b, x)" by fastforce
  have step: "index_step p m = index_asset b x m" unfolding p by (rule index_step_ok [OF Cons.prems(1) [of b]]) (simp add: p)
  have shift: "lists_vault (index_asset b x m) ps o2 c \<longleftrightarrow> lists_vault m (p # ps) o2 c" for o2 c
    using Cons.prems(2) [of o2 c b] by (auto simp: lists_vault_def map_of_index_asset p)
  have "map_of (fold index_step ps (index_asset b x m)) o1 = Some a \<longleftrightarrow> lists_vault (index_asset b x m) ps o1 a"
  proof (rule Cons.IH)
    show "asset_ok blake y" if "(c, y) \<in> set ps" for c y using Cons.prems(1) [of c y] that by simp
    show "c = d" if "lists_vault (index_asset b x m) ps o2 c" "lists_vault (index_asset b x m) ps o2 d" for o2 c d
      using that Cons.prems(2) unfolding shift by blast
  qed
  then show ?case by (simp add: step shift)
qed

lemma rebuilt_sorted_state:
  assumes mem: "in_memory st" and wf: "wf_state blake st"
  defines "st1 \<equiv> rebuild_liquidity_vault_outpoint_index (sorted_state st)"
  shows "in_memory st1" "same_view st1 st" "wf_state blake st1"
proof -
  note look = in_memory_lookups [OF mem]
  have dist: "distinct (map fst (st_assets st))" using mem by (simp add: in_memory_def)
  have st1: "st1 = (sorted_state st)\<lparr>st_vault_outpoints := fold index_step (sorted_entries (\<lambda>a. a) (st_assets st)) []\<rparr>"
    unfolding st1_def by (subst rebuild_eq) (simp_all add: sorted_state_def atomic_state_default_def)
  show mem1: "in_memory st1"
    using mem by (simp add: st1 in_memory_def sorted_state_def atomic_state_default_def distinct_index_steps)
  have indexed: "st_vault_outpoints st1 = fold index_step (sorted_entries (\<lambda>a. a) (st_assets st)) []" by (simp add: st1)
  note look1 = in_memory_lookups [OF mem1]
  have views: "nonce_option st1 = nonce_option st" "asset_option st1 = asset_option st"
    "balance_option st1 = balance_option st" "anchor_count_option st1 = anchor_count_option st"
    by (simp_all add: look1 look) (simp_all add: st1 sorted_state_def)
  then show "same_view st1 st" by (simp add: same_view_def)
  have index: "vault_asset st o1 = Some a \<longleftrightarrow> lists_vault [] (sorted_entries (\<lambda>a. a) (st_assets st)) o1 a" for o1 a
    using wf by (simp add: wf_state_def wf_core_def look lists_vault_def set_sorted_entries [OF dist] map_of_eq_Some_iff [OF dist])
  have "vault_asset st1 o1 = Some a \<longleftrightarrow> lists_vault [] (sorted_entries (\<lambda>a. a) (st_assets st)) o1 a" for o1 a
    unfolding look1(5) indexed
  proof (rule index_steps_iff [where blake = blake])
    show "asset_ok blake x" if "(b, x) \<in> set (sorted_entries (\<lambda>a. a) (st_assets st))" for b x
      using that wf by (simp add: wf_state_def wf_core_def look set_sorted_entries [OF dist] map_of_eq_Some_iff [OF dist])
    show "b = c" if "lists_vault [] (sorted_entries (\<lambda>a. a) (st_assets st)) o2 b"
      "lists_vault [] (sorted_entries (\<lambda>a. a) (st_assets st)) o2 c" for o2 b c
      using that unfolding index [symmetric] by simp
  qed
  then have "vault_asset st1 o1 = vault_asset st o1" for o1 by (metis index option.exhaust)
  then show "wf_state blake st1"
    using wf by (simp add: wf_state_def wf_core_def excess_def supply_of_def holdings_def views)
qed

lemma root_update_keeps:
  "in_memory (st\<lparr>st_root := r\<rparr>) = in_memory st" "same_view (st\<lparr>st_root := r\<rparr>) st' = same_view st st'"
  "wf_state blake (st\<lparr>st_root := r\<rparr>) = wf_state blake st"
proof -
  have views: "nonce_option (st\<lparr>st_root := r\<rparr>) = nonce_option st" "asset_option (st\<lparr>st_root := r\<rparr>) = asset_option st"
    "balance_option (st\<lparr>st_root := r\<rparr>) = balance_option st" "anchor_count_option (st\<lparr>st_root := r\<rparr>) = anchor_count_option st"
    "vault_asset (st\<lparr>st_root := r\<rparr>) = vault_asset st"
    by (simp_all add: option_overlay vault_asset_def vault_pair_def read_store_cong [of "st\<lparr>st_root := r\<rparr>" st])
  show "in_memory (st\<lparr>st_root := r\<rparr>) = in_memory st" by (simp add: in_memory_def)
  show "same_view (st\<lparr>st_root := r\<rparr>) st' = same_view st st'" by (simp add: same_view_def views)
  show "wf_state blake (st\<lparr>st_root := r\<rparr>) = wf_state blake st"
    by (simp add: wf_state_def wf_core_def excess_def supply_of_def holdings_def views)
qed

lemma canonical_decoded:
  assumes "in_memory st" "wf_state blake st" "sized_state st"
  shows "try_from_canonical_bytes blake (canonical_bytes st)
     = Inr ((rebuild_liquidity_vault_outpoint_index (sorted_state st))\<lparr>st_root :=
         from_state_maps blake (rebuild_liquidity_vault_outpoint_index (sorted_state st))\<rparr>)"
proof -
  note st1 = rebuilt_sorted_state [OF assms(1,2)]
  obtain n where "read_state_maps (canonical_bytes st) 0 = Inr (sorted_state st, n)"
    using read_state_maps_canonical [OF assms] by blast
  then show ?thesis
    using wf_state_validate_normalized [OF st1(1,3)]
    by (simp add: try_from_canonical_bytes_def canonical_not_root_only [OF assms(1-3)] Let_def)
qed

section \<open>The order of the hash maps\<close>

lemma apply_entry_new:
  "apply_entry n None (Some h) r = namespace_mut n (\<lambda>(c, x). (saturating_add c 1, xor_hash_in_place x h)) r"
  by (simp add: apply_entry_def)

lemma apply_entry_swap:
  "apply_entry n None (Some g) (apply_entry n None (Some h) r) = apply_entry n None (Some h) (apply_entry n None (Some g) r)"
  by (simp add: apply_entry_new namespace_mut_def xor_hash_swap [of _ g h])

lemma fold_entries_mset:
  assumes "mset ps = mset qs" "\<And>k v. f (k, v) = apply_entry n None (Some (H k v))"
  shows "fold f ps r = fold f qs r"
proof -
  have "fold f ps = fold f qs"
  proof (rule fold_multiset_equiv [OF _ assms(1)])
    fix p q
    show "f p \<circ> f q = f q \<circ> f p"
      by (cases p; cases q) (simp only: fun_eq_iff comp_apply assms(2) apply_entry_swap, simp)
  qed
  then show ?thesis by simp
qed

lemma from_state_maps_mset:
  assumes "mset (st_next_nonces s) = mset (st_next_nonces t)" "mset (st_assets s) = mset (st_assets t)"
    "mset (st_balances s) = mset (st_balances t)" "mset (st_anchor_counts s) = mset (st_anchor_counts t)"
  shows "from_state_maps blake s = from_state_maps blake t"
proof -
  note swap = fold_entries_mset [OF assms(1), where H = "hash_nonce_entry blake"]
    fold_entries_mset [OF assms(2), where H = "hash_asset_entry blake"]
    fold_entries_mset [OF assms(3), where H = "hash_balance_entry blake"]
    fold_entries_mset [OF assms(4), where H = "hash_anchor_count_entry blake"]
  show ?thesis
    unfolding from_state_maps_def Let_def
    by (subst swap(1), simp add: apply_nonce_def, subst swap(2), simp add: apply_asset_def,
        subst swap(3), simp add: apply_balance_def, subst swap(4), simp add: apply_anchor_count_def, rule refl)
qed

lemma mset_eq_of_map_of:
  assumes "distinct (map fst a)" "distinct (map fst b)" "map_of a = map_of b"
  shows "mset a = mset b"
proof -
  have "distinct a" "distinct b" using assms(1,2) by (simp_all add: distinct_map)
  then show ?thesis using map_of_inject_set [OF assms(1,2)] assms(3) by (simp add: set_eq_iff_mset_eq_distinct)
qed

lemma sorted_entries_eq:
  assumes "mset a = mset b" "inj order" "map_of a = map_of b"
  shows "sorted_entries order a = sorted_entries order b"
proof -
  have sort: "sort (map order ks) = map order (sort_key order ks)" for ks
    by (rule properties_for_sort) simp_all
  have "mset (map order (map fst a)) = mset (map order (map fst b))" using assms(1) by (simp only: mset_map)
  then have "sort (map order (map fst a)) = sort (map order (map fst b))"
    by (intro properties_for_sort) (simp_all only: mset_sort sorted_sort)
  then have "map order (sort_key order (map fst a)) = map order (sort_key order (map fst b))" by (simp only: sort)
  then have "sort_key order (map fst a) = sort_key order (map fst b)"
    using assms(2) by (simp add: inj_map_eq_map)
  then show ?thesis by (simp add: sorted_entries_def assms(3))
qed

lemma mset_sorted_entries: "distinct (map fst m) \<Longrightarrow> mset (sorted_entries order m) = mset m"
  by (rule mset_eq_of_map_of) simp_all

lemma inj_key_orders: "inj nonce_key_order" "inj balance_key_order"
  by (auto simp: inj_def nonce_key_order_def balance_key_order_def)

lemma from_state_maps_ignores [simp]:
  "from_state_maps blake (st\<lparr>st_root := r\<rparr>) = from_state_maps blake st"
  "from_state_maps blake (st\<lparr>st_vault_outpoints := v\<rparr>) = from_state_maps blake st"
  by (simp_all add: from_state_maps_def)

lemma sorted_state_fields:
  "st_current_store (sorted_state st) = None" "st_assets (sorted_state st) = sorted_entries (\<lambda>a. a) (st_assets st)"
  "st_next_nonces (sorted_state st) = sorted_entries nonce_key_order (st_next_nonces st)"
  "st_balances (sorted_state st) = sorted_entries balance_key_order (st_balances st)"
  "st_anchor_counts (sorted_state st) = sorted_entries (\<lambda>a. a) (st_anchor_counts st)"
  by (simp_all add: sorted_state_def atomic_state_default_def)

lemma from_state_maps_sorted:
  "in_memory st \<Longrightarrow> from_state_maps blake (rebuild_liquidity_vault_outpoint_index (sorted_state st)) = from_state_maps blake st"
  unfolding rebuild_eq [OF sorted_state_fields(1)] from_state_maps_ignores
  by (rule from_state_maps_mset) (simp_all add: in_memory_def sorted_state_fields mset_sorted_entries)

lemma root_accumulator_decoded:
  "root_accumulator blake (st\<lparr>st_root := from_state_maps blake st\<rparr>) = from_state_maps blake st"
  by (simp add: root_accumulator_def)

lemma root_accumulator_in_memory:
  assumes mem: "in_memory st" and wf: "wf_state blake st" and full: "\<not> is_root_only st"
  shows "root_accumulator blake st = from_state_maps blake st"
proof (cases "st_next_nonces st = [] \<and> st_assets st = [] \<and> st_balances st = [] \<and> st_anchor_counts st = []")
  case True
  note look = in_memory_lookups [OF mem]
  have "map_of (st_vault_outpoints st) o1 = None" for o1
    using wf True by (cases "map_of (st_vault_outpoints st) o1") (auto simp: wf_state_def wf_core_def look)
  then have "map_of (st_vault_outpoints st) = Map.empty" by (rule ext)
  then have "st_vault_outpoints st = []" by (simp only: map_of_eq_empty_iff)
  then have "st_root st = root_default"
    using full True by (simp add: is_root_only_def has_in_memory_values_def)
  then show ?thesis using True by (simp add: root_accumulator_def from_state_maps_def)
next
  case False
  then show ?thesis using mem by (auto simp: root_accumulator_def in_memory_def)
qed

lemma read_map_distinct:
  "read_map n r e m bs c = Inr (m', c') \<Longrightarrow> distinct (map fst m) \<Longrightarrow> distinct (map fst m')"
proof (induction n arbitrary: m c)
  case 0
  then show ?case by (simp add: r_return_def)
next
  case (Suc n)
  from Suc.prems(1) obtain p c1 where "read_map n r e (AList.update (fst p) (snd p) m) bs c1 = Inr (m', c')"
    by (auto simp: r_bind_def r_reject_def result_simps split: sum.splits if_splits prod.splits)
  then show ?case using Suc.IH Suc.prems(2) by (simp add: distinct_update)
qed

lemma read_state_maps_in_memory:
  assumes "read_state_maps bs 0 = Inr (st, n)"
  shows "in_memory st \<and> st_vault_outpoints st = []"
proof -
  from assms obtain nonces assets balances anchors c1 d1 c2 d2 c3 d3 c4 d4 k1 k2 k3 k4 where
    "read_map k1 read_nonce_entry CodecDuplicateNonce [] bs c1 = Inr (nonces, d1)"
    "read_map k2 read_asset_entry CodecDuplicateAsset [] bs c2 = Inr (assets, d2)"
    "read_map k3 read_balance_entry CodecDuplicateBalance [] bs c3 = Inr (balances, d3)"
    "read_map k4 read_anchor_entry CodecDuplicateAnchor [] bs c4 = Inr (anchors, d4)"
    and st: "st = atomic_state_default\<lparr>st_next_nonces := nonces, st_assets := assets, st_balances := balances,
       st_anchor_counts := anchors\<rparr>"
    unfolding read_state_maps_def r_bind_def r_return_def
    by (auto simp: result_simps split: sum.splits prod.splits)
  from this(1-4) [THEN read_map_distinct] show ?thesis
    by (simp add: st in_memory_def atomic_state_default_def)
qed

lemma rebuild_in_memory:
  "in_memory st \<Longrightarrow> in_memory (rebuild_liquidity_vault_outpoint_index st)"
  by (subst rebuild_eq) (simp_all add: in_memory_def distinct_index_steps)

lemma canonical_hash_decoded:
  assumes "in_memory st" "wf_state blake st" "\<not> is_root_only st"
  shows "canonical_hash blake ((rebuild_liquidity_vault_outpoint_index (sorted_state st))\<lparr>st_root :=
    from_state_maps blake (rebuild_liquidity_vault_outpoint_index (sorted_state st))\<rparr>) = canonical_hash blake st"
  by (simp only: canonical_hash_def root_accumulator_decoded)
    (simp only: from_state_maps_sorted [OF assms(1)] root_accumulator_in_memory [OF assms])

lemma canonical_hash_of_export:
  assumes "in_memory st" "wf_state blake st" "sized_state st" "\<not> is_root_only st"
  shows "canonical_hash_from_canonical_bytes blake (canonical_bytes st) = Inr (canonical_hash blake st)"
  unfolding canonical_hash_from_canonical_bytes_def canonical_not_root_only [OF assms(1-3)] canonical_decoded [OF assms(1-3)]
  by (simp only: try_bind_simps option.case canonical_hash_decoded [OF assms(1,2,4)])

lemma root_only_hash:
  assumes "length h = 32"
  shows "decode_root_only_canonical_bytes (root_only_canonical_bytes h) = Inr (Some h)"
  using assms by (simp add: decode_root_only_canonical_bytes_def root_only_canonical_bytes_def
      ATOMIC_CONSENSUS_STATE_MAGIC_def ATOMIC_CONSENSUS_STATE_ROOT_ONLY_TAG_def)

section \<open>Properties\<close>

lemma example_sized: "sized_state example_ledger" "\<not> is_root_only example_ledger"
  by (simp_all add: sized_state_def sized_asset_def example_ledger_def example_token_def atomic_state_default_def
      is_root_only_def has_in_memory_values_def)

lemma example_wf: "wf_state example_hash example_ledger"
  by (rule validate_normalized_wf_state [OF example_ledger_checked])

lemma imported_consistent:
  assumes "try_from_canonical_bytes blake bs = Inr st"
  shows "in_memory st" "wf_state blake st" "root_accumulator blake st = from_state_maps blake st"
    "decode_root_only_canonical_bytes bs = Inr None"
proof -
  from assms obtain st0 n where read: "read_state_maps bs 0 = Inr (st0, n)"
    and ok: "validate_normalized blake (rebuild_liquidity_vault_outpoint_index st0) = Inr ()"
    and st: "st = (rebuild_liquidity_vault_outpoint_index st0)\<lparr>st_root :=
        from_state_maps blake (rebuild_liquidity_vault_outpoint_index st0)\<rparr>"
    and tag: "decode_root_only_canonical_bytes bs = Inr None"
    by (auto simp: try_from_canonical_bytes_def result_simps Let_def split: if_splits)
  have mem: "in_memory (rebuild_liquidity_vault_outpoint_index st0)"
    by (rule rebuild_in_memory) (simp add: read_state_maps_in_memory [OF read])
  show "in_memory st" "wf_state blake st" "root_accumulator blake st = from_state_maps blake st"
    using mem validate_normalized_wf_state [OF mem ok] by (simp_all add: st root_update_keeps root_accumulator_decoded)
  show "decode_root_only_canonical_bytes bs = Inr None" by (fact tag)
qed

text \<open>C12. Exporting a token state and importing it again gives the same ledger: for a consistent state held in
  memory, \<open>try_from_canonical_bytes\<close> accepts what \<open>canonical_bytes\<close> wrote, every nonce, asset, balance and
  anchor count reads as before, and the state has the same canonical hash, although its vault index and its
  root were recomputed.\<close>

theorem canonical_bytes_round_trip:
  assumes "in_memory st" "wf_state blake st" "sized_state st" "\<not> is_root_only st"
  shows "\<exists>st'. try_from_canonical_bytes blake (canonical_bytes st) = Inr st' \<and> same_view st' st
    \<and> canonical_hash blake st' = canonical_hash blake st"
  unfolding canonical_decoded [OF assms(1-3)] sum.inject
  by (intro exI conjI, rule refl)
    (simp_all only: root_update_keeps rebuilt_sorted_state(2) [OF assms(1,2)] canonical_hash_decoded [OF assms(1,2,4)])

theorem canonical_bytes_round_trip_witness:
  "\<exists>st'. try_from_canonical_bytes example_hash (canonical_bytes example_ledger) = Inr st' \<and> same_view st' example_ledger
    \<and> canonical_hash example_hash st' = canonical_hash example_hash example_ledger"
  by (rule canonical_bytes_round_trip [OF example_ledger_checked(1) example_wf example_sized])

text \<open>C11. Whatever bytes a peer sends, a state that \<open>try_from_canonical_bytes\<close> accepts is held in memory with
  every key listed once, satisfies the ledger invariant (balances sum to supplies, pools and vaults are
  consistent), and its root is the one computed from its own entries.\<close>

theorem imported_state_consistent:
  assumes "try_from_canonical_bytes blake bs = Inr st"
  shows "in_memory st \<and> wf_state blake st \<and> root_accumulator blake st = from_state_maps blake st"
  using imported_consistent [OF assms] by blast

theorem imported_state_consistent_witness:
  "\<exists>st. try_from_canonical_bytes example_hash (canonical_bytes example_ledger) = Inr st \<and> wf_state example_hash st"
  using canonical_decoded [OF example_ledger_checked(1) example_wf example_sized(1)]
    imported_state_consistent [of example_hash "canonical_bytes example_ledger"] by blast

text \<open>C18. Two nodes that hold the same ledger write the same bytes and commit to the same root: hash maps list
  their entries in any order, and neither \<open>canonical_bytes\<close> nor the accumulated root depends on it.\<close>

theorem canonical_form_order_free:
  assumes "in_memory s" "in_memory t" "same_view s t"
  shows "canonical_bytes s = canonical_bytes t \<and> from_state_maps blake s = from_state_maps blake t"
proof -
  have maps: "map_of (st_next_nonces s) = map_of (st_next_nonces t)" "map_of (st_assets s) = map_of (st_assets t)"
    "map_of (st_balances s) = map_of (st_balances t)" "map_of (st_anchor_counts s) = map_of (st_anchor_counts t)"
    using assms(3) by (simp_all add: same_view_def in_memory_lookups [OF assms(1)] in_memory_lookups [OF assms(2)])
  have msets: "mset (st_next_nonces s) = mset (st_next_nonces t)" "mset (st_assets s) = mset (st_assets t)"
    "mset (st_balances s) = mset (st_balances t)" "mset (st_anchor_counts s) = mset (st_anchor_counts t)"
    using assms(1,2) by (auto intro!: mset_eq_of_map_of simp: maps in_memory_def)
  have sorted: "sorted_entries nonce_key_order (st_next_nonces s) = sorted_entries nonce_key_order (st_next_nonces t)"
    "sorted_entries (\<lambda>a. a) (st_assets s) = sorted_entries (\<lambda>a. a) (st_assets t)"
    "sorted_entries balance_key_order (st_balances s) = sorted_entries balance_key_order (st_balances t)"
    "sorted_entries (\<lambda>a. a) (st_anchor_counts s) = sorted_entries (\<lambda>a. a) (st_anchor_counts t)"
    by (rule sorted_entries_eq; simp add: msets maps inj_key_orders)+
  have "canonical_bytes s = canonical_bytes t"
    by (simp add: canonical_bytes_def canonical_maps sorted msets [THEN mset_eq_length])
  with from_state_maps_mset [OF msets] show ?thesis by simp
qed

theorem canonical_form_order_free_witness:
  "canonical_bytes (example_ledger\<lparr>st_anchor_counts := [(replicate 32 5, 1), (replicate 32 6, 2)]\<rparr>)
     = canonical_bytes (example_ledger\<lparr>st_anchor_counts := [(replicate 32 6, 2), (replicate 32 5, 1)]\<rparr>)"
proof -
  let ?s = "example_ledger\<lparr>st_anchor_counts := [(replicate 32 5, 1), (replicate 32 6, 2)]\<rparr>"
  let ?t = "example_ledger\<lparr>st_anchor_counts := [(replicate 32 6, 2), (replicate 32 5, 1)]\<rparr>"
  have mem: "in_memory ?s" "in_memory ?t" using example_ledger_checked(1) by (simp_all add: in_memory_def)
  have "same_view ?s ?t"
    by (simp add: same_view_def in_memory_lookups [OF mem(1)] in_memory_lookups [OF mem(2)] fun_eq_iff)
  from canonical_form_order_free [OF mem this] show ?thesis by blast
qed

end
