(* ===== verification/Atomic_Audit.thy ===== *)
theory Atomic_Audit
  imports Codec_Roundtrip
begin

text \<open>
  The audit hash of the token state that nodes compare over the peer-to-peer protocol
  (\<open>p2p_token_audit_hash\<close> in \<open>atomic_state.rs\<close>): every asset, every balance that is not zero and
  every nonce that is not the initial one is a leaf, the leaves are spread over 4096 buckets by a
  hash of their key, a bucket is the exclusive or of its leaf hashes, and the audit hash is the
  hash of all buckets. It commits to what the lookups return and to nothing else.
\<close>

section \<open>Leaves and buckets\<close>

definition ATOMIC_P2P_ROOT_BUCKETS :: nat where
  "ATOMIC_P2P_ROOT_BUCKETS = 4096"

definition ATOMIC_P2P_ROOT_LEAF_DOMAIN :: bytes where
  "ATOMIC_P2P_ROOT_LEAF_DOMAIN =
     [0x43, 0x52, 0x59, 0x50, 0x54, 0x49, 0x58, 0x5F, 0x41, 0x54, 0x4F, 0x4D, 0x49, 0x43, 0x5F, 0x56,
      0x32, 0x5F, 0x4C, 0x45, 0x41, 0x46]"

definition ATOMIC_P2P_ROOT_BUCKET_DOMAIN :: bytes where
  "ATOMIC_P2P_ROOT_BUCKET_DOMAIN =
     [0x43, 0x52, 0x59, 0x50, 0x54, 0x49, 0x58, 0x5F, 0x41, 0x54, 0x4F, 0x4D, 0x49, 0x43, 0x5F, 0x56,
      0x32, 0x5F, 0x42, 0x55, 0x43, 0x4B, 0x45, 0x54, 0x45, 0x44, 0x5F, 0x52, 0x4F, 0x4F, 0x54]"

definition ATOMIC_P2P_ROOT_BUCKET_INDEX_DOMAIN :: bytes where
  "ATOMIC_P2P_ROOT_BUCKET_INDEX_DOMAIN =
     [0x43, 0x52, 0x59, 0x50, 0x54, 0x49, 0x58, 0x5F, 0x41, 0x54, 0x4F, 0x4D, 0x49, 0x43, 0x5F, 0x56,
      0x32, 0x5F, 0x42, 0x55, 0x43, 0x4B, 0x45, 0x54, 0x5F, 0x49, 0x4E, 0x44, 0x45, 0x58]"

definition ATOMIC_P2P_ASSET_ROOT_V1 :: bytes where
  "ATOMIC_P2P_ASSET_ROOT_V1 =
     [0x43, 0x41, 0x54, 0x5F, 0x41, 0x53, 0x53, 0x45, 0x54, 0x5F, 0x50, 0x32, 0x50, 0x5F, 0x41, 0x55,
      0x44, 0x49, 0x54, 0x5F, 0x52, 0x4F, 0x4F, 0x54, 0x5F, 0x56, 0x31]"

definition p2p_logical_asset_key :: "hash32 \<Rightarrow> bytes" where
  "p2p_logical_asset_key asset_id = [0x01] @ asset_id"

definition p2p_logical_balance_key :: "balance_key \<Rightarrow> bytes" where
  "p2p_logical_balance_key key = [0x02] @ bk_asset_id key @ bk_owner_id key"

definition p2p_logical_nonce_key :: "nonce_key \<Rightarrow> bytes" where
  "p2p_logical_nonce_key key = [0x03] @ nk_owner_id key @ [nk_scope_kind key] @ nk_scope_id key"

definition p2p_push_bytes :: "bytes \<Rightarrow> bytes" where
  "p2p_push_bytes bs = to_le_bytes (word_of_nat (length bs) :: u64) @ bs"

definition p2p_append_recipient :: "fee_recipient \<Rightarrow> bytes" where
  "p2p_append_recipient r =
     fr_owner_id r @ [fr_address_version r] @ p2p_push_bytes (fr_address_payload r) @ to_le_bytes (fr_unclaimed_sompi r)"

definition p2p_append_liquidity :: "pool_state \<Rightarrow> bytes" where
  "p2p_append_liquidity pool =
     to_le_bytes (pl_pool_nonce pool) @ [pl_curve_version pool] @ [pl_curve_mode pool]
     @ to_le_bytes (pl_individual_virtual_cpay_reserves_sompi pool)
     @ to_le_bytes (pl_individual_virtual_token_multiplier_bps pool)
     @ to_le_bytes (pl_real_cpay_reserves_sompi pool) @ to_le_bytes (pl_real_token_reserves pool)
     @ to_le_bytes (pl_virtual_cpay_reserves_sompi pool) @ to_le_bytes (pl_virtual_token_reserves pool)
     @ to_le_bytes (pl_unclaimed_fee_total_sompi pool) @ to_le_bytes (pl_fee_bps pool)
     @ to_le_bytes (word_of_nat (length (pl_fee_recipients pool)) :: u64)
     @ concat (map p2p_append_recipient (pl_fee_recipients pool))
     @ outpoint_tx (pl_vault_outpoint pool) @ to_le_bytes (outpoint_index (pl_vault_outpoint pool))
     @ to_le_bytes (pl_vault_value_sompi pool) @ to_le_bytes (pl_unlock_target_sompi pool)
     @ [if pl_unlocked pool then 1 else 0]"

definition p2p_asset_value :: "hash32 \<Rightarrow> asset_state \<Rightarrow> bytes" where
  "p2p_asset_value asset_id asset =
     ATOMIC_P2P_ASSET_ROOT_V1 @ asset_id @ [atomic_asset_class_to_u8 (as_asset_class asset)] @ [as_token_version asset]
     @ as_mint_authority_owner_id asset @ [atomic_supply_mode_to_u8 (as_supply_mode asset)]
     @ to_le_bytes (as_max_supply asset) @ to_le_bytes (as_total_supply asset) @ p2p_push_bytes (as_platform_tag asset)
     @ (case as_liquidity asset of Some pool \<Rightarrow> [1] @ p2p_append_liquidity pool | None \<Rightarrow> [0])"

definition p2p_root_leaf_hash :: "(bytes \<Rightarrow> hash32) \<Rightarrow> bytes \<Rightarrow> bytes \<Rightarrow> hash32" where
  "p2p_root_leaf_hash blake logical_key v =
     blake (ATOMIC_P2P_ROOT_LEAF_DOMAIN @ to_le_bytes (word_of_nat (length logical_key) :: u64) @ logical_key
       @ to_le_bytes (word_of_nat (length v) :: u64) @ v)"

definition p2p_root_bucket_index :: "(bytes \<Rightarrow> hash32) \<Rightarrow> bytes \<Rightarrow> nat" where
  "p2p_root_bucket_index blake logical_key =
     (let bs = blake (ATOMIC_P2P_ROOT_BUCKET_INDEX_DOMAIN @ logical_key);
          b0 = ucast (bs ! 0) :: u64; b1 = ucast (bs ! 1) :: u64
      in unat ((push_bit 4 b0 OR drop_bit 4 b1) AND (word_of_nat ATOMIC_P2P_ROOT_BUCKETS - 1)))"

definition apply_p2p_root_leaf :: "(bytes \<Rightarrow> hash32) \<Rightarrow> bytes \<Rightarrow> bytes \<Rightarrow> hash32 list \<Rightarrow> hash32 list" where
  "apply_p2p_root_leaf blake logical_key v buckets =
     (let leaf_hash = p2p_root_leaf_hash blake logical_key v;
          bucket_index = p2p_root_bucket_index blake logical_key
      in buckets[bucket_index := xor_hash_in_place (buckets ! bucket_index) leaf_hash])"

definition p2p_root_from_buckets :: "(bytes \<Rightarrow> hash32) \<Rightarrow> hash32 list \<Rightarrow> hash32" where
  "p2p_root_from_buckets blake buckets =
     blake (ATOMIC_P2P_ROOT_BUCKET_DOMAIN @ to_le_bytes (word_of_nat ATOMIC_P2P_ROOT_BUCKETS :: u64) @ concat buckets)"

section \<open>The audit hash\<close>

definition audit_asset :: "(bytes \<Rightarrow> hash32) \<Rightarrow> atomic_state \<Rightarrow> hash32 \<Rightarrow> hash32 list \<Rightarrow> hash32 list" where
  "audit_asset blake st asset_id buckets =
     (case map_of (st_assets st) asset_id of
        Some asset \<Rightarrow> apply_p2p_root_leaf blake (p2p_logical_asset_key asset_id) (p2p_asset_value asset_id asset) buckets
      | None \<Rightarrow> buckets)"

definition audit_balance :: "(bytes \<Rightarrow> hash32) \<Rightarrow> atomic_state \<Rightarrow> balance_key \<Rightarrow> hash32 list \<Rightarrow> hash32 list" where
  "audit_balance blake st key buckets =
     (case map_of (st_balances st) key of
        Some amount \<Rightarrow>
          if amount > 0 then apply_p2p_root_leaf blake (p2p_logical_balance_key key) (to_le_bytes amount) buckets else buckets
      | None \<Rightarrow> buckets)"

definition audit_nonce :: "(bytes \<Rightarrow> hash32) \<Rightarrow> atomic_state \<Rightarrow> nonce_key \<Rightarrow> hash32 list \<Rightarrow> hash32 list" where
  "audit_nonce blake st key buckets =
     (case map_of (st_next_nonces st) key of
        Some nonce \<Rightarrow>
          if nonce \<noteq> 1 then apply_p2p_root_leaf blake (p2p_logical_nonce_key key) (to_le_bytes nonce) buckets else buckets
      | None \<Rightarrow> buckets)"

definition compute_p2p_token_audit_hash :: "(bytes \<Rightarrow> hash32) \<Rightarrow> atomic_state \<Rightarrow> hash32" where
  "compute_p2p_token_audit_hash blake st =
     (let buckets0 = replicate ATOMIC_P2P_ROOT_BUCKETS (replicate 32 0);
          buckets1 = fold (audit_asset blake st) (sort (map fst (st_assets st))) buckets0;
          buckets2 = fold (audit_balance blake st) (sort_key balance_key_order (map fst (st_balances st))) buckets1;
          buckets3 = fold (audit_nonce blake st) (sort_key nonce_key_order (map fst (st_next_nonces st))) buckets2
      in p2p_root_from_buckets blake buckets3)"

definition p2p_token_audit_hash :: "(bytes \<Rightarrow> hash32) \<Rightarrow> atomic_state \<Rightarrow> hash32 option" where
  "p2p_token_audit_hash blake st =
     (if is_root_only st \<or> is_disk_backed st then None else Some (compute_p2p_token_audit_hash blake st))"

section \<open>What the audit hash depends on\<close>

text \<open>A loop over keys that skips some of them, each kept key updating one bucket.\<close>

lemma fold_skipped: "(\<And>k b. k \<in> set ks \<Longrightarrow> \<not> P k \<Longrightarrow> f k b = b) \<Longrightarrow> fold f ks b = fold f (filter P ks) b"
  by (induction ks arbitrary: b) auto

lemma apply_leaf_swap:
  "apply_p2p_root_leaf blake k v (apply_p2p_root_leaf blake l w b)
     = apply_p2p_root_leaf blake l w (apply_p2p_root_leaf blake k v b)"
proof (cases "p2p_root_bucket_index blake k = p2p_root_bucket_index blake l")
  case True
  then show ?thesis
    by (cases "p2p_root_bucket_index blake l < length b") (simp_all add: apply_p2p_root_leaf_def Let_def xor_hash_swap list_update_beyond not_less)
next
  case False
  then show ?thesis by (simp add: apply_p2p_root_leaf_def Let_def list_update_swap)
qed

lemma fold_leaves_eq:
  assumes "\<And>k b. f k b = (case m k of Some v \<Rightarrow> apply_p2p_root_leaf blake (K k) (V k v) b | None \<Rightarrow> b)"
    "\<And>k b. g k b = (case m k of Some v \<Rightarrow> apply_p2p_root_leaf blake (K k) (V k v) b | None \<Rightarrow> b)"
    and keys: "distinct ks" "distinct ls" "\<And>k. m k \<noteq> None \<Longrightarrow> k \<in> set ks" "\<And>k. m k \<noteq> None \<Longrightarrow> k \<in> set ls"
  shows "fold f ks b = fold g ls b"
proof -
  have fg: "g = f" by (simp add: fun_eq_iff assms(1,2))
  have same: "mset (filter (\<lambda>k. m k \<noteq> None) ks) = mset (filter (\<lambda>k. m k \<noteq> None) ls)"
    using keys by (intro set_eq_iff_mset_eq_distinct [THEN iffD1]) auto
  have "f p \<circ> f q = f q \<circ> f p" for p q
    by (rule ext) (auto simp: assms(1) intro: apply_leaf_swap split: option.splits)
  then have "fold f (filter (\<lambda>k. m k \<noteq> None) ks) = fold f (filter (\<lambda>k. m k \<noteq> None) ls)"
    by (intro fold_multiset_equiv [OF _ same])
  moreover have "fold f ks b = fold f (filter (\<lambda>k. m k \<noteq> None) ks) b" "fold f ls b = fold f (filter (\<lambda>k. m k \<noteq> None) ls) b"
    by (rule fold_skipped, simp add: assms(1))+
  ultimately show ?thesis by (simp add: fg)
qed

lemma audit_steps:
  assumes "in_memory st"
  shows "audit_asset blake st k1 b = (case asset_option st k1 of
      Some v \<Rightarrow> apply_p2p_root_leaf blake (p2p_logical_asset_key k1) (p2p_asset_value k1 v) b | None \<Rightarrow> b)"
    "audit_balance blake st k2 b = (case (if balance st k2 = 0 then None else Some (balance st k2)) of
      Some v \<Rightarrow> apply_p2p_root_leaf blake (p2p_logical_balance_key k2) (to_le_bytes v) b | None \<Rightarrow> b)"
    "audit_nonce blake st k3 b = (case (if next_nonce st k3 = 1 then None else Some (next_nonce st k3)) of
      Some v \<Rightarrow> apply_p2p_root_leaf blake (p2p_logical_nonce_key k3) (to_le_bytes v) b | None \<Rightarrow> b)"
  by (auto simp: audit_asset_def audit_balance_def audit_nonce_def balance_def next_nonce_def in_memory_lookups [OF assms]
      word_neq_0_conv split: option.splits)

lemma audited_keys:
  assumes "in_memory st"
  shows "asset_option st a \<noteq> None \<Longrightarrow> a \<in> fst ` set (st_assets st)"
    "balance st k \<noteq> 0 \<Longrightarrow> k \<in> fst ` set (st_balances st)"
    "next_nonce st n \<noteq> 1 \<Longrightarrow> n \<in> fst ` set (st_next_nonces st)"
  by (auto simp: balance_def next_nonce_def in_memory_lookups [OF assms] map_of_eq_None_iff split: option.splits)
    (force dest: map_of_SomeD)+

lemma compute_audit_eq:
  assumes mem: "in_memory s" "in_memory t"
    and same: "asset_option s = asset_option t" "balance s = balance t" "next_nonce s = next_nonce t"
  shows "compute_p2p_token_audit_hash blake s = compute_p2p_token_audit_hash blake t"
proof -
  have dist: "distinct (map fst (st_assets s))" "distinct (map fst (st_balances s))" "distinct (map fst (st_next_nonces s))"
    "distinct (map fst (st_assets t))" "distinct (map fst (st_balances t))" "distinct (map fst (st_next_nonces t))"
    using mem by (simp_all add: in_memory_def)
  note keys = audited_keys [OF mem(1)] audited_keys [OF mem(2)]
  have assets: "fold (audit_asset blake s) (sort (map fst (st_assets s))) b
      = fold (audit_asset blake t) (sort (map fst (st_assets t))) b" for b
    by (rule fold_leaves_eq [OF audit_steps(1) [OF mem(1)] audit_steps(1) [OF mem(2), folded same]])
      (use dist keys(1,4) in \<open>auto simp: same split: if_splits\<close>)
  have balances: "fold (audit_balance blake s) (sort_key balance_key_order (map fst (st_balances s))) b
      = fold (audit_balance blake t) (sort_key balance_key_order (map fst (st_balances t))) b" for b
    by (rule fold_leaves_eq [OF audit_steps(2) [OF mem(1)] audit_steps(2) [OF mem(2), folded same]])
      (use dist keys(2,5) in \<open>auto simp: same split: if_splits\<close>)
  have nonces: "fold (audit_nonce blake s) (sort_key nonce_key_order (map fst (st_next_nonces s))) b
      = fold (audit_nonce blake t) (sort_key nonce_key_order (map fst (st_next_nonces t))) b" for b
    by (rule fold_leaves_eq [OF audit_steps(3) [OF mem(1)] audit_steps(3) [OF mem(2), folded same]])
      (use dist keys(3,6) in \<open>auto simp: same split: if_splits\<close>)
  show ?thesis by (simp add: compute_p2p_token_audit_hash_def assets balances nonces)
qed

lemma bucket_index_in_range: "p2p_root_bucket_index blake key < ATOMIC_P2P_ROOT_BUCKETS"
proof -
  have "x AND 4095 \<le> (4095 :: u64)" for x by (rule word_and_le1)
  then have "unat (x AND (4095 :: u64)) \<le> 4095" for x by (simp add: word_le_nat_alt)
  then show ?thesis by (simp add: p2p_root_bucket_index_def ATOMIC_P2P_ROOT_BUCKETS_def Let_def less_Suc_eq_le [symmetric])
qed

text \<open>C39. Two nodes agree on the audit hash whenever their ledgers agree: it depends on the assets, on the balance of
  every holder and on the next nonce of every scope, and neither on the order of the hash maps nor on entries
  that say nothing (a zero balance, an initial nonce).\<close>

theorem audit_hash_depends_on_ledger:
  assumes "in_memory s" "in_memory t" "\<not> is_root_only s" "\<not> is_root_only t"
    "asset_option s = asset_option t" "balance s = balance t" "next_nonce s = next_nonce t"
  shows "p2p_token_audit_hash blake s = p2p_token_audit_hash blake t \<and> p2p_token_audit_hash blake s \<noteq> None"
  using compute_audit_eq [OF assms(1,2,5-7)] assms(1-4)
  by (simp add: p2p_token_audit_hash_def is_disk_backed_def in_memory_def)

theorem audit_hash_depends_on_ledger_witness:
  "p2p_token_audit_hash example_hash example_ledger
     = p2p_token_audit_hash example_hash (example_ledger\<lparr>st_balances :=
         (\<lparr>bk_asset_id = replicate 32 7, bk_owner_id = replicate 32 6\<rparr>, 0) # st_balances example_ledger\<rparr>)"
proof -
  let ?t = "example_ledger\<lparr>st_balances :=
         (\<lparr>bk_asset_id = replicate 32 7, bk_owner_id = replicate 32 6\<rparr>, 0) # st_balances example_ledger\<rparr>"
  have mem: "in_memory ?t" by (simp add: in_memory_def example_ledger_def atomic_state_default_def)
  have "\<not> is_root_only ?t" by (simp add: is_root_only_def has_in_memory_values_def)
  moreover have "asset_option example_ledger = asset_option ?t" "next_nonce example_ledger = next_nonce ?t"
    by (simp_all add: next_nonce_def fun_eq_iff in_memory_lookups [OF mem] in_memory_lookups [OF example_ledger_checked(1)])
  moreover have "balance example_ledger = balance ?t"
    by (simp add: balance_def fun_eq_iff in_memory_lookups [OF mem] in_memory_lookups [OF example_ledger_checked(1)])
      (simp add: example_ledger_def atomic_state_default_def)
  ultimately show ?thesis
    using audit_hash_depends_on_ledger [OF example_ledger_checked(1) mem example_sized(2)] by blast
qed

end
