(* ===== verification/Atomic_Import.thy ===== *)
theory Atomic_Import
  imports Atomic_Audit
begin

text \<open>
  The import of the token state of a new pruning point from a peer
  (\<open>import_pruning_point_atomic_state\<close> in \<open>processor.rs\<close>): the announced root, the bytes that
  come with it and the root record the node may already have. The result names the root record to
  insert, if any, and the full state that replaces the current store, if any; reading the header
  and the record are arguments. The last section records two facts about the committed root
  that the import rests on.
\<close>

section \<open>Definitions\<close>

datatype (plugins only: code) import_error =
    ImportHeader | ImportFullStateRequired | ImportInvalidBytes codec_error | ImportRootMismatch
  | ImportExistingRootDiffers | ImportStore

record pruning_point_atomic_state =
  pas_state_hash :: hash32
  pas_state_bytes :: "bytes option"

definition import_pruning_point_atomic_state ::
    "(bytes \<Rightarrow> hash32) \<Rightarrow> atomic_env \<Rightarrow> u64 option \<Rightarrow> 'e + hash32 option \<Rightarrow> pruning_point_atomic_state
      \<Rightarrow> import_error + hash32 option \<times> atomic_state option" where
  "import_pruning_point_atomic_state blake env header_daa_score root_record imported =
     (let expected_hash = pas_state_hash imported
      in try_bind (ok_or header_daa_score ImportHeader) (\<lambda>daa_score.
         if is_payload_hf_active env daa_score \<and> pas_state_bytes imported = None then Inl ImportFullStateRequired
         else
           try_bind
             (case pas_state_bytes imported of
                Some bs \<Rightarrow>
                  try_bind (map_err ImportInvalidBytes (canonical_hash_from_canonical_bytes blake bs)) (\<lambda>actual_hash.
                  if actual_hash \<noteq> expected_hash then Inl ImportRootMismatch
                  else Inr (res_ok (try_from_canonical_bytes blake bs)))
              | None \<Rightarrow> Inr None) (\<lambda>full_state.
           try_bind
             (case root_record of
                Inr (Some existing_root) \<Rightarrow>
                  if existing_root \<noteq> expected_hash then Inl ImportExistingRootDiffers else Inr None
              | Inr None \<Rightarrow> Inr (Some expected_hash)
              | Inl _ \<Rightarrow> Inl ImportStore) (\<lambda>new_root.
           Inr (new_root, full_state)))))"

section \<open>Properties\<close>

text \<open>C13. A full state that the import of a pruning point installs is the announced one: it is consistent, and its
  canonical hash is the hash the peer announced, which is also the root record the node then has.\<close>

theorem imported_pruning_state_matches_root:
  assumes "import_pruning_point_atomic_state blake env header_daa_score root_record imported = Inr (new_root, Some st)"
  shows "in_memory st \<and> wf_state blake st \<and> canonical_hash blake st = pas_state_hash imported
    \<and> (new_root = Some (pas_state_hash imported) \<or> root_record = Inr (Some (pas_state_hash imported)))"
proof -
  from assms obtain bs where hash: "canonical_hash_from_canonical_bytes blake bs = Inr (pas_state_hash imported)"
    and read: "try_from_canonical_bytes blake bs = Inr st"
    and root: "new_root = Some (pas_state_hash imported) \<or> root_record = Inr (Some (pas_state_hash imported))"
    by (auto simp: import_pruning_point_atomic_state_def result_simps Let_def res_ok_def
        split: if_splits option.splits sum.splits)
  note ok = imported_consistent [OF read]
  have "canonical_hash blake st = pas_state_hash imported"
    using hash by (simp add: canonical_hash_from_canonical_bytes_def ok(4) read)
  then show ?thesis using ok(1,2) root by simp
qed

theorem imported_pruning_state_matches_root_witness:
  "\<exists>st. import_pruning_point_atomic_state example_hash example_env (Some 0) (Inr None :: unit + hash32 option)
       \<lparr>pas_state_hash = canonical_hash example_hash example_ledger, pas_state_bytes = Some (canonical_bytes example_ledger)\<rparr>
     = Inr (Some (canonical_hash example_hash example_ledger), Some st) \<and> wf_state example_hash st"
proof -
  obtain st where st: "try_from_canonical_bytes example_hash (canonical_bytes example_ledger) = Inr st"
    using canonical_decoded [OF example_ledger_checked(1) example_wf example_sized(1)] by blast
  have hash: "canonical_hash_from_canonical_bytes example_hash (canonical_bytes example_ledger)
      = Inr (canonical_hash example_hash example_ledger)"
    by (rule canonical_hash_of_export [OF example_ledger_checked(1) example_wf example_sized])
  have "import_pruning_point_atomic_state example_hash example_env (Some 0) (Inr None :: unit + hash32 option)
       \<lparr>pas_state_hash = canonical_hash example_hash example_ledger, pas_state_bytes = Some (canonical_bytes example_ledger)\<rparr>
     = Inr (Some (canonical_hash example_hash example_ledger), Some st)"
    by (simp add: import_pruning_point_atomic_state_def hash st)
  with imported_pruning_state_matches_root [OF this] show ?thesis by blast
qed

text \<open>C40. A peer can leave the state out: bytes that carry only the root meet the requirement that a pruning point
  comes with state bytes, at any score, their hash is the announced one, and the import succeeds and records the
  root without installing a state.\<close>

theorem root_only_bytes_pass_the_import:
  assumes "length h = 32"
  shows "import_pruning_point_atomic_state blake env (Some daa_score) (Inr None)
    \<lparr>pas_state_hash = h, pas_state_bytes = Some (root_only_canonical_bytes h)\<rparr> = Inr (Some h, None)"
  using root_only_hash [OF assms]
  by (simp add: import_pruning_point_atomic_state_def canonical_hash_from_canonical_bytes_def try_from_canonical_bytes_def)

theorem root_only_bytes_pass_the_import_witness:
  "is_payload_hf_active example_env 7
    \<and> import_pruning_point_atomic_state example_hash example_env (Some 7) (Inr None :: unit + hash32 option)
      \<lparr>pas_state_hash = replicate 32 1, pas_state_bytes = Some (root_only_canonical_bytes (replicate 32 1))\<rparr>
     = Inr (Some (replicate 32 1), None)"
  using root_only_bytes_pass_the_import [of "replicate 32 1" example_hash example_env 7]
  by (simp add: is_payload_hf_active_def example_env_def)

section \<open>Facts about the committed root\<close>

text \<open>The root does not cover the creator, the decimals, the name, the symbol and the metadata of an asset.\<close>

lemma root_ignores_display_fields:
  "from_state_maps blake (st\<lparr>st_assets := map (\<lambda>(a, x). (a, x\<lparr>as_creator_owner_id := c a, as_decimals := d a,
       as_name := n a, as_symbol := s a, as_metadata := m a\<rparr>)) (st_assets st)\<rparr>) = from_state_maps blake st"
proof -
  have entry: "hash_asset_entry blake a (x\<lparr>as_creator_owner_id := c a, as_decimals := d a,
       as_name := n a, as_symbol := s a, as_metadata := m a\<rparr>) = hash_asset_entry blake a x" for a x
    by (simp add: hash_asset_entry_def hash_asset_def)
  show ?thesis
    by (simp add: from_state_maps_def Let_def fold_map comp_def case_prod_unfold apply_asset_def entry)
qed

text \<open>A state in memory that loses its last entry keeps the root it was imported with.\<close>

lemma emptied_state_keeps_its_root:
  assumes "in_memory st" "st_next_nonces st = []" "st_assets st = []" "st_balances st = []" "st_anchor_counts st = [(owner, n)]"
  shows "root_accumulator blake (set_anchor_count blake owner 0 st) = st_root st"
  using assms
  by (simp add: set_anchor_count_def set_anchor_count_value_without_delta_def root_accumulator_def in_memory_def
      is_disk_backed_def Let_def)

end
