(* ===== verification/Spec2Isabelle.thy ===== *)
theory Spec2Isabelle
  imports
    Cryptix_Prelude
    Tx_Rule_Error
    Liquidity_Math
    Liquidity_Index
    Payload_Index
    Wallet_Payload
    Script_Class
    Atomic_Growth
    Atomic_Mergeset
    Token_Liveness
    Atomic_Import
begin

text \<open>
  \<^bold>\<open>A verification library for the Atomic token layer of rusty-cryptix.\<close>

  The repository is a full node for a block DAG with a token layer on top of it, called Cryptix Atomic.
  A token operation is a payload of an ordinary transaction. The consensus code parses the payload,
  finds the owner from the script of a spent output, and changes a ledger of assets, balances, nonces,
  liquidity pools and anchor counters. The header of a block commits to the ledger. An index repeats the
  parser and the pool arithmetic for queries, and the wallet builds payloads and quotes prices. The
  library models these parts and proves what a token holder, a trader and a node operator rely on.

  \<^bold>\<open>How the parts interact.\<close> A wallet builds a payload (\<open>Wallet_Payload\<close>). A node parses it
  (\<open>Payload_Consensus\<close>), classifies scripts and derives owners (\<open>Script_Class\<close>), checks and applies the
  operation (\<open>Atomic_Transition\<close>) with the pool arithmetic of \<open>Liquidity_Math\<close> on the state of \<open>Atomic_State\<close>.
  The virtual processor runs the transactions of the merged blocks, and those of the block itself through a filter,
  records a delta, and rolls it back when the selected chain changes. Peers exchange the whole state as bytes
  (\<open>Atomic_Codec\<close>), import it at a pruning point (\<open>Atomic_Import\<close>) and compare an audit hash (\<open>Atomic_Audit\<close>).

  \<^bold>\<open>Conventions.\<close> A struct is a record, an enum a datatype, an unsigned integer of n bits a word of n bits.
  \<open>Result<T, E>\<close> is a sum with \<open>Inl\<close> for the error, \<open>?\<close> is \<open>try_bind\<close>. A method on \<open>&mut self\<close> takes
  and returns the state; where it can fail after a write, the error comes with the state it leaves. Checked,
  saturating and narrowing arithmetic is written out in \<open>Cryptix_Prelude\<close>. A hash map is an association list
  whose order stands for the unspecified iteration order; that the order does not matter is proved where
  it could. Byte strings are lists of bytes. The Blake2b hash is a parameter \<open>blake\<close> of every definition that
  uses it; the theorems ask for at most the length of its output. A clash with a constant of the library or
  between two parts of the repository is resolved by a suffix (\<open>_idx\<close> for the index) or a prefix.

  \<^bold>\<open>Theories and sources.\<close> Paths are under \<open>src/\<close>.

  \<^item> \<open>Cryptix_Prelude\<close>: machine integers, results, generic lemmas and the collections \<open>result_simps\<close>,
    \<open>checked_iff\<close>, \<open>word_as_nat\<close>.
  \<^item> \<open>Tx_Rule_Error\<close>: the messages of \<open>TxRuleError::InvalidAtomicPayload\<close> as constructors.
  \<^item> \<open>Liquidity_Math\<close>: fees, canonical gross input, constant-product buy and sell, curve parameters of
    \<open>consensus/src/pipeline/virtual_processor/utxo_validation.rs\<close>. The locale \<open>cpmm_curve\<close> is the contract of a
    curve, interpreted here for consensus and in \<open>Liquidity_Index\<close> for
    \<open>indexes/atomicindex/src/liquidity_math.rs\<close>.
  \<^item> \<open>Byte_Reader\<close>, \<open>Payload_Consensus\<close>, \<open>Payload_Index\<close>: cursor readers with the relation \<open>reads\<close>; the parser
    \<open>parse_atomic_payload\<close> of \<open>transaction_validator_populated.rs\<close>; the parser of \<open>indexes/atomicindex/src/payload.rs\<close>.
  \<^item> \<open>Wallet_Payload\<close>: payload builders and buy quotes of \<open>wallet/native/src/daemon.rs\<close>.
  \<^item> \<open>Script_Class\<close>: transactions of \<open>consensus/core/src/tx.rs\<close>, script classes and address scripts of
    \<open>crypto/txscript/src\<close>, owner identifiers of \<open>transaction_validator_populated.rs\<close>.
  \<^item> \<open>Atomic_Asset\<close>, \<open>Atomic_Root\<close>, \<open>Atomic_State\<close>: records, entry hashes, the root accumulator, lookups through
    the overlay, setters, deltas and the vault index of \<open>consensus/src/model/stores/atomic_state.rs\<close>.
  \<^item> \<open>Atomic_View\<close>, \<open>Atomic_Delta\<close>: setters seen through the lookups; the locales \<open>fallible_store\<close> and
    \<open>keyed_store\<close>, interpreted for the four maps, carry replay and rollback of a delta.
  \<^item> \<open>Atomic_Transition\<close>: the handler of every operation, anchors, nonces, growth limits and the filter over
    the transactions of a block, from \<open>utxo_validation.rs\<close>.
  \<^item> \<open>Atomic_Normal\<close>: \<open>validate_normalized\<close> of \<open>atomic_state.rs\<close>, message by message.
  \<^item> \<open>Atomic_Invariant\<close>, \<open>Atomic_Plan\<close>, \<open>Atomic_Ledger\<close>, \<open>Atomic_Check\<close>, \<open>Atomic_Example\<close>, \<open>Atomic_Block\<close>: the ledger
    invariant over the lookups, what each operation is about to write, that writing it keeps the invariant, that
    the consistency check decides the invariant, a concrete ledger for the witnesses, and whole blocks.
  \<^item> \<open>Token_Spec\<close>, \<open>Token_Refine\<close>, \<open>Token_Safety\<close>, \<open>Token_Liveness\<close>: an abstract ledger over natural numbers with one
    rule per operation, the proof that accepted transactions are its steps, and what follows for owners.
  \<^item> \<open>Atomic_Anchor\<close>, \<open>Atomic_Growth\<close>, \<open>Atomic_Reorg\<close>: anchor counters, the growth budget of a block, undoing and
    redoing a block.
  \<^item> \<open>Atomic_Mergeset\<close>: \<open>calculate_utxo_state\<close> of \<open>utxo_validation.rs\<close>, which runs the blocks a chain block merges,
    with the outcome of the UTXO checks as an argument. The filter of \<open>Atomic_Transition\<close> is the same loop for
    the transactions of one block, where a block is verified against its own view.
  \<^item> \<open>Atomic_Codec\<close>, \<open>Codec_Roundtrip\<close>: \<open>canonical_bytes\<close>, \<open>try_from_canonical_bytes\<close> and \<open>AtomicStateReader\<close> of
    \<open>atomic_state.rs\<close>; the locale \<open>entry_codec\<close>, interpreted for the four kinds of entries, reads a counted map back.
  \<^item> \<open>Atomic_Audit\<close>, \<open>Atomic_Import\<close>: \<open>p2p_token_audit_hash\<close> of \<open>atomic_state.rs\<close>;
    \<open>import_pruning_point_atomic_state\<close> of \<open>processor.rs\<close>.

  \<^bold>\<open>What the theorems show.\<close>

  \<^item> The ledger (C1 to C10, C14 to C17, C19): an accepted transaction is exactly one step of the abstract ledger, made by
    the owner of the spent output with the nonce that was due. Balances sum to supplies in every reachable
    state, nobody loses tokens without signing, only the authority mints, no payload applies twice, a refused
    transaction changes nothing, a block equals the replay of its accepted transactions, stays within the growth
    limits, and can be undone and redone. A whole mergeset keeps the ledger well formed, accepts no transaction and
    no spent outpoint twice, and can be undone and redone. A transfer an owner can pay for is accepted.
  \<^item> The state as bytes (C11 to C13, C18, C39, C40): export and import are inverse, what is imported is consistent and has
    the announced hash, and neither bytes nor roots nor the audit hash depend on the order of a hash map.
    C40 records that bytes which carry only a root pass the import without a state. The root covers neither the
    display fields of an asset nor, for a state in memory, the removal of its last entry (\<open>Atomic_Import\<close>).
  \<^item> The pool arithmetic (C20 to C25): the canonical gross input is the least one, trading back and forth never
    gains, the index computes the consensus curve.
  \<^item> Payloads and wallet (C26 to C34): both parsers accept the same payloads and read the same fields, accepted
    payloads are well formed, every builder of the wallet round trips through the consensus parser, and the wallet
    quotes every buy consensus accepts while the product of the reserves fits 128 bits. A quoted buy
    gives the quoted tokens or is refused, and C33 says which.
  \<^item> Scripts and deltas (C35 to C38): addresses round trip through scripts, owner identifiers agree, deltas roll
    back and replay where no vault changes hands.

  \<^bold>\<open>Loops and bounds.\<close> Every function of the model is total. Loops over lists are structural; the two loops of
  \<open>min_gross_input_for_net_input\<close> are recursive functions with a measure, and C20 states the value they return.
  The counted loops of the state reader recurse on the count, which the source reads as a 64-bit word. \<open>sized_state\<close>
  states what array and index types of the source guarantee: identifiers of 32 bytes and fewer than \<open>2 ^ 64\<close> entries.
  An index of the platform has 64 bits.

  \<^bold>\<open>Not modelled.\<close> The DAG algorithms, difficulty, rewards and pruning of the upstream node: the model has the order
  of accepted transactions as a list. The script engine, signatures, address checksums and hash functions: the
  model classifies scripts and takes the hash as a parameter. RocksDB batches and caches: the store is a record of
  lookup functions, and a failing read ends the node in the source. The replay, event log and history of the token
  index in \<open>indexes/atomicindex/src/state.rs\<close> and \<open>service.rs\<close>: they repeat the consensus transition over another
  store; their parser and their curve are covered. The mempool, the protocol flows, the RPC layer, the command line
  and the daemons: asynchronous I/O around the modelled steps. In \<open>processor.rs\<close> only the import of a pruning point
  is modelled.
\<close>

end
